(* ===== verification/Prelude.thy ===== *)
theory Prelude
  imports Main "HOL-Library.Char_ord" "HOL-Library.List_Lexorder" "HOL-Library.AList"
begin

text \<open>
  What every component of the development shares: Python strings, dictionaries and
  effectful procedures.

  \<^item> A Python \<open>str\<close> is a \<open>string\<close>, one \<open>char\<close> per code point below 256.
  \<^item> A Python \<open>dict\<close> with string keys is an association list, in insertion order, as Python
    keeps it; \<open>AList.update\<close> overwrites a key where it stands and appends a new one.
  \<^item> A procedure that reads and writes the state \<open>'s\<close> and may raise an exception \<open>'e\<close> is a
    function \<open>'s \<Rightarrow> ('e + 'a) \<times> 's\<close>: the state survives a raised exception, as it does in
    Python, where nothing is undone unless the code does it.

  The predicates \<open>keeps\<close> and \<open>leaves\<close> state invariance and frame conditions of a
  procedure; their rules follow the structure of a procedure, so that most invariance proofs are
  one line. The locale \<open>machine\<close> lifts a one-step invariant to runs.
\<close>

named_theorems prog_defs \<open>the combinators of procedures, unfolded\<close>
named_theorems keeps_rules \<open>introduction rules for \<open>keeps\<close>\<close>

section \<open>Strings\<close>

definition lower_char :: "char \<Rightarrow> char" where
  "lower_char c = (if CHR ''A'' \<le> c \<and> c \<le> CHR ''Z'' then char_of (of_char c + (32::nat)) else c)"

definition upper_char :: "char \<Rightarrow> char" where
  "upper_char c = (if CHR ''a'' \<le> c \<and> c \<le> CHR ''z'' then char_of (of_char c - (32::nat)) else c)"

text \<open>\<open>str.lower\<close> and \<open>str.upper\<close>, on ASCII letters.\<close>

definition lower :: "string \<Rightarrow> string" where
  "lower = map lower_char"

definition upper :: "string \<Rightarrow> string" where
  "upper = map upper_char"

fun startswith :: "string \<Rightarrow> string \<Rightarrow> bool" where
  "startswith s [] = True"
| "startswith [] (p # ps) = False"
| "startswith (c # s) (p # ps) = (c = p \<and> startswith s ps)"

text \<open>\<open>needle in s\<close>.\<close>

fun contains :: "string \<Rightarrow> string \<Rightarrow> bool" where
  "contains [] needle = (needle = [])"
| "contains (c # s) needle = (startswith (c # s) needle \<or> contains s needle)"

definition is_space :: "char \<Rightarrow> bool" where
  "is_space c \<longleftrightarrow> c \<in> {CHR '' '', CHR 0x09, CHR 0x0A, CHR 0x0B, CHR 0x0C, CHR 0x0D}"

definition strip_while :: "('a \<Rightarrow> bool) \<Rightarrow> 'a list \<Rightarrow> 'a list" where
  "strip_while P s = rev (dropWhile P (rev s))"

definition strip :: "string \<Rightarrow> string" where
  "strip s = strip_while is_space (dropWhile is_space s)"

fun join :: "string \<Rightarrow> string list \<Rightarrow> string" where
  "join sep [] = []"
| "join sep [s] = s"
| "join sep (s # t # ss) = s @ sep @ join sep (t # ss)"

text \<open>\<open>s.split(c)\<close> for a one-character separator: never empty.\<close>

fun split_on :: "char \<Rightarrow> string \<Rightarrow> string list" where
  "split_on c [] = [[]]"
| "split_on c (d # s) =
     (if d = c then [] # split_on c s
      else (case split_on c s of [] \<Rightarrow> [[d]] | t # ts \<Rightarrow> (d # t) # ts))"

lemma startswith_append [simp]: "startswith (p @ s) p"
  by (induction p) auto

lemma startswith_iff: "startswith s p \<longleftrightarrow> (\<exists>t. s = p @ t)"
  by (induction s p rule: startswith.induct) auto

lemma split_on_ne [simp]: "split_on c s \<noteq> []"
  by (cases s) (auto split: list.splits)

lemma split_on_none: "c \<notin> set s \<Longrightarrow> split_on c s = [s]"
  by (induction s) auto

lemma join_split_on: "join [c] (split_on c s) = s"
proof (induction s)
  case (Cons d s)
  obtain t ts where t: "split_on c s = t # ts"
    using split_on_ne[of c s] by (cases "split_on c s") auto
  then show ?case
    using Cons by (cases ts) auto
qed simp

lemma length_strip_while: "length (strip_while P s) \<le> length s"
  using length_dropWhile_le[of P "rev s"] by (simp add: strip_while_def)

lemma length_lower [simp]: "length (lower s) = length s"
  by (simp add: lower_def)

section \<open>Dictionaries\<close>

type_synonym 'v dict = "(string \<times> 'v) list"

abbreviation dget :: "'v dict \<Rightarrow> string \<Rightarrow> 'v option" where
  "dget d k \<equiv> map_of d k"

abbreviation dset :: "string \<Rightarrow> 'v \<Rightarrow> 'v dict \<Rightarrow> 'v dict" where
  "dset k v d \<equiv> AList.update k v d"

abbreviation dkeys :: "'v dict \<Rightarrow> string list" where
  "dkeys d \<equiv> map fst d"

text \<open>\<open>d.update(e)\<close>: the entries of \<open>e\<close>, in order, each stored in \<open>d\<close>.\<close>

fun dupdate :: "'v dict \<Rightarrow> 'v dict \<Rightarrow> 'v dict" where
  "dupdate d [] = d"
| "dupdate d ((k, v) # e) = dupdate (dset k v d) e"

text \<open>\<open>d.pop(k, None)\<close>: the value and the dictionary without the key.\<close>

definition dpop :: "string \<Rightarrow> 'v dict \<Rightarrow> 'v option \<times> 'v dict" where
  "dpop k d = (dget d k, AList.delete k d)"

definition has_key :: "'v dict \<Rightarrow> string \<Rightarrow> bool" where
  "has_key d k \<longleftrightarrow> k \<in> set (dkeys d)"

lemma dget_dset [simp]: "dget (dset k v d) j = (if j = k then Some v else dget d j)"
  by (simp add: update_conv')

lemma dset_new: "k \<notin> set (dkeys d) \<Longrightarrow> dset k v d = d @ [(k, v)]"
  by (induction d) auto

lemma has_key_dget: "has_key d k \<longleftrightarrow> dget d k \<noteq> None"
  by (auto simp: has_key_def map_of_eq_None_iff image_iff)

lemma distinct_dset: "distinct (dkeys d) \<Longrightarrow> distinct (dkeys (dset k v d))"
  by (rule distinct_update)

lemma distinct_dupdate: "distinct (dkeys d) \<Longrightarrow> distinct (dkeys (dupdate d e))"
  by (induction d e rule: dupdate.induct) (auto simp: distinct_update)

lemma dget_dupdate_notin: "k \<notin> set (dkeys e) \<Longrightarrow> dget (dupdate d e) k = dget d k"
  by (induction d e rule: dupdate.induct) auto

lemma dget_dupdate_in:
  "distinct (dkeys e) \<Longrightarrow> dget e k = Some v \<Longrightarrow> dget (dupdate d e) k = Some v"
proof (induction d e rule: dupdate.induct)
  case (2 d j w e)
  then show ?case
    by (cases "j = k") (auto simp: dget_dupdate_notin)
qed simp

lemma dupdate_distinct:
  "distinct (dkeys e) \<Longrightarrow> set (dkeys d) \<inter> set (dkeys e) = {} \<Longrightarrow> dupdate d e = d @ e"
  by (induction d e rule: dupdate.induct) (auto simp: dset_new)

lemma dupdate_Nil: "distinct (dkeys e) \<Longrightarrow> dupdate [] e = e"
  by (simp add: dupdate_distinct)

section \<open>Procedures\<close>

type_synonym ('s, 'e, 'a) proc = "'s \<Rightarrow> ('e + 'a) \<times> 's"

definition ret :: "'a \<Rightarrow> ('s, 'e, 'a) proc" where
  [prog_defs]: "ret x = (\<lambda>s. (Inr x, s))"

definition raise :: "'e \<Rightarrow> ('s, 'e, 'a) proc" where
  [prog_defs]: "raise e = (\<lambda>s. (Inl e, s))"

text \<open>\<open>x = m; ...\<close>: an exception of \<open>m\<close> skips the rest.\<close>

definition bnd :: "('s, 'e, 'a) proc \<Rightarrow> ('a \<Rightarrow> ('s, 'e, 'b) proc) \<Rightarrow> ('s, 'e, 'b) proc" where
  [prog_defs]: "bnd m f = (\<lambda>s. case m s of (r, s') \<Rightarrow> (case r of Inl e \<Rightarrow> (Inl e, s') | Inr x \<Rightarrow> f x s'))"

definition thn :: "('s, 'e, 'a) proc \<Rightarrow> ('s, 'e, 'b) proc \<Rightarrow> ('s, 'e, 'b) proc" where
  [prog_defs]: "thn m n = bnd m (\<lambda>_. n)"

text \<open>\<open>try: m except ... : h\<close>; a handler that does not match raises the exception again.\<close>

definition catch :: "('s, 'e, 'a) proc \<Rightarrow> ('e \<Rightarrow> ('s, 'e, 'a) proc) \<Rightarrow> ('s, 'e, 'a) proc" where
  [prog_defs]: "catch m h = (\<lambda>s. case m s of (r, s') \<Rightarrow> (case r of Inl e \<Rightarrow> h e s' | Inr x \<Rightarrow> (Inr x, s')))"

text \<open>\<open>try: m finally: c\<close>: the outcome of \<open>m\<close>, unless \<open>c\<close> raises.\<close>

definition ensure :: "('s, 'e, 'a) proc \<Rightarrow> ('s, 'e, unit) proc \<Rightarrow> ('s, 'e, 'a) proc" where
  [prog_defs]: "ensure m c = (\<lambda>s. case m s of (r, s') \<Rightarrow>
     (case c s' of (q, s'') \<Rightarrow> (case q of Inl e \<Rightarrow> (Inl e, s'') | Inr _ \<Rightarrow> (r, s''))))"

definition gets :: "('s \<Rightarrow> 'a) \<Rightarrow> ('s, 'e, 'a) proc" where
  [prog_defs]: "gets f = (\<lambda>s. (Inr (f s), s))"

definition modify :: "('s \<Rightarrow> 's) \<Rightarrow> ('s, 'e, unit) proc" where
  [prog_defs]: "modify f = (\<lambda>s. (Inr (), f s))"

text \<open>The value of an expression that may raise.\<close>

definition lift :: "'e + 'a \<Rightarrow> ('s, 'e, 'a) proc" where
  [prog_defs]: "lift r = (\<lambda>s. (r, s))"

definition whenever :: "bool \<Rightarrow> ('s, 'e, unit) proc \<Rightarrow> ('s, 'e, unit) proc" where
  [prog_defs]: "whenever b m = (if b then m else ret ())"

fun for_each :: "'a list \<Rightarrow> ('a \<Rightarrow> ('s, 'e, 'b) proc) \<Rightarrow> ('s, 'e, 'b list) proc" where
  "for_each [] f = ret []"
| "for_each (x # xs) f = bnd (f x) (\<lambda>y. bnd (for_each xs f) (\<lambda>ys. ret (y # ys)))"

definition result :: "('s, 'e, 'a) proc \<Rightarrow> 's \<Rightarrow> 'e + 'a" where
  "result m s = fst (m s)"

definition final :: "('s, 'e, 'a) proc \<Rightarrow> 's \<Rightarrow> 's" where
  "final m s = snd (m s)"

lemma bnd_ret [simp]: "bnd (ret x) f = f x"
  by (simp add: prog_defs)

lemma bnd_raise [simp]: "bnd (raise e) f = raise e"
  by (simp add: prog_defs)

lemma bnd_lift_Inr: "bnd (lift (Inr x)) f = f x"
  by (simp add: prog_defs)

lemma bnd_assoc: "bnd (bnd m f) g = bnd m (\<lambda>x. bnd (f x) g)"
  by (auto simp: prog_defs fun_eq_iff split: prod.splits sum.splits)

lemma bnd_Inr [simp]: "m s = (Inr x, s') \<Longrightarrow> bnd m f s = f x s'"
  by (simp add: bnd_def)

lemma bnd_Inl [simp]: "m s = (Inl e, s') \<Longrightarrow> bnd m f s = (Inl e, s')"
  by (simp add: bnd_def)

lemma catch_Inr [simp]: "m s = (Inr x, s') \<Longrightarrow> catch m h s = (Inr x, s')"
  by (simp add: catch_def)

lemma catch_Inl [simp]: "m s = (Inl e, s') \<Longrightarrow> catch m h s = h e s'"
  by (simp add: catch_def)

text \<open>How a compound procedure came to its outcome.\<close>

lemma bnd_InrE:
  assumes "bnd m f s = (Inr y, t)"
  obtains x s' where "m s = (Inr x, s')" and "f x s' = (Inr y, t)"
  using assms by (auto simp: bnd_def split: prod.splits sum.splits)

lemma bnd_InlE:
  assumes "bnd m f s = (Inl e, t)"
  obtains "m s = (Inl e, t)" | x s' where "m s = (Inr x, s')" and "f x s' = (Inl e, t)"
  using assms by (auto simp: bnd_def split: prod.splits sum.splits)

lemma catch_InrE:
  assumes "catch m h s = (Inr y, t)"
  obtains "m s = (Inr y, t)" | e s' where "m s = (Inl e, s')" and "h e s' = (Inr y, t)"
  using assms by (auto simp: catch_def split: prod.splits sum.splits)

lemma thn_InrE:
  assumes "thn m n s = (Inr y, t)"
  obtains x s' where "m s = (Inr x, s')" and "n s' = (Inr y, t)"
  using assms by (auto simp: thn_def elim: bnd_InrE)

lemma proc_InrD:
  "ret x s = (Inr y, t) \<Longrightarrow> y = x \<and> t = s"
  "lift r s = (Inr y, t) \<Longrightarrow> r = Inr y \<and> t = s"
  "raise e s = (Inr y, t) \<Longrightarrow> False"
  by (simp_all add: ret_def lift_def raise_def)

section \<open>Invariants and frames of procedures\<close>

text \<open>
  \<open>keeps I m\<close>: whatever the outcome of \<open>m\<close>, \<open>I\<close> holds after it if it held before.
\<close>

definition keeps :: "('s \<Rightarrow> bool) \<Rightarrow> ('s, 'e, 'a) proc \<Rightarrow> bool" where
  "keeps I m \<longleftrightarrow> (\<forall>s. I s \<longrightarrow> I (snd (m s)))"

text \<open>\<open>leaves f m\<close>: \<open>m\<close> never changes the part \<open>f\<close> of the state.\<close>

definition leaves :: "('s \<Rightarrow> 'x) \<Rightarrow> ('s, 'e, 'a) proc \<Rightarrow> bool" where
  "leaves f m \<longleftrightarrow> (\<forall>s. f (snd (m s)) = f s)"

lemma leaves_keeps: "leaves f m \<longleftrightarrow> (\<forall>v. keeps (\<lambda>s. f s = v) m)"
  by (auto simp: leaves_def keeps_def)

lemma keepsD: "keeps I m \<Longrightarrow> I s \<Longrightarrow> m s = (r, s') \<Longrightarrow> I s'"
  by (force simp: keeps_def)

lemma leavesD: "leaves f m \<Longrightarrow> m s = (r, s') \<Longrightarrow> f s' = f s"
  unfolding leaves_def by (drule spec[of _ s]) simp

lemma keeps_ret [keeps_rules]: "keeps I (ret x)"
  by (simp add: keeps_def ret_def)

lemma keeps_raise [keeps_rules]: "keeps I (raise e)"
  by (simp add: keeps_def raise_def)

lemma keeps_lift [keeps_rules]: "keeps I (lift r)"
  by (simp add: keeps_def lift_def)

lemma keeps_gets [keeps_rules]: "keeps I (gets f)"
  by (simp add: keeps_def gets_def)

lemma keeps_bnd [keeps_rules]: "keeps I m \<Longrightarrow> (\<And>x. keeps I (f x)) \<Longrightarrow> keeps I (bnd m f)"
  by (auto simp: keeps_def bnd_def split: prod.splits sum.splits)

lemma keeps_thn [keeps_rules]: "keeps I m \<Longrightarrow> keeps I n \<Longrightarrow> keeps I (thn m n)"
  by (simp add: thn_def keeps_bnd)

lemma keeps_catch [keeps_rules]: "keeps I m \<Longrightarrow> (\<And>e. keeps I (h e)) \<Longrightarrow> keeps I (catch m h)"
  by (auto simp: keeps_def catch_def split: prod.splits sum.splits)

lemma keeps_ensure [keeps_rules]: "keeps I m \<Longrightarrow> keeps I c \<Longrightarrow> keeps I (ensure m c)"
  by (auto simp: keeps_def ensure_def split: prod.splits sum.splits)

lemma keeps_whenever [keeps_rules]: "(b \<Longrightarrow> keeps I m) \<Longrightarrow> keeps I (whenever b m)"
  by (simp add: whenever_def keeps_ret)

lemma keeps_for_each [keeps_rules]: "(\<And>x. x \<in> set xs \<Longrightarrow> keeps I (f x)) \<Longrightarrow> keeps I (for_each xs f)"
  by (induction xs) (auto intro!: keeps_rules)

lemma keeps_modify [keeps_rules]: "(\<And>s. I s \<Longrightarrow> I (f s)) \<Longrightarrow> keeps I (modify f)"
  by (simp add: keeps_def modify_def)

lemma keeps_if [keeps_rules]: "(b \<Longrightarrow> keeps I m) \<Longrightarrow> (\<not> b \<Longrightarrow> keeps I n) \<Longrightarrow> keeps I (if b then m else n)"
  by simp

lemma keeps_case_option [keeps_rules]:
  "keeps I m \<Longrightarrow> (\<And>x. keeps I (f x)) \<Longrightarrow> keeps I (case opt of None \<Rightarrow> m | Some x \<Rightarrow> f x)"
  by (simp split: option.splits)

lemma keeps_case_sum [keeps_rules]:
  "(\<And>x. keeps I (f x)) \<Longrightarrow> (\<And>x. keeps I (g x)) \<Longrightarrow> keeps I (case r of Inl x \<Rightarrow> f x | Inr x \<Rightarrow> g x)"
  by (simp split: sum.splits)

lemma keeps_case_prod [keeps_rules]:
  "(\<And>x y. keeps I (f x y)) \<Longrightarrow> keeps I (case p of (x, y) \<Rightarrow> f x y)"
  by (simp split: prod.splits)

lemma keeps_case_list [keeps_rules]:
  "keeps I m \<Longrightarrow> (\<And>x xs. keeps I (f x xs)) \<Longrightarrow> keeps I (case l of [] \<Rightarrow> m | x # xs \<Rightarrow> f x xs)"
  by (simp split: list.splits)

lemma keeps_Let [keeps_rules]: "keeps I (f t) \<Longrightarrow> keeps I (let x = t in f x)"
  by simp

lemma keeps_conj: "keeps I m \<Longrightarrow> keeps J m \<Longrightarrow> keeps (\<lambda>s. I s \<and> J s) m"
  by (simp add: keeps_def)

lemma length_for_each: "for_each xs f s = (Inr ys, t) \<Longrightarrow> length ys = length xs"
  by (induction xs arbitrary: s ys) (auto simp: ret_def elim!: bnd_InrE)

text \<open>
  \<open>triple P m Q\<close>: started where \<open>P\<close> holds, \<open>m\<close> ends with an outcome and a state that satisfy \<open>Q\<close>,
  also when the outcome is an exception.
\<close>

definition triple :: "('s \<Rightarrow> bool) \<Rightarrow> ('s, 'e, 'a) proc \<Rightarrow> ('e + 'a \<Rightarrow> 's \<Rightarrow> bool) \<Rightarrow> bool" where
  "triple P m Q \<longleftrightarrow> (\<forall>s. P s \<longrightarrow> Q (fst (m s)) (snd (m s)))"

lemma tripleD: "triple P m Q \<Longrightarrow> P s \<Longrightarrow> m s = (r, t) \<Longrightarrow> Q r t"
  by (force simp: triple_def)

lemma triple_bnd:
  assumes "triple P m R" and "\<And>e s. R (Inl e) s \<Longrightarrow> Q (Inl e) s" and "\<And>x. triple (R (Inr x)) (f x) Q"
  shows "triple P (bnd m f) Q"
  using assms by (fastforce simp: triple_def bnd_def split: prod.splits sum.splits)

lemma keeps_triple: "keeps I m \<Longrightarrow> triple I m (\<lambda>_. I)"
  by (simp add: keeps_def triple_def)

text \<open>\<open>fails J m s\<close>: started in \<open>s\<close>, \<open>m\<close> raises and leaves a state with \<open>J\<close>.\<close>

definition fails :: "('s \<Rightarrow> bool) \<Rightarrow> ('s, 'e, 'a) proc \<Rightarrow> 's \<Rightarrow> bool" where
  "fails J m s \<longleftrightarrow> (\<exists>e t. m s = (Inl e, t) \<and> J t)"

lemma fails_raise: "J s \<Longrightarrow> fails J (raise e) s"
  by (simp add: fails_def raise_def)

lemma fails_if: "(b \<Longrightarrow> fails J m s) \<Longrightarrow> (\<not> b \<Longrightarrow> fails J n s) \<Longrightarrow> fails J (if b then m else n) s"
  by simp

lemma fails_bnd:
  assumes "keeps I m" and "I s" and "\<And>t. I t \<Longrightarrow> J t" and "\<And>x t. I t \<Longrightarrow> fails J (f x) t"
  shows "fails J (bnd m f) s"
proof (cases "m s")
  case (Pair r t)
  then have "I t"
    using keepsD[OF assms(1,2)] by blast
  then show ?thesis
    using Pair assms(3,4) by (cases r) (auto simp: fails_def)
qed

section \<open>Machines: a step and an invariant\<close>

text \<open>
  A component whose operations are events: \<open>step\<close> performs one, \<open>good\<close> is what every
  operation keeps. The invariant of one step is then the invariant of every run.
\<close>

locale machine =
  fixes step :: "'ev \<Rightarrow> 's \<Rightarrow> 's"
    and good :: "'s \<Rightarrow> bool"
  assumes step_good: "good s \<Longrightarrow> good (step ev s)"
begin

lemma run_good: "good s \<Longrightarrow> good (fold step evs s)"
  by (induction evs arbitrary: s) (auto intro: step_good)

lemma run_prefix_good: "good s \<Longrightarrow> evs = pre @ post \<Longrightarrow> good (fold step pre s)"
  by (rule run_good)

end

text \<open>
  A lease: a claim of a key succeeds exactly when nobody holds it, holds it until \<open>ttl\<close> later, and a
  refused claim changes nothing. Redis \<open>SET key value NX EX ttl\<close> promises this, for deduplication and
  for locks.
\<close>

locale lease =
  fixes claim :: "int \<Rightarrow> 'k \<Rightarrow> 's \<Rightarrow> bool \<times> 's"
    and busy :: "int \<Rightarrow> 's \<Rightarrow> 'k \<Rightarrow> bool"
    and ttl :: int
  assumes claim_result: "fst (claim t k s) \<longleftrightarrow> \<not> busy t s k"
    and claim_holds: "fst (claim t k s) \<Longrightarrow> u < t + ttl \<Longrightarrow> busy u (snd (claim t k s)) k"
    and claim_refused: "\<not> fst (claim t k s) \<Longrightarrow> snd (claim t k s) = s"
    and claim_frame: "j \<noteq> k \<Longrightarrow> busy u (snd (claim t k s)) j = busy u s j"
begin

lemma claim_keeps_busy:
  assumes "\<forall>u < d. busy u s j" and "t < d"
  shows "\<forall>u < d. busy u (snd (claim t k s)) j"
proof (cases "j = k")
  case True
  then show ?thesis
    using assms by (simp add: claim_result claim_refused)
qed (simp add: assms claim_frame)

lemma claims_keep_busy:
  "\<forall>u < d. busy u s j \<Longrightarrow> \<forall>(t, k) \<in> set tks. t < d \<Longrightarrow>
     \<forall>u < d. busy u (fold (\<lambda>(t, k) s. snd (claim t k s)) tks s) j"
  by (induction tks arbitrary: s) (auto simp: claim_keeps_busy)

text \<open>Whatever is claimed in between, nobody else gets the key before the deadline.\<close>

lemma claim_exclusive:
  assumes "fst (claim t k s)" and "\<forall>(u, j) \<in> set ujs. u < t + ttl" and "v < t + ttl"
  shows "\<not> fst (claim v k (fold (\<lambda>(u, j) s. snd (claim u j s)) ujs (snd (claim t k s))))"
  using claims_keep_busy[of "t + ttl", OF _ assms(2)] claim_holds[OF assms(1)] assms(3)
  by (auto simp: claim_result)

text \<open>
  The abstract object a lease implements is the set of the keys that are held: a claim answers
  membership and adds its key, as far as the deadline of the claim reaches.
\<close>

lemma claim_refines_set:
  assumes "u < t + ttl" and "busy t s k = busy u s k"
  shows "{j. busy u (snd (claim t k s)) j} = insert k {j. busy u s j}"
proof (rule set_eqI)
  fix j
  show "j \<in> {j. busy u (snd (claim t k s)) j} \<longleftrightarrow> j \<in> insert k {j. busy u s j}"
  proof (cases "fst (claim t k s)")
    case True
    then show ?thesis
      using claim_holds[OF True assms(1)] claim_frame[of j k u t s] by (cases "j = k") auto
  next
    case False
    then show ?thesis
      using assms(2) by (auto simp: claim_refused claim_result)
  qed
qed

end

text \<open>
  A guard that lets each key through at most once: a claim that succeeds finds the key unused and
  marks it, and no claim makes a used key unused. A one-time OAuth state promises this.
\<close>

locale once_guard =
  fixes claim :: "'k \<Rightarrow> 's \<Rightarrow> bool \<times> 's"
    and taken :: "'s \<Rightarrow> 'k \<Rightarrow> bool"
  assumes claim_fresh: "fst (claim k s) \<Longrightarrow> \<not> taken s k"
    and claim_marks: "fst (claim k s) \<Longrightarrow> taken (snd (claim k s)) k"
    and claim_mono: "taken s j \<Longrightarrow> taken (snd (claim k s)) j"
begin

lemma taken_refuses: "taken s k \<Longrightarrow> \<not> fst (claim k s)"
  using claim_fresh by blast

lemma claims_mono: "taken s j \<Longrightarrow> taken (fold (\<lambda>k s. snd (claim k s)) ks s) j"
  by (induction ks arbitrary: s) (auto intro: claim_mono)

lemma claim_once:
  "fst (claim k s) \<Longrightarrow> \<not> fst (claim k (fold (\<lambda>j s. snd (claim j s)) ks (snd (claim k s))))"
  by (rule taken_refuses) (rule claims_mono, rule claim_marks)

text \<open>The same for any later steps that do not forget used keys.\<close>

lemma claim_once_after:
  assumes "fst (claim k s)" and "\<And>f s. f \<in> set fs \<Longrightarrow> taken s k \<Longrightarrow> taken (f s) k"
  shows "\<not> fst (claim k (fold (\<lambda>f s. f s) fs (snd (claim k s))))"
proof -
  have "taken (fold (\<lambda>f s. f s) fs s') k" if "taken s' k" for s'
    using that assms(2) by (induction fs arbitrary: s') auto
  then show ?thesis
    using claim_marks[OF assms(1)] by (intro taken_refuses)
qed

end

end
