(* ===== verification/Json.thy ===== *)
theory Json
  imports Prelude "HOL-Library.Multiset"
begin

text \<open>
  Python's JSON-able values and the part of the standard \<open>json\<close> module the code uses:
  \<open>json.dumps\<close> with its default separators and ASCII escapes (with and without
  \<open>sort_keys\<close>) and \<open>json.loads\<close>. Numbers are Python integers; a text with a fraction or an
  exponent, or with an escape of a code point above 255, is outside the model and parses to
  \<open>None\<close>. \<open>loads_dumps\<close> is the round trip, \<open>loads_dumps_sorted\<close> the one under
  \<open>sort_keys\<close>.
\<close>

section \<open>Values\<close>

datatype json =
    JNull
  | JBool bool
  | JInt int
  | JStr string
  | JArr "json list"
  | JObj "(string \<times> json) list"

text \<open>\<open>bool(v)\<close>, as \<open>if v\<close> and \<open>v or w\<close> use it.\<close>

fun truthy :: "json \<Rightarrow> bool" where
  "truthy JNull = False"
| "truthy (JBool b) = b"
| "truthy (JInt n) = (n \<noteq> 0)"
| "truthy (JStr s) = (s \<noteq> [])"
| "truthy (JArr xs) = (xs \<noteq> [])"
| "truthy (JObj d) = (d \<noteq> [])"

text \<open>\<open>d.get(k)\<close> and \<open>d.get(k, default)\<close>.\<close>

definition jget :: "json dict \<Rightarrow> string \<Rightarrow> json" where
  "jget d k = (case dget d k of None \<Rightarrow> JNull | Some v \<Rightarrow> v)"

definition jget_or :: "json dict \<Rightarrow> string \<Rightarrow> json \<Rightarrow> json" where
  "jget_or d k dflt = (case dget d k of None \<Rightarrow> dflt | Some v \<Rightarrow> v)"

definition py_or :: "json \<Rightarrow> json \<Rightarrow> json" where
  "py_or v w = (if truthy v then v else w)"

fun as_dict :: "json \<Rightarrow> json dict option" where
  "as_dict (JObj d) = Some d"
| "as_dict _ = None"

definition jopt_str :: "string option \<Rightarrow> json" where
  "jopt_str s = (case s of None \<Rightarrow> JNull | Some x \<Rightarrow> JStr x)"

lemma truthy_jget: "truthy (jget d k) \<Longrightarrow> \<exists>v. dget d k = Some v \<and> truthy v"
  by (auto simp: jget_def split: option.splits)

lemma jget_dset [simp]: "jget (dset k v d) j = (if j = k then v else jget d j)"
  by (simp add: jget_def)

section \<open>Printing integers\<close>

definition digit :: "nat \<Rightarrow> char" where
  "digit d = char_of (48 + d)"

definition is_digit :: "char \<Rightarrow> bool" where
  "is_digit c \<longleftrightarrow> 48 \<le> (of_char c :: nat) \<and> (of_char c :: nat) \<le> 57"

definition digit_val :: "char \<Rightarrow> nat" where
  "digit_val c = of_char c - 48"

fun show_nat :: "nat \<Rightarrow> string" where
  "show_nat n = (if n < 10 then [digit n] else show_nat (n div 10) @ [digit (n mod 10)])"

declare show_nat.simps [simp del]

definition show_int :: "int \<Rightarrow> string" where
  "show_int i = (if i < 0 then ''-'' @ show_nat (nat (- i)) else show_nat (nat i))"

fun read_nat :: "nat \<Rightarrow> string \<Rightarrow> nat \<times> string" where
  "read_nat acc [] = (acc, [])"
| "read_nat acc (c # s) = (if is_digit c then read_nat (10 * acc + digit_val c) s else (acc, c # s))"

lemma of_char_digit: "d < 10 \<Longrightarrow> (of_char (digit d) :: nat) = 48 + d"
  by (simp add: digit_def)

lemma is_digit_digit [simp]: "d < 10 \<Longrightarrow> is_digit (digit d)"
  by (simp add: is_digit_def of_char_digit)

lemma digit_val_digit [simp]: "d < 10 \<Longrightarrow> digit_val (digit d) = d"
  by (simp add: digit_val_def of_char_digit)

lemma digits_show_nat: "c \<in> set (show_nat n) \<Longrightarrow> is_digit c"
proof (induction n rule: show_nat.induct)
  case (1 n)
  then show ?case
    by (subst (asm) (2) show_nat.simps) (auto split: if_splits)
qed

lemma show_nat_ne [simp]: "show_nat n \<noteq> []"
  by (subst show_nat.simps) simp

definition stops_nat :: "string \<Rightarrow> bool" where
  "stops_nat r \<longleftrightarrow> (case r of [] \<Rightarrow> True | c # _ \<Rightarrow> \<not> is_digit c)"

lemma read_nat_append:
  "\<forall>c \<in> set ds. is_digit c \<Longrightarrow> read_nat acc (ds @ s) = read_nat (fst (read_nat acc ds)) s"
  by (induction acc ds rule: read_nat.induct) auto

lemma read_nat_show_nat: "fst (read_nat 0 (show_nat n)) = n"
proof (induction n rule: show_nat.induct)
  case (1 n)
  show ?case
  proof (cases "n < 10")
    case True
    then show ?thesis
      by (subst show_nat.simps) simp
  next
    case False
    then have "fst (read_nat 0 (show_nat (n div 10))) = n div 10"
      using 1 by simp
    with False show ?thesis
      by (subst show_nat.simps) (simp add: read_nat_append digits_show_nat)
  qed
qed

lemma read_show_nat: "stops_nat r \<Longrightarrow> read_nat 0 (show_nat n @ r) = (n, r)"
  by (subst read_nat_append) (auto simp: digits_show_nat read_nat_show_nat stops_nat_def split: list.splits)

text \<open>No leading zero: the first digit of a printed number is 0 only for 0 itself.\<close>

lemma show_nat_lead: "0 < n \<Longrightarrow> hd (show_nat n) \<noteq> CHR ''0''"
proof (induction n rule: show_nat.induct)
  case (1 n)
  show ?case
  proof (cases "n < 10")
    case True
    moreover have "digit n \<noteq> CHR ''0''"
    proof
      assume "digit n = CHR ''0''"
      then have "(of_char (digit n) :: nat) = 48"
        by simp
      with True 1(2) show False
        by (simp add: of_char_digit)
    qed
    ultimately show ?thesis
      by (subst show_nat.simps) simp
  next
    case False
    with 1 have "hd (show_nat (n div 10)) \<noteq> CHR ''0''"
      by simp
    with False show ?thesis
      by (subst show_nat.simps) simp
  qed
qed

section \<open>Printing: json.dumps\<close>

definition hex_digit :: "nat \<Rightarrow> char" where
  "hex_digit d = (if d < 10 then digit d else char_of (87 + d))"

definition hex_val :: "char \<Rightarrow> nat option" where
  "hex_val c = (let n = of_char c :: nat in
     if 48 \<le> n \<and> n \<le> 57 then Some (n - 48)
     else if 97 \<le> n \<and> n \<le> 102 then Some (n - 87)
     else if 65 \<le> n \<and> n \<le> 70 then Some (n - 55) else None)"

definition esc_char :: "char \<Rightarrow> string" where
  "esc_char c = (let n = of_char c :: nat in
     if c = CHR 0x22 then [CHR 0x5C, CHR 0x22]
     else if c = CHR 0x5C then [CHR 0x5C, CHR 0x5C]
     else if n = 10 then [CHR 0x5C, CHR ''n'']
     else if n = 13 then [CHR 0x5C, CHR ''r'']
     else if n = 9 then [CHR 0x5C, CHR ''t'']
     else if n = 12 then [CHR 0x5C, CHR ''f'']
     else if n = 8 then [CHR 0x5C, CHR ''b'']
     else if n < 32 \<or> 126 < n
     then [CHR 0x5C, CHR ''u'', CHR ''0'', CHR ''0'', hex_digit (n div 16), hex_digit (n mod 16)]
     else [c])"

definition dumps_str :: "string \<Rightarrow> string" where
  "dumps_str s = [CHR 0x22] @ concat (map esc_char s) @ [CHR 0x22]"

fun dumps :: "json \<Rightarrow> string" where
  "dumps JNull = ''null''"
| "dumps (JBool b) = (if b then ''true'' else ''false'')"
| "dumps (JInt i) = show_int i"
| "dumps (JStr s) = dumps_str s"
| "dumps (JArr xs) = ''['' @ join '', '' (map dumps xs) @ '']''"
| "dumps (JObj d) = ''{'' @ join '', '' (map (\<lambda>(k, v). dumps_str k @ '': '' @ dumps v) d) @ ''}''"

text \<open>\<open>sort_keys=True\<close>: the entries of every object, at any depth, in the order of their keys.\<close>

fun sort_json :: "json \<Rightarrow> json" where
  "sort_json (JArr xs) = JArr (map sort_json xs)"
| "sort_json (JObj d) = JObj (sort_key fst (map (\<lambda>(k, v). (k, sort_json v)) d))"
| "sort_json v = v"

definition dumps_sorted :: "json \<Rightarrow> string" where
  "dumps_sorted v = dumps (sort_json v)"

section \<open>Parsing: json.loads\<close>

definition is_ws :: "char \<Rightarrow> bool" where
  "is_ws c \<longleftrightarrow> c = CHR '' '' \<or> c = CHR 0x0A \<or> c = CHR 0x0D \<or> c = CHR 0x09"

definition skip_ws :: "string \<Rightarrow> string" where
  "skip_ws s = dropWhile is_ws s"

definition push_char :: "char \<Rightarrow> (string \<times> string) option \<Rightarrow> (string \<times> string) option" where
  "push_char c r = map_option (\<lambda>(t, rest). (c # t, rest)) r"

definition unescape :: "char \<Rightarrow> char option" where
  "unescape c =
    (if c = CHR 0x22 \<or> c = CHR 0x5C \<or> c = CHR ''/'' then Some c
     else if c = CHR ''n'' then Some (char_of (10::nat))
     else if c = CHR ''r'' then Some (char_of (13::nat))
     else if c = CHR ''t'' then Some (char_of (9::nat))
     else if c = CHR ''f'' then Some (char_of (12::nat))
     else if c = CHR ''b'' then Some (char_of (8::nat))
     else None)"

text \<open>The text of a string literal after its opening quote.\<close>

fun parse_str :: "string \<Rightarrow> (string \<times> string) option" where
  "parse_str [] = None"
| "parse_str (c # s) =
    (if c = CHR 0x22 then Some ([], s)
     else if c = CHR 0x5C then
       (case s of
          [] \<Rightarrow> None
        | e # s' \<Rightarrow>
            if e = CHR ''u'' then
              (case s' of
                 z1 # z2 # h # l # s'' \<Rightarrow>
                   (if z1 = CHR ''0'' \<and> z2 = CHR ''0'' then
                      (case (hex_val h, hex_val l) of
                         (Some a, Some b) \<Rightarrow> push_char (char_of (16 * a + b)) (parse_str s'')
                       | _ \<Rightarrow> None)
                    else None)
               | _ \<Rightarrow> None)
            else (case unescape e of None \<Rightarrow> None | Some x \<Rightarrow> push_char x (parse_str s')))
     else if (of_char c :: nat) < 32 then None
     else push_char c (parse_str s))"

text \<open>A number: no fraction, no exponent, no leading zero.\<close>

definition no_float :: "string \<Rightarrow> bool" where
  "no_float r \<longleftrightarrow> (case r of [] \<Rightarrow> True | c # _ \<Rightarrow> c \<noteq> CHR ''.'' \<and> c \<noteq> CHR ''e'' \<and> c \<noteq> CHR ''E'')"

definition parse_digits :: "string \<Rightarrow> (nat \<times> string) option" where
  "parse_digits s = (case s of
      [] \<Rightarrow> None
    | c # r \<Rightarrow>
        if c = CHR ''0'' then (if no_float r then Some (0, r) else None)
        else if is_digit c then (case read_nat 0 s of (n, r') \<Rightarrow> if no_float r' then Some (n, r') else None)
        else None)"

definition parse_int :: "string \<Rightarrow> (json \<times> string) option" where
  "parse_int s = (case s of
      [] \<Rightarrow> None
    | c # r \<Rightarrow>
        if c = CHR ''-'' then map_option (\<lambda>(n, r'). (JInt (- int n), r')) (parse_digits r)
        else map_option (\<lambda>(n, r'). (JInt (int n), r')) (parse_digits s))"

text \<open>
  Recursive descent; the first argument bounds the number of calls, \<open>loads\<close> gives it enough for
  the length of the text.
\<close>

fun parse_value :: "nat \<Rightarrow> string \<Rightarrow> (json \<times> string) option"
  and parse_items :: "nat \<Rightarrow> string \<Rightarrow> (json list \<times> string) option"
  and parse_members :: "nat \<Rightarrow> string \<Rightarrow> (json dict \<times> string) option" where
  "parse_value 0 s = None"
| "parse_value (Suc n) s =
    (case skip_ws s of
       [] \<Rightarrow> None
     | c # r \<Rightarrow>
         if c = CHR 0x22 then map_option (\<lambda>(t, r'). (JStr t, r')) (parse_str r)
         else if c = CHR ''['' then
           (case skip_ws r of
              [] \<Rightarrow> None
            | c' # r' \<Rightarrow>
                if c' = CHR '']'' then Some (JArr [], r')
                else map_option (\<lambda>(xs, r''). (JArr xs, r'')) (parse_items n r))
         else if c = CHR ''{'' then
           (case skip_ws r of
              [] \<Rightarrow> None
            | c' # r' \<Rightarrow>
                if c' = CHR ''}'' then Some (JObj [], r')
                else map_option (\<lambda>(d, r''). (JObj (dupdate [] d), r'')) (parse_members n r))
         else if startswith (c # r) ''null'' then Some (JNull, drop 4 (c # r))
         else if startswith (c # r) ''true'' then Some (JBool True, drop 4 (c # r))
         else if startswith (c # r) ''false'' then Some (JBool False, drop 5 (c # r))
         else parse_int (c # r))"
| "parse_items 0 s = None"
| "parse_items (Suc n) s =
    (case parse_value n s of
       None \<Rightarrow> None
     | Some (v, r) \<Rightarrow>
         (case skip_ws r of
            [] \<Rightarrow> None
          | c # r' \<Rightarrow>
              if c = CHR '','' then map_option (\<lambda>(vs, r''). (v # vs, r'')) (parse_items n r')
              else if c = CHR '']'' then Some ([v], r') else None))"
| "parse_members 0 s = None"
| "parse_members (Suc n) s =
    (case skip_ws s of
       [] \<Rightarrow> None
     | q # s' \<Rightarrow>
         if q \<noteq> CHR 0x22 then None
         else (case parse_str s' of
                 None \<Rightarrow> None
               | Some (k, r0) \<Rightarrow>
                   (case skip_ws r0 of
                      [] \<Rightarrow> None
                    | col # r1 \<Rightarrow>
                        if col \<noteq> CHR '':'' then None
                        else (case parse_value n r1 of
                                None \<Rightarrow> None
                              | Some (v, r2) \<Rightarrow>
                                  (case skip_ws r2 of
                                     [] \<Rightarrow> None
                                   | c # r3 \<Rightarrow>
                                       if c = CHR '','' then
                                         map_option (\<lambda>(d, r4). ((k, v) # d, r4)) (parse_members n r3)
                                       else if c = CHR ''}'' then Some ([(k, v)], r3) else None)))))"

definition loads :: "string \<Rightarrow> json option" where
  "loads s = (case parse_value (2 * length s + 2) s of
      None \<Rightarrow> None
    | Some (v, r) \<Rightarrow> if skip_ws r = [] then Some v else None)"

section \<open>The round trip\<close>

fun wf_json :: "json \<Rightarrow> bool" where
  "wf_json (JArr xs) = (\<forall>x \<in> set xs. wf_json x)"
| "wf_json (JObj d) = (distinct (dkeys d) \<and> (\<forall>(k, v) \<in> set d. wf_json v))"
| "wf_json _ = True"

text \<open>Calls the parser needs for the text of a value.\<close>

fun need :: "json \<Rightarrow> nat" where
  "need (JArr xs) = Suc (sum_list (map (\<lambda>x. Suc (need x)) xs))"
| "need (JObj d) = Suc (sum_list (map (\<lambda>(k, v). Suc (need v)) d))"
| "need _ = 1"

lemma hex_val_digit: "d < 16 \<Longrightarrow> hex_val (hex_digit d) = Some d"
proof (cases "d < 10")
  case True
  then show ?thesis
    by (simp add: hex_digit_def hex_val_def of_char_digit)
next
  case False
  moreover assume "d < 16"
  ultimately have "(of_char (char_of (87 + d) :: char) :: nat) = 87 + d"
    by simp
  with False \<open>d < 16\<close> show ?thesis
    by (simp add: hex_digit_def hex_val_def)
qed

lemma zero_digit: "digit 0 = CHR ''0''"
  using char_of_char[of "CHR ''0''", where ?'a = nat] by (simp add: digit_def)

lemma char_code: "(of_char c :: nat) = n \<Longrightarrow> c = char_of n"
  by auto

lemma parse_str_esc: "parse_str (esc_char c @ s) = push_char c (parse_str s)"
proof -
  let ?n = "of_char c :: nat"
  have n: "?n < 256"
    by simp
  have split: "16 * (?n div 16) + ?n mod 16 = ?n"
    by simp
  consider "c = CHR 0x22" | "c = CHR 0x5C" | "?n = 10" | "?n = 13" | "?n = 9" | "?n = 12" | "?n = 8"
    | (u) "c \<noteq> CHR 0x22" "c \<noteq> CHR 0x5C" "?n \<notin> {8, 9, 10, 12, 13}" "?n < 32 \<or> 126 < ?n"
    | (p) "c \<noteq> CHR 0x22" "c \<noteq> CHR 0x5C" "\<not> ?n < 32" "\<not> 126 < ?n"
    by auto
  then show ?thesis
  proof cases
    case u
    have "hex_val (hex_digit (?n div 16)) = Some (?n div 16)"
      using n by (intro hex_val_digit) (simp add: less_mult_imp_div_less)
    moreover have "hex_val (hex_digit (?n mod 16)) = Some (?n mod 16)"
      by (intro hex_val_digit) auto
    moreover have "char_of (16 * (?n div 16) + ?n mod 16) = c"
      unfolding split by simp
    ultimately show ?thesis
      using u by (simp add: esc_char_def Let_def)
  next
    case p
    then show ?thesis
      by (auto simp: esc_char_def)
  qed (auto simp: esc_char_def unescape_def dest!: char_code)
qed

lemma parse_str_dumps: "parse_str (concat (map esc_char t) @ CHR 0x22 # r) = Some (t, r)"
  by (induction t) (simp_all add: parse_str_esc push_char_def)

definition ok_rest :: "string \<Rightarrow> bool" where
  "ok_rest r \<longleftrightarrow> stops_nat r \<and> no_float r"

lemma parse_digits_show: "ok_rest r \<Longrightarrow> parse_digits (show_nat n @ r) = Some (n, r)"
proof (cases "n = 0")
  case True
  assume "ok_rest r"
  moreover have "show_nat 0 = ''0''"
    by (subst show_nat.simps) (simp add: zero_digit)
  ultimately show ?thesis
    using True by (simp add: parse_digits_def ok_rest_def)
next
  case False
  assume r: "ok_rest r"
  obtain c ds where d: "show_nat n = c # ds"
    by (meson list.exhaust show_nat_ne)
  have "is_digit c"
    using digits_show_nat[of c n] d by simp
  moreover have "c \<noteq> CHR ''0''"
    using show_nat_lead[of n] False d by simp
  moreover have "read_nat 0 (show_nat n @ r) = (n, r)"
    using r by (simp add: read_show_nat ok_rest_def)
  ultimately show ?thesis
    using r d by (simp add: parse_digits_def ok_rest_def)
qed

lemma show_nat_no_minus: "show_nat n = c # ds \<Longrightarrow> c \<noteq> CHR ''-''"
  using digits_show_nat[of c n] by (auto simp: is_digit_def)

lemma parse_int_show: "ok_rest r \<Longrightarrow> parse_int (show_int i @ r) = Some (JInt i, r)"
proof (cases "i < 0")
  case True
  assume "ok_rest r"
  with True show ?thesis
    by (simp add: parse_int_def show_int_def parse_digits_show)
next
  case False
  assume r: "ok_rest r"
  obtain c ds where d: "show_nat (nat i) = c # ds"
    by (meson list.exhaust show_nat_ne)
  then have "c \<noteq> CHR ''-''"
    by (rule show_nat_no_minus)
  with r d False parse_digits_show[OF r, of "nat i"] show ?thesis
    by (simp add: parse_int_def show_int_def)
qed

lemma show_int_head: "\<exists>c ds. show_int i = c # ds \<and> (c = CHR ''-'' \<or> is_digit c)"
proof -
  obtain c ds where "show_nat (nat i) = c # ds"
    by (meson list.exhaust show_nat_ne)
  with digits_show_nat[of c "nat i"] show ?thesis
    by (auto simp: show_int_def)
qed

lemma skip_ws_head: "\<not> is_ws c \<Longrightarrow> skip_ws (c # s) = c # s"
  by (simp add: skip_ws_def)

lemma skip_ws_space [simp]: "skip_ws (CHR '' '' # s) = skip_ws s"
  by (simp add: skip_ws_def is_ws_def)

lemma parse_value_space [simp]: "parse_value n (CHR '' '' # s) = parse_value n s"
  by (cases n) simp_all

lemma parse_items_space [simp]: "parse_items n (CHR '' '' # s) = parse_items n s"
  by (cases n) simp_all

lemma parse_members_space [simp]: "parse_members n (CHR '' '' # s) = parse_members n s"
  by (cases n) simp_all

lemma not_ws_digit: "is_digit c \<Longrightarrow> \<not> is_ws c"
  by (auto simp: is_digit_def is_ws_def)

lemma ok_rest_punct [simp]:
  "ok_rest []" "ok_rest (CHR '','' # r)" "ok_rest (CHR '']'' # r)" "ok_rest (CHR ''}'' # r)"
  by (simp_all add: ok_rest_def stops_nat_def no_float_def is_digit_def)

lemma parse_items_join:
  assumes "xs \<noteq> []"
    and "\<And>x m r'. x \<in> set xs \<Longrightarrow> need x \<le> m \<Longrightarrow> ok_rest r' \<Longrightarrow> parse_value m (dumps x @ r') = Some (x, r')"
    and "sum_list (map (\<lambda>x. Suc (need x)) xs) \<le> n"
  shows "parse_items n (join '', '' (map dumps xs) @ CHR '']'' # r) = Some (xs, r)"
  using assms
proof (induction xs arbitrary: n)
  case (Cons x xs)
  then obtain m where n: "n = Suc m" and m: "need x \<le> m"
    by (cases n) auto
  show ?case
  proof (cases xs)
    case Nil
    with Cons.prems(2)[of x m "CHR '']'' # r"] n m show ?thesis
      by (simp add: skip_ws_head is_ws_def)
  next
    case (Cons y ys)
    let ?t = "CHR '','' # CHR '' '' # join '', '' (map dumps xs) @ CHR '']'' # r"
    have "parse_value m (dumps x @ ?t) = Some (x, ?t)"
      using Cons.prems(2)[of x m ?t] m by simp
    moreover have "parse_items m (join '', '' (map dumps xs) @ CHR '']'' # r) = Some (xs, r)"
      using Cons.IH[of m] Cons.prems Cons n by auto
    ultimately show ?thesis
      using n Cons by (simp add: skip_ws_head is_ws_def)
  qed
qed simp

lemma parse_members_join:
  assumes "d \<noteq> []"
    and "\<And>k v m r'. (k, v) \<in> set d \<Longrightarrow> need v \<le> m \<Longrightarrow> ok_rest r' \<Longrightarrow>
           parse_value m (dumps v @ r') = Some (v, r')"
    and "sum_list (map (\<lambda>(k, v). Suc (need v)) d) \<le> n"
  shows "parse_members n (join '', '' (map (\<lambda>(k, v). dumps_str k @ '': '' @ dumps v) d) @ CHR ''}'' # r)
           = Some (d, r)"
  using assms
proof (induction d arbitrary: n)
  case (Cons kv d)
  obtain k v where kv: "kv = (k, v)"
    by fastforce
  with Cons obtain m where n: "n = Suc m" and m: "need v \<le> m"
    by (cases n) auto
  have key: "parse_str (concat (map esc_char k) @ CHR 0x22 # t) = Some (k, t)" for t
    by (rule parse_str_dumps)
  show ?case
  proof (cases d)
    case Nil
    with Cons.prems(2)[of k v m "CHR ''}'' # r"] n m key kv show ?thesis
      by (simp add: skip_ws_head is_ws_def dumps_str_def)
  next
    case (Cons y ys)
    let ?j = "join '', '' (map (\<lambda>(k, v). dumps_str k @ '': '' @ dumps v) d)"
    let ?t = "CHR '','' # CHR '' '' # ?j @ CHR ''}'' # r"
    have "parse_value m (dumps v @ ?t) = Some (v, ?t)"
      using Cons.prems(2)[of k v m ?t] m kv by simp
    moreover have "parse_members m (?j @ CHR ''}'' # r) = Some (d, r)"
      using Cons.IH[of m] Cons.prems Cons n kv by auto
    ultimately show ?thesis
      using n kv Cons key by (simp add: skip_ws_head is_ws_def dumps_str_def)
  qed
qed simp

lemma dumps_head: "\<exists>c s. dumps v = c # s \<and> \<not> is_ws c \<and> c \<noteq> CHR '']'' \<and> c \<noteq> CHR ''}''"
proof (cases v)
  case (JInt i)
  with show_int_head[of i] show ?thesis
    by (auto simp: is_digit_def is_ws_def)
qed (auto simp: dumps_str_def is_ws_def)

lemma join_head: "xs \<noteq> [] \<Longrightarrow> hd xs = c # s \<Longrightarrow> \<exists>t. join sep xs = c # t"
  by (cases xs; cases "tl xs") auto

lemma parse_int_value:
  "ok_rest r \<Longrightarrow> parse_value (Suc n) (show_int i @ r) = Some (JInt i, r)"
proof -
  assume r: "ok_rest r"
  obtain c ds where c: "show_int i = c # ds" "c = CHR ''-'' \<or> is_digit c"
    using show_int_head by blast
  then have "\<not> is_ws c" and "c \<noteq> CHR 0x22" and "c \<noteq> CHR ''[''" and "c \<noteq> CHR ''{''"
    and "c \<noteq> CHR ''n''" and "c \<noteq> CHR ''t''" and "c \<noteq> CHR ''f''"
    by (auto simp: is_digit_def is_ws_def)
  with parse_int_show[OF r, of i] c(1) show ?thesis
    by (simp add: skip_ws_head)
qed

lemma parse_dumps:
  "wf_json v \<Longrightarrow> need v \<le> n \<Longrightarrow> ok_rest r \<Longrightarrow> parse_value n (dumps v @ r) = Some (v, r)"
proof (induction v arbitrary: n r)
  case (JInt i)
  then show ?case
    by (cases n) (simp_all only: dumps.simps parse_int_value, simp)
next
  case (JStr t)
  then show ?case
    by (cases n) (simp_all add: dumps_str_def skip_ws_head is_ws_def parse_str_dumps)
next
  case (JArr xs)
  then obtain m where n: "n = Suc m"
    by (cases n) auto
  show ?case
  proof (cases "xs = []")
    case True
    with n show ?thesis
      by (simp add: skip_ws_head is_ws_def)
  next
    case False
    obtain c t' where c: "dumps (hd xs) = c # t'" "\<not> is_ws c" "c \<noteq> CHR '']''"
      using dumps_head[of "hd xs"] by blast
    with False obtain t where "join '', '' (map dumps xs) = c # t"
      using join_head[of "map dumps xs" c t' "'', ''"] by (auto simp: hd_map)
    moreover note c(2,3)
    moreover have "parse_items m (join '', '' (map dumps xs) @ CHR '']'' # r) = Some (xs, r)"
      using JArr n False by (intro parse_items_join) auto
    ultimately show ?thesis
      using n by (simp add: skip_ws_head is_ws_def)
  qed
next
  case (JObj d)
  then obtain m where n: "n = Suc m"
    by (cases n) auto
  show ?case
  proof (cases "d = []")
    case True
    with n show ?thesis
      by (simp add: skip_ws_head is_ws_def)
  next
    case False
    let ?f = "\<lambda>(k, v). dumps_str k @ '': '' @ dumps v"
    have "\<exists>t. hd (map ?f d) = CHR 0x22 # t"
      using False by (cases d) (auto simp: dumps_str_def)
    then obtain t where "join '', '' (map ?f d) = CHR 0x22 # t"
      using join_head[of "map ?f d" "CHR 0x22" _ "'', ''"] False by blast
    moreover have "parse_members m (join '', '' (map ?f d) @ CHR ''}'' # r) = Some (d, r)"
    proof (intro parse_members_join False)
      fix k v m' r'
      assume "(k, v) \<in> set d" and "need v \<le> m'" and "ok_rest r'"
      with JObj show "parse_value m' (dumps v @ r') = Some (v, r')"
        by fastforce
    qed (use JObj n in auto)
    ultimately show ?thesis
      using n JObj.prems(1) by (simp add: skip_ws_head is_ws_def dupdate_Nil)
  qed
next
  case JNull
  then show ?case
    by (cases n) (simp_all add: skip_ws_head is_ws_def)
next
  case (JBool b)
  then show ?case
    by (cases n; cases b) (simp_all add: skip_ws_head is_ws_def)
qed

lemma length_join_ge: "sum_list (map length xs) \<le> length (join sep xs)"
  by (induction sep xs rule: join.induct) auto

lemma need_length: "Suc (need v) \<le> 2 * length (dumps v)"
proof (induction v)
  case (JArr xs)
  have "sum_list (map (\<lambda>x. Suc (need x)) xs) \<le> sum_list (map (\<lambda>x. 2 * length (dumps x)) xs)"
    using JArr by (intro sum_list_mono) auto
  also have "\<dots> = 2 * sum_list (map length (map dumps xs))"
    by (simp add: sum_list_const_mult o_def)
  also have "\<dots> \<le> 2 * length (join '', '' (map dumps xs))"
    using length_join_ge by (intro mult_le_mono2)
  finally show ?case
    by simp
next
  case (JObj d)
  let ?f = "\<lambda>(k, v). dumps_str k @ '': '' @ dumps v"
  have "sum_list (map (\<lambda>(k, v). Suc (need v)) d) \<le> sum_list (map (\<lambda>x. 2 * length (?f x)) d)"
    using JObj by (intro sum_list_mono) fastforce
  also have "\<dots> = 2 * sum_list (map length (map ?f d))"
    by (simp add: sum_list_const_mult o_def)
  also have "\<dots> \<le> 2 * length (join '', '' (map ?f d))"
    using length_join_ge by (intro mult_le_mono2)
  finally show ?case
    by simp
next
  case (JInt i)
  obtain c ds where "show_int i = c # ds"
    using show_int_head by blast
  then show ?case
    by simp
qed (auto simp: dumps_str_def)

theorem loads_dumps: "wf_json v \<Longrightarrow> loads (dumps v) = Some v"
proof -
  assume "wf_json v"
  moreover have "need v \<le> 2 * length (dumps v) + 2"
    using need_length[of v] by linarith
  ultimately have "parse_value (2 * length (dumps v) + 2) (dumps v @ []) = Some (v, [])"
    by (intro parse_dumps) simp_all
  then show ?thesis
    by (simp add: loads_def skip_ws_def)
qed

lemma dkeys_map_values [simp]: "dkeys (map (\<lambda>(k, v). (k, g v)) d) = dkeys d"
  by (induction d) auto

lemma distinct_sorted_keys:
  "distinct (dkeys d) \<Longrightarrow> distinct (dkeys (sort_key fst (map (\<lambda>(k, v). (k, g v)) d)))"
proof -
  have "mset (dkeys (sort_key fst (map (\<lambda>(k, v). (k, g v)) d)))
      = mset (dkeys (map (\<lambda>(k, v). (k, g v)) d))"
    by (simp only: mset_map mset_sort)
  then have "distinct (dkeys (sort_key fst (map (\<lambda>(k, v). (k, g v)) d))) \<longleftrightarrow> distinct (dkeys d)"
    unfolding dkeys_map_values by (rule mset_eq_imp_distinct_iff)
  then show "distinct (dkeys d) \<Longrightarrow> ?thesis"
    by simp
qed

lemma wf_sort_json: "wf_json v \<Longrightarrow> wf_json (sort_json v)"
proof (induction v)
  case (JObj d)
  then have "\<forall>(k, v) \<in> set (map (\<lambda>(k, v). (k, sort_json v)) d). wf_json v"
    by fastforce
  then show ?case
    using JObj.prems distinct_sorted_keys[of d sort_json] by auto
qed auto

lemma dget_map_values: "dget (map (\<lambda>(k, v). (k, g v)) d) k = map_option g (dget d k)"
  by (induction d) auto

lemma dget_sort_json:
  assumes "distinct (dkeys d)"
  shows "\<exists>e. sort_json (JObj d) = JObj e \<and> (\<forall>k. dget e k = map_option sort_json (dget d k))"
proof -
  let ?d = "map (\<lambda>(k, v). (k, sort_json v)) d"
  have "map_of (sort_key fst ?d) = map_of ?d"
    using distinct_sorted_keys[OF assms, of sort_json] assms
    by (subst map_of_inject_set) (simp_all only: dkeys_map_values set_sort)
  then show ?thesis
    by (simp add: dget_map_values)
qed

theorem loads_dumps_sorted: "wf_json v \<Longrightarrow> loads (dumps_sorted v) = Some (sort_json v)"
  by (simp add: dumps_sorted_def loads_dumps wf_sort_json)

end
