(* ===== verification/Exceptions.thy ===== *)
theory Exceptions
  imports Json
begin

text \<open>
  \<open>src/exceptions/__init__.py\<close>: the exception classes of the service, their HTTP status and code,
  and \<open>to_dict\<close>; and the two places that turn an exception into an HTTP response,
  \<open>integration_error_handler\<close> of \<open>src/main.py\<close> and \<open>ErrorHandlingMiddleware.dispatch\<close> of
  \<open>src/middleware.py\<close>. Every class derives directly from \<open>IntegrationError\<close>, so \<open>is_a\<close> is
  equality or the base class. Exceptions of the language and of the libraries the code meets
  are \<open>Builtin\<close>, with the text of \<open>str(exc)\<close>.
\<close>

section \<open>Exceptions\<close>

datatype error_class =
    IntegrationError | ProviderUnavailable | OAuthFailed | TokenExpired | CredentialInvalid
  | WebhookVerificationFailed | RateLimitExceeded | ProviderNotFound | ActionNotFound
  | WorkspaceNotFound | ConnectionNotFound | CredentialNotFound | ValidationError
  | CircuitBreakerOpen | EncryptionError | WebhookDeliveryFailed | UnauthorizedError
  | ForbiddenError

fun status_code :: "error_class \<Rightarrow> nat" where
  "status_code IntegrationError = 500"
| "status_code ProviderUnavailable = 503"
| "status_code OAuthFailed = 401"
| "status_code TokenExpired = 401"
| "status_code CredentialInvalid = 401"
| "status_code WebhookVerificationFailed = 401"
| "status_code RateLimitExceeded = 429"
| "status_code ProviderNotFound = 404"
| "status_code ActionNotFound = 404"
| "status_code WorkspaceNotFound = 404"
| "status_code ConnectionNotFound = 404"
| "status_code CredentialNotFound = 404"
| "status_code ValidationError = 422"
| "status_code CircuitBreakerOpen = 503"
| "status_code EncryptionError = 500"
| "status_code WebhookDeliveryFailed = 502"
| "status_code UnauthorizedError = 401"
| "status_code ForbiddenError = 403"

fun error_code :: "error_class \<Rightarrow> string" where
  "error_code IntegrationError = ''integration_error''"
| "error_code ProviderUnavailable = ''provider_unavailable''"
| "error_code OAuthFailed = ''oauth_failed''"
| "error_code TokenExpired = ''token_expired''"
| "error_code CredentialInvalid = ''credential_invalid''"
| "error_code WebhookVerificationFailed = ''webhook_verification_failed''"
| "error_code RateLimitExceeded = ''rate_limit_exceeded''"
| "error_code ProviderNotFound = ''provider_not_found''"
| "error_code ActionNotFound = ''action_not_found''"
| "error_code WorkspaceNotFound = ''workspace_not_found''"
| "error_code ConnectionNotFound = ''connection_not_found''"
| "error_code CredentialNotFound = ''credential_not_found''"
| "error_code ValidationError = ''validation_error''"
| "error_code CircuitBreakerOpen = ''circuit_breaker_open''"
| "error_code EncryptionError = ''encryption_error''"
| "error_code WebhookDeliveryFailed = ''webhook_delivery_failed''"
| "error_code UnauthorizedError = ''unauthorized''"
| "error_code ForbiddenError = ''forbidden''"

record integration_error =
  err_class :: error_class
  err_message :: string
  err_provider :: "string option"
  err_details :: "json dict"

datatype builtin =
    AttributeError | TypeError | ValueError | KeyError | RuntimeError | NotImplementedError
  | OSError | HTTPError | IntegrityError | MultipleResultsFound | StatementError | JWTError
  | InvalidToken | OtherException

datatype exn = Integration integration_error | Builtin builtin string

text \<open>\<open>isinstance(exc, cls)\<close> for the classes of the service.\<close>

definition is_a :: "exn \<Rightarrow> error_class \<Rightarrow> bool" where
  "is_a e c = (case e of
      Integration ie \<Rightarrow> c = IntegrationError \<or> err_class ie = c
    | Builtin _ _ \<Rightarrow> False)"

text \<open>\<open>Cls(message)\<close>, \<open>Cls(message, provider=p)\<close> and \<open>Cls(message, provider=p, details=d)\<close>.\<close>

definition error0 :: "error_class \<Rightarrow> string \<Rightarrow> exn" where
  "error0 c m = Integration \<lparr>err_class = c, err_message = m, err_provider = None, err_details = []\<rparr>"

definition error1 :: "error_class \<Rightarrow> string \<Rightarrow> string \<Rightarrow> exn" where
  "error1 c m p = Integration \<lparr>err_class = c, err_message = m, err_provider = Some p, err_details = []\<rparr>"

definition error2 :: "error_class \<Rightarrow> string \<Rightarrow> string \<Rightarrow> json dict \<Rightarrow> exn" where
  "error2 c m p d = Integration \<lparr>err_class = c, err_message = m, err_provider = Some p, err_details = d\<rparr>"

lemma is_a_error [simp]:
  "is_a (error0 c m) k \<longleftrightarrow> k = IntegrationError \<or> c = k"
  "is_a (error1 c m p) k \<longleftrightarrow> k = IntegrationError \<or> c = k"
  "is_a (error2 c m p d) k \<longleftrightarrow> k = IntegrationError \<or> c = k"
  "is_a (Builtin b t) k \<longleftrightarrow> False"
  by (simp_all add: is_a_def error0_def error1_def error2_def)

text \<open>\<open>str(exc)\<close>.\<close>

definition exn_text :: "exn \<Rightarrow> string" where
  "exn_text e = (case e of Integration ie \<Rightarrow> err_message ie | Builtin _ t \<Rightarrow> t)"

definition to_dict :: "integration_error \<Rightarrow> json dict" where
  "to_dict e =
    [(''code'', JStr (error_code (err_class e))), (''message'', JStr (err_message e))]
    @ (case err_provider e of
         None \<Rightarrow> []
       | Some p \<Rightarrow> (if p = [] then [] else [(''provider'', JStr p)]))
    @ (if err_details e = [] then [] else [(''details'', JObj (err_details e))])"

section \<open>Error responses\<close>

record response =
  resp_status :: nat
  resp_body :: json

text \<open>
  \<open>ErrorResponse(error=d).model_dump()\<close>: \<open>ErrorDetail\<close> fills in its defaults, no provider and no
  details.
\<close>

definition error_response_dump :: "json dict \<Rightarrow> json" where
  "error_response_dump d = JObj [(''error'', JObj
     [(''code'', jget d ''code''), (''message'', jget d ''message''),
      (''provider'', jget d ''provider''), (''details'', jget_or d ''details'' (JObj []))])]"

definition integration_error_handler :: "integration_error \<Rightarrow> response" where
  "integration_error_handler e =
     \<lparr>resp_status = status_code (err_class e), resp_body = error_response_dump (to_dict e)\<rparr>"

text \<open>The except clauses of \<open>ErrorHandlingMiddleware.dispatch\<close>, with the \<open>debug\<close> setting.\<close>

definition error_middleware :: "bool \<Rightarrow> exn \<Rightarrow> response" where
  "error_middleware debug exc = (case exc of
      Integration e \<Rightarrow>
        \<lparr>resp_status = status_code (err_class e),
         resp_body = error_response_dump
           [(''code'', JStr (error_code (err_class e))), (''message'', JStr (err_message e)),
            (''provider'', jopt_str (err_provider e)), (''details'', JObj (err_details e))]\<rparr>
    | Builtin b t \<Rightarrow>
        \<lparr>resp_status = 500,
         resp_body = JObj [(''error'', JObj
           [(''code'', JStr ''internal_error''), (''message'', JStr ''internal server error''),
            (''details'', if debug then JObj [(''detail'', JStr (exn_text exc))] else JObj [])])]\<rparr>)"

definition rate_limit_handler :: response where
  "rate_limit_handler =
     \<lparr>resp_status = 429, resp_body = error_response_dump
        [(''code'', JStr ''rate_limit_exceeded''), (''message'', JStr ''rate limit exceeded''),
         (''details'', JObj [])]\<rparr>"

section \<open>Facts\<close>

lemma inj_error_code: "error_code c = error_code d \<longleftrightarrow> c = d"
  by (cases c; cases d) simp_all

lemma status_code_4xx_5xx: "400 \<le> status_code c \<and> status_code c < 600"
  by (cases c) simp_all

section \<open>Properties\<close>

text \<open>The exception handler of the application and the error middleware answer a service
  error with the same status and the same JSON body, whether debugging is on or not (an error
  whose provider is the empty string, which no code raises, is the exception); the status is
  between 400 and 599, and the body carries the code of the class.\<close>

theorem error_responses_agree:
  assumes "err_provider e \<noteq> Some []"
  shows "error_middleware dbg (Integration e) = integration_error_handler e
    \<and> 400 \<le> resp_status (integration_error_handler e) \<and> resp_status (integration_error_handler e) < 600
    \<and> (\<exists>d. resp_body (integration_error_handler e) = JObj [(''error'', JObj d)]
          \<and> jget d ''code'' = JStr (error_code (err_class e)))"
  using assms status_code_4xx_5xx[of "err_class e"]
  by (auto simp: error_middleware_def integration_error_handler_def to_dict_def
      error_response_dump_def jget_def jget_or_def jopt_str_def split: option.splits)

theorem error_responses_agree_witness:
  "error_middleware True (Integration \<lparr>err_class = RateLimitExceeded, err_message = ''slow down'',
      err_provider = Some ''github'', err_details = [(''status_code'', JInt 429)]\<rparr>)
   = integration_error_handler \<lparr>err_class = RateLimitExceeded, err_message = ''slow down'',
      err_provider = Some ''github'', err_details = [(''status_code'', JInt 429)]\<rparr>"
  using error_responses_agree[of "\<lparr>err_class = RateLimitExceeded, err_message = ''slow down'',
      err_provider = Some ''github'', err_details = [(''status_code'', JInt 429)]\<rparr>" True]
  by simp

text \<open>With debugging off, the response to an unexpected exception is the same whatever the
  exception and its text: status 500 and nothing of the exception in the body; with debugging on
  the text is in the body.\<close>

theorem internal_errors_disclose_nothing:
  "resp_status (error_middleware dbg (Builtin b t)) = 500
   \<and> error_middleware False (Builtin b t) = error_middleware False (Builtin c u)
   \<and> (error_middleware True (Builtin b t) = error_middleware True (Builtin c u) \<longleftrightarrow> t = u)"
  by (auto simp: error_middleware_def exn_text_def)

end
