(* ===== verification/Circuit_Breaker.thy ===== *)
theory Circuit_Breaker
  imports Exceptions Complex_Main
begin

text \<open>
  \<open>src/utils/circuit_breaker.py\<close>: the circuit breaker of a provider and the registry of breakers.
  Every method runs under the breaker's lock, so it is one atomic step; \<open>time.monotonic()\<close> is
  the argument \<open>now\<close> of the methods that read it. The property \<open>state\<close> both reports and
  changes the state, so it returns the breaker as well. \<open>breaker_step\<close> is any interleaving of the
  methods by concurrent requests: \<open>allow_request\<close> of one request may fall between
  \<open>allow_request\<close> and \<open>record_success\<close> of another.
\<close>

section \<open>The breaker\<close>

datatype circuit_state = CLOSED | OPEN | HALF_OPEN

record breaker =
  failure_threshold :: int
  recovery_timeout :: rat
  success_threshold :: int
  failures :: int
  successes_half_open :: int
  last_failure_time :: rat
  cb_state :: circuit_state

text \<open>\<open>int(x)\<close> of a float: towards zero.\<close>

definition py_trunc :: "rat \<Rightarrow> int" where
  "py_trunc r = (if 0 \<le> r then floor r else - floor (- r))"

definition new_breaker :: "int \<Rightarrow> rat \<Rightarrow> int \<Rightarrow> breaker" where
  "new_breaker threshold recovery success =
     \<lparr>failure_threshold = threshold, recovery_timeout = recovery, success_threshold = success,
      failures = 0, successes_half_open = 0, last_failure_time = 0, cb_state = CLOSED\<rparr>"

definition default_breaker :: breaker where
  "default_breaker = new_breaker 5 30 2"

definition read_state :: "rat \<Rightarrow> breaker \<Rightarrow> circuit_state \<times> breaker" where
  "read_state now b =
    (let b' = (if cb_state b = OPEN \<and> recovery_timeout b \<le> now - last_failure_time b
               then b\<lparr>cb_state := HALF_OPEN, successes_half_open := 0\<rparr> else b)
     in (cb_state b', b'))"

definition allow_request :: "rat \<Rightarrow> breaker \<Rightarrow> (exn + bool) \<times> breaker" where
  "allow_request now b =
    (case read_state now b of (st, b') \<Rightarrow>
       (if st = OPEN
        then (Inl (Integration \<lparr>err_class = CircuitBreakerOpen,
                     err_message = ''provider circuit breaker is open'', err_provider = None,
                     err_details = [(''recovery_ms'', JInt (py_trunc (recovery_timeout b' * 1000)))]\<rparr>), b')
        else (Inr True, b')))"

definition record_success :: "breaker \<Rightarrow> breaker" where
  "record_success b =
    (if cb_state b = HALF_OPEN then
       (let n = successes_half_open b + 1 in
        if success_threshold b \<le> n
        then b\<lparr>cb_state := CLOSED, failures := 0, successes_half_open := 0\<rparr>
        else b\<lparr>successes_half_open := n\<rparr>)
     else b\<lparr>failures := 0\<rparr>)"

definition record_failure :: "rat \<Rightarrow> breaker \<Rightarrow> breaker" where
  "record_failure now b =
    (let n = failures b + 1;
         b' = b\<lparr>failures := n, last_failure_time := now\<rparr>
     in if failure_threshold b \<le> n then b'\<lparr>cb_state := OPEN\<rparr> else b')"

definition reset_breaker :: "breaker \<Rightarrow> breaker" where
  "reset_breaker b = b\<lparr>cb_state := CLOSED, failures := 0, successes_half_open := 0\<rparr>"

section \<open>The registry of breakers\<close>

type_synonym breakers = "breaker dict"

definition breaker_for :: "string \<Rightarrow> breakers \<Rightarrow> breaker \<times> breakers" where
  "breaker_for p bs = (case dget bs p of
      Some b \<Rightarrow> (b, bs)
    | None \<Rightarrow> (default_breaker, dset p default_breaker bs))"

definition reset_all :: "breakers \<Rightarrow> breakers" where
  "reset_all bs = map (\<lambda>(p, b). (p, reset_breaker b)) bs"

section \<open>Steps and the invariant\<close>

datatype breaker_event = Allow rat | Success | Failure rat | Reset

fun breaker_step :: "breaker_event \<Rightarrow> breaker \<Rightarrow> breaker" where
  "breaker_step (Allow now) b = snd (allow_request now b)"
| "breaker_step Success b = record_success b"
| "breaker_step (Failure now) b = record_failure now b"
| "breaker_step Reset b = reset_breaker b"

text \<open>
  What every interleaving keeps: the counters stay in range, a closed breaker is below its
  failure threshold, a half-open one has fewer probe successes than it takes to close it.
\<close>

definition breaker_ok :: "breaker \<Rightarrow> bool" where
  "breaker_ok b \<longleftrightarrow>
     0 < failure_threshold b \<and> 0 < success_threshold b \<and> 0 \<le> failures b \<and>
     0 \<le> successes_half_open b \<and>
     (cb_state b = CLOSED \<longrightarrow> failures b < failure_threshold b) \<and>
     (cb_state b = HALF_OPEN \<longrightarrow> successes_half_open b < success_threshold b)"

lemmas breaker_defs =
  read_state_def allow_request_def record_success_def record_failure_def reset_breaker_def

lemma breaker_ok_step: "breaker_ok b \<Longrightarrow> breaker_ok (breaker_step ev b)"
  by (cases ev) (auto simp: breaker_ok_def breaker_defs Let_def)

interpretation breaker: machine breaker_step breaker_ok
  by unfold_locales (rule breaker_ok_step)

lemma breaker_ok_default: "breaker_ok default_breaker"
  by (simp add: breaker_ok_def default_breaker_def new_breaker_def)

text \<open>The configuration of a breaker never changes.\<close>

lemma breaker_config [simp]:
  "failure_threshold (breaker_step ev b) = failure_threshold b"
  "success_threshold (breaker_step ev b) = success_threshold b"
  "recovery_timeout (breaker_step ev b) = recovery_timeout b"
  by (cases ev; simp add: breaker_defs Let_def)+

lemma breaker_config_run [simp]:
  "failure_threshold (fold breaker_step evs b) = failure_threshold b"
  "success_threshold (fold breaker_step evs b) = success_threshold b"
  "recovery_timeout (fold breaker_step evs b) = recovery_timeout b"
  by (induction evs arbitrary: b) simp_all

text \<open>Requests are refused exactly while the breaker is open and the recovery time has not passed.\<close>

lemma allow_request_refuses:
  "(\<exists>e. fst (allow_request now b) = Inl e) \<longleftrightarrow>
     cb_state b = OPEN \<and> now - last_failure_time b < recovery_timeout b"
  by (auto simp: allow_request_def read_state_def Let_def)

lemma allow_request_error:
  "fst (allow_request now b) = Inl e \<Longrightarrow> is_a e CircuitBreakerOpen"
  by (auto simp: allow_request_def is_a_def split: prod.splits if_splits)

text \<open>\<open>n\<close> failures in a row.\<close>

fun fail_times :: "rat list \<Rightarrow> breaker \<Rightarrow> breaker" where
  "fail_times [] b = b"
| "fail_times (t # ts) b = fail_times ts (record_failure t b)"

lemma fail_times_failures [simp]:
  "failures (fail_times ts b) = failures b + int (length ts)"
  "failure_threshold (fail_times ts b) = failure_threshold b"
  "recovery_timeout (fail_times ts b) = recovery_timeout b"
  by (induction ts arbitrary: b) (simp_all add: record_failure_def Let_def)

lemma fail_times_state:
  "cb_state (fail_times ts b) =
     (if ts \<noteq> [] \<and> failure_threshold b \<le> failures b + int (length ts) then OPEN else cb_state b)"
proof (induction ts arbitrary: b)
  case (Cons t ts)
  have "failures (record_failure t b) = failures b + 1"
    and "failure_threshold (record_failure t b) = failure_threshold b"
    by (simp_all add: record_failure_def Let_def)
  with Cons[of "record_failure t b"] show ?case
    by (auto simp: record_failure_def Let_def split: if_splits)
qed simp

lemma fail_times_last: "ts \<noteq> [] \<Longrightarrow> last_failure_time (fail_times ts b) = last ts"
proof (induction ts arbitrary: b)
  case (Cons t ts)
  then show ?case
    by (cases ts) (simp_all add: record_failure_def Let_def)
qed simp

text \<open>Successes in a row while half-open.\<close>

lemma half_open_successes:
  "cb_state b = HALF_OPEN \<Longrightarrow> successes_half_open b + int n < success_threshold b \<Longrightarrow>
     (record_success ^^ n) b = b\<lparr>successes_half_open := successes_half_open b + int n\<rparr>"
  by (induction n) (simp_all add: record_success_def Let_def)

text \<open>The default breaker after five failures, one per second.\<close>

definition tripped_breaker :: breaker where
  "tripped_breaker = fail_times [1, 2, 3, 4, 5] default_breaker"

lemma tripped_breaker [simp]:
  "breaker_ok tripped_breaker" "cb_state tripped_breaker = OPEN" "failures tripped_breaker = 5"
  "failure_threshold tripped_breaker = 5" "recovery_timeout tripped_breaker = 30"
  "success_threshold tripped_breaker = 2" "last_failure_time tripped_breaker = 5"
  by (simp_all add: tripped_breaker_def default_breaker_def new_breaker_def record_failure_def breaker_ok_def)

section \<open>Properties\<close>

text \<open>C27: Whatever the order in which concurrent requests call the methods of a breaker and an
  operator resets it, the counters stay in range: a closed breaker has fewer failures than its
  threshold, a half-open one fewer probe successes than it takes to close it, and the
  configuration is unchanged.\<close>

theorem breaker_run_invariant:
  assumes "breaker_ok b"
  shows "breaker_ok (fold breaker_step evs b)
    \<and> failure_threshold (fold breaker_step evs b) = failure_threshold b
    \<and> recovery_timeout (fold breaker_step evs b) = recovery_timeout b"
  using breaker.run_good[OF assms] by simp

theorem breaker_run_invariant_witness:
  "breaker_ok (fold breaker_step [Failure 1, Success, Allow 2, Failure 3, Reset] default_breaker)"
  using breaker_run_invariant[OF breaker_ok_default, of "[Failure 1, Success, Allow 2, Failure 3, Reset]"]
  by simp

text \<open>C9: A closed breaker trips exactly at its threshold: after \<open>n\<close> failures in a row it still
  admits requests if the count is below the threshold; otherwise every request is refused with
  \<open>CircuitBreakerOpen\<close> (HTTP 503) until the recovery time has passed since the last failure, and
  then one is admitted as a half-open probe.\<close>

theorem breaker_trips:
  assumes "cb_state b = CLOSED" and "ts \<noteq> []"
  defines "c \<equiv> fail_times ts b"
  shows "((\<exists>e. fst (allow_request now c) = Inl e \<and> is_a e CircuitBreakerOpen)
        \<longleftrightarrow> failure_threshold b \<le> failures b + int (length ts) \<and> now < last ts + recovery_timeout b)
    \<and> (failure_threshold b \<le> failures b + int (length ts) \<and> last ts + recovery_timeout b \<le> now
        \<longrightarrow> fst (allow_request now c) = Inr True \<and> cb_state (snd (allow_request now c)) = HALF_OPEN)"
proof -
  have c: "cb_state c = (if failure_threshold b \<le> failures b + int (length ts) then OPEN else CLOSED)"
    "last_failure_time c = last ts" "recovery_timeout c = recovery_timeout b"
    using assms by (simp_all add: fail_times_state fail_times_last)
  have "(\<exists>e. fst (allow_request now c) = Inl e \<and> is_a e CircuitBreakerOpen)
      \<longleftrightarrow> (\<exists>e. fst (allow_request now c) = Inl e)"
    using allow_request_error by blast
  then show ?thesis
    using allow_request_refuses[of now c] c
    by (auto simp: allow_request_def read_state_def Let_def)
qed

theorem breaker_trips_witness:
  "(\<exists>e. fst (allow_request 20 (fail_times [1, 2, 3, 4, 5] default_breaker)) = Inl e \<and> is_a e CircuitBreakerOpen)
   \<and> fst (allow_request 35 (fail_times [1, 2, 3, 4, 5] default_breaker)) = Inr True"
  using breaker_trips[of default_breaker "[1, 2, 3, 4, 5]" 20]
    breaker_trips[of default_breaker "[1, 2, 3, 4, 5]" 35]
  by (simp add: default_breaker_def new_breaker_def)

text \<open>After the recovery time an open breaker admits a probe; fewer successes than
  \<open>success_threshold\<close> leave it half-open, the one that completes the count closes it with no
  failures, and a failure while half-open opens it again when the failures that opened it are
  still counted.\<close>

theorem breaker_recovers:
  assumes "breaker_ok b" and "cb_state b = OPEN" and "last_failure_time b + recovery_timeout b \<le> now"
  defines "h \<equiv> snd (allow_request now b)"
  shows "(int n < success_threshold b \<longrightarrow>
        cb_state ((record_success ^^ n) h) = HALF_OPEN \<and> failures ((record_success ^^ n) h) = failures b)
    \<and> (int n = success_threshold b \<longrightarrow>
        cb_state ((record_success ^^ n) h) = CLOSED \<and> failures ((record_success ^^ n) h) = 0)
    \<and> (failure_threshold b \<le> failures b \<and> int n < success_threshold b \<longrightarrow>
        cb_state (record_failure t ((record_success ^^ n) h)) = OPEN)"
proof -
  have h: "cb_state h = HALF_OPEN" "successes_half_open h = 0" "failures h = failures b"
    "success_threshold h = success_threshold b" "failure_threshold h = failure_threshold b"
    using assms by (simp_all add: allow_request_def read_state_def Let_def)
  have below: "(record_success ^^ m) h = h\<lparr>successes_half_open := int m\<rparr>"
    if "int m < success_threshold b" for m
    using that half_open_successes[of h m] h by simp
  have "cb_state ((record_success ^^ n) h) = CLOSED \<and> failures ((record_success ^^ n) h) = 0"
    if n: "int n = success_threshold b"
  proof -
    obtain m where m: "n = Suc m"
      using n assms(1) by (cases n) (auto simp: breaker_ok_def)
    then show ?thesis
      using n below[of m] h by (simp add: record_success_def Let_def)
  qed
  then show ?thesis
    using below[of n] h by (simp add: record_failure_def Let_def)
qed

theorem breaker_recovers_witness:
  "cb_state ((record_success ^^ 2) (snd (allow_request 40 tripped_breaker))) = CLOSED
   \<and> cb_state (record_failure 41 ((record_success ^^ 1)
        (snd (allow_request 40 tripped_breaker)))) = OPEN"
  using breaker_recovers[of tripped_breaker 40 2 41]
    breaker_recovers[of tripped_breaker 40 1 41]
  by simp

text \<open>A request that was admitted before the breaker opened and succeeds afterwards clears the
  failure count of the open breaker; the failure of the next half-open probe then leaves it
  half-open, and requests keep being admitted to the failing provider.\<close>

theorem late_success_keeps_probing:
  assumes "breaker_ok b" and "cb_state b = OPEN" and "1 < failure_threshold b"
    and "last_failure_time b + recovery_timeout b \<le> now"
    and "c = fold breaker_step [Success, Allow now, Failure t] b"
  shows "cb_state c = HALF_OPEN \<and> fst (allow_request u c) = Inr True"
  using assms by (simp add: breaker_defs Let_def)

theorem late_success_keeps_probing_witness:
  "fst (allow_request 41 (fold breaker_step [Success, Allow 40, Failure 41]
     tripped_breaker)) = Inr True"
  using late_success_keeps_probing[OF _ _ _ _ refl, of tripped_breaker 40 41 41]
  by simp

end
