(* ===== verification/Base64.thy ===== *)
theory Base64
  imports Prelude
begin

text \<open>
  The part of the standard \<open>base64\<close> module the code uses, on byte strings (a byte is a \<open>char\<close>):
  \<open>urlsafe_b64encode\<close>, \<open>urlsafe_b64decode\<close> on text of its own alphabet, and
  \<open>OAuthService._base64url\<close> of \<open>src/services/oauth_service.py\<close>, the encoding with its padding
  stripped. The decoder is the inverse on encodings (\<open>b64decode_encode\<close>); the lengths and the
  alphabet of an encoding are what PKCE and the key checks rest on.
\<close>

section \<open>Sextets\<close>

definition b64_chars :: string where
  "b64_chars = ''ABCDEFGHIJKLMNOPQRSTUVWXYZabcdefghijklmnopqrstuvwxyz0123456789-_''"

definition b64_char :: "nat \<Rightarrow> char" where
  "b64_char n = b64_chars ! n"

fun index_of :: "'a \<Rightarrow> 'a list \<Rightarrow> nat option" where
  "index_of x [] = None"
| "index_of x (y # ys) = (if x = y then Some 0 else map_option Suc (index_of x ys))"

definition b64_val :: "char \<Rightarrow> nat option" where
  "b64_val c = index_of c b64_chars"

lemma index_of_nth: "distinct xs \<Longrightarrow> i < length xs \<Longrightarrow> index_of (xs ! i) xs = Some i"
  by (induction xs arbitrary: i) (auto simp: nth_Cons split: nat.splits)

lemma index_of_set: "index_of x xs = Some i \<Longrightarrow> i < length xs \<and> xs ! i = x"
  by (induction xs arbitrary: i) (auto split: if_splits)

lemma length_b64_chars: "length b64_chars = 64"
  by (simp add: b64_chars_def)

lemma distinct_b64_chars: "distinct b64_chars"
  by (simp add: b64_chars_def)

lemma b64_val_char [simp]: "n < 64 \<Longrightarrow> b64_val (b64_char n) = Some n"
  by (simp add: b64_val_def b64_char_def index_of_nth distinct_b64_chars length_b64_chars)

lemma b64_char_set: "n < 64 \<Longrightarrow> b64_char n \<in> set b64_chars"
  by (simp add: b64_char_def length_b64_chars)

section \<open>Encoding and decoding\<close>

abbreviation byte :: "char \<Rightarrow> nat" where
  "byte c \<equiv> of_char c"

fun b64encode :: "string \<Rightarrow> string" where
  "b64encode [] = []"
| "b64encode [a] =
     [b64_char (byte a div 4), b64_char (byte a mod 4 * 16), CHR ''='', CHR ''='']"
| "b64encode [a, b] =
     [b64_char (byte a div 4), b64_char (byte a mod 4 * 16 + byte b div 16),
      b64_char (byte b mod 16 * 4), CHR ''='']"
| "b64encode (a # b # c # s) =
     [b64_char (byte a div 4), b64_char (byte a mod 4 * 16 + byte b div 16),
      b64_char (byte b mod 16 * 4 + byte c div 64), b64_char (byte c mod 64)] @ b64encode s"

text \<open>Text that is no encoding, which Python refuses with \<open>binascii.Error\<close>, is \<open>None\<close>.\<close>

fun b64decode :: "string \<Rightarrow> string option" where
  "b64decode [] = Some []"
| "b64decode (p # q # r # t # s) =
     (case (b64_val p, b64_val q) of
        (Some i, Some j) \<Rightarrow>
          (if r = CHR ''='' \<and> t = CHR ''='' \<and> s = [] then Some [char_of (i * 4 + j div 16)]
           else (case b64_val r of
              None \<Rightarrow> None
            | Some k \<Rightarrow>
                (if t = CHR ''='' \<and> s = []
                 then Some [char_of (i * 4 + j div 16), char_of (j mod 16 * 16 + k div 4)]
                 else (case (b64_val t, b64decode s) of
                    (Some l, Some rest) \<Rightarrow>
                      Some (char_of (i * 4 + j div 16) # char_of (j mod 16 * 16 + k div 4)
                            # char_of (k mod 4 * 64 + l) # rest)
                  | _ \<Rightarrow> None))))
      | _ \<Rightarrow> None)"
| "b64decode s = None"

text \<open>\<open>encode(data).rstrip("=")\<close>.\<close>

definition base64url :: "string \<Rightarrow> string" where
  "base64url s = strip_while (\<lambda>c. c = CHR ''='') (b64encode s)"

section \<open>Facts\<close>

lemma byte_lt [simp]: "byte c < 256"
  by simp

lemma b64_char_ne_pad: "n < 64 \<Longrightarrow> b64_char n \<noteq> CHR ''=''"
proof
  assume n: "n < 64" and "b64_char n = CHR ''=''"
  then have "CHR ''='' \<in> set b64_chars"
    using b64_char_set[OF n] by simp
  then show False
    by (simp add: b64_chars_def)
qed

lemma byte_div [simp]: "byte c div 4 < 64" "byte c div 16 < 16" "byte c div 64 < 4"
  using byte_lt[of c] by (simp_all add: less_mult_imp_div_less)

lemma byte_div_div [simp]: "byte c div 16 div 16 = 0" "byte c div 64 div 4 = 0"
  by simp_all

lemma byte_div_mod [simp]: "byte c div 16 mod 16 = byte c div 16" "byte c div 64 mod 4 = byte c div 64"
  by simp_all

lemma sextet_bounds [simp]:
  "byte a mod 4 * 16 < 64" "byte a mod 4 * 16 + byte b div 16 < 64"
  "byte b mod 16 * 4 < 64" "byte b mod 16 * 4 + byte c div 64 < 64" "byte c mod 64 < 64"
proof -
  have m: "byte a mod 4 < 4" "byte b mod 16 < 16" "byte c mod 64 < 64"
    by simp_all
  show "byte a mod 4 * 16 < 64" and "byte b mod 16 * 4 < 64" and "byte c mod 64 < 64"
    using m by linarith+
  show "byte a mod 4 * 16 + byte b div 16 < 64" and "byte b mod 16 * 4 + byte c div 64 < 64"
    using m byte_div(2)[of b] byte_div(3)[of c] by linarith+
qed

theorem b64decode_encode: "b64decode (b64encode s) = Some s"
  by (induction s rule: b64encode.induct) (simp_all add: b64_char_ne_pad)

lemma length_b64encode: "length (b64encode s) = 4 * ((length s + 2) div 3)"
proof (induction s rule: b64encode.induct)
  case (4 a b c s)
  have "(length (a # b # c # s) + 2) div 3 = Suc ((length s + 2) div 3)"
    using div_add_self1[of 3 "length s + 2"] by simp
  with 4 show ?case
    by simp
qed simp_all

lemma set_b64encode: "set (b64encode s) \<subseteq> insert (CHR ''='') (set b64_chars)"
  by (induction s rule: b64encode.induct) (simp_all add: b64_char_set)

lemma b64encode_no_pad: "length s mod 3 = 0 \<Longrightarrow> CHR ''='' \<notin> set (b64encode s)"
proof (induction s rule: b64encode.induct)
  case (4 a b c s)
  then have "length s mod 3 = 0"
    using mod_add_self1[of 3 "length s"] by simp
  with 4 show ?case
    using b64_char_ne_pad by (simp add: eq_commute[of "CHR ''=''"])
qed simp_all

lemma strip_while_none: "c \<notin> set s \<Longrightarrow> strip_while (\<lambda>d. d = c) s = s"
proof -
  assume c: "c \<notin> set s"
  have "dropWhile (\<lambda>d. d = c) (rev s) = rev s"
  proof (cases "rev s")
    case (Cons x xs)
    then have "x \<in> set s"
      by (metis list.set_intros(1) set_rev)
    with c Cons show ?thesis
      by auto
  qed simp
  then show ?thesis
    by (simp add: strip_while_def)
qed

lemma base64url_no_pad:
  assumes "length s mod 3 = 0"
  shows "length (base64url s) = 4 * (length s div 3) \<and> set (base64url s) \<subseteq> set b64_chars"
proof -
  have pad: "CHR ''='' \<notin> set (b64encode s)"
    using assms by (rule b64encode_no_pad)
  then have "base64url s = b64encode s"
    unfolding base64url_def by (rule strip_while_none)
  moreover obtain k where "length s = 3 * k"
    using assms by (auto elim: dvdE simp: mod_eq_0_iff_dvd)
  ultimately show ?thesis
    using set_b64encode[of s] pad by (auto simp: length_b64encode)
qed

end
