(* ===== verification/World.thy ===== *)
theory World
  imports Circuit_Breaker Settings
begin

text \<open>
  The world the services act on: the tables of \<open>src/models/__init__.py\<close>, one record per model with
  its columns, the SQLAlchemy session of \<open>src/database/database.py\<close>, Redis, the registry of circuit
  breakers, the metrics and the HTTP requests sent; and the environment the code reads: settings,
  cryptography, clock, randomness, the network.

  \<^item> A time is an \<open>int\<close>, microseconds since the epoch in UTC; \<open>datetime.now(UTC)\<close> is the
    \<open>n\<close>-th reading of the clock, \<open>n\<close> counted in \<open>ticks\<close>. Random values are numbered by
    \<open>entropy\<close> in the same way.
  \<^item> \<open>db\<close> is what the session sees: the committed rows with the session's own changes.
    \<open>commit\<close> checks the constraints of the tables and stores \<open>db\<close>; \<open>rollback\<close> and the end of a
    session drop what is not committed. A session runs alone between two commits.
  \<^item> The \<open>updated_at\<close> that the server sets (\<open>onupdate\<close>) on an update that does not assign it is not
    followed; no operation reads it.
  \<^item> An ORM object is the row with its primary key: an assignment to an attribute is an update of
    that row in \<open>db\<close>.
\<close>

section \<open>Rows\<close>

type_synonym time = int

record workspace_row =
  ws_id :: string
  ws_name :: string
  ws_owner :: "string option"
  ws_metadata :: "json dict"
  ws_active :: bool

record connection =
  conn_id :: string
  conn_workspace :: string
  conn_provider :: string
  conn_status :: string
  conn_encrypted :: "string option"
  conn_scopes :: "string list"
  conn_metadata :: "json dict"
  conn_created_by :: "string option"
  conn_connected_at :: "time option"
  conn_last_synced_at :: "time option"
  conn_expires_at :: "time option"
  conn_active :: bool
  conn_created_at :: time
  conn_updated_at :: time

record credential =
  cred_id :: string
  cred_workspace :: string
  cred_provider :: string
  cred_name :: string
  cred_blob :: string
  cred_hash :: "string option"
  cred_expires_at :: "time option"
  cred_created_at :: time
  cred_updated_at :: time

record oauth_state =
  ost_id :: string
  ost_workspace :: string
  ost_provider :: string
  ost_token :: string
  ost_verifier :: "string option"
  ost_redirect :: "string option"
  ost_scopes :: "string list"
  ost_expires_at :: time
  ost_consumed :: bool

record subscription =
  sub_id :: string
  sub_workspace :: string
  sub_provider :: string
  sub_target :: string
  sub_secret :: "string option"
  sub_events :: "string list"
  sub_metadata :: "json dict"
  sub_active :: bool
  sub_max_retries :: int
  sub_created_at :: time

record webhook_event =
  ev_id :: string
  ev_workspace :: string
  ev_provider :: string
  ev_type :: "string option"
  ev_dedup :: "string option"
  ev_payload :: "json dict"
  ev_headers :: "string dict"
  ev_status :: string
  ev_delivered_at :: "time option"
  ev_attempts :: int
  ev_created_at :: time

record delivery =
  del_id :: string
  del_event :: string
  del_subscription :: string
  del_attempt :: int
  del_status_code :: "int option"
  del_body :: "string option"
  del_success :: bool

record audit_row =
  aud_id :: string
  aud_workspace :: string
  aud_actor :: "string option"
  aud_provider :: "string option"
  aud_action :: string
  aud_resource :: "string option"
  aud_details :: "json dict"
  aud_ip :: "string option"
  aud_outcome :: string
  aud_created_at :: time

record database =
  workspaces :: "workspace_row list"
  connections :: "connection list"
  credentials :: "credential list"
  oauth_states :: "oauth_state list"
  subscriptions :: "subscription list"
  webhook_events :: "webhook_event list"
  deliveries :: "delivery list"
  audit_logs :: "audit_row list"

text \<open>
  The constraints the tables declare: primary keys, the unique constraints of connections and
  credentials, the unique indexes on \<open>state_token\<close> and \<open>dedup_key\<close> (several rows may have none), the
  columns declared \<open>nullable=False\<close> are those without \<open>option\<close>; and the foreign keys to
  \<open>workspaces.id\<close>, which PostgreSQL enforces.
\<close>

definition unique_ok :: "database \<Rightarrow> bool" where
  "unique_ok d \<longleftrightarrow>
     distinct (map ws_id (workspaces d)) \<and>
     distinct (map conn_id (connections d)) \<and>
     distinct (map (\<lambda>c. (conn_workspace c, conn_provider c)) (connections d)) \<and>
     distinct (map cred_id (credentials d)) \<and>
     distinct (map (\<lambda>c. (cred_workspace c, cred_provider c, cred_name c)) (credentials d)) \<and>
     distinct (map ost_id (oauth_states d)) \<and>
     distinct (map ost_token (oauth_states d)) \<and>
     distinct (map sub_id (subscriptions d)) \<and>
     distinct (map ev_id (webhook_events d)) \<and>
     distinct (filter (\<lambda>k. k \<noteq> None) (map ev_dedup (webhook_events d))) \<and>
     distinct (map del_id (deliveries d)) \<and>
     distinct (map aud_id (audit_logs d))"

definition foreign_ok :: "database \<Rightarrow> bool" where
  "foreign_ok d \<longleftrightarrow>
     list_all (\<lambda>c. conn_workspace c \<in> set (map ws_id (workspaces d))) (connections d) \<and>
     list_all (\<lambda>c. cred_workspace c \<in> set (map ws_id (workspaces d))) (credentials d) \<and>
     list_all (\<lambda>s. sub_workspace s \<in> set (map ws_id (workspaces d))) (subscriptions d)"

definition db_ok :: "bool \<Rightarrow> database \<Rightarrow> bool" where
  "db_ok foreign d \<longleftrightarrow> unique_ok d \<and> (foreign \<longrightarrow> foreign_ok d)"

definition empty_db :: database where
  "empty_db = \<lparr>workspaces = [], connections = [], credentials = [], oauth_states = [],
     subscriptions = [], webhook_events = [], deliveries = [], audit_logs = []\<rparr>"

section \<open>The world and its environment\<close>

datatype body =
    NoBody
  | JsonBody json
  | FormBody "json dict"
  | Content string
  | Multipart "json dict" "(string \<times> string \<times> string) list"

record request =
  req_method :: string
  req_url :: string
  req_params :: "json dict"
  req_body :: body
  req_headers :: "string dict"
  req_auth :: "(string \<times> string) option"

text \<open>
  \<open>http_json\<close> is what \<open>response.json()\<close> returns or raises; \<open>http_headers\<close> are the headers of the
  response under lower-case names, since httpx looks a name up without regard to its case.
\<close>

record http_response =
  http_status :: int
  http_text :: string
  http_json :: "exn + json"
  http_headers :: "string dict"

datatype metric =
    ProviderCall string bool
  | WebhookReceived string
  | WebhookDelivered string bool
  | WebhookRetry string
  | OAuthRefresh string
  | ApiRequest string string int

text \<open>\<open>redis\<close>: the value of each key and the time it expires, if it does.\<close>

datatype redis_value = RStr string | RList "string list"

record world =
  db :: database
  committed :: database
  redis :: "(redis_value \<times> time option) dict"
  breakers :: breakers
  metrics :: "metric list"
  sent :: "request list"
  ticks :: nat
  entropy :: nat

text \<open>
  \<open>http\<close> is the network: the answer to a request may depend on the requests before it;
  an \<open>Inl\<close> is an exception of httpx, of class \<open>HTTPError\<close>. \<open>gethostbyname\<close> is the resolver,
  \<open>redis_error n\<close> the exception of a Redis command issued at the \<open>n\<close>-th reading of the clock, if any.
  \<open>jwt_encode claims secret algorithm\<close> and \<open>jwt_decode now token secret algorithm audience issuer\<close>
  are \<open>jose.jwt\<close>, which writes a time as whole seconds.
\<close>

record env =
  settings_of :: settings
  crypto_of :: crypto
  clock :: "nat \<Rightarrow> time"
  uuid :: "nat \<Rightarrow> string"
  token_urlsafe :: "nat \<Rightarrow> string"
  token_bytes :: "nat \<Rightarrow> nat \<Rightarrow> string"
  http :: "request list \<Rightarrow> request \<Rightarrow> exn + http_response"
  gethostbyname :: "string \<Rightarrow> exn + string"
  redis_error :: "nat \<Rightarrow> exn option"
  jwt_encode :: "json dict \<Rightarrow> string \<Rightarrow> string \<Rightarrow> string"
  jwt_decode :: "time \<Rightarrow> string \<Rightarrow> string \<Rightarrow> string \<Rightarrow> string \<Rightarrow> string \<Rightarrow> exn + json dict"

type_synonym 'a act = "(world, exn, 'a) proc"

definition empty_world :: world where
  "empty_world = \<lparr>db = empty_db, committed = empty_db, redis = [], breakers = [], metrics = [],
     sent = [], ticks = 0, entropy = 0\<rparr>"

definition now_utc :: "env \<Rightarrow> time act" where
  "now_utc E = (\<lambda>w. (Inr (clock E (ticks w)), w\<lparr>ticks := ticks w + 1\<rparr>))"

definition fresh :: "(nat \<Rightarrow> 'a) \<Rightarrow> 'a act" where
  "fresh source = (\<lambda>w. (Inr (source (entropy w)), w\<lparr>entropy := entropy w + 1\<rparr>))"

definition emit :: "metric \<Rightarrow> unit act" where
  "emit m = modify (\<lambda>w. w\<lparr>metrics := metrics w @ [m]\<rparr>)"

text \<open>One HTTP request over \<open>httpx.AsyncClient\<close>.\<close>

definition http_send :: "env \<Rightarrow> request \<Rightarrow> http_response act" where
  "http_send E r = (\<lambda>w. (http E (sent w) r, w\<lparr>sent := sent w @ [r]\<rparr>))"

section \<open>The session\<close>

definition foreign_keys :: "env \<Rightarrow> bool" where
  "foreign_keys E \<longleftrightarrow> startswith (database_url (settings_of E)) ''postgresql''"

definition commit :: "env \<Rightarrow> unit act" where
  "commit E = (\<lambda>w.
     if db_ok (foreign_keys E) (db w) then (Inr (), w\<lparr>committed := db w\<rparr>)
     else (Inl (Builtin IntegrityError []), w\<lparr>db := committed w\<rparr>))"

definition rollback :: "unit act" where
  "rollback = modify (\<lambda>w. w\<lparr>db := committed w\<rparr>)"

text \<open>
  \<open>get_db\<close> around a request, and \<open>async with async_session_factory()\<close> around a task: the session
  starts from the committed rows, and what it did not commit is gone at its end.
\<close>

definition with_session :: "'a act \<Rightarrow> 'a act" where
  "with_session m = thn rollback (ensure m rollback)"

definition get_db :: "'a act \<Rightarrow> 'a act" where
  "get_db m = with_session (catch m (\<lambda>e. thn rollback (raise e)))"

text \<open>\<open>result.scalar_one_or_none()\<close>.\<close>

definition one_or_none :: "'r list \<Rightarrow> 'r option act" where
  "one_or_none rows = (case rows of
      [] \<Rightarrow> ret None
    | [r] \<Rightarrow> ret (Some r)
    | _ \<Rightarrow> raise (Builtin MultipleResultsFound
        ''Multiple rows were found when one or none was required''))"

definition select :: "(database \<Rightarrow> 'r list) \<Rightarrow> ('r \<Rightarrow> bool) \<Rightarrow> 'r list act" where
  "select table wher = gets (\<lambda>w. filter wher (table (db w)))"

definition on_db :: "(database \<Rightarrow> database) \<Rightarrow> unit act" where
  "on_db f = modify (\<lambda>w. w\<lparr>db := f (db w)\<rparr>)"

text \<open>An assignment to the attributes of the row with key \<open>i\<close>.\<close>

definition update_rows :: "('r \<Rightarrow> string) \<Rightarrow> string \<Rightarrow> ('r \<Rightarrow> 'r) \<Rightarrow> 'r list \<Rightarrow> 'r list" where
  "update_rows key i f rows = map (\<lambda>r. if key r = i then f r else r) rows"

abbreviation change_connection :: "string \<Rightarrow> (connection \<Rightarrow> connection) \<Rightarrow> database \<Rightarrow> database" where
  "change_connection i f d \<equiv> d\<lparr>connections := update_rows conn_id i f (connections d)\<rparr>"

definition update_connection :: "string \<Rightarrow> (connection \<Rightarrow> connection) \<Rightarrow> unit act" where
  "update_connection i f = on_db (change_connection i f)"

definition update_credential :: "string \<Rightarrow> (credential \<Rightarrow> credential) \<Rightarrow> unit act" where
  "update_credential i f = on_db (\<lambda>d. d\<lparr>credentials := update_rows cred_id i f (credentials d)\<rparr>)"

definition update_state :: "string \<Rightarrow> (oauth_state \<Rightarrow> oauth_state) \<Rightarrow> unit act" where
  "update_state i f = on_db (\<lambda>d. d\<lparr>oauth_states := update_rows ost_id i f (oauth_states d)\<rparr>)"

definition update_event :: "string \<Rightarrow> (webhook_event \<Rightarrow> webhook_event) \<Rightarrow> unit act" where
  "update_event i f = on_db (\<lambda>d. d\<lparr>webhook_events := update_rows ev_id i f (webhook_events d)\<rparr>)"

definition update_subscription :: "string \<Rightarrow> (subscription \<Rightarrow> subscription) \<Rightarrow> unit act" where
  "update_subscription i f =
     on_db (\<lambda>d. d\<lparr>subscriptions := update_rows sub_id i f (subscriptions d)\<rparr>)"

text \<open>\<open>session.delete(row)\<close> and \<open>session.add(row)\<close> per table.\<close>

definition add_connection :: "connection \<Rightarrow> unit act" where
  "add_connection r = on_db (\<lambda>d. d\<lparr>connections := connections d @ [r]\<rparr>)"

definition add_credential :: "credential \<Rightarrow> unit act" where
  "add_credential r = on_db (\<lambda>d. d\<lparr>credentials := credentials d @ [r]\<rparr>)"

definition delete_credential :: "string \<Rightarrow> unit act" where
  "delete_credential i =
     on_db (\<lambda>d. d\<lparr>credentials := filter (\<lambda>c. cred_id c \<noteq> i) (credentials d)\<rparr>)"

definition add_state :: "oauth_state \<Rightarrow> unit act" where
  "add_state r = on_db (\<lambda>d. d\<lparr>oauth_states := oauth_states d @ [r]\<rparr>)"

definition delete_state :: "string \<Rightarrow> unit act" where
  "delete_state i = on_db (\<lambda>d. d\<lparr>oauth_states := filter (\<lambda>c. ost_id c \<noteq> i) (oauth_states d)\<rparr>)"

definition add_subscription :: "subscription \<Rightarrow> unit act" where
  "add_subscription r = on_db (\<lambda>d. d\<lparr>subscriptions := subscriptions d @ [r]\<rparr>)"

definition add_event :: "webhook_event \<Rightarrow> unit act" where
  "add_event r = on_db (\<lambda>d. d\<lparr>webhook_events := webhook_events d @ [r]\<rparr>)"

definition add_delivery :: "delivery \<Rightarrow> unit act" where
  "add_delivery r = on_db (\<lambda>d. d\<lparr>deliveries := deliveries d @ [r]\<rparr>)"

definition add_audit :: "audit_row \<Rightarrow> unit act" where
  "add_audit r = on_db (\<lambda>d. d\<lparr>audit_logs := audit_logs d @ [r]\<rparr>)"

text \<open>\<open>order_by(created_at.desc())\<close>; rows of the same time stay in table order.\<close>

definition newest_first :: "('r \<Rightarrow> time) \<Rightarrow> 'r list \<Rightarrow> 'r list" where
  "newest_first created rows = sort_key (\<lambda>r. - created r) rows"

section \<open>Facts\<close>

text \<open>
  \<open>everywhere P\<close>: both what the session sees and what is committed satisfy \<open>P\<close>. What a procedure
  keeps of the rows it keeps everywhere, since a commit copies and a rollback restores.
\<close>

definition everywhere :: "(database \<Rightarrow> bool) \<Rightarrow> world \<Rightarrow> bool" where
  "everywhere P w \<longleftrightarrow> P (db w) \<and> P (committed w)"

lemma keeps_commit [keeps_rules]: "keeps (everywhere P) (commit E)"
  by (simp add: keeps_def everywhere_def commit_def)

lemma keeps_rollback [keeps_rules]: "keeps (everywhere P) rollback"
  by (simp add: keeps_def everywhere_def rollback_def modify_def)

lemma keeps_on_db [keeps_rules]: "(\<And>d. P d \<Longrightarrow> P (f d)) \<Longrightarrow> keeps (everywhere P) (on_db f)"
  by (simp add: keeps_def everywhere_def on_db_def modify_def)

lemma keeps_now_utc [keeps_rules]: "keeps (everywhere P) (now_utc E)"
  by (simp add: keeps_def everywhere_def now_utc_def)

lemma keeps_fresh [keeps_rules]: "keeps (everywhere P) (fresh g)"
  by (simp add: keeps_def everywhere_def fresh_def)

lemma keeps_emit [keeps_rules]: "keeps (everywhere P) (emit m)"
  by (simp add: keeps_def everywhere_def emit_def modify_def)

lemma keeps_http_send [keeps_rules]: "keeps (everywhere P) (http_send E r)"
  by (simp add: keeps_def everywhere_def http_send_def)

lemma keeps_select [keeps_rules]: "keeps I (select table wher)"
  by (simp add: select_def keeps_gets)

lemma keeps_one_or_none [keeps_rules]: "keeps I (one_or_none rows)"
  unfolding one_or_none_def by (intro keeps_rules)

lemma keeps_with_session [keeps_rules]: "keeps (everywhere P) m \<Longrightarrow> keeps (everywhere P) (with_session m)"
  unfolding with_session_def by (intro keeps_rules)

lemma keeps_get_db [keeps_rules]: "keeps (everywhere P) m \<Longrightarrow> keeps (everywhere P) (get_db m)"
  unfolding get_db_def by (intro keeps_rules)

text \<open>A commit either stores everything the session changed or fails and keeps nothing of it.\<close>

lemma commit_ok: "db_ok (foreign_keys E) (db w) \<Longrightarrow> commit E w = (Inr (), w\<lparr>committed := db w\<rparr>)"
  by (simp add: commit_def)

lemma commit_fails:
  "\<not> db_ok (foreign_keys E) (db w) \<Longrightarrow> commit E w = (Inl (Builtin IntegrityError []), w\<lparr>db := committed w\<rparr>)"
  by (simp add: commit_def)

text \<open>The committed rows satisfy the constraints after every procedure that only commits.\<close>

definition consistent :: "env \<Rightarrow> world \<Rightarrow> bool" where
  "consistent E w \<longleftrightarrow> db_ok (foreign_keys E) (committed w)"

lemma consistent_commit [keeps_rules]: "keeps (consistent E) (commit E)"
  by (simp add: keeps_def consistent_def commit_def)

lemma consistent_simple [keeps_rules]:
  "keeps (consistent E) rollback" "keeps (consistent E) (on_db f)" "keeps (consistent E) (now_utc E')"
  "keeps (consistent E) (fresh g)" "keeps (consistent E) (emit m)" "keeps (consistent E) (http_send E' r)"
  by (simp_all add: keeps_def consistent_def rollback_def on_db_def modify_def now_utc_def fresh_def
      emit_def http_send_def)

lemma consistent_with_session [keeps_rules]: "keeps (consistent E) m \<Longrightarrow> keeps (consistent E) (with_session m)"
  unfolding with_session_def by (intro keeps_rules)

lemma update_rows_id: "(\<And>r. key (f r) = key r) \<Longrightarrow> map key (update_rows key i f rows) = map key rows"
  by (simp add: update_rows_def)

lemma map_update_rows: "(\<And>r. g (f r) = g r) \<Longrightarrow> map g (update_rows key i f rows) = map g rows"
  by (simp add: update_rows_def)

lemma list_all_update_rows:
  "(\<And>r. g (f r) = g r) \<Longrightarrow>
     list_all (\<lambda>c. g c \<in> A) (update_rows key i f rows) = list_all (\<lambda>c. g c \<in> A) rows"
  by (induction rows) (simp_all add: update_rows_def)

lemma filter_update_rows_other:
  assumes "\<And>r. P (f r) = P r" and "\<And>r. r \<in> set rows \<Longrightarrow> key r = i \<Longrightarrow> \<not> P r"
  shows "filter P (update_rows key i f rows) = filter P rows"
  using assms(2) by (induction rows) (auto simp: update_rows_def assms(1))

lemma key_unique:
  "distinct (map key rows) \<Longrightarrow> r \<in> set rows \<Longrightarrow> q \<in> set rows \<Longrightarrow> key q = key r \<Longrightarrow> q = r"
  by (meson distinct_map inj_onD)

lemma filter_key:
  "distinct (map key rows) \<Longrightarrow> r \<in> set rows \<Longrightarrow> filter (\<lambda>x. key x = key r) rows = [r]"
  by (induction rows) (auto simp: image_iff filter_empty_conv)

lemma db_ok_parts:
  "db_ok b d \<Longrightarrow> distinct (map cred_id (credentials d))"
  "db_ok b d \<Longrightarrow> distinct (map conn_id (connections d))"
  "db_ok b d \<Longrightarrow> distinct (map ost_id (oauth_states d))"
  "db_ok b d \<Longrightarrow> distinct (map ost_token (oauth_states d))"
  "db_ok b d \<Longrightarrow> distinct (map sub_id (subscriptions d))"
  "db_ok b d \<Longrightarrow> distinct (map ev_id (webhook_events d))"
  "db_ok b d \<Longrightarrow> distinct (map (\<lambda>c. (conn_workspace c, conn_provider c)) (connections d))"
  "db_ok b d \<Longrightarrow> distinct (map (\<lambda>c. (cred_workspace c, cred_provider c, cred_name c)) (credentials d))"
  by (simp_all add: db_ok_def unique_ok_def)

lemma db_ok_add_credential:
  "db_ok b d \<Longrightarrow> db_ok b (d\<lparr>credentials := credentials d @ [r]\<rparr>) \<longleftrightarrow>
     cred_id r \<notin> set (map cred_id (credentials d)) \<and>
     (cred_workspace r, cred_provider r, cred_name r)
       \<notin> set (map (\<lambda>c. (cred_workspace c, cred_provider c, cred_name c)) (credentials d)) \<and>
     (b \<longrightarrow> cred_workspace r \<in> set (map ws_id (workspaces d)))"
  by (auto simp: db_ok_def unique_ok_def foreign_ok_def)

lemma db_ok_duplicate_credential:
  "(cred_workspace r, cred_provider r, cred_name r)
     \<in> set (map (\<lambda>c. (cred_workspace c, cred_provider c, cred_name c)) (credentials d)) \<Longrightarrow>
   \<not> db_ok b (d\<lparr>credentials := credentials d @ [r]\<rparr>)"
  by (auto simp: db_ok_def unique_ok_def)

lemma db_ok_update_credential:
  assumes "\<And>c. cred_id (f c) = cred_id c" "\<And>c. cred_workspace (f c) = cred_workspace c"
    "\<And>c. cred_provider (f c) = cred_provider c" "\<And>c. cred_name (f c) = cred_name c"
  shows "db_ok b (d\<lparr>credentials := update_rows cred_id i f (credentials d)\<rparr>) = db_ok b d"
  by (simp add: db_ok_def unique_ok_def foreign_ok_def map_update_rows list_all_update_rows assms)

lemma db_ok_update_connection:
  assumes "\<And>c. conn_id (f c) = conn_id c" "\<And>c. conn_workspace (f c) = conn_workspace c"
    "\<And>c. conn_provider (f c) = conn_provider c"
  shows "db_ok b (d\<lparr>connections := update_rows conn_id i f (connections d)\<rparr>) = db_ok b d"
  by (simp add: db_ok_def unique_ok_def foreign_ok_def map_update_rows list_all_update_rows assms)

lemma db_ok_update_state:
  assumes "\<And>c. ost_id (f c) = ost_id c" "\<And>c. ost_token (f c) = ost_token c"
  shows "db_ok b (d\<lparr>oauth_states := update_rows ost_id i f (oauth_states d)\<rparr>) = db_ok b d"
  by (simp add: db_ok_def unique_ok_def foreign_ok_def map_update_rows assms)

lemma db_ok_update_event:
  assumes "\<And>c. ev_id (f c) = ev_id c" "\<And>c. ev_dedup (f c) = ev_dedup c"
  shows "db_ok b (d\<lparr>webhook_events := update_rows ev_id i f (webhook_events d)\<rparr>) = db_ok b d"
  by (simp add: db_ok_def unique_ok_def foreign_ok_def map_update_rows assms)

text \<open>
  \<open>steady g m\<close>: when \<open>m\<close> returns, the session sees the same \<open>g\<close> of the rows as before; a failing
  \<open>m\<close> may have been rolled back.
\<close>

named_theorems steady_rules \<open>introduction rules for \<open>steady\<close>\<close>

definition steady :: "(database \<Rightarrow> 'x) \<Rightarrow> 'a act \<Rightarrow> bool" where
  "steady g m \<longleftrightarrow> (\<forall>w x w'. m w = (Inr x, w') \<longrightarrow> g (db w') = g (db w))"

lemma steadyD: "steady g m \<Longrightarrow> m w = (Inr x, w') \<Longrightarrow> g (db w') = g (db w)"
  by (simp add: steady_def)

lemma steady_basic [steady_rules]:
  "steady g (ret x)" "steady g (raise e)" "steady g (lift o1)" "steady g (gets f)" "steady g (now_utc E)"
  "steady g (fresh h)" "steady g (emit m)" "steady g (http_send E r)" "steady g (commit E)"
  "steady g (select table wher)"
  by (auto simp: steady_def ret_def raise_def lift_def gets_def now_utc_def fresh_def emit_def modify_def
      http_send_def commit_def select_def split: if_splits)

lemma steady_bnd [steady_rules]: "steady g m \<Longrightarrow> (\<And>x. steady g (f x)) \<Longrightarrow> steady g (bnd m f)"
  unfolding steady_def by (auto elim!: bnd_InrE)

lemma steady_thn [steady_rules]: "steady g m \<Longrightarrow> steady g n \<Longrightarrow> steady g (thn m n)"
  by (simp add: thn_def steady_bnd)

lemma steady_catch_raise [steady_rules]: "steady g m \<Longrightarrow> steady g (catch m (\<lambda>e. raise (h e)))"
  unfolding steady_def by (auto elim!: catch_InrE dest: proc_InrD)

lemma steady_if [steady_rules]: "steady g m \<Longrightarrow> steady g n \<Longrightarrow> steady g (if b then m else n)"
  by simp

lemma steady_case_option [steady_rules]:
  "steady g m \<Longrightarrow> (\<And>x. steady g (f x)) \<Longrightarrow> steady g (case opt of None \<Rightarrow> m | Some x \<Rightarrow> f x)"
  by (simp split: option.splits)

lemma steady_case_sum [steady_rules]:
  "(\<And>x. steady g (f x)) \<Longrightarrow> (\<And>x. steady g (h x)) \<Longrightarrow> steady g (case r of Inl x \<Rightarrow> f x | Inr x \<Rightarrow> h x)"
  by (simp split: sum.splits)

lemma steady_case_prod [steady_rules]:
  "(\<And>x y. steady g (f x y)) \<Longrightarrow> steady g (case p of (x, y) \<Rightarrow> f x y)"
  by (simp split: prod.splits)

lemma steady_case_list [steady_rules]:
  "steady g m \<Longrightarrow> (\<And>x xs. steady g (f x xs)) \<Longrightarrow> steady g (case l of [] \<Rightarrow> m | x # xs \<Rightarrow> f x xs)"
  by (simp split: list.splits)

lemma steady_one_or_none [steady_rules]: "steady g (one_or_none rows)"
  unfolding one_or_none_def by (intro steady_rules)

lemma steady_on_db: "(\<And>d. g (f d) = g d) \<Longrightarrow> steady g (on_db f)"
  by (simp add: steady_def on_db_def modify_def)

lemma commit_InrD: "commit E w = (Inr x, w') \<Longrightarrow> w' = w\<lparr>committed := db w\<rparr> \<and> db_ok (foreign_keys E) (db w)"
  by (simp add: commit_def split: if_splits)

text \<open>What the procedures that send nothing keep of the requests sent.\<close>

definition on_sent :: "(request list \<Rightarrow> bool) \<Rightarrow> world \<Rightarrow> bool" where
  "on_sent I w \<longleftrightarrow> I (sent w)"

lemma on_sent_rules [keeps_rules]:
  "keeps (on_sent I) (now_utc E)" "keeps (on_sent I) (fresh g)" "keeps (on_sent I) (emit m)"
  "keeps (on_sent I) (on_db f)" "keeps (on_sent I) (commit E)" "keeps (on_sent I) rollback"
  by (auto simp: keeps_def on_sent_def now_utc_def fresh_def emit_def modify_def on_db_def commit_def
      rollback_def)

lemma on_sentD: "(\<And>I. keeps (on_sent I) m) \<Longrightarrow> m w = (r, w') \<Longrightarrow> sent w' = sent w"
  using keepsD[of "on_sent (\<lambda>h. h = sent w)" m w r w'] by (simp add: on_sent_def)

end
