(* ===== verification/Py_Values.thy ===== *)
theory Py_Values
  imports Exceptions
begin

text \<open>
  The parts of Python's \<open>str\<close>, \<open>repr\<close> and \<open>datetime\<close> the code prints or parses: \<open>str(value)\<close> of a
  JSON value, which masks, hashes and deduplication keys are made of; \<open>datetime.isoformat\<close> and
  \<open>datetime.fromisoformat\<close> on microseconds since the epoch, in the extended format
  \<open>YYYY-MM-DD[?HH[:MM[:SS[.f]]][+HH:MM]]\<close> (the basic and week formats are outside the model, and a
  text without an offset is read as UTC, the zone of the service's containers).
\<close>

section \<open>str and repr\<close>

definition printable :: "char \<Rightarrow> bool" where
  "printable c \<longleftrightarrow> (let n = of_char c :: nat in (32 \<le> n \<and> n < 127) \<or> (160 < n \<and> n \<noteq> 173))"

definition repr_char :: "char \<Rightarrow> char \<Rightarrow> string" where
  "repr_char q c = (let n = of_char c :: nat in
     if c = q \<or> c = CHR 0x5C then [CHR 0x5C, c]
     else if n = 10 then [CHR 0x5C, CHR ''n'']
     else if n = 13 then [CHR 0x5C, CHR ''r'']
     else if n = 9 then [CHR 0x5C, CHR ''t'']
     else if printable c then [c]
     else [CHR 0x5C, CHR ''x'', hex_digit (n div 16), hex_digit (n mod 16)])"

definition quote_of :: "string \<Rightarrow> char" where
  "quote_of s = (if CHR 0x27 \<in> set s \<and> CHR 0x22 \<notin> set s then CHR 0x22 else CHR 0x27)"

definition repr_str :: "string \<Rightarrow> string" where
  "repr_str s = [quote_of s] @ concat (map (repr_char (quote_of s)) s) @ [quote_of s]"

fun py_repr :: "json \<Rightarrow> string" where
  "py_repr JNull = ''None''"
| "py_repr (JBool b) = (if b then ''True'' else ''False'')"
| "py_repr (JInt i) = show_int i"
| "py_repr (JStr s) = repr_str s"
| "py_repr (JArr xs) = ''['' @ join '', '' (map py_repr xs) @ '']''"
| "py_repr (JObj d) = ''{'' @ join '', '' (map (\<lambda>(k, v). repr_str k @ '': '' @ py_repr v) d) @ ''}''"

definition py_str :: "json \<Rightarrow> string" where
  "py_str v = (case v of JStr s \<Rightarrow> s | _ \<Rightarrow> py_repr v)"

lemma py_str_JStr [simp]: "py_str (JStr s) = s"
  by (simp add: py_str_def)

text \<open>\<open>int(value)\<close>: of a number, or of a text of digits with an optional sign.\<close>

definition int_text :: "string \<Rightarrow> int option" where
  "int_text s =
    (let t = strip s;
         neg = (t \<noteq> [] \<and> hd t = CHR ''-'');
         ds = (if t \<noteq> [] \<and> (hd t = CHR ''-'' \<or> hd t = CHR ''+'') then tl t else t);
         groups = split_on (CHR ''_'') ds
     in if list_all (\<lambda>g. g \<noteq> [] \<and> list_all is_digit g) groups
        then (let n = int (fst (read_nat 0 (concat groups))) in Some (if neg then - n else n))
        else None)"

definition py_int :: "json \<Rightarrow> exn + int" where
  "py_int v = (case v of
      JInt n \<Rightarrow> Inr n
    | JBool b \<Rightarrow> Inr (if b then 1 else 0)
    | JStr s \<Rightarrow> (case int_text s of Some n \<Rightarrow> Inr n | None \<Rightarrow> Inl (Builtin ValueError []))
    | _ \<Rightarrow> Inl (Builtin TypeError []))"

text \<open>\<open>s[-n:]\<close> and \<open>s[:n]\<close>.\<close>

definition last_chars :: "nat \<Rightarrow> string \<Rightarrow> string" where
  "last_chars n s = drop (length s - n) s"

section \<open>Dates\<close>

text \<open>Days since 1970-01-01 of a date of the proleptic Gregorian calendar, years from March.\<close>

definition days_from_civil :: "int \<Rightarrow> int \<Rightarrow> int \<Rightarrow> int" where
  "days_from_civil y m d =
    (let y' = (if m \<le> 2 then y - 1 else y);
         era = y' div 400;
         yoe = y' - era * 400;
         doy = (153 * ((m + 9) mod 12) + 2) div 5 + d - 1;
         doe = yoe * 365 + yoe div 4 - yoe div 100 + doy
     in era * 146097 + doe - 719468)"

definition civil_from_days :: "int \<Rightarrow> int \<times> int \<times> int" where
  "civil_from_days z =
    (let z' = z + 719468;
         era = z' div 146097;
         doe = z' - era * 146097;
         yoe = (doe - doe div 1460 + doe div 36524 - doe div 146096) div 365;
         doy = doe - (365 * yoe + yoe div 4 - yoe div 100);
         mp = (5 * doy + 2) div 153;
         d = doy - (153 * mp + 2) div 5 + 1;
         m = (if mp < 10 then mp + 3 else mp - 9)
     in (yoe + era * 400 + (if m \<le> 2 then 1 else 0), m, d))"

definition leap_year :: "int \<Rightarrow> bool" where
  "leap_year y \<longleftrightarrow> y mod 4 = 0 \<and> (y mod 100 \<noteq> 0 \<or> y mod 400 = 0)"

definition days_in_month :: "int \<Rightarrow> int \<Rightarrow> int" where
  "days_in_month y m =
    (if m = 2 then (if leap_year y then 29 else 28) else if m \<in> {4, 6, 9, 11} then 30 else 31)"

definition pad :: "nat \<Rightarrow> int \<Rightarrow> string" where
  "pad w n = (let s = show_nat (nat n) in replicate (w - length s) (CHR ''0'') @ s)"

text \<open>\<open>dt.isoformat()\<close> of an aware UTC time; \<open>aware = False\<close> leaves out the offset.\<close>

definition isoformat :: "bool \<Rightarrow> int \<Rightarrow> string" where
  "isoformat aware t =
    (let days = t div 86400000000; us = t mod 86400000000; s = us div 1000000; f = us mod 1000000
     in case civil_from_days days of (y, m, d) \<Rightarrow>
       pad 4 y @ ''-'' @ pad 2 m @ ''-'' @ pad 2 d @ ''T'' @
       pad 2 (s div 3600) @ '':'' @ pad 2 (s div 60 mod 60) @ '':'' @ pad 2 (s mod 60) @
       (if f = 0 then [] else ''.'' @ pad 6 f) @ (if aware then ''+00:00'' else []))"

text \<open>\<open>n\<close> digits, exactly.\<close>

definition take_digits :: "nat \<Rightarrow> string \<Rightarrow> (int \<times> string) option" where
  "take_digits n s =
    (if length (take n s) = n \<and> list_all is_digit (take n s)
     then Some (int (fst (read_nat 0 (take n s))), drop n s) else None)"

definition expect :: "char \<Rightarrow> string \<Rightarrow> string option" where
  "expect c s = (case s of [] \<Rightarrow> None | d # r \<Rightarrow> if d = c then Some r else None)"

definition parse_date :: "string \<Rightarrow> (int \<times> string) option" where
  "parse_date s =
    Option.bind (take_digits 4 s) (\<lambda>(y, s).
    Option.bind (expect (CHR ''-'') s) (\<lambda>s.
    Option.bind (take_digits 2 s) (\<lambda>(m, s).
    Option.bind (expect (CHR ''-'') s) (\<lambda>s.
    Option.bind (take_digits 2 s) (\<lambda>(d, s).
      if 1 \<le> y \<and> 1 \<le> m \<and> m \<le> 12 \<and> 1 \<le> d \<and> d \<le> days_in_month y m
      then Some (days_from_civil y m d, s) else None)))))"

text \<open>The fraction of a second: digits beyond the sixth are dropped.\<close>

definition parse_fraction :: "string \<Rightarrow> (int \<times> string) option" where
  "parse_fraction s =
    (case s of
       [] \<Rightarrow> Some (0, s)
     | c # r \<Rightarrow>
         if c = CHR ''.'' \<or> c = CHR '','' then
           (let ds = takeWhile is_digit r in
            if ds = [] then None
            else Some (int (fst (read_nat 0 (take 6 (ds @ ''000000'')))), dropWhile is_digit r))
         else Some (0, s))"

definition parse_clock :: "string \<Rightarrow> (int \<times> string) option" where
  "parse_clock s =
    Option.bind (take_digits 2 s) (\<lambda>(h, s).
      if 23 < h then None
      else case expect (CHR '':'') s of
        None \<Rightarrow> Some (h * 3600000000, s)
      | Some s \<Rightarrow>
          Option.bind (take_digits 2 s) (\<lambda>(mi, s).
            if 59 < mi then None
            else case expect (CHR '':'') s of
              None \<Rightarrow> Some (h * 3600000000 + mi * 60000000, s)
            | Some s \<Rightarrow>
                Option.bind (take_digits 2 s) (\<lambda>(sec, s).
                  if 59 < sec then None
                  else map_option (\<lambda>(f, s). (h * 3600000000 + mi * 60000000 + sec * 1000000 + f, s))
                         (parse_fraction s))))"

text \<open>The offset from UTC in microseconds, \<open>0\<close> when there is none.\<close>

definition parse_offset :: "string \<Rightarrow> int option" where
  "parse_offset s = (case s of
      [] \<Rightarrow> Some 0
    | c # r \<Rightarrow>
        if c = CHR ''Z'' \<and> r = [] then Some 0
        else if c = CHR ''+'' \<or> c = CHR ''-'' then
          (case parse_clock r of
             Some (o1, []) \<Rightarrow> Some (if c = CHR ''-'' then - o1 else o1)
           | _ \<Rightarrow> None)
        else None)"

text \<open>\<open>datetime.fromisoformat(s).astimezone(UTC)\<close>; \<open>None\<close> is \<open>ValueError\<close>.\<close>

definition fromisoformat :: "string \<Rightarrow> int option" where
  "fromisoformat s =
    Option.bind (parse_date s) (\<lambda>(days, s).
      case s of
        [] \<Rightarrow> Some (days * 86400000000)
      | _ # s \<Rightarrow>
          Option.bind (parse_clock s) (\<lambda>(us, s).
          Option.bind (parse_offset s) (\<lambda>o1. Some (days * 86400000000 + us - o1))))"

text \<open>\<open>s.replace(c, t)\<close> for a one-character \<open>c\<close>.\<close>

definition replace_char :: "char \<Rightarrow> string \<Rightarrow> string \<Rightarrow> string" where
  "replace_char c t s = concat (map (\<lambda>d. if d = c then t else [d]) s)"

end
