(* ===== verification/Sample.thy ===== *)
theory Sample
  imports World Py_Values
begin

text \<open>
  A concrete environment: a clock that advances one second per reading, numbered identifiers, and
  stand-ins for the primitives of the libraries that satisfy what the theorems ask of them. Only
  the witnesses use it: it shows that the hypotheses of the theorems can hold together.
\<close>

definition sample_fernet_encrypt :: "string \<Rightarrow> nat \<Rightarrow> string \<Rightarrow> exn + string" where
  "sample_fernet_encrypt key n plain = Inr (key @ plain)"

definition sample_fernet_decrypt :: "string \<Rightarrow> string \<Rightarrow> exn + string" where
  "sample_fernet_decrypt key token =
     (if take 44 token = key then Inr (drop 44 token) else Inl (Builtin InvalidToken []))"

definition sample_crypto :: crypto where
  "sample_crypto =
    \<lparr>hmac_hex = (\<lambda>key msg. key @ ''/'' @ msg),
     sha256 = (\<lambda>s. take 32 (s @ replicate 32 (CHR ''A''))),
     pbkdf2 = (\<lambda>secret salt n. take n (secret @ replicate n (CHR ''B''))),
     fernet_encrypt = sample_fernet_encrypt,
     fernet_decrypt = sample_fernet_decrypt\<rparr>"

definition sample_response :: http_response where
  "sample_response =
    \<lparr>http_status = 200, http_text = ''ok'',
     http_json = Inr (JObj [(''access_token'', JStr ''at-1''), (''refresh_token'', JStr ''rt-1''),
                            (''expires_in'', JInt 3600)]),
     http_headers = [(''x-message-id'', ''m-1'')]\<rparr>"

definition sample_jwt_encode :: "json dict \<Rightarrow> string \<Rightarrow> string \<Rightarrow> string" where
  "sample_jwt_encode claims secret alg = dumps (JArr [JStr secret, JStr alg, JObj claims])"

definition sample_jwt_decode ::
    "time \<Rightarrow> string \<Rightarrow> string \<Rightarrow> string \<Rightarrow> string \<Rightarrow> string \<Rightarrow> exn + json dict" where
  "sample_jwt_decode now token secret alg aud iss = (case loads token of
      Some (JArr [JStr s, JStr a, JObj claims]) \<Rightarrow>
        (case jget claims ''exp'' of
           JInt e \<Rightarrow>
             if s = secret \<and> a = alg \<and> now div 1000000 \<le> e \<and> jget claims ''aud'' = JStr aud
                \<and> jget claims ''iss'' = JStr iss
             then Inr claims else Inl (Builtin JWTError [])
         | _ \<Rightarrow> Inl (Builtin JWTError []))
    | _ \<Rightarrow> Inl (Builtin JWTError []))"

definition sample_env :: env where
  "sample_env =
    \<lparr>settings_of = default_settings, crypto_of = sample_crypto,
     clock = (\<lambda>n. 1700000000000000 + int n * 1000000),
     uuid = (\<lambda>n. ''id-'' @ show_nat n),
     token_urlsafe = (\<lambda>n. ''state-'' @ show_nat n),
     token_bytes = (\<lambda>n k. replicate k (char_of (65 + n mod 26))),
     http = (\<lambda>_ _. Inr sample_response),
     gethostbyname = (\<lambda>_. Inr ''93.184.216.34''), redis_error = (\<lambda>_. None),
     jwt_encode = sample_jwt_encode, jwt_decode = sample_jwt_decode\<rparr>"

definition sample_workspace :: workspace_row where
  "sample_workspace = \<lparr>ws_id = ''ws-1'', ws_name = ''Acme'', ws_owner = None, ws_metadata = [],
     ws_active = True\<rparr>"

definition sample_world :: world where
  "sample_world = empty_world\<lparr>db := empty_db\<lparr>workspaces := [sample_workspace]\<rparr>,
     committed := empty_db\<lparr>workspaces := [sample_workspace]\<rparr>\<rparr>"

definition sample_credential :: "string \<Rightarrow> string \<Rightarrow> string \<Rightarrow> string \<Rightarrow> credential" where
  "sample_credential i ws provider name =
    \<lparr>cred_id = i, cred_workspace = ws, cred_provider = provider, cred_name = name, cred_blob = ''blob'',
     cred_hash = None, cred_expires_at = Some 1600000000000000, cred_created_at = 1600000000000000,
     cred_updated_at = 1600000000000000\<rparr>"

definition with_credentials :: "credential list \<Rightarrow> world" where
  "with_credentials cs = sample_world
     \<lparr>db := (db sample_world)\<lparr>credentials := cs\<rparr>, committed := (db sample_world)\<lparr>credentials := cs\<rparr>\<rparr>"

lemma sample_world_simps [simp]:
  "db sample_world = empty_db\<lparr>workspaces := [sample_workspace]\<rparr>"
  "committed sample_world = empty_db\<lparr>workspaces := [sample_workspace]\<rparr>"
  "ticks sample_world = 0" "entropy sample_world = 0" "sent sample_world = []" "breakers sample_world = []"
  "redis sample_world = []"
  by (simp_all add: sample_world_def empty_world_def)

lemma sample_env_simps [simp]:
  "http sample_env h r = Inr sample_response" "http_status sample_response = 200"
  "crypto_of sample_env = sample_crypto" "settings_of sample_env = default_settings"
  "gethostbyname sample_env host = Inr ''93.184.216.34''"
  "redis_error sample_env n = None"
  "clock sample_env n = 1700000000000000 + int n * 1000000"
  by (simp_all add: sample_env_def sample_response_def)

lemma empty_db_simps [simp]:
  "workspaces empty_db = []" "connections empty_db = []" "credentials empty_db = []"
  "oauth_states empty_db = []" "subscriptions empty_db = []" "webhook_events empty_db = []"
  "deliveries empty_db = []" "audit_logs empty_db = []"
  by (simp_all add: empty_db_def)

lemma sample_world_ok [simp]: "db_ok b (empty_db\<lparr>workspaces := [sample_workspace]\<rparr>)"
  by (simp add: db_ok_def unique_ok_def foreign_ok_def)

lemma ws_id_sample [simp]: "ws_id sample_workspace = ''ws-1''"
  by (simp add: sample_workspace_def)

end
