(* ===== verification/Redis_Service.thy ===== *)
theory Redis_Service
  imports Sample
begin

text \<open>
  \<open>src/services/redis_service.py\<close>: the cache, the deduplication guard of inbound webhooks, the lock
  and the job queue. A command reads the clock of the server once, may fail as a whole
  (\<open>redis_error\<close>), and sees a key that has expired as missing. \<open>SET\<close> with a time to live that is not
  positive, and a command on a value of another kind, are errors of the server.
\<close>

section \<open>Commands\<close>

type_synonym redis_db = "(redis_value \<times> time option) dict"

definition live :: "time \<Rightarrow> time option \<Rightarrow> bool" where
  "live t expires = (case expires of None \<Rightarrow> True | Some d \<Rightarrow> t < d)"

definition redis_lookup :: "time \<Rightarrow> string \<Rightarrow> redis_db \<Rightarrow> redis_value option" where
  "redis_lookup t k r = (case dget r k of
      None \<Rightarrow> None
    | Some (v, expires) \<Rightarrow> if live t expires then Some v else None)"

definition redis_error_reply :: "string \<Rightarrow> exn" where
  "redis_error_reply text = Builtin OtherException text"

definition wrong_type :: exn where
  "wrong_type = redis_error_reply ''WRONGTYPE Operation against a key holding the wrong kind of value''"

definition redis_get :: "string \<Rightarrow> time \<Rightarrow> redis_db \<Rightarrow> (exn + string option) \<times> redis_db" where
  "redis_get k t r = (case redis_lookup t k r of
      None \<Rightarrow> (Inr None, r)
    | Some (RStr s) \<Rightarrow> (Inr (Some s), r)
    | Some (RList _) \<Rightarrow> (Inl wrong_type, r))"

definition redis_set :: "string \<Rightarrow> string \<Rightarrow> int \<Rightarrow> time \<Rightarrow> redis_db \<Rightarrow> (exn + unit) \<times> redis_db" where
  "redis_set k v seconds t r =
    (if seconds \<le> 0 then (Inl (redis_error_reply ''invalid expire time in 'set' command''), r)
     else (Inr (), dset k (RStr v, Some (t + seconds * 1000000)) r))"

definition redis_set_nx :: "string \<Rightarrow> string \<Rightarrow> int \<Rightarrow> time \<Rightarrow> redis_db \<Rightarrow> (exn + bool) \<times> redis_db" where
  "redis_set_nx k v seconds t r =
    (if seconds \<le> 0 then (Inl (redis_error_reply ''invalid expire time in 'set' command''), r)
     else if redis_lookup t k r \<noteq> None then (Inr False, r)
     else (Inr True, dset k (RStr v, Some (t + seconds * 1000000)) r))"

definition redis_delete :: "string \<Rightarrow> time \<Rightarrow> redis_db \<Rightarrow> (exn + unit) \<times> redis_db" where
  "redis_delete k t r = (Inr (), AList.delete k r)"

definition redis_rpush :: "string \<Rightarrow> string \<Rightarrow> time \<Rightarrow> redis_db \<Rightarrow> (exn + nat) \<times> redis_db" where
  "redis_rpush k v t r = (case redis_lookup t k r of
      None \<Rightarrow> (Inr 1, dset k (RList [v], None) r)
    | Some (RList vs) \<Rightarrow> (Inr (Suc (length vs)),
        dset k (RList (vs @ [v]), case dget r k of Some (_, expires) \<Rightarrow> expires | None \<Rightarrow> None) r)
    | Some (RStr _) \<Rightarrow> (Inl wrong_type, r))"

definition redis_call :: "env \<Rightarrow> (time \<Rightarrow> redis_db \<Rightarrow> (exn + 'a) \<times> redis_db) \<Rightarrow> 'a act" where
  "redis_call E f = (\<lambda>w. case redis_error E (ticks w) of
      Some e \<Rightarrow> (Inl e, w\<lparr>ticks := ticks w + 1\<rparr>)
    | None \<Rightarrow> (case f (clock E (ticks w)) (redis w) of
         (r, db') \<Rightarrow> (r, w\<lparr>redis := db', ticks := ticks w + 1\<rparr>)))"

section \<open>The service\<close>

definition ping_redis :: "env \<Rightarrow> bool act" where
  "ping_redis E = catch (redis_call E (\<lambda>t r. (Inr True, r))) (\<lambda>_. ret False)"

text \<open>A text that is not JSON is returned as it is.\<close>

definition cache_get_json :: "env \<Rightarrow> string \<Rightarrow> json option act" where
  "cache_get_json E key =
    bnd (redis_call E (redis_get key)) (\<lambda>raw. ret (case raw of
      None \<Rightarrow> None
    | Some s \<Rightarrow> Some (case loads s of Some v \<Rightarrow> v | None \<Rightarrow> JStr s)))"

definition cache_set_json :: "env \<Rightarrow> string \<Rightarrow> json \<Rightarrow> int option \<Rightarrow> unit act" where
  "cache_set_json E key v seconds =
    (let ex = (case seconds of None \<Rightarrow> redis_token_cache_ttl (settings_of E) | Some n \<Rightarrow> n)
     in redis_call E (redis_set key (dumps v) ex))"

definition dedup_key_name :: "string \<Rightarrow> string" where
  "dedup_key_name key = ''webhook:dedup:'' @ key"

definition seen :: "env \<Rightarrow> string \<Rightarrow> bool act" where
  "seen E key = bnd (redis_call E (redis_set_nx (dedup_key_name key) ''1'' (redis_webhook_ttl (settings_of E))))
     (\<lambda>set. ret (\<not> set))"

definition lock_acquire :: "env \<Rightarrow> string \<Rightarrow> int \<Rightarrow> bool act" where
  "lock_acquire E name seconds = redis_call E (redis_set_nx name ''1'' seconds)"

definition lock_release :: "env \<Rightarrow> string \<Rightarrow> unit act" where
  "lock_release E name = redis_call E (redis_delete name)"

definition enqueue :: "env \<Rightarrow> string \<Rightarrow> json dict \<Rightarrow> unit act" where
  "enqueue E schedule_key payload =
    catch (bnd (redis_call E (redis_rpush schedule_key (dumps (JObj payload)))) (\<lambda>_. ret ()))
      (\<lambda>_. raise (error0 ProviderUnavailable ''redis queue unavailable''))"

section \<open>Facts\<close>

lemma keeps_redis_call [keeps_rules]: "keeps (everywhere P) (redis_call E f)" "keeps (on_sent I) (redis_call E f)"
  by (auto simp: keeps_def everywhere_def on_sent_def redis_call_def split: option.splits prod.splits)

lemma steady_redis_call [steady_rules]: "steady g (redis_call E f)"
  by (auto simp: steady_def redis_call_def split: option.splits prod.splits)

text \<open>\<open>SET NX EX\<close> is a lease on the keys of the server.\<close>

definition claim_key :: "int \<Rightarrow> time \<Rightarrow> string \<Rightarrow> redis_db \<Rightarrow> bool \<times> redis_db" where
  "claim_key seconds t k r = (case redis_set_nx k ''1'' seconds t r of (res, r') \<Rightarrow> (res = Inr True, r'))"

definition key_held :: "time \<Rightarrow> redis_db \<Rightarrow> string \<Rightarrow> bool" where
  "key_held t r k \<longleftrightarrow> redis_lookup t k r \<noteq> None"

lemma claim_key_held: "0 < seconds \<Longrightarrow> fst (claim_key seconds t k r) \<longleftrightarrow> \<not> key_held t r k"
  by (simp add: claim_key_def redis_set_nx_def key_held_def)

lemma claim_key_sets:
  "fst (claim_key seconds t k r) \<Longrightarrow> u < t + seconds * 1000000 \<Longrightarrow> key_held u (snd (claim_key seconds t k r)) k"
  by (auto simp: claim_key_def redis_set_nx_def key_held_def redis_lookup_def live_def split: if_splits)

lemma claim_key_refused: "\<not> fst (claim_key seconds t k r) \<Longrightarrow> snd (claim_key seconds t k r) = r"
  by (auto simp: claim_key_def redis_set_nx_def split: if_splits)

lemma claim_key_frame: "j \<noteq> k \<Longrightarrow> key_held u (snd (claim_key seconds t k r)) j = key_held u r j"
  by (auto simp: claim_key_def redis_set_nx_def key_held_def redis_lookup_def split: if_splits)

interpretation key_lease: lease "claim_key (max 1 seconds)" key_held "max 1 seconds * 1000000" for seconds
  by unfold_locales (simp_all add: claim_key_held claim_key_sets claim_key_refused claim_key_frame)

section \<open>The duplicate guard\<close>

text \<open>\<open>on_redis I\<close>: what the procedures that issue no command keep of the server.\<close>

definition on_redis :: "(redis_db \<Rightarrow> bool) \<Rightarrow> world \<Rightarrow> bool" where
  "on_redis I w \<longleftrightarrow> I (redis w)"

lemma on_redis_rules [keeps_rules]:
  "keeps (on_redis I) (now_utc E)" "keeps (on_redis I) (fresh g)" "keeps (on_redis I) (emit m)"
  "keeps (on_redis I) (on_db f)" "keeps (on_redis I) (commit E)" "keeps (on_redis I) rollback"
  "keeps (on_redis I) (http_send E r)"
  by (auto simp: keeps_def on_redis_def now_utc_def fresh_def emit_def modify_def on_db_def commit_def
      rollback_def http_send_def)

definition key_ttl :: "env \<Rightarrow> int" where
  "key_ttl E = redis_webhook_ttl (settings_of E)"

lemma seen_eq:
  assumes "0 < key_ttl E"
  shows "seen E k w = (case redis_error E (ticks w) of
      Some e \<Rightarrow> (Inl e, w\<lparr>ticks := ticks w + 1\<rparr>)
    | None \<Rightarrow> (case claim_key (max 1 (key_ttl E)) (clock E (ticks w)) (dedup_key_name k) (redis w) of
        (b, r) \<Rightarrow> (Inr (\<not> b), w\<lparr>redis := r, ticks := ticks w + 1\<rparr>)))"
  using assms
  by (auto simp: seen_def redis_call_def bnd_def ret_def claim_key_def redis_set_nx_def key_ttl_def max_def
      split: option.splits)

definition held_until :: "time \<Rightarrow> string \<Rightarrow> redis_db \<Rightarrow> bool" where
  "held_until d name r \<longleftrightarrow> (\<forall>u < d. key_held u r name)"

lemma keeps_seen:
  assumes "0 < key_ttl E" and "\<forall>n. clock E n < d"
  shows "keeps (on_redis (held_until d name)) (seen E k)"
  unfolding keeps_def
proof (intro allI impI)
  fix w :: world
  assume w: "on_redis (held_until d name) w"
  have "held_until d name (snd (claim_key (max 1 (key_ttl E)) (clock E (ticks w)) (dedup_key_name k) (redis w)))"
    using key_lease.claim_keeps_busy[of d "redis w" name "clock E (ticks w)"] w assms(2)
    by (simp add: on_redis_def held_until_def)
  then show "on_redis (held_until d name) (snd (seen E k w))"
    using w by (auto simp: seen_eq[OF assms(1)] on_redis_def split: option.splits prod.splits)
qed

lemma seen_claims:
  assumes "0 < key_ttl E" and "seen E k w = (Inr False, w')"
  shows "on_redis (held_until (clock E (ticks w) + key_ttl E * 1000000) (dedup_key_name k)) w'"
  using assms key_lease.claim_holds[of "key_ttl E" "clock E (ticks w)" "dedup_key_name k" "redis w"]
  by (auto simp: seen_eq on_redis_def held_until_def max_def split: option.splits prod.splits if_splits)

lemma seen_held:
  assumes "0 < key_ttl E" and "redis_error E (ticks w) = None" and "clock E (ticks w) < d"
    and "on_redis (held_until d (dedup_key_name k)) w"
  shows "seen E k w = (Inr True, w\<lparr>ticks := ticks w + 1\<rparr>)"
proof -
  have "\<not> fst (claim_key (max 1 (key_ttl E)) (clock E (ticks w)) (dedup_key_name k) (redis w))"
    using assms(3,4) by (simp add: key_lease.claim_result on_redis_def held_until_def)
  then have "claim_key (max 1 (key_ttl E)) (clock E (ticks w)) (dedup_key_name k) (redis w) = (False, redis w)"
    using claim_key_refused by (metis prod.collapse)
  then show ?thesis
    by (simp add: seen_eq[OF assms(1)] assms(2))
qed

section \<open>Properties\<close>

text \<open>The keys the guard knows at a time.\<close>

definition processed :: "time \<Rightarrow> world \<Rightarrow> string set" where
  "processed t w = {k. key_held t (redis w) (dedup_key_name k)}"

text \<open>C13: The deduplication guard refines a set of keys: \<open>seen\<close> answers whether its key is in the set
  of the keys processed so far and adds it; the sets known at the other times before its deadline gain
  the same key, wherever they agreed on it before, and no other key is affected at any time.\<close>

theorem seen_refines_set:
  assumes "0 < key_ttl E" and "redis_error E (ticks w) = None" and "t = clock E (ticks w)"
  shows "\<exists>w'. seen E k w = (Inr (k \<in> processed t w), w')
    \<and> processed t w' = insert k (processed t w)
    \<and> (\<forall>u < t + key_ttl E * 1000000. (k \<in> processed t w \<longleftrightarrow> k \<in> processed u w)
         \<longrightarrow> processed u w' = insert k (processed u w))
    \<and> (\<forall>u. processed u w' - {k} = processed u w - {k})"
proof -
  let ?c = "claim_key (max 1 (key_ttl E)) t (dedup_key_name k) (redis w)"
  let ?w = "w\<lparr>redis := snd ?c, ticks := ticks w + 1\<rparr>"
  have r: "seen E k w = (Inr (\<not> fst ?c), ?w)"
    using assms by (simp add: seen_eq split: prod.splits)
  have name: "dedup_key_name j = dedup_key_name k \<longleftrightarrow> j = k" for j
    by (simp add: dedup_key_name_def)
  have set: "processed u ?w = insert k (processed u w)"
    if "u < t + key_ttl E * 1000000" and "k \<in> processed t w \<longleftrightarrow> k \<in> processed u w" for u
  proof -
    have "{j. key_held u (snd ?c) j} = insert (dedup_key_name k) {j. key_held u (redis w) j}"
      using that assms(1) key_lease.claim_refines_set[of u t "key_ttl E" "redis w" "dedup_key_name k"]
      by (simp add: processed_def max_def split: if_splits)
    then show ?thesis
      using name by (auto simp: processed_def set_eq_iff)
  qed
  have "processed u ?w - {k} = processed u w - {k}" for u
    using key_lease.claim_frame name by (auto simp: processed_def)
  moreover have "(\<not> fst ?c) = (k \<in> processed t w)"
    by (simp add: key_lease.claim_result processed_def)
  ultimately show ?thesis
    using r set[of t] set assms(1) by (intro exI[of _ ?w]) simp
qed

theorem seen_refines_set_witness:
  "\<exists>w'. seen sample_env ''k'' sample_world = (Inr False, w') \<and> ''k'' \<in> processed 1700000000000000 w'"
proof -
  have "key_ttl sample_env = 86400" "processed t sample_world = {}" for t
    by (simp_all add: key_ttl_def default_settings_def processed_def key_held_def redis_lookup_def)
  then show ?thesis
    using seen_refines_set[of sample_env sample_world 1700000000000000 "''k''"] by auto
qed

end
