(* ===== verification/Encryption_Service.thy ===== *)
theory Encryption_Service
  imports Sample
begin

text \<open>
  \<open>src/services/encryption_service.py\<close>: the class \<open>EncryptionService\<close>, its keys read from the
  settings, encryption, decryption under the current and the previous keys, rotation, and the
  masking of credentials. \<open>cryptography.fernet\<close> is the field \<open>fernet_encrypt\<close>/\<open>fernet_decrypt\<close> of the
  environment's \<open>crypto\<close>; what its documentation promises of valid keys is \<open>fernet_ok\<close>.
\<close>

section \<open>The service\<close>

record encryption =
  enc_current :: string
  enc_keys :: "string list"

definition fernet_key :: "string \<Rightarrow> string" where
  "fernet_key raw = b64encode raw"

text \<open>\<open>EncryptionService()\<close>, as \<open>get_encryption_service\<close> builds it.\<close>

definition new_encryption :: "env \<Rightarrow> exn + encryption" where
  "new_encryption E =
    (let s = settings_of E; c = crypto_of E; salt = hash_salt s in
     case encryption_key_bytes c s of
       Inl e \<Rightarrow> Inl e
     | Inr current \<Rightarrow> Inr
         \<lparr>enc_current = current,
          enc_keys = map (\<lambda>previous. fernet_key (derive_key c previous salt 32))
                         (filter (\<lambda>previous. strip previous \<noteq> []) (encryption_key_previous s))\<rparr>)"

definition encrypt :: "env \<Rightarrow> encryption \<Rightarrow> json dict \<Rightarrow> string act" where
  "encrypt E svc payload =
    catch (bnd (fresh (\<lambda>n. n)) (\<lambda>n.
             lift (fernet_encrypt (crypto_of E) (enc_current svc) n (dumps_sorted (JObj payload)))))
          (\<lambda>_. raise (error0 EncryptionError ''failed to encrypt payload''))"

definition is_ascii :: "string \<Rightarrow> bool" where
  "is_ascii s \<longleftrightarrow> list_all (\<lambda>c. (of_char c :: nat) < 128) s"

text \<open>
  The loop of \<open>decrypt\<close>; the flag is \<open>last_error is not None\<close>. An encoding error of the token and an
  error of the JSON parser are caught like any other exception.
\<close>

fun decrypt_loop :: "crypto \<Rightarrow> string \<Rightarrow> bool \<Rightarrow> string list \<Rightarrow> exn + json dict" where
  "decrypt_loop c token last_error [] =
     (if last_error then Inl (error0 EncryptionError ''credential decryption failed'')
      else Inl (error0 EncryptionError ''credential decryption failed - invalid token''))"
| "decrypt_loop c token last_error (raw # keys) =
     (if \<not> is_ascii token then decrypt_loop c token True keys
      else (case fernet_decrypt c raw token of
         Inl (Builtin InvalidToken _) \<Rightarrow> decrypt_loop c token False keys
       | Inl _ \<Rightarrow> decrypt_loop c token True keys
       | Inr plaintext \<Rightarrow>
           (case loads plaintext of
              None \<Rightarrow> decrypt_loop c token True keys
            | Some (JObj data) \<Rightarrow> Inr data
            | Some _ \<Rightarrow> Inl (error0 CredentialInvalid ''decrypted payload is not an object''))))"

definition decrypt :: "env \<Rightarrow> encryption \<Rightarrow> string \<Rightarrow> exn + json dict" where
  "decrypt E svc token = decrypt_loop (crypto_of E) token False (enc_current svc # enc_keys svc)"

definition re_encrypt :: "env \<Rightarrow> encryption \<Rightarrow> string \<Rightarrow> string act" where
  "re_encrypt E svc token = bnd (lift (decrypt E svc token)) (\<lambda>data. encrypt E svc data)"

definition stored_form :: "json dict \<Rightarrow> json dict" where
  "stored_form creds = [(''v'', JInt 1), (''credentials'', JObj creds)]"

definition encrypt_credentials :: "env \<Rightarrow> encryption \<Rightarrow> json dict \<Rightarrow> string act" where
  "encrypt_credentials E svc creds = encrypt E svc (stored_form creds)"

definition decrypt_credentials :: "env \<Rightarrow> encryption \<Rightarrow> string \<Rightarrow> exn + json dict" where
  "decrypt_credentials E svc token = (case decrypt E svc token of
      Inl e \<Rightarrow> Inl e
    | Inr data \<Rightarrow> (case jget data ''credentials'' of
         JObj creds \<Rightarrow> Inr creds
       | _ \<Rightarrow> Inl (error0 CredentialInvalid ''credential payload missing credentials object'')))"

section \<open>Masking\<close>

definition sensitive_keys :: "string list" where
  "sensitive_keys = [''access_token'', ''refresh_token'', ''client_secret'', ''api_key'', ''secret_key'',
     ''auth_token'', ''password'', ''token'', ''private_key'']"

definition is_sensitive :: "string \<Rightarrow> bool" where
  "is_sensitive key \<longleftrightarrow> key \<in> set sensitive_keys \<or>
     list_ex (\<lambda>s. contains (lower key) s) [''secret'', ''token'', ''password'']"

definition mask_value :: "string \<Rightarrow> json \<Rightarrow> string" where
  "mask_value key v =
    (if is_sensitive key then (if truthy v then ''***'' @ last_chars 4 (py_str v) else ''***'')
     else py_str v)"

definition mask_credentials :: "json dict \<Rightarrow> string dict" where
  "mask_credentials creds = map (\<lambda>(key, v). (key, mask_value key v)) creds"

section \<open>Rotation\<close>

text \<open>The padded prefix is text of the base64 alphabet for a token of Fernet.\<close>

definition requires_rotation :: "encryption \<Rightarrow> string \<Rightarrow> bool" where
  "requires_rotation svc token =
    (let prefix = hd (split_on (CHR ''.'') token) in
     case (b64decode (prefix @ replicate ((4 - length prefix mod 4) mod 4) (CHR ''='')),
           b64decode (enc_current svc)) of
       (Some decoded, Some key) \<Rightarrow> decoded \<noteq> key
     | _ \<Rightarrow> False)"

section \<open>What Fernet promises\<close>

definition valid_key :: "string \<Rightarrow> bool" where
  "valid_key k \<longleftrightarrow> length k = 44 \<and> set k \<subseteq> insert (CHR ''='') (set b64_chars)"

text \<open>
  A valid key encrypts every text to an ASCII token; that key reads it back, and every other valid
  key raises \<open>InvalidToken\<close>.
\<close>

definition fernet_ok :: "crypto \<Rightarrow> bool" where
  "fernet_ok c \<longleftrightarrow> (\<forall>k n t. valid_key k \<and> is_ascii t \<longrightarrow>
     (\<exists>tok. fernet_encrypt c k n t = Inr tok \<and> is_ascii tok \<and>
        (\<forall>k'. valid_key k' \<longrightarrow>
           fernet_decrypt c k' tok = (if k' = k then Inr t else Inl (Builtin InvalidToken [])))))"

text \<open>The lengths of a SHA-256 digest and of a derived key.\<close>

definition hash_lengths :: "crypto \<Rightarrow> bool" where
  "hash_lengths c \<longleftrightarrow> (\<forall>s. length (sha256 c s) = 32) \<and> (\<forall>s t n. length (pbkdf2 c s t n) = n)"

definition keys_valid :: "encryption \<Rightarrow> bool" where
  "keys_valid svc \<longleftrightarrow> list_all valid_key (enc_current svc # enc_keys svc)"

section \<open>Facts\<close>

lemma valid_key_b64: "length raw = 32 \<Longrightarrow> valid_key (b64encode raw)"
  by (simp add: valid_key_def length_b64encode set_b64encode)

lemma new_encryption_valid:
  "hash_lengths (crypto_of E) \<Longrightarrow> new_encryption E = Inr svc \<Longrightarrow> keys_valid svc"
  by (auto simp: new_encryption_def encryption_key_bytes_def hash_lengths_def keys_valid_def
      fernet_key_def derive_key_def Let_def list_all_iff intro!: valid_key_b64 split: if_splits sum.splits)

lemma is_ascii_append [simp]: "is_ascii (s @ t) \<longleftrightarrow> is_ascii s \<and> is_ascii t"
  by (simp add: is_ascii_def)

lemma is_ascii_simps [simp]: "is_ascii []" "is_ascii (c # s) \<longleftrightarrow> (of_char c :: nat) < 128 \<and> is_ascii s"
  by (simp_all add: is_ascii_def)

lemma is_ascii_join: "is_ascii sep \<Longrightarrow> (\<And>s. s \<in> set ss \<Longrightarrow> is_ascii s) \<Longrightarrow> is_ascii (join sep ss)"
  by (induction sep ss rule: join.induct) auto

lemma is_ascii_digits: "is_ascii (show_nat n)"
  unfolding is_ascii_def list_all_iff is_digit_def
  using digits_show_nat[of _ n] by (force simp: is_digit_def)

lemma hex_digit_ascii: "d < 16 \<Longrightarrow> (of_char (hex_digit d) :: nat) < 128"
  by (simp add: hex_digit_def digit_def)

lemma is_ascii_esc: "is_ascii (esc_char c)"
proof -
  have "(of_char c :: nat) div 16 < 16"
    by (simp add: less_mult_imp_div_less)
  then show ?thesis
    by (auto simp: esc_char_def Let_def hex_digit_ascii)
qed

lemma is_ascii_dumps_str: "is_ascii (dumps_str s)"
proof -
  have "is_ascii (concat (map esc_char s))"
    by (induction s) (simp_all add: is_ascii_esc)
  then show ?thesis
    by (simp add: dumps_str_def)
qed

lemma is_ascii_dumps: "is_ascii (dumps v)"
proof (induction v)
  case (JArr xs)
  then show ?case
    by (auto intro!: is_ascii_join)
next
  case (JObj d)
  then show ?case
    by (auto simp: is_ascii_dumps_str intro!: is_ascii_join)
qed (simp_all add: is_ascii_dumps_str show_int_def is_ascii_digits)

lemma fernet_encryptE:
  assumes "fernet_ok c" and "valid_key k" and "is_ascii t"
  obtains tok where "fernet_encrypt c k n t = Inr tok" and "is_ascii tok"
    and "\<And>k'. valid_key k' \<Longrightarrow>
           fernet_decrypt c k' tok = (if k' = k then Inr t else Inl (Builtin InvalidToken []))"
  using assms unfolding fernet_ok_def by blast

text \<open>The loop skips the keys that do not fit and stops at the one that does.\<close>

lemma decrypt_loop_finds:
  assumes "is_ascii tok" and "loads t = Some (JObj d)" and "list_all valid_key ks"
    and "\<And>k'. valid_key k' \<Longrightarrow>
           fernet_decrypt c k' tok = (if k' = k then Inr t else Inl (Builtin InvalidToken []))"
  shows "decrypt_loop c tok False ks =
    (if k \<in> set ks then Inr d
     else Inl (error0 EncryptionError ''credential decryption failed - invalid token''))"
  using assms by (induction ks) auto

text \<open>What a stored payload reads back as: the same entries, sorted by key at every level.\<close>

definition sorted_dict :: "json dict \<Rightarrow> json dict" where
  "sorted_dict d = sort_key fst (map (\<lambda>(k, v). (k, sort_json v)) d)"

lemma sort_json_obj: "sort_json (JObj d) = JObj (sorted_dict d)"
  by (simp add: sorted_dict_def)

lemma dget_sorted_dict:
  "distinct (dkeys d) \<Longrightarrow> dget (sorted_dict d) k = map_option sort_json (dget d k)"
  using dget_sort_json[of d] unfolding sort_json_obj by auto

text \<open>A token that reads back as \<open>payload\<close> under \<open>key\<close>, and under no other key.\<close>

definition sealed :: "env \<Rightarrow> string \<Rightarrow> json dict \<Rightarrow> string \<Rightarrow> bool" where
  "sealed E key payload tok \<longleftrightarrow> (\<forall>svc. keys_valid svc \<longrightarrow> decrypt E svc tok =
     (if key \<in> set (enc_current svc # enc_keys svc) then Inr (sorted_dict payload)
      else Inl (error0 EncryptionError ''credential decryption failed - invalid token'')))"

lemma encrypt_seals:
  assumes "fernet_ok (crypto_of E)" and "keys_valid svc" and "wf_json (JObj payload)"
  shows "\<exists>tok. encrypt E svc payload w = (Inr tok, w\<lparr>entropy := entropy w + 1\<rparr>)
    \<and> sealed E (enc_current svc) payload tok"
proof -
  let ?t = "dumps_sorted (JObj payload)"
  have k: "valid_key (enc_current svc)"
    using assms(2) by (simp add: keys_valid_def)
  have a: "is_ascii ?t"
    unfolding dumps_sorted_def by (rule is_ascii_dumps)
  have l: "loads ?t = Some (JObj (sorted_dict payload))"
    using loads_dumps_sorted[OF assms(3)] unfolding sort_json_obj .
  obtain tok where tok: "fernet_encrypt (crypto_of E) (enc_current svc) (entropy w) ?t = Inr tok"
      "is_ascii tok"
      "\<And>k'. valid_key k' \<Longrightarrow> fernet_decrypt (crypto_of E) k' tok =
          (if k' = enc_current svc then Inr ?t else Inl (Builtin InvalidToken []))"
    using fernet_encryptE[OF assms(1) k a, of "entropy w"] by metis
  have "encrypt E svc payload w = (Inr tok, w\<lparr>entropy := entropy w + 1\<rparr>)"
    using tok(1) by (simp add: encrypt_def fresh_def prog_defs)
  moreover have "sealed E (enc_current svc) payload tok"
    unfolding sealed_def decrypt_def keys_valid_def
    by (intro allI impI decrypt_loop_finds[OF tok(2) l _ tok(3)])
  ultimately show ?thesis
    by blast
qed

lemma keys_ne: "''credentials'' \<noteq> ''v''"
  by simp

lemma sealed_credentials:
  assumes "sealed E key (stored_form creds) tok" and "keys_valid svc"
  shows "decrypt_credentials E svc tok =
    (if key \<in> set (enc_current svc # enc_keys svc) then Inr (sorted_dict creds)
     else Inl (error0 EncryptionError ''credential decryption failed - invalid token''))"
proof -
  have "dget (sorted_dict (stored_form creds)) ''credentials'' = Some (JObj (sorted_dict creds))"
    by (subst dget_sorted_dict) (simp_all add: stored_form_def sort_json_obj del: sort_json.simps)
  then have "jget (sorted_dict (stored_form creds)) ''credentials'' = JObj (sorted_dict creds)"
    by (simp add: jget_def)
  then show ?thesis
    using assms unfolding sealed_def decrypt_credentials_def by simp
qed

lemma encrypt_credentials_seals:
  assumes "fernet_ok (crypto_of E)" and "keys_valid svc" and "wf_json (JObj creds)"
  shows "\<exists>tok. encrypt_credentials E svc creds w = (Inr tok, w\<lparr>entropy := entropy w + 1\<rparr>)
    \<and> sealed E (enc_current svc) (stored_form creds) tok"
  unfolding encrypt_credentials_def
  by (rule encrypt_seals[OF assms(1,2)]) (use assms(3) in \<open>simp add: stored_form_def\<close>)

lemma distinct_wf: "wf_json (JObj d) \<Longrightarrow> distinct (dkeys d)"
  by simp

lemma is_ascii_b64: "set s \<subseteq> insert (CHR ''='') (set b64_chars) \<Longrightarrow> is_ascii s"
proof -
  assume s: "set s \<subseteq> insert (CHR ''='') (set b64_chars)"
  have "is_ascii (CHR ''='' # b64_chars)"
    by (simp add: b64_chars_def)
  then show "is_ascii s"
    using s unfolding is_ascii_def list_all_iff by auto
qed

lemma sample_fernet_ok: "fernet_ok sample_crypto"
proof -
  have "\<exists>tok. fernet_encrypt sample_crypto k n t = Inr tok \<and> is_ascii tok \<and>
      (\<forall>k'. valid_key k' \<longrightarrow> fernet_decrypt sample_crypto k' tok =
         (if k' = k then Inr t else Inl (Builtin InvalidToken [])))"
    if k: "valid_key k" and t: "is_ascii t" for k n t
  proof -
    have "is_ascii k" "length k = 44"
      using k is_ascii_b64 by (auto simp: valid_key_def)
    then show ?thesis
      using t by (auto simp: sample_crypto_def sample_fernet_encrypt_def sample_fernet_decrypt_def)
  qed
  then show ?thesis
    by (simp add: fernet_ok_def)
qed

lemma sample_hash_lengths: "hash_lengths sample_crypto"
  by (auto simp: hash_lengths_def sample_crypto_def)

definition sample_key :: "char \<Rightarrow> string" where
  "sample_key c = b64encode (replicate 32 c)"

lemma sample_key_valid [simp]: "valid_key (sample_key c)"
  by (simp add: sample_key_def valid_key_b64)

lemma sample_key_eq [simp]: "sample_key c = sample_key d \<longleftrightarrow> c = d"
proof
  assume "sample_key c = sample_key d"
  then have "b64decode (sample_key c) = b64decode (sample_key d)"
    by simp
  then show "c = d"
    by (simp add: sample_key_def b64decode_encode)
qed simp

definition sample_service :: encryption where
  "sample_service = \<lparr>enc_current = sample_key (CHR ''A''), enc_keys = []\<rparr>"

lemma sample_service [simp]:
  "keys_valid sample_service" "enc_current sample_service = sample_key (CHR ''A'')"
  by (simp_all add: sample_service_def keys_valid_def)

section \<open>Properties\<close>



text \<open>Key rotation: with the new key current and the old one among the previous keys,
  \<open>re_encrypt\<close> turns every old token into one that a service with the new key alone reads as the
  same payload, and a service with the old key alone no longer reads.\<close>

theorem re_encrypt_rotates:
  assumes "fernet_ok (crypto_of E)" and "keys_valid svc" and "keys_valid old" and "keys_valid new"
    and "wf_json (JObj payload)" and "enc_current old \<in> set (enc_keys svc)"
    and "enc_current svc \<noteq> enc_current old" and "enc_keys old = []"
    and "enc_keys new = []" and "enc_current new = enc_current svc"
    and "encrypt E old payload w = (Inr tok, w')"
  shows "\<exists>tok' w''. re_encrypt E svc tok w' = (Inr tok', w'')
    \<and> decrypt E new tok' = Inr (sorted_dict (sorted_dict payload))
    \<and> (\<exists>e. decrypt E old tok' = Inl e \<and> is_a e EncryptionError)"
proof -
  have "sealed E (enc_current old) payload tok"
    using encrypt_seals[OF assms(1,3,5), of w] assms(11) by auto
  then have d: "decrypt E svc tok = Inr (sorted_dict payload)"
    using assms(2,6) by (simp add: sealed_def)
  have "wf_json (JObj (sorted_dict payload))"
    using wf_sort_json[OF assms(5)] unfolding sort_json_obj .
  then obtain tok' where t: "encrypt E svc (sorted_dict payload) w' = (Inr tok', w'\<lparr>entropy := entropy w' + 1\<rparr>)"
    "sealed E (enc_current svc) (sorted_dict payload) tok'"
    using encrypt_seals[OF assms(1,2)] by blast
  have "re_encrypt E svc tok w' = (Inr tok', w'\<lparr>entropy := entropy w' + 1\<rparr>)"
    using t(1) d by (simp add: re_encrypt_def bnd_def lift_def)
  then show ?thesis
    using t(2) assms(3,4,7,8,9,10) by (simp add: sealed_def)
qed

theorem re_encrypt_rotates_witness:
  "\<exists>tok tok' w' w''. encrypt sample_env \<lparr>enc_current = sample_key (CHR ''A''), enc_keys = []\<rparr>
      [(''k'', JInt 1)] sample_world = (Inr tok, w')
    \<and> re_encrypt sample_env \<lparr>enc_current = sample_key (CHR ''B''), enc_keys = [sample_key (CHR ''A'')]\<rparr>
        tok w' = (Inr tok', w'')"
proof -
  let ?old = "\<lparr>enc_current = sample_key (CHR ''A''), enc_keys = []\<rparr>"
  let ?new = "\<lparr>enc_current = sample_key (CHR ''B''), enc_keys = []\<rparr>"
  let ?svc = "\<lparr>enc_current = sample_key (CHR ''B''), enc_keys = [sample_key (CHR ''A'')]\<rparr>"
  obtain tok where t: "encrypt sample_env ?old [(''k'', JInt 1)] sample_world
      = (Inr tok, sample_world\<lparr>entropy := entropy sample_world + 1\<rparr>)"
    using encrypt_seals[of sample_env ?old "[(''k'', JInt 1)]" sample_world] sample_fernet_ok
    by (auto simp: keys_valid_def)
  have "\<exists>tok' w''. re_encrypt sample_env ?svc tok (sample_world\<lparr>entropy := entropy sample_world + 1\<rparr>)
      = (Inr tok', w'')"
    using re_encrypt_rotates[OF _ _ _ _ _ _ _ _ _ _ t, of ?svc ?new] sample_fernet_ok
    by (auto simp: keys_valid_def)
  with t show ?thesis
    by blast
qed

text \<open>The masked view of credentials shows nothing of a secret but its last four characters:
  two sets of credentials whose values agree, except that secrets under sensitive keys may differ
  before their last four characters, look the same.\<close>

theorem mask_hides_secrets:
  assumes "list_all2 (\<lambda>(j, v) (k, u). j = k \<and>
      (v = u \<or> (\<exists>s t. is_sensitive k \<and> v = JStr s \<and> u = JStr t \<and> s \<noteq> [] \<and> t \<noteq> [] \<and>
                       last_chars 4 s = last_chars 4 t))) c d"
  shows "mask_credentials c = mask_credentials d \<and> dkeys (mask_credentials c) = dkeys c"
proof -
  have "mask_credentials c = mask_credentials d"
    using assms by (induction rule: list_all2_induct) (auto simp: mask_credentials_def mask_value_def)
  moreover have "dkeys (mask_credentials c) = dkeys c"
    unfolding mask_credentials_def by (induction c) auto
  ultimately show ?thesis
    by blast
qed

theorem mask_hides_secrets_witness:
  "mask_credentials [(''api_key'', JStr ''sk-first-9876''), (''url'', JStr ''u'')]
   = mask_credentials [(''api_key'', JStr ''sk-other-9876''), (''url'', JStr ''u'')]"
proof -
  have "is_sensitive ''api_key''"
    by (simp add: is_sensitive_def sensitive_keys_def)
  then show ?thesis
    using mask_hides_secrets[of "[(''api_key'', JStr ''sk-first-9876''), (''url'', JStr ''u'')]"
        "[(''api_key'', JStr ''sk-other-9876''), (''url'', JStr ''u'')]"]
    by (simp add: last_chars_def)
qed

text \<open>\<open>requires_rotation\<close> cannot tell the current key from an old one: it compares the bytes of
  the token with the bytes of the key, so it reports every token that does not happen to be 32
  bytes long, and a Fernet token never is, as written under a non-current key.\<close>

theorem requires_rotation_always:
  assumes "enc_current svc = b64encode key" and "length raw \<noteq> length key"
  shows "requires_rotation svc (b64encode raw)"
proof -
  have "CHR ''.'' \<notin> insert (CHR ''='') (set b64_chars)"
    by (simp add: b64_chars_def)
  then have "CHR ''.'' \<notin> set (b64encode raw)"
    using set_b64encode[of raw] by blast
  then have "split_on (CHR ''.'') (b64encode raw) = [b64encode raw]"
    by (rule split_on_none)
  moreover have "length (b64encode raw) mod 4 = 0"
    by (simp add: length_b64encode)
  ultimately show ?thesis
    using assms by (auto simp: requires_rotation_def b64decode_encode)
qed

theorem requires_rotation_always_witness:
  "requires_rotation \<lparr>enc_current = sample_key (CHR ''A''), enc_keys = []\<rparr> (b64encode (replicate 73 (CHR 0x80)))"
  by (rule requires_rotation_always[of _ "replicate 32 (CHR ''A'')"]) (simp_all add: sample_key_def)

end
