(* ===== verification/Security_Utils.thy ===== *)
theory Security_Utils
  imports Encryption_Service "HOL-Library.Word"
begin

text \<open>
  \<open>src/utils/security.py\<close>: masking, keyed hashes, comparison, and the guard against server-side
  request forgery, with what it uses of \<open>urllib.parse\<close> (scheme and host name of a URL) and of
  \<open>ipaddress\<close> (an IPv4 address is a \<open>32 word\<close>). \<open>socket.gethostbyname\<close> is a field of the environment;
  it returns IPv4 addresses only, so an IPv6 literal never reaches \<open>is_private_ip\<close>.
\<close>

section \<open>Masking, hashes and comparison\<close>

definition mask_secret :: "string option \<Rightarrow> nat \<Rightarrow> string" where
  "mask_secret value visible_chars = (case value of
      None \<Rightarrow> ''None''
    | Some v \<Rightarrow>
        if v = [] then ''None''
        else if length v \<le> visible_chars then replicate (length v) (CHR ''*'')
        else replicate (length v - visible_chars) (CHR ''*'')
             @ (if visible_chars = 0 then v else last_chars visible_chars v))"

definition mask_dict :: "json dict \<Rightarrow> string set \<Rightarrow> json dict" where
  "mask_dict d sensitive = map (\<lambda>(key, v).
     (key, if key \<in> sensitive \<or> list_ex (\<lambda>s. contains (lower key) s) [''token'', ''secret'', ''password'']
           then JStr ''***'' else v)) d"

definition hash_credential :: "crypto \<Rightarrow> string \<Rightarrow> string \<Rightarrow> string" where
  "hash_credential c value salt = hmac_hex c salt value"

definition constant_time_equals :: "string \<Rightarrow> string \<Rightarrow> bool" where
  "constant_time_equals a b \<longleftrightarrow> a = b"

text \<open>\<open>hmac.compare_digest\<close> of two \<open>str\<close>, which must be ASCII.\<close>

definition compare_digest :: "string \<Rightarrow> string \<Rightarrow> exn + bool" where
  "compare_digest a b =
    (if is_ascii a \<and> is_ascii b then Inr (a = b)
     else Inl (Builtin TypeError ''comparing strings with non-ASCII characters is not supported''))"

fun decrypt_fernet :: "crypto \<Rightarrow> string \<Rightarrow> string list \<Rightarrow> exn + string" where
  "decrypt_fernet c token [] = Inl (error0 EncryptionError ''credential decryption failed'')"
| "decrypt_fernet c token (raw # keys) = (case fernet_decrypt c raw token of
      Inr plaintext \<Rightarrow> Inr plaintext
    | Inl _ \<Rightarrow> decrypt_fernet c token keys)"

section \<open>URLs\<close>

definition partition_at :: "char \<Rightarrow> string \<Rightarrow> string \<times> bool \<times> string" where
  "partition_at c s = (takeWhile (\<lambda>d. d \<noteq> c) s, c \<in> set s, drop 1 (dropWhile (\<lambda>d. d \<noteq> c) s))"

text \<open>The text after the last \<open>c\<close>, all of it when there is none.\<close>

definition after_last :: "char \<Rightarrow> string \<Rightarrow> string" where
  "after_last c s = rev (takeWhile (\<lambda>d. d \<noteq> c) (rev s))"

definition is_alpha :: "char \<Rightarrow> bool" where
  "is_alpha c \<longleftrightarrow> (CHR ''a'' \<le> c \<and> c \<le> CHR ''z'') \<or> (CHR ''A'' \<le> c \<and> c \<le> CHR ''Z'')"

definition scheme_char :: "char \<Rightarrow> bool" where
  "scheme_char c \<longleftrightarrow> is_alpha c \<or> is_digit c \<or> c \<in> {CHR ''+'', CHR ''-'', CHR ''.''}"

record split_url =
  url_scheme :: string
  url_netloc :: string

definition clean_url :: "string \<Rightarrow> string" where
  "clean_url url = filter (\<lambda>c. c \<notin> {CHR 0x09, CHR 0x0A, CHR 0x0D})
     (dropWhile (\<lambda>c. (of_char c :: nat) \<le> 32) url)"

definition urlsplit :: "string \<Rightarrow> exn + split_url" where
  "urlsplit url =
    (let u = clean_url url;
         (scheme, colon, after) = partition_at (CHR '':'') u;
         (scheme, rest) =
           (if colon \<and> scheme \<noteq> [] \<and> is_alpha (hd scheme) \<and> list_all scheme_char scheme
            then (lower scheme, after) else ([], u));
         netloc = (if startswith rest ''//''
                   then takeWhile (\<lambda>c. c \<notin> {CHR ''/'', CHR ''?'', CHR ''#''}) (drop 2 rest) else [])
     in if (CHR ''['' \<in> set netloc) \<noteq> (CHR '']'' \<in> set netloc)
        then Inl (Builtin ValueError ''Invalid IPv6 URL'')
        else Inr \<lparr>url_scheme = scheme, url_netloc = netloc\<rparr>)"

text \<open>The property \<open>hostname\<close>, with the empty string for \<open>None\<close>.\<close>

definition hostname :: "split_url \<Rightarrow> string" where
  "hostname u =
    (let info = after_last (CHR ''@'') (url_netloc u);
         (_, bracket, bracketed) = partition_at (CHR ''['') info;
         host = (if bracket then takeWhile (\<lambda>c. c \<noteq> CHR '']'') bracketed
                 else takeWhile (\<lambda>c. c \<noteq> CHR '':'') info);
         (name, percent, zone) = partition_at (CHR ''%'') host
     in if percent then lower name @ ''%'' @ zone else lower name)"

section \<open>IPv4 addresses\<close>

type_synonym ipv4 = "32 word"

definition parse_octet :: "string \<Rightarrow> nat option" where
  "parse_octet s =
    (let n = fst (read_nat 0 s) in
     if s \<noteq> [] \<and> list_all is_digit s \<and> length s \<le> 3 \<and> (s = ''0'' \<or> hd s \<noteq> CHR ''0'') \<and> n \<le> 255
     then Some n else None)"

definition ipv4_of :: "nat \<Rightarrow> nat \<Rightarrow> nat \<Rightarrow> nat \<Rightarrow> ipv4" where
  "ipv4_of a b c d = word_of_nat (a * 16777216 + b * 65536 + c * 256 + d)"

definition ip_address :: "string \<Rightarrow> ipv4 option" where
  "ip_address s = (case map parse_octet (split_on (CHR ''.'') s) of
      [Some a, Some b, Some c, Some d] \<Rightarrow> Some (ipv4_of a b c d)
    | _ \<Rightarrow> None)"

definition in_net :: "ipv4 \<times> nat \<Rightarrow> ipv4 \<Rightarrow> bool" where
  "in_net net w \<longleftrightarrow> drop_bit (32 - snd net) w = drop_bit (32 - snd net) (fst net)"

text \<open>\<open>_private_networks\<close> and \<open>_private_networks_exceptions\<close> of the standard library.\<close>

definition private_networks :: "(ipv4 \<times> nat) list" where
  "private_networks =
    [(0x00000000, 8), (0x0A000000, 8), (0x7F000000, 8), (0xA9FE0000, 16), (0xAC100000, 12),
     (0xC0000000, 24), (0xC0000200, 24), (0xC0A80000, 16), (0xC6120000, 15), (0xC6336400, 24),
     (0xCB007100, 24), (0xF0000000, 4), (0xFFFFFFFF, 32)]"

definition private_exceptions :: "(ipv4 \<times> nat) list" where
  "private_exceptions = [(0xC0000009, 32), (0xC000000A, 32)]"

definition addr_is_private :: "ipv4 \<Rightarrow> bool" where
  "addr_is_private w \<longleftrightarrow>
     list_ex (\<lambda>net. in_net net w) private_networks \<and> \<not> list_ex (\<lambda>net. in_net net w) private_exceptions"

definition addr_is_loopback :: "ipv4 \<Rightarrow> bool" where
  "addr_is_loopback w \<longleftrightarrow> in_net (0x7F000000, 8) w"

definition addr_is_link_local :: "ipv4 \<Rightarrow> bool" where
  "addr_is_link_local w \<longleftrightarrow> in_net (0xA9FE0000, 16) w"

definition addr_is_reserved :: "ipv4 \<Rightarrow> bool" where
  "addr_is_reserved w \<longleftrightarrow> in_net (0xF0000000, 4) w"

definition is_private_ip :: "string \<Rightarrow> bool" where
  "is_private_ip resolved = (case ip_address resolved of
      None \<Rightarrow> True
    | Some w \<Rightarrow> addr_is_private w \<or> addr_is_loopback w \<or> addr_is_link_local w \<or> addr_is_reserved w)"

section \<open>The guard\<close>

definition validate_target_url :: "env \<Rightarrow> string \<Rightarrow> exn + string" where
  "validate_target_url E url = (case urlsplit url of
      Inl e \<Rightarrow> Inl e
    | Inr parsed \<Rightarrow>
        (let host = hostname parsed in
         if url_scheme parsed \<notin> {''http'', ''https''}
         then Inl (Builtin ValueError (''unsupported URL scheme: '' @ repr_str (url_scheme parsed)))
         else if host \<in> {''localhost'', ''127.0.0.1'', ''::1''}
         then Inl (Builtin ValueError ''localhost targets are not allowed'')
         else (case gethostbyname E host of
             Inl (Builtin OSError _) \<Rightarrow> Inl (Builtin ValueError (''unresolvable host: '' @ host))
           | Inl e \<Rightarrow> Inl e
           | Inr resolved \<Rightarrow>
               if is_private_ip resolved
               then Inl (Builtin ValueError (''private-network target blocked: '' @ host))
               else Inr url)))"

section \<open>Facts\<close>

lemma accepted_target_eq: "validate_target_url E url = Inr u \<Longrightarrow> u = url"
  unfolding validate_target_url_def Let_def by (auto split: sum.splits if_splits exn.splits builtin.splits)

lemma in_net_div:
  "unat base div 2 ^ (32 - p) = q \<Longrightarrow> in_net (base, p) w \<longleftrightarrow> unat w div 2 ^ (32 - p) = q"
  by (auto simp: in_net_def word_unat_eq_iff unat_drop_bit_eq drop_bit_nat_def)

text \<open>The first two octets of an address, and the networks by them.\<close>

definition octet1 :: "ipv4 \<Rightarrow> nat" where
  "octet1 w = unat w div 16777216"

definition octet2 :: "ipv4 \<Rightarrow> nat" where
  "octet2 w = unat w div 65536 mod 256"

lemma unat_upper: "unat (w :: ipv4) div 65536 = octet1 w * 256 + octet2 w" "octet2 w < 256"
proof -
  have "unat w div 16777216 = unat w div 65536 div 256"
    by (simp add: div_mult2_eq[symmetric])
  then show "unat w div 65536 = octet1 w * 256 + octet2 w"
    by (simp add: octet1_def octet2_def)
qed (simp add: octet2_def)

lemma net_8: "in_net (0x00000000, 8) w \<longleftrightarrow> octet1 w = 0" "in_net (0x0A000000, 8) w \<longleftrightarrow> octet1 w = 10"
  "in_net (0x7F000000, 8) w \<longleftrightarrow> octet1 w = 127"
  by (subst in_net_div[OF refl], simp add: octet1_def)+

lemma pair_digits: "b < 256 \<Longrightarrow> a * 256 + b = n \<longleftrightarrow> a = n div 256 \<and> b = n mod 256" for a b n :: nat
  by auto

lemma pair_slice:
  fixes a b :: nat
  assumes "b < 256"
  shows "(a * 256 + b) div 16 = 2753 \<longleftrightarrow> a = 172 \<and> 16 \<le> b \<and> b < 32"
proof -
  have "(a * 256 + b) div 16 = 2753 \<longleftrightarrow> 44048 \<le> a * 256 + b \<and> a * 256 + b < 44064"
    by (auto simp: div_nat_eqI dividend_less_times_div)
  also have "\<dots> \<longleftrightarrow> a = 172 \<and> 16 \<le> b \<and> b < 32"
  proof
    assume h: "44048 \<le> a * 256 + b \<and> a * 256 + b < 44064"
    then have "a = 172"
      using assms by linarith
    then show "a = 172 \<and> 16 \<le> b \<and> b < 32"
      using h by simp
  qed simp
  finally show ?thesis .
qed

lemma net_16: "in_net (0xA9FE0000, 16) w \<longleftrightarrow> octet1 w = 169 \<and> octet2 w = 254"
  "in_net (0xC0A80000, 16) w \<longleftrightarrow> octet1 w = 192 \<and> octet2 w = 168"
  using unat_upper[of w] pair_digits[of "octet2 w" "octet1 w"]
  by (subst in_net_div[OF refl], simp)+

lemma top_sixteen: "a < 256 \<Longrightarrow> a div 16 = 15 \<longleftrightarrow> 240 \<le> a" for a :: nat
  by (auto simp: div_nat_eqI)

lemma net_4: "in_net (0xF0000000, 4) w \<longleftrightarrow> 240 \<le> octet1 w"
proof -
  have "octet1 w < 256"
    using unsigned_less[of w, where ?'a = nat] by (simp add: octet1_def less_mult_imp_div_less)
  moreover have "unat w div 268435456 = octet1 w div 16"
    by (simp add: octet1_def div_mult2_eq[symmetric])
  ultimately show ?thesis
    using top_sixteen by (subst in_net_div[OF refl]) simp
qed

lemma net_exceptions: "in_net (0xC0000009, 32) w \<or> in_net (0xC000000A, 32) w \<Longrightarrow> octet1 w = 192 \<and> octet2 w = 0"
  by (auto simp: in_net_div[OF refl] octet1_def octet2_def)

lemma net_12: "in_net (0xAC100000, 12) w \<longleftrightarrow> octet1 w = 172 \<and> 16 \<le> octet2 w \<and> octet2 w < 32"
proof -
  have "unat w div 1048576 = unat w div 65536 div 16"
    by (simp add: div_mult2_eq[symmetric])
  then show ?thesis
    using unat_upper[of w] pair_slice[of "octet2 w" "octet1 w"] by (subst in_net_div[OF refl], simp)
qed

lemma private_octets:
  assumes "\<not> addr_is_private w"
  shows "octet1 w \<notin> {0, 10, 127} \<and> \<not> (octet1 w = 169 \<and> octet2 w = 254)
    \<and> \<not> (octet1 w = 172 \<and> 16 \<le> octet2 w \<and> octet2 w < 32) \<and> \<not> (octet1 w = 192 \<and> octet2 w = 168)"
proof (cases "octet1 w = 192 \<and> octet2 w = 0")
  case False
  then have "\<not> list_ex (\<lambda>net. in_net net w) private_exceptions"
    using net_exceptions[of w] by (auto simp: private_exceptions_def)
  then have "\<not> list_ex (\<lambda>net. in_net net w) private_networks"
    using assms by (simp add: addr_is_private_def)
  then show ?thesis
    by (simp add: private_networks_def net_8 net_16 net_12)
qed auto

section \<open>Properties\<close>

text \<open>C20: The guard against server-side request forgery: a URL it accepts is returned unchanged, has
  the scheme http or https, and its host resolved to an IPv4 address outside the unspecified,
  loopback, RFC 1918, link-local and reserved ranges.\<close>

theorem accepted_targets_are_public:
  assumes "validate_target_url E url = Inr u"
  shows "u = url \<and> (\<exists>parsed ip w. urlsplit url = Inr parsed \<and> url_scheme parsed \<in> {''http'', ''https''}
    \<and> gethostbyname E (hostname parsed) = Inr ip \<and> ip_address ip = Some w
    \<and> octet1 w \<notin> {0, 10, 127} \<and> octet1 w < 240
    \<and> \<not> (octet1 w = 169 \<and> octet2 w = 254)
    \<and> \<not> (octet1 w = 172 \<and> 16 \<le> octet2 w \<and> octet2 w < 32)
    \<and> \<not> (octet1 w = 192 \<and> octet2 w = 168))"
proof -
  obtain parsed ip where p: "urlsplit url = Inr parsed" "url_scheme parsed \<in> {''http'', ''https''}"
    "gethostbyname E (hostname parsed) = Inr ip" "\<not> is_private_ip ip" "u = url"
    using assms unfolding validate_target_url_def Let_def
    by (auto split: sum.splits if_splits exn.splits builtin.splits)
  obtain w where w: "ip_address ip = Some w" "\<not> addr_is_private w" "\<not> addr_is_reserved w"
    using p(4) by (auto simp: is_private_ip_def split: option.splits)
  have "octet1 w < 240" and "octet1 w \<notin> {0, 10, 127}"
    and "\<not> (octet1 w = 169 \<and> octet2 w = 254)" and "\<not> (octet1 w = 192 \<and> octet2 w = 168)"
    and "\<not> (octet1 w = 172 \<and> 16 \<le> octet2 w \<and> octet2 w < 32)"
    using w(3) private_octets[OF w(2)] net_4[of w] by (auto simp: addr_is_reserved_def)
  then show ?thesis
    using p w by auto
qed

lemma sample_address: "ip_address ''93.184.216.34'' = Some (ipv4_of 93 184 216 34)"
  by (simp add: ip_address_def parse_octet_def is_digit_def digit_val_def)

lemma sample_address_public [simp]: "is_private_ip ''93.184.216.34'' = False"
  by (simp add: is_private_ip_def sample_address ipv4_of_def addr_is_private_def private_networks_def
      in_net_def addr_is_loopback_def addr_is_link_local_def addr_is_reserved_def)

lemma sample_target_url:
  "urlsplit ''https://hooks.example.com/in''
     = Inr \<lparr>url_scheme = ''https'', url_netloc = ''hooks.example.com''\<rparr>"
  "hostname \<lparr>url_scheme = ''https'', url_netloc = ''hooks.example.com''\<rparr> = ''hooks.example.com''"
  by code_simp+

lemma sample_target_accepted:
  "validate_target_url sample_env ''https://hooks.example.com/in'' = Inr ''https://hooks.example.com/in''"
  by (simp add: validate_target_url_def sample_target_url)

theorem accepted_targets_are_public_witness:
  "\<exists>parsed ip w. urlsplit ''https://hooks.example.com/in'' = Inr parsed
     \<and> gethostbyname sample_env (hostname parsed) = Inr ip \<and> ip_address ip = Some w \<and> octet1 w < 240"
  using accepted_targets_are_public[OF sample_target_accepted] by blast

end
