(* ===== verification/Provider_Base.thy ===== *)
theory Provider_Base
  imports Security_Utils
begin

text \<open>
  \<open>src/providers/base.py\<close>, \<open>src/utils/retry.py\<close> and \<open>src/providers/registry.py\<close>: what every provider
  shares. A provider class is the record of its class attributes and of the methods it implements;
  an instance is a class with a context. Its breaker is the one the registry of breakers keeps for
  its key.

  Attributes that \<open>BaseIntegrationProvider\<close> declares with \<open>dataclasses.field(...)\<close> although it is no
  dataclass are \<open>Field\<close> objects in every class that does not assign them: \<open>FieldSpec\<close>. A \<open>Field\<close> is
  truthy and has none of the attributes of the value it describes. httpx resolves the URL of a
  request against \<open>base_url\<close>; the model records the URL as passed. tenacity's \<open>AsyncRetrying\<close> is
  the parameter \<open>retrying\<close> of the procedures that use it.
\<close>

section \<open>Retry policies\<close>

record retry_policy =
  max_attempts :: int
  min_wait :: rat
  max_wait :: rat
  retry_on_status :: "int list"

definition default_retry_policy :: retry_policy where
  "default_retry_policy = \<lparr>max_attempts = 3, min_wait = 1 / 2, max_wait = 8,
     retry_on_status = [429, 500, 502, 503, 504]\<rparr>"

definition is_retryable :: "exn \<Rightarrow> bool" where
  "is_retryable e \<longleftrightarrow> is_a e RateLimitExceeded \<or> is_a e ProviderUnavailable"

definition is_retryable_status :: "int \<Rightarrow> retry_policy option \<Rightarrow> bool" where
  "is_retryable_status status p \<longleftrightarrow>
     status \<in> set (retry_on_status (case p of Some q \<Rightarrow> q | None \<Rightarrow> default_retry_policy))"

definition backoff_seconds :: "nat \<Rightarrow> rat \<Rightarrow> rat \<Rightarrow> rat" where
  "backoff_seconds attempt base longest = min (base * 2 ^ (attempt - 1)) longest"

datatype 'a attr = FieldSpec | Given 'a

text \<open>\<open>retrying p f\<close> is \<open>AsyncRetrying\<close> with the stop, wait and retry conditions of policy \<open>p\<close>.\<close>

type_synonym retrying = "retry_policy \<Rightarrow> http_response act \<Rightarrow> http_response act"

definition no_attribute :: "string \<Rightarrow> string \<Rightarrow> exn" where
  "no_attribute cls name =
     Builtin AttributeError (repr_str cls @ '' object has no attribute '' @ repr_str name)"

definition with_retry :: "retrying \<Rightarrow> retry_policy attr \<Rightarrow> http_response act \<Rightarrow> http_response act" where
  "with_retry retrying policy func = (case policy of
      FieldSpec \<Rightarrow> raise (no_attribute ''Field'' ''max_attempts'')
    | Given p \<Rightarrow> retrying p func)"

section \<open>Provider classes\<close>

record capability =
  cap_name :: string
  cap_description :: string
  cap_schema :: "json dict"
  cap_examples :: "string list"

record provider_context =
  ctx_provider :: string
  ctx_workspace :: string
  ctx_credentials :: "json dict"
  ctx_metadata :: "json dict"

datatype health_status = Ok_Health | Degraded | Down

record provider_health =
  health_status :: health_status
  health_detail :: "json dict"

text \<open>
  \<open>verify\<close> is the static method \<open>verify_signature\<close> if the class has one; \<open>actions\<close> lists the methods
  marked with \<open>@action\<close>, \<open>validate\<close> is \<open>validate_connection\<close>, \<open>own_health\<close> an override of \<open>health\<close>.
\<close>

record provider_class =
  provider_key :: string
  provider_name :: string
  description :: string
  auth_type :: string
  default_scopes :: "string list attr"
  capabilities :: "capability list"
  base_url :: string
  timeout :: rat
  retry_policy_attr :: "retry_policy attr"
  supports_webhooks :: bool
  oauth_authorize_url :: string
  oauth_token_url :: string
  oauth_revoke_url :: string
  oauth_scopes :: "string list attr"
  oauth_pkce :: bool
  oauth_token_header_auth :: bool
  verify :: "(settings \<Rightarrow> crypto \<Rightarrow> string dict \<Rightarrow> json dict \<Rightarrow> exn + bool) option"
  auth_headers :: "env \<Rightarrow> provider_context option \<Rightarrow> string dict"
  actions :: "(env \<Rightarrow> provider_context option \<Rightarrow> json dict \<Rightarrow> json act) dict"
  validate :: "env \<Rightarrow> provider_context option \<Rightarrow> bool act"
  own_health :: "(env \<Rightarrow> provider_context option \<Rightarrow> provider_health act) option"

text \<open>\<open>ProviderContext.require\<close>: every named credential must be present and truthy.\<close>

definition require_fields :: "provider_context \<Rightarrow> string list \<Rightarrow> exn + json dict" where
  "require_fields ctx keys =
    (let missing = filter (\<lambda>k. \<not> truthy (jget (ctx_credentials ctx) k)) keys in
     if missing \<noteq> []
     then Inl (error1 CredentialInvalid (''missing required credential fields: '' @ join '', '' missing)
            (ctx_provider ctx))
     else Inr (ctx_credentials ctx))"

definition set_credentials :: "json dict \<Rightarrow> provider_context \<Rightarrow> provider_context" where
  "set_credentials creds ctx = ctx\<lparr>ctx_credentials := dupdate (ctx_credentials ctx) creds\<rparr>"

definition healthy :: provider_health where
  "healthy = \<lparr>health_status = Ok_Health, health_detail = []\<rparr>"

definition down :: "json dict \<Rightarrow> provider_health" where
  "down detail = \<lparr>health_status = Down, health_detail = detail\<rparr>"

definition get_capability :: "provider_class \<Rightarrow> string \<Rightarrow> capability option" where
  "get_capability cls name = List.find (\<lambda>cap. cap_name cap = name) (capabilities cls)"

definition list_capabilities :: "provider_class \<Rightarrow> json list" where
  "list_capabilities cls = map (\<lambda>cap. JObj
     [(''name'', JStr (cap_name cap)), (''description'', JStr (cap_description cap)),
      (''params_schema'', JObj (cap_schema cap)), (''examples'', JArr (map JStr (cap_examples cap)))])
     (capabilities cls)"

definition base_headers :: "env \<Rightarrow> string dict" where
  "base_headers E = [(''User-Agent'', ''agentforge-integrations/'' @ app_version (settings_of E)),
     (''Accept'', ''application/json'')]"

section \<open>Requests\<close>

definition monotonic :: "env \<Rightarrow> rat act" where
  "monotonic E = bnd (now_utc E) (\<lambda>t. ret (of_int t / 1000000))"

text \<open>The breaker of a key, changed by one of its methods.\<close>

definition on_breaker :: "string \<Rightarrow> (breaker \<Rightarrow> (exn + 'a) \<times> breaker) \<Rightarrow> 'a act" where
  "on_breaker key f = (\<lambda>w. case breaker_for key (breakers w) of (b, bs) \<Rightarrow>
     (case f b of (r, b') \<Rightarrow> (r, w\<lparr>breakers := dset key b' bs\<rparr>)))"

definition breaker_allow :: "env \<Rightarrow> string \<Rightarrow> bool act" where
  "breaker_allow E key = bnd (monotonic E) (\<lambda>now. on_breaker key (allow_request now))"

definition breaker_failed :: "env \<Rightarrow> string \<Rightarrow> unit act" where
  "breaker_failed E key = bnd (monotonic E) (\<lambda>now. on_breaker key (\<lambda>b. (Inr (), record_failure now b)))"

definition breaker_succeeded :: "string \<Rightarrow> unit act" where
  "breaker_succeeded key = on_breaker key (\<lambda>b. (Inr (), record_success b))"

text \<open>\<open>BaseIntegrationProvider()\<close>: the constructor looks its breaker up, which creates it.\<close>

definition new_instance :: "provider_class \<Rightarrow> unit act" where
  "new_instance cls = on_breaker (provider_key cls) (\<lambda>b. (Inr (), b))"

definition safe_preview :: "string \<Rightarrow> string" where
  "safe_preview body =
     (if body = [] then [] else take 200 body @ (if 200 < length body then ''...'' else []))"

text \<open>The checks of \<open>_do\<close> on a response.\<close>

definition check_response :: "string \<Rightarrow> int list \<Rightarrow> http_response \<Rightarrow> exn + http_response" where
  "check_response key allowed resp =
    (let st = http_status resp in
     if st = 429
     then Inl (error2 RateLimitExceeded ''provider rate limit exceeded'' key [(''status_code'', JInt st)])
     else if st \<in> {500, 502, 503, 504}
     then Inl (error2 ProviderUnavailable ''provider returned a server error'' key [(''status_code'', JInt st)])
     else if 400 \<le> st \<and> st \<notin> set allowed
     then Inl (error2 IntegrationError (''provider request failed: HTTP '' @ show_int st) key
            [(''status_code'', JInt st), (''body'', JStr (safe_preview (http_text resp)))])
     else Inr resp)"

definition do_request :: "env \<Rightarrow> string \<Rightarrow> int list \<Rightarrow> request \<Rightarrow> http_response act" where
  "do_request E key allowed r = bnd (http_send E r) (\<lambda>resp. lift (check_response key allowed resp))"

record call =
  call_method :: string
  call_url :: string
  call_params :: "json dict"
  call_body :: body
  call_headers :: "string dict"
  call_allowed :: "int list"
  call_retry :: bool

definition request_of :: "env \<Rightarrow> provider_class \<Rightarrow> provider_context option \<Rightarrow> call \<Rightarrow> request" where
  "request_of E cls ctx c =
    \<lparr>req_method = call_method c, req_url = call_url c, req_params = call_params c,
     req_body = call_body c,
     req_headers = dupdate (dupdate (base_headers E) (auth_headers cls E ctx)) (call_headers c),
     req_auth = None\<rparr>"

definition provider_request ::
    "env \<Rightarrow> retrying \<Rightarrow> provider_class \<Rightarrow> provider_context option \<Rightarrow> call \<Rightarrow> http_response act" where
  "provider_request E retrying cls ctx c =
    (let key = provider_key cls;
         func = do_request E key (call_allowed c) (request_of E cls ctx c);
         attempt = (if call_retry c then with_retry retrying (retry_policy_attr cls) func else func)
     in bnd (breaker_allow E key) (\<lambda>_.
        bnd (catch attempt (\<lambda>e. thn (breaker_failed E key) (raise e))) (\<lambda>resp.
        thn (breaker_succeeded key) (ret resp))))"

section \<open>Actions and health\<close>

definition provider_execute ::
    "env \<Rightarrow> provider_class \<Rightarrow> provider_context option \<Rightarrow> string \<Rightarrow> json dict \<Rightarrow> json act" where
  "provider_execute E cls ctx name payload =
    (case dget (actions cls) name of
       None \<Rightarrow> raise (error1 ActionNotFound
         (''action '' @ repr_str name @ '' not supported by provider '' @ provider_key cls) (provider_key cls))
     | Some handler \<Rightarrow>
         catch (bnd (handler E ctx payload) (\<lambda>result.
                 thn (emit (ProviderCall (provider_key cls) True)) (ret result)))
               (\<lambda>e. thn (emit (ProviderCall (provider_key cls) False)) (raise e)))"

definition default_health :: "env \<Rightarrow> provider_class \<Rightarrow> provider_context option \<Rightarrow> provider_health act" where
  "default_health E cls ctx =
    bnd (catch (bnd (validate cls E ctx) (\<lambda>valid. ret (Inr valid)))
           (\<lambda>e. thn (emit (ProviderCall (provider_key cls) False)) (ret (Inl (exn_text e)))))
     (\<lambda>r. ret (case r of
        Inl text \<Rightarrow> down [(''error'', JStr text)]
      | Inr valid \<Rightarrow> if valid then healthy else down [(''reason'', JStr ''invalid connection'')]))"

definition provider_health_of :: "env \<Rightarrow> provider_class \<Rightarrow> provider_context option \<Rightarrow> provider_health act" where
  "provider_health_of E cls ctx = (case own_health cls of
      Some h \<Rightarrow> h E ctx
    | None \<Rightarrow> default_health E cls ctx)"

section \<open>The registry of providers\<close>

type_synonym registry = "provider_class dict"

text \<open>\<open>discover_providers\<close>: the classes of the modules that import and expose one with a key.\<close>

definition discover_providers :: "(string \<times> (exn + provider_class option)) list \<Rightarrow> registry" where
  "discover_providers modules = fold (\<lambda>(_, m) found. case m of
      Inr (Some cls) \<Rightarrow> (if provider_key cls \<noteq> [] then dset (provider_key cls) cls found else found)
    | _ \<Rightarrow> found) modules []"

definition registry_load :: "(string \<times> (exn + provider_class option)) list \<Rightarrow> registry \<Rightarrow> registry" where
  "registry_load modules reg = dupdate reg (discover_providers modules)"

definition registry_register :: "string \<Rightarrow> provider_class \<Rightarrow> registry \<Rightarrow> registry" where
  "registry_register key cls reg = dset key cls reg"

definition registry_get :: "registry \<Rightarrow> string \<Rightarrow> exn + provider_class" where
  "registry_get reg key = (case dget reg key of
      None \<Rightarrow> Inl (error0 ProviderNotFound (''provider '' @ repr_str key @ '' is not registered''))
    | Some cls \<Rightarrow> Inr cls)"

definition registry_keys :: "registry \<Rightarrow> string list" where
  "registry_keys reg = sort (dkeys reg)"

definition registry_build :: "registry \<Rightarrow> string \<Rightarrow> provider_class act" where
  "registry_build reg key = bnd (lift (registry_get reg key)) (\<lambda>cls. thn (new_instance cls) (ret cls))"

section \<open>Facts\<close>

definition breaker_at :: "string \<Rightarrow> world \<Rightarrow> breaker" where
  "breaker_at key w = fst (breaker_for key (breakers w))"

lemma on_breaker_eq:
  "on_breaker key f w = (fst (f (breaker_at key w)),
     w\<lparr>breakers := dset key (snd (f (breaker_at key w))) (snd (breaker_for key (breakers w)))\<rparr>)"
  by (simp add: on_breaker_def breaker_at_def split: prod.splits)

lemma breaker_at_set [simp]:
  "breaker_at key (w\<lparr>breakers := dset key b bs\<rparr>) = b"
  by (simp add: breaker_at_def breaker_for_def)

lemma breaker_at_simps [simp]:
  "breaker_at key (w\<lparr>ticks := n\<rparr>) = breaker_at key w"
  "breaker_at key (w\<lparr>sent := r\<rparr>) = breaker_at key w"
  "breaker_at key (w\<lparr>metrics := m\<rparr>) = breaker_at key w"
  "breaker_at key (w\<lparr>ticks := n, breakers := dset key b bs\<rparr>) = b"
  by (simp_all add: breaker_at_def breaker_for_def)

definition secs :: "env \<Rightarrow> nat \<Rightarrow> rat" where
  "secs E n = of_int (clock E n) / 1000000"

text \<open>What one call of a method does to the breaker and to the rest of the world.\<close>

lemma breaker_allow_spec:
  obtains w' where "breaker_allow E key w = (fst (allow_request (secs E (ticks w)) (breaker_at key w)), w')"
    and "breaker_at key w' = snd (allow_request (secs E (ticks w)) (breaker_at key w))"
    and "sent w' = sent w" and "ticks w' = ticks w + 1" and "db w' = db w" and "committed w' = committed w"
  by (simp add: breaker_allow_def monotonic_def bnd_def now_utc_def ret_def on_breaker_eq secs_def)

lemma breaker_failed_spec:
  obtains w' where "breaker_failed E key w = (Inr (), w')"
    and "breaker_at key w' = record_failure (secs E (ticks w)) (breaker_at key w)"
    and "sent w' = sent w" and "ticks w' = ticks w + 1" and "db w' = db w" and "committed w' = committed w"
  by (simp add: breaker_failed_def monotonic_def bnd_def now_utc_def ret_def on_breaker_eq secs_def)

lemma breaker_succeeded_spec:
  obtains w' where "breaker_succeeded key w = (Inr (), w')"
    and "breaker_at key w' = record_success (breaker_at key w)"
    and "sent w' = sent w" and "ticks w' = ticks w" and "db w' = db w" and "committed w' = committed w"
  by (simp add: breaker_succeeded_def on_breaker_eq)

lemma do_request_eq:
  "do_request E key allowed r w =
     (case http E (sent w) r of Inl e \<Rightarrow> Inl e | Inr resp \<Rightarrow> check_response key allowed resp,
      w\<lparr>sent := sent w @ [r]\<rparr>)"
  by (simp add: do_request_def http_send_def bnd_def lift_def split: sum.splits)

text \<open>A request with retries, when the class leaves \<open>retry_policy\<close> to the base class.\<close>

lemma request_with_field:
  assumes "call_retry c" and "retry_policy_attr cls = FieldSpec"
  obtains e w' where "provider_request E retrying cls ctx c w = (Inl e, w')" and "sent w' = sent w"
    and "fst (allow_request (secs E (ticks w)) (breaker_at (provider_key cls) w)) = Inl e \<longrightarrow>
           breaker_at (provider_key cls) w' = breaker_at (provider_key cls) w"
    and "fst (allow_request (secs E (ticks w)) (breaker_at (provider_key cls) w)) = Inr True \<longrightarrow>
           e = no_attribute ''Field'' ''max_attempts'' \<and> ticks w' = ticks w + 2 \<and>
           breaker_at (provider_key cls) w' = record_failure (secs E (ticks w + 1))
             (snd (allow_request (secs E (ticks w)) (breaker_at (provider_key cls) w)))"
proof -
  let ?k = "provider_key cls"
  let ?a = "allow_request (secs E (ticks w)) (breaker_at ?k w)"
  obtain w1 where w1: "breaker_allow E ?k w = (fst ?a, w1)" "breaker_at ?k w1 = snd ?a"
    "sent w1 = sent w" "ticks w1 = ticks w + 1"
    using breaker_allow_spec .
  obtain w2 where w2: "breaker_failed E ?k w1 = (Inr (), w2)" "sent w2 = sent w1" "ticks w2 = ticks w1 + 1"
    "breaker_at ?k w2 = record_failure (secs E (ticks w1)) (breaker_at ?k w1)"
    using breaker_failed_spec .
  show thesis
  proof (cases "fst ?a")
    case (Inl e)
    then have "snd ?a = breaker_at ?k w"
      by (auto simp: allow_request_def read_state_def Let_def split: if_splits)
    with Inl w1 show ?thesis
      by (intro that[of e w1]) (simp_all add: provider_request_def Let_def)
  next
    case (Inr x)
    have "provider_request E retrying cls ctx c w = (Inl (no_attribute ''Field'' ''max_attempts''), w2)"
      using assms w1(1) w2(1) Inr
      by (simp add: provider_request_def with_retry_def bnd_def catch_def thn_def raise_def Let_def)
    with Inr w1 w2 show ?thesis
      by (intro that[of "no_attribute ''Field'' ''max_attempts''" w2]) simp_all
  qed
qed

section \<open>Properties\<close>

text \<open>No request with retries ever leaves the service: \<open>retry_policy\<close> is a \<open>Field\<close> object in every
  provider class that does not assign it, so a call of \<open>_get\<close>, \<open>_post\<close>, \<open>_patch\<close>, \<open>_put\<close> or \<open>_delete\<close>
  with the default \<open>retry=True\<close> raises before anything is sent, and counts as a failure of the
  provider: after as many calls as the threshold of the closed breaker, the breaker is open.\<close>

theorem default_requests_never_sent:
  assumes "call_retry c" and "retry_policy_attr cls = FieldSpec"
    and "cb_state (breaker_at (provider_key cls) w) = CLOSED"
    and "breaker_ok (breaker_at (provider_key cls) w)"
    and "call = (\<lambda>w. snd (provider_request E retrying cls ctx c w))"
  shows "sent ((call ^^ n) w) = sent w
    \<and> (0 < n \<and> int n = failure_threshold (breaker_at (provider_key cls) w)
          - failures (breaker_at (provider_key cls) w)
       \<longrightarrow> cb_state (breaker_at (provider_key cls) ((call ^^ n) w)) = OPEN)"
proof -
  let ?b = "breaker_at (provider_key cls)"
  have sent: "sent ((call ^^ m) w) = sent w" for m
  proof (induction m)
    case (Suc m)
    obtain e w' where "provider_request E retrying cls ctx c ((call ^^ m) w) = (Inl e, w')"
      "sent w' = sent ((call ^^ m) w)"
      using request_with_field[OF assms(1,2), of E retrying ctx "(call ^^ m) w"] by metis
    then show ?case
      using Suc assms(5) by simp
  qed simp
  have step: "failures (?b (call v)) = failures (?b v) + 1
      \<and> failure_threshold (?b (call v)) = failure_threshold (?b v)
      \<and> cb_state (?b (call v)) = (if failure_threshold (?b v) \<le> failures (?b v) + 1 then OPEN else CLOSED)"
    if closed: "cb_state (?b v) = CLOSED" for v
  proof -
    have "allow_request (secs E (ticks v)) (?b v) = (Inr True, ?b v)"
      using closed by (simp add: allow_request_def read_state_def)
    then obtain e v' where "provider_request E retrying cls ctx c v = (Inl e, v')"
      "?b v' = record_failure (secs E (ticks v + 1)) (?b v)"
      using request_with_field[OF assms(1,2), of E retrying ctx v] by (metis fst_conv snd_conv)
    then show ?thesis
      using closed by (simp add: assms(5) record_failure_def Let_def)
  qed
  have run: "failures (?b ((call ^^ m) w)) = failures (?b w) + int m
      \<and> failure_threshold (?b ((call ^^ m) w)) = failure_threshold (?b w)
      \<and> cb_state (?b ((call ^^ m) w)) =
          (if 0 < m \<and> failure_threshold (?b w) \<le> failures (?b w) + int m then OPEN else CLOSED)"
    if "int m \<le> failure_threshold (?b w) - failures (?b w)" for m
    using that
  proof (induction m)
    case 0
    then show ?case
      using assms(3) by simp
  next
    case (Suc m)
    then have "cb_state (?b ((call ^^ m) w)) = CLOSED"
      by simp
    from step[OF this] Suc show ?case
      by simp
  qed
  show ?thesis
    using sent[of n] run[of n] by auto
qed

text \<open>A request without retries, admitted by the breaker, sends exactly one HTTP request and
  reports its outcome: an exception of the network as it is; status 429 as \<open>RateLimitExceeded\<close>;
  500, 502, 503 and 504 as \<open>ProviderUnavailable\<close>, also when listed in \<open>allowed_status\<close>; any other
  status from 400 on that is not listed as \<open>IntegrationError\<close>; everything else as the response.
  The breaker records a success exactly when the response is returned.\<close>

theorem plain_request_outcome:
  assumes "\<not> call_retry c"
    and "fst (allow_request (secs E (ticks w)) (breaker_at (provider_key cls) w)) = Inr True"
  shows "\<exists>w'. provider_request E retrying cls ctx c w =
        (case http E (sent w) (request_of E cls ctx c) of
           Inl e \<Rightarrow> Inl e | Inr resp \<Rightarrow> check_response (provider_key cls) (call_allowed c) resp, w')
    \<and> sent w' = sent w @ [request_of E cls ctx c]
    \<and> breaker_at (provider_key cls) w' =
        (case fst (provider_request E retrying cls ctx c w) of
           Inr _ \<Rightarrow> record_success (snd (allow_request (secs E (ticks w)) (breaker_at (provider_key cls) w)))
         | Inl _ \<Rightarrow> record_failure (secs E (ticks w + 1))
             (snd (allow_request (secs E (ticks w)) (breaker_at (provider_key cls) w))))"
proof -
  let ?k = "provider_key cls"
  let ?a = "allow_request (secs E (ticks w)) (breaker_at ?k w)"
  let ?r = "request_of E cls ctx c"
  define out where "out = (case http E (sent w) ?r of
     Inl e \<Rightarrow> Inl e | Inr resp \<Rightarrow> check_response ?k (call_allowed c) resp)"
  obtain w1 where w1: "breaker_allow E ?k w = (fst ?a, w1)" "breaker_at ?k w1 = snd ?a"
    "sent w1 = sent w" "ticks w1 = ticks w + 1"
    using breaker_allow_spec .
  let ?w2 = "w1\<lparr>sent := sent w @ [?r]\<rparr>"
  have d: "do_request E ?k (call_allowed c) ?r w1 = (out, ?w2)"
    using w1(3) by (simp add: do_request_eq out_def)
  obtain wf where wf: "breaker_failed E ?k ?w2 = (Inr (), wf)" "sent wf = sent ?w2"
    "breaker_at ?k wf = record_failure (secs E (ticks ?w2)) (breaker_at ?k ?w2)"
    using breaker_failed_spec .
  obtain wg where wg: "breaker_succeeded ?k ?w2 = (Inr (), wg)" "sent wg = sent ?w2"
    "breaker_at ?k wg = record_success (breaker_at ?k ?w2)"
    using breaker_succeeded_spec .
  have "provider_request E retrying cls ctx c w = (out, case out of Inl _ \<Rightarrow> wf | Inr _ \<Rightarrow> wg)"
    using assms w1(1) d wf(1) wg(1)
    by (cases out) (simp_all add: provider_request_def bnd_def catch_def thn_def raise_def ret_def Let_def)
  then show ?thesis
    using w1 wf wg by (cases out) (simp_all add: out_def[symmetric])
qed

section \<open>Witnesses\<close>

definition sample_class :: provider_class where
  "sample_class = \<lparr>provider_key = ''acme'', provider_name = ''Acme'', description = ''Acme'',
     auth_type = ''oauth2'', default_scopes = Given [''read''], capabilities = [],
     base_url = ''https://api.acme.test'', timeout = 30, retry_policy_attr = FieldSpec,
     supports_webhooks = True, oauth_authorize_url = ''https://acme.test/authorize'',
     oauth_token_url = ''https://acme.test/token'', oauth_revoke_url = ''https://acme.test/revoke'',
     oauth_scopes = Given [''read''], oauth_pkce = True, oauth_token_header_auth = True,
     verify = Some (\<lambda>_ _ _ _. Inr True), auth_headers = (\<lambda>_ _. []), actions = [],
     validate = (\<lambda>_ _. ret True), own_health = None\<rparr>"

definition sample_call :: "bool \<Rightarrow> call" where
  "sample_call retry = \<lparr>call_method = ''GET'', call_url = ''/user'', call_params = [], call_body = NoBody,
     call_headers = [], call_allowed = [], call_retry = retry\<rparr>"

lemma sample_class_key [simp]: "provider_key sample_class = ''acme''"
  by (simp add: sample_class_def)

lemma sample_breaker: "breaker_at key sample_world = default_breaker"
  by (simp add: breaker_at_def breaker_for_def sample_world_def empty_world_def)

theorem default_requests_never_sent_witness:
  "cb_state (breaker_at ''acme'' (((\<lambda>w. snd (provider_request sample_env (\<lambda>_ f. f) sample_class None
      (sample_call True) w)) ^^ 5) sample_world)) = OPEN"
  using default_requests_never_sent[of "sample_call True" sample_class sample_world
      "\<lambda>w. snd (provider_request sample_env (\<lambda>_ f. f) sample_class None (sample_call True) w)"
      sample_env "\<lambda>_ f. f" None 5] breaker_ok_default
  by (simp add: sample_call_def sample_class_def sample_breaker default_breaker_def new_breaker_def)

theorem plain_request_outcome_witness:
  "\<exists>w'. provider_request sample_env (\<lambda>_ f. f) sample_class None (sample_call False) sample_world
      = (Inr sample_response, w') \<and> length (sent w') = 1"
proof -
  have "fst (allow_request t default_breaker) = Inr True" for t
    by (simp add: allow_request_def read_state_def default_breaker_def new_breaker_def)
  then show ?thesis
    using plain_request_outcome[of "sample_call False" sample_env sample_world sample_class "\<lambda>_ f. f" None]
    by (auto simp: sample_breaker sample_call_def check_response_def)
qed

end
