(* ===== verification/Webhook_Dispatcher.thy ===== *)
theory Webhook_Dispatcher
  imports Redis_Service Provider_Base
begin

text \<open>
  \<open>src/services/webhook_dispatcher.py\<close>: verification, deduplication and storage of inbound events,
  their delivery to the subscribers of the workspace, retries and dead letters. An event is
  identified by its key; \<open>session.refresh(event)\<close> reads its row again. The rows of a query without
  \<open>order_by\<close> come in table order. A column of type \<open>String\<close> holds a text or nothing: any other value
  fails when the row is written, and the session is rolled back.
\<close>

section \<open>Inbound events\<close>

definition not_accepting :: "string \<Rightarrow> exn" where
  "not_accepting provider = error1 WebhookVerificationFailed
     (''provider '' @ provider @ '' does not accept webhooks'') provider"

definition bad_signature :: "string \<Rightarrow> exn" where
  "bad_signature key = error1 WebhookVerificationFailed ''webhook signature verification failed'' key"

definition duplicate_event :: "string \<Rightarrow> string \<Rightarrow> exn" where
  "duplicate_event provider key = error2 WebhookVerificationFailed ''duplicate webhook event'' provider
     [(''dedup_key'', JStr key)]"

text \<open>\<open>_assert_signature\<close>; a class without the method has no such attribute.\<close>

definition assert_signature :: "env \<Rightarrow> provider_class \<Rightarrow> string dict \<Rightarrow> json dict \<Rightarrow> exn + unit" where
  "assert_signature E cls headers payload = (case verify cls of
      None \<Rightarrow> Inl (no_attribute (provider_name cls) ''verify_signature'')
    | Some f \<Rightarrow> (case f (settings_of E) (crypto_of E) headers payload of
         Inl e \<Rightarrow> Inl e
       | Inr valid \<Rightarrow> if valid then Inr () else Inl (bad_signature (provider_key cls))))"

definition event_type_of :: "json dict \<Rightarrow> json" where
  "event_type_of payload =
    py_or (py_or (py_or (jget payload ''type'') (jget payload ''event'')) (jget payload ''action'')) JNull"

definition dedup_headers :: "string list" where
  "dedup_headers = [''X-Hub-Zoom-Event-Id'', ''x-github-event-id'', ''X-Request-Id'', ''X-Stripe-Trace-Id'',
     ''x-twilio-signature-ts'']"

text \<open>The first of the headers that has a value, else the type and the id of the payload.\<close>

definition dedup_candidate :: "string dict \<Rightarrow> string option" where
  "dedup_candidate headers = List.find (\<lambda>v. v \<noteq> []) (List.map_filter (dget headers) dedup_headers)"

definition dedup_key :: "string \<Rightarrow> string dict \<Rightarrow> json \<Rightarrow> json dict \<Rightarrow> string option" where
  "dedup_key provider headers event_type payload = (case dedup_candidate headers of
      Some candidate \<Rightarrow> Some (provider @ '':'' @ candidate)
    | None \<Rightarrow>
        if truthy event_type \<and> truthy (jget payload ''id'')
        then Some (provider @ '':'' @ py_str event_type @ '':'' @ py_str (jget payload ''id''))
        else None)"

definition refuse_duplicate :: "env \<Rightarrow> string \<Rightarrow> string option \<Rightarrow> unit act" where
  "refuse_duplicate E provider key = (case key of
      None \<Rightarrow> ret ()
    | Some k \<Rightarrow> bnd (seen E k) (\<lambda>dup.
        whenever dup (thn (emit (WebhookReceived provider)) (raise (duplicate_event provider k)))))"

definition hidden_headers :: "string list" where
  "hidden_headers = [''authorization'', ''cookie'', ''x-hub-signature'']"

definition text_column :: "json \<Rightarrow> exn + string option" where
  "text_column v = (case v of
      JNull \<Rightarrow> Inr None
    | JStr s \<Rightarrow> Inr (Some s)
    | _ \<Rightarrow> Inl (Builtin StatementError ''expected str''))"

definition new_event ::
    "string \<Rightarrow> time \<Rightarrow> string \<Rightarrow> string \<Rightarrow> string option \<Rightarrow> string option \<Rightarrow> json dict \<Rightarrow> string dict \<Rightarrow> webhook_event" where
  "new_event i now ws provider event_type key payload headers =
    \<lparr>ev_id = i, ev_workspace = ws, ev_provider = provider, ev_type = event_type, ev_dedup = key,
     ev_payload = payload, ev_headers = filter (\<lambda>(k, _). lower k \<notin> set hidden_headers) headers,
     ev_status = ''pending'', ev_delivered_at = None, ev_attempts = 0, ev_created_at = now\<rparr>"

definition store_event ::
    "env \<Rightarrow> string \<Rightarrow> string \<Rightarrow> json \<Rightarrow> string option \<Rightarrow> json dict \<Rightarrow> string dict \<Rightarrow> webhook_event act" where
  "store_event E ws provider event_type key payload headers =
    bnd (fresh (uuid E)) (\<lambda>i. bnd (now_utc E) (\<lambda>now. case text_column event_type of
      Inl e \<Rightarrow> thn rollback (raise e)
    | Inr t \<Rightarrow>
        (let ev = new_event i now ws provider t key payload headers
         in thn (add_event ev) (thn (commit E) (thn (emit (WebhookReceived provider)) (ret ev))))))"

definition verify_and_store ::
    "env \<Rightarrow> registry \<Rightarrow> string \<Rightarrow> string \<Rightarrow> string dict \<Rightarrow> json dict \<Rightarrow> webhook_event act" where
  "verify_and_store E reg provider ws headers payload =
    bnd (lift (registry_get reg provider)) (\<lambda>cls.
    if \<not> supports_webhooks cls then raise (not_accepting provider)
    else
      bnd (lift (assert_signature E cls headers payload)) (\<lambda>_.
      let event_type = event_type_of payload;
          key = dedup_key provider headers event_type payload
      in thn (refuse_duplicate E provider key)
           (store_event E ws provider event_type key payload headers)))"

section \<open>Outbound deliveries\<close>

text \<open>\<open>session.refresh(event)\<close>.\<close>

definition refresh_event :: "string \<Rightarrow> webhook_event act" where
  "refresh_event i = bnd (select webhook_events (\<lambda>e. ev_id e = i)) (\<lambda>rows. case rows of
      [] \<Rightarrow> raise (Builtin OtherException ''Could not refresh instance'')
    | e # _ \<Rightarrow> ret e)"

definition delivery_secret :: "env \<Rightarrow> subscription \<Rightarrow> string" where
  "delivery_secret E sub = (case sub_secret sub of
      Some s \<Rightarrow> if s = [] then webhook_default_secret (settings_of E) else s
    | None \<Rightarrow> webhook_default_secret (settings_of E))"

definition delivery_body :: "webhook_event \<Rightarrow> string" where
  "delivery_body e = dumps (JObj
    [(''id'', JStr (ev_id e)), (''type'', jopt_str (ev_type e)), (''provider'', JStr (ev_provider e)),
     (''workspace_id'', JStr (ev_workspace e)), (''timestamp'', JStr (isoformat True (ev_created_at e))),
     (''data'', JObj (ev_payload e))])"

definition sign_headers :: "env \<Rightarrow> string \<Rightarrow> string \<Rightarrow> subscription \<Rightarrow> string dict" where
  "sign_headers E body secret sub =
    [(''Content-Type'', ''application/json''),
     (''X-AgentForge-Signature'', ''sha256='' @ hmac_hex (crypto_of E) secret body),
     (''X-AgentForge-Event'', sub_provider sub), (''X-AgentForge-Hook-Id'', sub_id sub)]"

definition delivery_request :: "env \<Rightarrow> subscription \<Rightarrow> webhook_event \<Rightarrow> string \<Rightarrow> request" where
  "delivery_request E sub e target =
    \<lparr>req_method = ''POST'', req_url = target, req_params = [], req_body = Content (delivery_body e),
     req_headers = sign_headers E (delivery_body e) (delivery_secret E sub) sub, req_auth = None\<rparr>"

text \<open>The answer of the subscriber: its status and text, or the text of the exception of httpx.\<close>

definition post_delivery :: "env \<Rightarrow> request \<Rightarrow> (int option \<times> string) act" where
  "post_delivery E r =
    catch (bnd (http_send E r) (\<lambda>resp. ret (Some (http_status resp), take 2000 (http_text resp))))
      (\<lambda>e. case e of Builtin HTTPError t \<Rightarrow> ret (None, take 2000 t) | _ \<Rightarrow> raise e)"

definition delivered :: "int option \<Rightarrow> bool" where
  "delivered status = (case status of Some n \<Rightarrow> n < 400 | None \<Rightarrow> False)"

definition new_delivery :: "string \<Rightarrow> webhook_event \<Rightarrow> subscription \<Rightarrow> int option \<times> string \<Rightarrow> delivery" where
  "new_delivery i e sub answer =
    \<lparr>del_id = i, del_event = ev_id e, del_subscription = sub_id sub, del_attempt = ev_attempts e + 1,
     del_status_code = fst answer, del_body = Some (snd answer), del_success = delivered (fst answer)\<rparr>"

text \<open>The attributes of the event that an attempt sets.\<close>

definition mark_attempt :: "int \<Rightarrow> time option \<Rightarrow> webhook_event \<Rightarrow> webhook_event" where
  "mark_attempt attempts delivered_at e = (case delivered_at of
      Some t \<Rightarrow> e\<lparr>ev_attempts := attempts, ev_status := ''delivered'', ev_delivered_at := Some t\<rparr>
    | None \<Rightarrow> e\<lparr>ev_attempts := attempts, ev_status := ''failed''\<rparr>)"

definition record_attempt :: "webhook_event \<Rightarrow> delivery \<Rightarrow> time option \<Rightarrow> database \<Rightarrow> database" where
  "record_attempt e del delivered_at d = d
    \<lparr>webhook_events := update_rows ev_id (ev_id e) (mark_attempt (ev_attempts e + 1) delivered_at) (webhook_events d),
     deliveries := deliveries d @ [del]\<rparr>"

definition delivery_metrics :: "string \<Rightarrow> bool \<Rightarrow> unit act" where
  "delivery_metrics provider ok =
    thn (emit (WebhookDelivered provider ok)) (whenever (\<not> ok) (emit (WebhookRetry provider)))"

definition finish_delivery :: "env \<Rightarrow> subscription \<Rightarrow> webhook_event \<Rightarrow> int option \<times> string \<Rightarrow> delivery act" where
  "finish_delivery E sub e answer =
    bnd (if delivered (fst answer) then bnd (now_utc E) (\<lambda>t. ret (Some t)) else ret None) (\<lambda>stamp.
    thn (delivery_metrics (ev_provider e) (delivered (fst answer)))
    (bnd (fresh (uuid E)) (\<lambda>i.
      let del = new_delivery i e sub answer
      in thn (on_db (record_attempt e del stamp)) (thn (commit E) (ret del)))))"

definition deliver_to_subscription :: "env \<Rightarrow> string \<Rightarrow> subscription \<Rightarrow> delivery act" where
  "deliver_to_subscription E i sub =
    bnd (refresh_event i) (\<lambda>e.
    bnd (lift (validate_target_url E (sub_target sub))) (\<lambda>target.
    bnd (post_delivery E (delivery_request E sub e target)) (finish_delivery E sub e)))"

definition active_subscriptions :: "webhook_event \<Rightarrow> subscription list act" where
  "active_subscriptions e = select subscriptions
     (\<lambda>s. sub_workspace s = ev_workspace e \<and> sub_provider s = ev_provider e \<and> sub_active s)"

definition dispatch_event :: "env \<Rightarrow> webhook_event \<Rightarrow> delivery list act" where
  "dispatch_event E e =
    bnd (active_subscriptions e) (\<lambda>subs.
      if subs = [] then
        thn (update_event (ev_id e) (\<lambda>r. r\<lparr>ev_status := ''no_subscribers''\<rparr>)) (thn (commit E) (ret []))
      else for_each subs (deliver_to_subscription E (ev_id e)))"

section \<open>Retries and dead letters\<close>

definition within_budget :: "env \<Rightarrow> webhook_event \<Rightarrow> bool" where
  "within_budget E e \<longleftrightarrow> ev_status e = ''failed'' \<and> ev_attempts e < webhook_retry_max (settings_of E)"

definition over_budget :: "env \<Rightarrow> webhook_event \<Rightarrow> bool" where
  "over_budget E e \<longleftrightarrow> ev_status e = ''failed'' \<and> webhook_retry_max (settings_of E) \<le> ev_attempts e"

definition retry_failed :: "env \<Rightarrow> nat \<Rightarrow> nat act" where
  "retry_failed E limit =
    bnd (select webhook_events (within_budget E)) (\<lambda>rows.
    bnd (for_each (take limit rows) (dispatch_event E)) (\<lambda>_. ret (length (take limit rows))))"

definition bury :: "webhook_event \<Rightarrow> webhook_event" where
  "bury e = e\<lparr>ev_status := ''dead_lettered''\<rparr>"

definition dead_letter_overflow :: "env \<Rightarrow> nat \<Rightarrow> webhook_event list act" where
  "dead_letter_overflow E limit =
    bnd (select webhook_events (over_budget E)) (\<lambda>rows.
    bnd (for_each (take limit rows) (\<lambda>e. update_event (ev_id e) bury)) (\<lambda>_.
    thn (commit E) (ret (map bury (take limit rows)))))"

definition default_webhook_secret :: "env \<Rightarrow> string act" where
  "default_webhook_secret E =
    (if webhook_default_secret (settings_of E) \<noteq> [] then ret (webhook_default_secret (settings_of E))
     else fresh (token_urlsafe E))"

end
