(* ===== verification/Signatures.thy ===== *)
theory Signatures
  imports Security_Utils
begin

text \<open>
  The static methods \<open>verify_signature\<close> of the providers that accept webhooks, in
  \<open>src/providers/*/__init__.py\<close>. Each takes the headers and the parsed payload of an event and
  says whether the event is genuine; the digests are computed over \<open>json.dumps(payload)\<close>, the text of
  the parsed payload written again. \<open>hmac.compare_digest\<close> raises on a header that is not ASCII.
\<close>

section \<open>Shared steps\<close>

text \<open>\<open>headers.get(name, "")\<close>.\<close>

definition header :: "string dict \<Rightarrow> string \<Rightarrow> string" where
  "header h name = (case dget h name of None \<Rightarrow> [] | Some v \<Rightarrow> v)"

text \<open>\<open>provided[len("sha256="):]\<close> when the header starts with it.\<close>

definition without_sha256 :: "string \<Rightarrow> string" where
  "without_sha256 s = (if startswith s ''sha256='' then drop 7 s else s)"

definition raw_body :: "json dict \<Rightarrow> string" where
  "raw_body payload = py_str (jget_or payload ''raw_body'' (JStr []))"

section \<open>The providers\<close>

definition github_verify :: "settings \<Rightarrow> crypto \<Rightarrow> string dict \<Rightarrow> json dict \<Rightarrow> exn + bool" where
  "github_verify s c h payload =
    (let signature = header h ''X-Hub-Signature-256'' in
     if signature = [] then Inr False
     else compare_digest (without_sha256 signature)
            (hmac_hex c (github_webhook_secret (github s)) (dumps (JObj payload))))"

definition slack_verify :: "settings \<Rightarrow> crypto \<Rightarrow> string dict \<Rightarrow> json dict \<Rightarrow> exn + bool" where
  "slack_verify s c h payload =
    (let timestamp = header h ''x-slack-request-timestamp'';
         basestring = ''v0:'' @ timestamp @ '':'' @ raw_body payload
     in compare_digest (''v0='' @ hmac_hex c (slack_signing_secret (slack s)) basestring)
          (header h ''x-slack-signature''))"

text \<open>The last \<open>t=\<close> and the last \<open>v1=\<close> of a Stripe signature.\<close>

definition stripe_parts :: "string \<Rightarrow> string \<times> string" where
  "stripe_parts signature = fold (\<lambda>part (timestamp, provided).
      if startswith part ''t='' then (drop 2 part, provided)
      else if startswith part ''v1='' then (timestamp, drop 3 part)
      else (timestamp, provided)) (split_on (CHR '','') signature) ([], [])"

definition stripe_verify :: "settings \<Rightarrow> crypto \<Rightarrow> string dict \<Rightarrow> json dict \<Rightarrow> exn + bool" where
  "stripe_verify s c h payload =
    (let secret = stripe_webhook_secret (stripe s); signature = header h ''Stripe-Signature''
     in if secret = [] then Inr True
        else if signature = [] then Inr False
        else (case stripe_parts signature of (timestamp, provided) \<Rightarrow>
          if timestamp = [] \<or> provided = [] then Inr False
          else compare_digest (hmac_hex c secret (timestamp @ ''.'' @ dumps (JObj payload))) provided))"

definition twilio_verify :: "settings \<Rightarrow> crypto \<Rightarrow> string dict \<Rightarrow> json dict \<Rightarrow> exn + bool" where
  "twilio_verify s c h payload =
    (let signature = header h ''X-Twilio-Signature'' in
     if signature = [] then Inr False
     else compare_digest (hmac_hex c (twilio_auth_token (twilio s)) (dumps (JObj payload))) signature)"

definition sendgrid_verify :: "settings \<Rightarrow> crypto \<Rightarrow> string dict \<Rightarrow> json dict \<Rightarrow> exn + bool" where
  "sendgrid_verify s c h payload =
    (let api_key = sendgrid_api_key (sendgrid s);
         signature = header h ''X-Twilio-Email-Event-Webhook-Signature'';
         timestamp = header h ''X-Twilio-Email-Event-Webhook-Timestamp''
     in if signature = [] \<and> api_key = [] then Inr True
        else if signature = [] \<or> timestamp = [] \<or> api_key = [] then Inr False
        else compare_digest (hmac_hex c api_key (timestamp @ raw_body payload)) signature)"

definition hubspot_verify :: "settings \<Rightarrow> crypto \<Rightarrow> string dict \<Rightarrow> json dict \<Rightarrow> exn + bool" where
  "hubspot_verify s c h payload =
    (let timestamp = header h ''X-HubSpot-Request-Timestamp'';
         signature = header h ''X-HubSpot-Signature'';
         signature3 = header h ''X-HubSpot-Signature-3'';
         client_secret = hubspot_client_secret (hubspot s);
         body = dumps (JObj payload)
     in if signature3 \<noteq> [] then
          (let base_string = client_secret @ timestamp @ body
           in compare_digest (hmac_hex c base_string base_string) signature3)
        else if signature \<noteq> [] then compare_digest (hmac_hex c client_secret body) signature
        else Inr False)"

definition jira_verify :: "settings \<Rightarrow> crypto \<Rightarrow> string dict \<Rightarrow> json dict \<Rightarrow> exn + bool" where
  "jira_verify s c h payload =
    (let signature = header h ''X-Hub-Signature'' in
     if signature = [] then Inr False
     else compare_digest (without_sha256 signature)
            (hmac_hex c (webhook_default_secret s) (dumps (JObj payload))))"

text \<open>The scheme of Trello and of the generic webhook provider: the first of two headers.\<close>

definition default_secret_verify ::
    "string \<Rightarrow> settings \<Rightarrow> crypto \<Rightarrow> string dict \<Rightarrow> json dict \<Rightarrow> exn + bool" where
  "default_secret_verify name s c h payload =
    (let secret = webhook_default_secret s;
         signature = (if header h name \<noteq> [] then header h name else header h ''X-AgentForge-Signature'')
     in if secret = [] then Inr True
        else if signature = [] then Inr False
        else compare_digest (without_sha256 signature) (hmac_hex c secret (dumps (JObj payload))))"

definition trello_verify :: "settings \<Rightarrow> crypto \<Rightarrow> string dict \<Rightarrow> json dict \<Rightarrow> exn + bool" where
  "trello_verify = default_secret_verify ''x-trello-webhook-signature''"

definition webhook_verify :: "settings \<Rightarrow> crypto \<Rightarrow> string dict \<Rightarrow> json dict \<Rightarrow> exn + bool" where
  "webhook_verify = default_secret_verify ''X-Webhook-Signature''"

definition discord_verify :: "settings \<Rightarrow> crypto \<Rightarrow> string dict \<Rightarrow> json dict \<Rightarrow> exn + bool" where
  "discord_verify s c h payload = Inr (header h ''x-signature-ed25519'' \<noteq> [])"

section \<open>Facts\<close>

lemma compare_digest_True: "compare_digest a b = Inr True \<longleftrightarrow> a = b \<and> is_ascii a"
  by (auto simp: compare_digest_def)

text \<open>Header names as the server hands them over: ASGI writes them in lower case.\<close>

definition lower_names :: "string dict \<Rightarrow> bool" where
  "lower_names h \<longleftrightarrow> (\<forall>k \<in> set (dkeys h). lower k = k)"

lemma header_lower: "lower_names h \<Longrightarrow> lower name \<noteq> name \<Longrightarrow> header h name = []"
  by (force simp: lower_names_def header_def dest: map_of_SomeD split: option.splits)

lemma header_absent: "header h name \<noteq> [] \<longleftrightarrow> (\<exists>v. dget h name = Some v \<and> v \<noteq> [])"
  by (auto simp: header_def split: option.splits)

text \<open>Which of the names the schemes look up are in lower case.\<close>

lemma header_names:
  "lower ''X-Hub-Signature-256'' \<noteq> ''X-Hub-Signature-256''"
  "lower ''Stripe-Signature'' \<noteq> ''Stripe-Signature''"
  "lower ''X-Twilio-Signature'' \<noteq> ''X-Twilio-Signature''"
  "lower ''X-Twilio-Email-Event-Webhook-Signature'' \<noteq> ''X-Twilio-Email-Event-Webhook-Signature''"
  "lower ''X-HubSpot-Signature'' \<noteq> ''X-HubSpot-Signature''"
  "lower ''X-HubSpot-Signature-3'' \<noteq> ''X-HubSpot-Signature-3''"
  "lower ''X-Hub-Signature'' \<noteq> ''X-Hub-Signature''"
  "lower ''X-Webhook-Signature'' \<noteq> ''X-Webhook-Signature''"
  "lower ''X-AgentForge-Signature'' \<noteq> ''X-AgentForge-Signature''"
  by code_simp+

section \<open>Properties\<close>

text \<open>What a correctly signed GitHub event needs to be accepted: the digest is computed over
  \<open>json.dumps\<close> of the parsed payload, not over the bytes received. A request whose header carries the
  digest of the string \<open>body\<close> under the configured secret is accepted exactly when \<open>body\<close> is the text
  Python's \<open>json.dumps\<close> writes for the payload; the same JSON written without blanks after separators is refused.\<close>

theorem github_accepts_own_text_only:
  assumes "\<forall>m n. hmac_hex c k m = hmac_hex c k n \<longrightarrow> m = n" and "k = github_webhook_secret (github s)"
    and "is_ascii (hmac_hex c k body)" and "is_ascii (hmac_hex c k (dumps (JObj payload)))"
    and "dget h ''X-Hub-Signature-256'' = Some (''sha256='' @ hmac_hex c k body)"
  shows "github_verify s c h payload = Inr (body = dumps (JObj payload))"
proof -
  have "header h ''X-Hub-Signature-256'' = ''sha256='' @ hmac_hex c k body"
    by (simp only: header_def assms(5) option.case)
  moreover have "without_sha256 (''sha256='' @ t) = t" for t
    by (simp add: without_sha256_def)
  ultimately show ?thesis
    unfolding github_verify_def Let_def assms(2)[symmetric]
    using assms(1,3,4) by (auto simp: compare_digest_def)
qed

text \<open>Behind an ASGI server, which writes header names in lower case, no event of GitHub, Jira,
  Twilio or HubSpot is ever accepted, nor, with their secret configured, of Stripe, SendGrid or the
  generic provider: the schemes look up capitalised names in a plain dictionary.\<close>

lemma capital_headers_refused:
  assumes "lower_names h"
  shows "github_verify s c h payload = Inr False \<and> jira_verify s c h payload = Inr False
    \<and> twilio_verify s c h payload = Inr False \<and> hubspot_verify s c h payload = Inr False
    \<and> stripe_verify s c h payload = Inr (stripe_webhook_secret (stripe s) = [])
    \<and> sendgrid_verify s c h payload = Inr (sendgrid_api_key (sendgrid s) = [])
    \<and> webhook_verify s c h payload = Inr (webhook_default_secret s = [])"
proof -
  note absent = header_names[THEN header_lower[OF assms]]
  have "github_verify s c h payload = Inr False" "jira_verify s c h payload = Inr False"
    "twilio_verify s c h payload = Inr False" "hubspot_verify s c h payload = Inr False"
    by (simp_all only: github_verify_def jira_verify_def twilio_verify_def hubspot_verify_def Let_def
        absent simp_thms if_True if_False)
  moreover have "stripe_verify s c h payload = Inr (stripe_webhook_secret (stripe s) = [])"
    "sendgrid_verify s c h payload = Inr (sendgrid_api_key (sendgrid s) = [])"
    "webhook_verify s c h payload = Inr (webhook_default_secret s = [])"
    unfolding stripe_verify_def sendgrid_verify_def webhook_verify_def default_secret_verify_def Let_def absent
    by simp_all
  ultimately show ?thesis
    by blast
qed

text \<open>Without a cryptographic check: every event with a non-empty \<open>x-signature-ed25519\<close> header passes
  for Discord; and while the secret of its scheme is empty, as by default, every event whatsoever passes
  for Stripe, Trello and the generic provider.\<close>

theorem unsigned_events_accepted:
  assumes "dget h ''x-signature-ed25519'' = Some v" and "v \<noteq> []" and "s = default_settings"
  shows "discord_verify s c h payload = Inr True \<and> stripe_verify s c h' payload = Inr True
    \<and> trello_verify s c h' payload = Inr True \<and> webhook_verify s c h' payload = Inr True"
proof -
  have "stripe_webhook_secret (stripe s) = []" "webhook_default_secret s = []"
    by (simp_all add: assms(3) default_settings_def)
  moreover have "header h ''x-signature-ed25519'' \<noteq> []"
    using assms(1,2) by (simp only: header_def option.case not_False_eq_True)
  ultimately show ?thesis
    by (simp only: discord_verify_def stripe_verify_def trello_verify_def webhook_verify_def
        default_secret_verify_def Let_def if_True simp_thms)
qed

section \<open>Witnesses\<close>

theorem github_accepts_own_text_only_witness:
  "github_verify default_settings sample_crypto [(''X-Hub-Signature-256'', ''sha256=/[]'')] []
     = Inr (''[]'' = dumps (JObj []))"
proof (rule github_accepts_own_text_only[where k = "[]"])
  show "\<forall>m n. hmac_hex sample_crypto [] m = hmac_hex sample_crypto [] n \<longrightarrow> m = n"
    by (simp add: sample_crypto_def)
  show "[] = github_webhook_secret (github default_settings)"
    by (simp add: default_settings_def)
  show "is_ascii (hmac_hex sample_crypto [] ''[]'')" "is_ascii (hmac_hex sample_crypto [] (dumps (JObj [])))"
    by code_simp+
  show "dget [(''X-Hub-Signature-256'', ''sha256=/[]'')] ''X-Hub-Signature-256''
      = Some (''sha256='' @ hmac_hex sample_crypto [] ''[]'')"
    by (simp add: sample_crypto_def)
qed

theorem unsigned_events_accepted_witness:
  "discord_verify default_settings sample_crypto [(''x-signature-ed25519'', ''00'')] [] = Inr True"
  using unsigned_events_accepted[of "[(''x-signature-ed25519'', ''00'')]" "''00''" default_settings] by simp

end
