(* ===== verification/Webhook_Theorems.thy ===== *)
theory Webhook_Theorems
  imports Webhook_Dispatcher Signatures
begin

text \<open>
  What holds of the webhook dispatcher: the shape of the stored events, the outcome of an attempt,
  deduplication, and that the periodic tasks settle every failed event within a bounded number
  of runs, as long as the targets of the subscribers stay acceptable.
\<close>

section \<open>One attempt\<close>

lemma refresh_event_eq:
  "refresh_event i w = (case filter (\<lambda>e. ev_id e = i) (webhook_events (db w)) of
      [] \<Rightarrow> (Inl (Builtin OtherException ''Could not refresh instance''), w)
    | e # _ \<Rightarrow> (Inr e, w))"
  by (simp add: refresh_event_def select_def gets_def bnd_def raise_def ret_def split: list.splits)

lemma refresh_event_InrD:
  assumes "refresh_event i w = (Inr e, w')"
  shows "w' = w \<and> e \<in> set (webhook_events (db w)) \<and> ev_id e = i"
proof -
  have "e \<in> set (filter (\<lambda>e. ev_id e = i) (webhook_events (db w))) \<and> w' = w"
    using assms by (auto simp: refresh_event_eq simp del: set_filter split: list.splits)
  then show ?thesis
    by auto
qed

lemma refresh_event_InlD: "refresh_event i w = (Inl e, w') \<Longrightarrow> w' = w"
  by (auto simp: refresh_event_eq split: list.splits)

lemma refresh_present:
  assumes "distinct (map ev_id (webhook_events (db w)))" and "e \<in> set (webhook_events (db w))"
  shows "refresh_event (ev_id e) w = (Inr e, w)"
  by (simp add: refresh_event_eq filter_key[OF assms])

lemma post_delivery_eq:
  "post_delivery E r w = (case http E (sent w) r of
      Inr resp \<Rightarrow> Inr (Some (http_status resp), take 2000 (http_text resp))
    | Inl e \<Rightarrow> (case e of Builtin HTTPError t \<Rightarrow> Inr (None, take 2000 t) | _ \<Rightarrow> Inl e),
    w\<lparr>sent := sent w @ [r]\<rparr>)"
  by (simp add: post_delivery_def http_send_def bnd_def catch_def ret_def raise_def
      split: sum.splits exn.splits builtin.splits)

lemma finish_delivery_eq:
  fixes w :: world
  obtains stamp i w1 where
    "stamp = (if delivered (fst answer) then Some (clock E (ticks w)) else None)"
    and "i = uuid E (entropy w)" and "sent w1 = sent w"
    and "db w1 = record_attempt e (new_delivery i e sub answer) stamp (db w)"
    and "committed w1 = committed w" and "entropy w1 = entropy w + 1" and "redis w1 = redis w"
    and "finish_delivery E sub e answer w =
          (if db_ok (foreign_keys E) (db w1)
           then (Inr (new_delivery i e sub answer), w1\<lparr>committed := db w1\<rparr>)
           else (Inl (Builtin IntegrityError []), w1\<lparr>db := committed w\<rparr>))"
proof -
  let ?i = "uuid E (entropy w)"
  let ?stamp = "if delivered (fst answer) then Some (clock E (ticks w)) else None"
  let ?del = "new_delivery ?i e sub answer"
  let ?w1 = "w\<lparr>ticks := (if delivered (fst answer) then ticks w + 1 else ticks w), entropy := entropy w + 1,
    metrics := metrics w @ WebhookDelivered (ev_provider e) (delivered (fst answer))
       # (if delivered (fst answer) then [] else [WebhookRetry (ev_provider e)]),
    db := record_attempt e ?del ?stamp (db w)\<rparr>"
  show thesis
    by (rule that[of ?stamp ?i ?w1])
      (simp_all add: finish_delivery_def Let_def bnd_def thn_def ret_def now_utc_def delivery_metrics_def
        emit_def modify_def whenever_def fresh_def on_db_def commit_def)
qed

text \<open>An attempt either stops before anything is stored, or stores a delivery and marks the event.\<close>

lemma deliver_outcome:
  assumes "deliver_to_subscription E i sub w = (r, w')"
  shows "case r of
      Inl _ \<Rightarrow> committed w' = committed w \<and> (db w' = db w \<or> db w' = committed w)
    | Inr del \<Rightarrow> \<exists>e stamp answer. e \<in> set (webhook_events (db w)) \<and> ev_id e = i
        \<and> del = new_delivery (uuid E (entropy w)) e sub answer
        \<and> stamp = (if delivered (fst answer) then Some (clock E (ticks w)) else None)
        \<and> validate_target_url E (sub_target sub) = Inr (sub_target sub)
        \<and> sent w' = sent w @ [delivery_request E sub e (sub_target sub)]
        \<and> db w' = record_attempt e del stamp (db w) \<and> committed w' = db w'
        \<and> db_ok (foreign_keys E) (db w') \<and> entropy w' = entropy w + 1"
proof (cases "refresh_event i w")
  case (Pair q w0)
  show ?thesis
  proof (cases q)
    case (Inl x)
    then show ?thesis
      using assms Pair by (auto simp: deliver_to_subscription_def dest: refresh_event_InlD)
  next
    case (Inr e)
    then have e: "w0 = w" "e \<in> set (webhook_events (db w))" "ev_id e = i"
      using Pair refresh_event_InrD by blast+
    show ?thesis
    proof (cases "validate_target_url E (sub_target sub)")
      case (Inl x)
      then show ?thesis
        using assms Pair Inr e(1) by (auto simp: deliver_to_subscription_def bnd_def lift_def)
    next
      case v: (Inr target)
      then have t: "target = sub_target sub"
        using accepted_target_eq by blast
      let ?r = "delivery_request E sub e target"
      let ?w1 = "w\<lparr>sent := sent w @ [?r]\<rparr>"
      have d: "deliver_to_subscription E i sub w = (case post_delivery E ?r w of
          (Inl x, w2) \<Rightarrow> (Inl x, w2) | (Inr answer, w2) \<Rightarrow> finish_delivery E sub e answer w2)"
        using Pair Inr e(1) v by (simp add: deliver_to_subscription_def bnd_def lift_def)
      show ?thesis
      proof (cases "fst (post_delivery E ?r w)")
        case (Inl x)
        then have "post_delivery E ?r w = (Inl x, ?w1)"
          by (simp add: post_delivery_eq)
        then show ?thesis
          using assms d by auto
      next
        case (Inr answer)
        then have "post_delivery E ?r w = (Inr answer, ?w1)"
          by (simp add: post_delivery_eq)
        then have f: "finish_delivery E sub e answer ?w1 = (r, w')"
          using assms d by simp
        obtain stamp w1 where w1:
            "stamp = (if delivered (fst answer) then Some (clock E (ticks w)) else None)"
            "sent w1 = sent w @ [?r]" "committed w1 = committed w" "entropy w1 = entropy w + 1"
            "db w1 = record_attempt e (new_delivery (uuid E (entropy w)) e sub answer) stamp (db w)"
            "(r, w') = (if db_ok (foreign_keys E) (db w1)
               then (Inr (new_delivery (uuid E (entropy w)) e sub answer), w1\<lparr>committed := db w1\<rparr>)
               else (Inl (Builtin IntegrityError []), w1\<lparr>db := committed w\<rparr>))"
          by (rule finish_delivery_eq[where w = ?w1 and E = E and e = e and sub = sub and answer = answer])
            (use f in simp)
        show ?thesis
        proof (cases "db_ok (foreign_keys E) (db w1)")
          case True
          then have "r = Inr (new_delivery (uuid E (entropy w)) e sub answer)" "w' = w1\<lparr>committed := db w1\<rparr>"
            using w1(6) by simp_all
          then show ?thesis
            using w1 e t v True
            by (simp only: sum.case, intro exI[of _ e] exI[of _ stamp] exI[of _ answer]) simp
        next
          case False
          then show ?thesis
            using w1(3,6) by simp
        qed
      qed
    qed
  qed
qed

section \<open>The shape of stored events\<close>

definition event_states :: "string list" where
  "event_states = [''pending'', ''delivered'', ''failed'', ''no_subscribers'', ''dead_lettered'']"

text \<open>The attempt numbers recorded for an event, in order.\<close>

definition attempts_of :: "string \<Rightarrow> database \<Rightarrow> int list" where
  "attempts_of i d = map del_attempt (filter (\<lambda>x. del_event x = i) (deliveries d))"

definition event_typed :: "database \<Rightarrow> webhook_event \<Rightarrow> bool" where
  "event_typed d e \<longleftrightarrow> ev_status e \<in> set event_states \<and> 0 \<le> ev_attempts e
     \<and> attempts_of (ev_id e) d = [1..ev_attempts e]
     \<and> (ev_status e = ''delivered'' \<longrightarrow> ev_delivered_at e \<noteq> None)"

definition events_wf :: "database \<Rightarrow> bool" where
  "events_wf d \<longleftrightarrow> distinct (map ev_id (webhook_events d)) \<and> list_all (event_typed d) (webhook_events d)
     \<and> list_all (\<lambda>x. del_event x \<in> set (map ev_id (webhook_events d))) (deliveries d)"

lemma event_typed_cong:
  "deliveries d = deliveries d' \<Longrightarrow> event_typed d e = event_typed d' e"
  by (simp add: event_typed_def attempts_of_def)

lemma event_states_simps:
  "''pending'' \<in> set event_states" "''delivered'' \<in> set event_states" "''failed'' \<in> set event_states"
  "''no_subscribers'' \<in> set event_states" "''dead_lettered'' \<in> set event_states"
  "''failed'' \<noteq> ''delivered''" "''no_subscribers'' \<noteq> ''delivered''" "''dead_lettered'' \<noteq> ''delivered''"
  "''pending'' \<noteq> ''delivered''"
  by (simp_all add: event_states_def)

lemma mark_attempt_simps [simp]:
  "ev_id (mark_attempt n stamp e) = ev_id e" "ev_attempts (mark_attempt n stamp e) = n"
  "ev_dedup (mark_attempt n stamp e) = ev_dedup e"
  "ev_status (mark_attempt n stamp e) = (if stamp = None then ''failed'' else ''delivered'')"
  "ev_delivered_at (mark_attempt n stamp e) = (case stamp of None \<Rightarrow> ev_delivered_at e | Some t \<Rightarrow> Some t)"
  by (simp_all add: mark_attempt_def split: option.splits)

lemma upto_snoc: "0 \<le> n \<Longrightarrow> [1..n] @ [n + 1] = [1..n + 1]" for n :: int
  by (simp add: upto_rec2)

lemma events_wf_record:
  assumes "events_wf d" and "e \<in> set (webhook_events d)"
  shows "events_wf (record_attempt e (new_delivery u e sub answer) stamp d)"
proof -
  let ?del = "new_delivery u e sub answer"
  let ?d = "record_attempt e ?del stamp d"
  let ?f = "\<lambda>r. if ev_id r = ev_id e then mark_attempt (ev_attempts e + 1) stamp r else r"
  have ids: "map ev_id (webhook_events ?d) = map ev_id (webhook_events d)"
    by (simp add: record_attempt_def update_rows_id)
  have rows: "webhook_events ?d = map ?f (webhook_events d)"
    by (simp add: record_attempt_def update_rows_def)
  have dels: "deliveries ?d = deliveries d @ [?del]"
    by (simp add: record_attempt_def)
  have del: "del_event ?del = ev_id e" "del_attempt ?del = ev_attempts e + 1"
    by (simp_all add: new_delivery_def)
  have "event_typed ?d (?f r)" if r: "r \<in> set (webhook_events d)" for r
  proof (cases "ev_id r = ev_id e")
    case True
    then have "r = e"
      using assms r key_unique[of ev_id "webhook_events d"] by (auto simp: events_wf_def)
    moreover have "event_typed d e"
      using assms by (simp add: events_wf_def list_all_iff)
    ultimately show ?thesis
      using True by (auto simp: event_typed_def attempts_of_def dels del upto_snoc event_states_simps split: option.splits)
  next
    case False
    then show ?thesis
      using assms(1) r by (simp add: events_wf_def list_all_iff event_typed_def attempts_of_def dels del)
  qed
  then have "list_all (event_typed ?d) (webhook_events ?d)"
    unfolding rows list_all_iff set_map by blast
  moreover have "list_all (\<lambda>x. del_event x \<in> set (map ev_id (webhook_events d))) (deliveries ?d)"
    using assms by (simp add: events_wf_def dels del)
  ultimately show ?thesis
    using assms(1) by (simp only: events_wf_def ids simp_thms)
qed

lemma events_wf_status:
  assumes "\<And>e. f e = e\<lparr>ev_status := s\<rparr>" and "s \<in> set event_states" and "s \<noteq> ''delivered''"
    and "events_wf d"
  shows "events_wf (d\<lparr>webhook_events := update_rows ev_id i f (webhook_events d)\<rparr>)"
proof -
  let ?d = "d\<lparr>webhook_events := update_rows ev_id i f (webhook_events d)\<rparr>"
  have ids: "map ev_id (webhook_events ?d) = map ev_id (webhook_events d)"
    by (simp add: update_rows_id assms(1))
  have "event_typed ?d e" if "event_typed d e" for e
    using that by (simp cong: event_typed_cong add: event_typed_cong[of ?d d])
  moreover have "event_typed d (f e)" if "event_typed d e" for e
    using that assms(2,3) by (simp add: event_typed_def assms(1))
  ultimately have "list_all (event_typed ?d) (webhook_events ?d)"
    using assms(4) by (auto simp: events_wf_def list_all_iff update_rows_def)
  then show ?thesis
    using assms(4) by (simp only: events_wf_def ids simp_thms) simp
qed

lemma keeps_deliver: "keeps (everywhere events_wf) (deliver_to_subscription E i sub)"
  unfolding keeps_def
proof (intro allI impI)
  fix w :: world
  assume w: "everywhere events_wf w"
  obtain r w' where d: "deliver_to_subscription E i sub w = (r, w')"
    by fastforce
  show "everywhere events_wf (snd (deliver_to_subscription E i sub w))"
  proof (cases r)
    case (Inl x)
    then show ?thesis
      using deliver_outcome[OF d] w d by (auto simp: everywhere_def)
  next
    case (Inr del)
    then obtain e stamp answer where "e \<in> set (webhook_events (db w))" "committed w' = db w'"
        "db w' = record_attempt e (new_delivery (uuid E (entropy w)) e sub answer) stamp (db w)"
      using deliver_outcome[OF d] by auto
    then show ?thesis
      using w d events_wf_record[of "db w" e] by (simp add: everywhere_def)
  qed
qed

lemma keeps_status:
  assumes "\<And>e. f e = e\<lparr>ev_status := s\<rparr>" and "s \<in> set event_states" and "s \<noteq> ''delivered''"
  shows "keeps (everywhere events_wf) (update_event i f)"
  unfolding update_event_def using events_wf_status[of f s, OF assms] by (intro keeps_rules) simp

lemma keeps_dispatch: "keeps (everywhere events_wf) (dispatch_event E e)"
  unfolding dispatch_event_def active_subscriptions_def
  by (intro keeps_rules keeps_deliver keeps_status[where s = "''no_subscribers''"]) (simp_all only: event_states_simps not_False_eq_True)

lemma keeps_retry: "keeps (everywhere events_wf) (retry_failed E n)"
  unfolding retry_failed_def by (intro keeps_rules keeps_dispatch)

lemma keeps_dead_letter: "keeps (everywhere events_wf) (dead_letter_overflow E n)"
  unfolding dead_letter_overflow_def
  by (intro keeps_rules keeps_status[where s = "''dead_lettered''"]) (simp_all only: event_states_simps not_False_eq_True bury_def)

lemma keeps_refuse_duplicate [keeps_rules]: "keeps (everywhere P) (refuse_duplicate E provider key)"
  unfolding refuse_duplicate_def seen_def by (intro keeps_rules)

lemma store_event_eq:
  fixes w :: world
  obtains w1 where "db w1 = db w" and "committed w1 = committed w" and "redis w1 = redis w"
    and "sent w1 = sent w"
    and "store_event E ws provider ty key payload headers w = (case text_column ty of
        Inl e \<Rightarrow> (Inl e, w1\<lparr>db := committed w\<rparr>)
      | Inr t \<Rightarrow> (let ev = new_event (uuid E (entropy w)) (clock E (ticks w)) ws provider t key payload headers;
                      d = (db w)\<lparr>webhook_events := webhook_events (db w) @ [ev]\<rparr>
                  in if db_ok (foreign_keys E) d
                     then (Inr ev, w1\<lparr>db := d, committed := d, metrics := metrics w @ [WebhookReceived provider]\<rparr>)
                     else (Inl (Builtin IntegrityError []), w1\<lparr>db := committed w\<rparr>)))"
proof -
  let ?w1 = "w\<lparr>entropy := entropy w + 1, ticks := ticks w + 1\<rparr>"
  show thesis
    by (rule that[of ?w1])
      (simp_all add: store_event_def bnd_def thn_def fresh_def now_utc_def rollback_def raise_def ret_def
        modify_def add_event_def on_db_def emit_def commit_def Let_def split: sum.splits)
qed

lemma events_wf_new:
  assumes "events_wf d" and "ev_id e \<notin> set (map ev_id (webhook_events d))"
    and "ev_status e = ''pending''" and "ev_attempts e = 0"
  shows "events_wf (d\<lparr>webhook_events := webhook_events d @ [e]\<rparr>)"
proof -
  have none: "attempts_of (ev_id e) d = []"
    using assms(1,2) by (simp add: attempts_of_def events_wf_def list_all_iff filter_empty_conv) metis
  have "event_typed d e"
    unfolding event_typed_def none assms(3,4) by (simp add: event_states_simps)
  then have "list_all (event_typed (d\<lparr>webhook_events := webhook_events d @ [e]\<rparr>)) (webhook_events d @ [e])"
    using assms(1) event_typed_cong[of "d\<lparr>webhook_events := webhook_events d @ [e]\<rparr>" d]
    by (simp add: events_wf_def list_all_iff)
  then show ?thesis
    using assms(1,2) by (auto simp: events_wf_def list_all_iff)
qed

lemma keeps_store_event: "keeps (everywhere events_wf) (store_event E ws provider ty key payload headers)"
  unfolding keeps_def
proof (intro allI impI)
  fix w :: world
  assume w: "everywhere events_wf w"
  obtain w1 where w1: "db w1 = db w" "committed w1 = committed w"
    and s: "store_event E ws provider ty key payload headers w = (case text_column ty of
        Inl e \<Rightarrow> (Inl e, w1\<lparr>db := committed w\<rparr>)
      | Inr t \<Rightarrow> (let ev = new_event (uuid E (entropy w)) (clock E (ticks w)) ws provider t key payload headers;
                      d = (db w)\<lparr>webhook_events := webhook_events (db w) @ [ev]\<rparr>
                  in if db_ok (foreign_keys E) d
                     then (Inr ev, w1\<lparr>db := d, committed := d, metrics := metrics w @ [WebhookReceived provider]\<rparr>)
                     else (Inl (Builtin IntegrityError []), w1\<lparr>db := committed w\<rparr>)))"
    by (rule store_event_eq[of w E ws provider ty key payload headers]) blast
  show "everywhere events_wf (snd (store_event E ws provider ty key payload headers w))"
  proof (cases "text_column ty")
    case (Inl e)
    then show ?thesis
      using w w1 s by (simp add: everywhere_def)
  next
    case (Inr t)
    let ?ev = "new_event (uuid E (entropy w)) (clock E (ticks w)) ws provider t key payload headers"
    let ?d = "(db w)\<lparr>webhook_events := webhook_events (db w) @ [?ev]\<rparr>"
    show ?thesis
    proof (cases "db_ok (foreign_keys E) ?d")
      case True
      then have "ev_id ?ev \<notin> set (map ev_id (webhook_events (db w)))"
        using db_ok_parts(6)[OF True] by simp
      then have "events_wf ?d"
        using w by (intro events_wf_new) (simp_all add: everywhere_def new_event_def)
      then show ?thesis
        using s Inr True by (simp add: Let_def everywhere_def)
    next
      case False
      then show ?thesis
        using s Inr w w1 by (simp add: Let_def everywhere_def)
    qed
  qed
qed

lemma keeps_verify_and_store: "keeps (everywhere events_wf) (verify_and_store E reg provider ws headers payload)"
  unfolding verify_and_store_def by (intro keeps_rules keeps_store_event)

section \<open>Runs of the dispatcher\<close>

datatype webhook_op =
    Receive string string "string dict" "json dict"
  | Dispatch webhook_event
  | Retry nat
  | Bury nat

fun webhook_step :: "env \<Rightarrow> registry \<Rightarrow> webhook_op \<Rightarrow> world \<Rightarrow> world" where
  "webhook_step E reg (Receive provider ws headers payload) w =
     snd (verify_and_store E reg provider ws headers payload w)"
| "webhook_step E reg (Dispatch e) w = snd (dispatch_event E e w)"
| "webhook_step E reg (Retry n) w = snd (retry_failed E n w)"
| "webhook_step E reg (Bury n) w = snd (dead_letter_overflow E n w)"

lemma keepsI: "keeps I m \<Longrightarrow> I s \<Longrightarrow> I (snd (m s))"
  by (simp add: keeps_def)

interpretation webhook_machine: machine "webhook_step E reg" "everywhere events_wf" for E reg
proof
  fix w ev
  assume "everywhere events_wf w"
  then show "everywhere events_wf (webhook_step E reg ev w)"
    by (cases ev) (simp_all add: keepsI[OF keeps_verify_and_store] keepsI[OF keeps_dispatch]
        keepsI[OF keeps_retry] keepsI[OF keeps_dead_letter])
qed

section \<open>Duplicates\<close>

lemma keeps_store_redis: "keeps (on_redis I) (store_event E ws provider ty key payload headers)"
  unfolding store_event_def add_event_def Let_def by (intro keeps_rules)

lemma keeps_verify_redis:
  assumes "0 < key_ttl E" and "\<forall>n. clock E n < d"
  shows "keeps (on_redis (held_until d name)) (verify_and_store E reg provider ws headers payload)"
  unfolding verify_and_store_def refuse_duplicate_def
  by (intro keeps_rules keeps_store_redis keeps_seen[OF assms])

lemma keeps_fold:
  assumes "\<And>x. keeps I (f x)" and "I w"
  shows "I (fold (\<lambda>x w. snd (f x w)) xs w)"
  using assms(2) by (induction xs arbitrary: w) (auto intro: keepsI[OF assms(1)])

lemma verify_and_store_InrD:
  assumes "verify_and_store E reg provider ws headers payload w = (Inr ev, w')"
    and "key = dedup_key provider headers (event_type_of payload) payload"
  obtains w1 where "refuse_duplicate E provider key w = (Inr (), w1)"
    and "store_event E ws provider (event_type_of payload) key payload headers w1 = (Inr ev, w')"
  using assms unfolding verify_and_store_def Let_def
  by (auto elim!: bnd_InrE thn_InrE dest!: proc_InrD split: if_splits)

lemma store_event_InrD:
  assumes "store_event E ws provider ty key payload headers w = (Inr ev, w')"
  shows "\<exists>t. text_column ty = Inr t
    \<and> ev = new_event (uuid E (entropy w)) (clock E (ticks w)) ws provider t key payload headers
    \<and> db w' = (db w)\<lparr>webhook_events := webhook_events (db w) @ [ev]\<rparr> \<and> committed w' = db w' \<and> redis w' = redis w"
  by (rule store_event_eq[of w E ws provider ty key payload headers])
    (use assms in \<open>auto simp: Let_def split: sum.splits if_splits\<close>)

lemma refuse_duplicate_frame:
  "refuse_duplicate E provider key w = (r, w1) \<Longrightarrow> db w1 = db w \<and> committed w1 = committed w"
  using keepsD[OF keeps_refuse_duplicate[of "\<lambda>d. d = db w \<or> d = committed w" E provider key], of w r w1]
  by (auto simp: refuse_duplicate_def seen_def redis_call_def whenever_def thn_def bnd_def emit_def modify_def
      ret_def raise_def split: option.splits prod.splits sum.splits if_splits)

section \<open>Properties\<close>

text \<open>C6: Every stored event is well-typed, whatever is received, dispatched, retried and buried in any
  order: its status is one of five, its attempts are numbered 1 to \<open>attempts\<close> without a gap by the
  rows of its deliveries, and a delivered event has a time of delivery.\<close>

theorem events_well_typed:
  assumes "webhook_events (db w) = []" and "deliveries (db w) = []" and "committed w = db w"
    and "w' = fold (webhook_step E reg) ops w" and "e \<in> set (webhook_events (committed w'))"
  shows "ev_status e \<in> set event_states \<and> 0 \<le> ev_attempts e
    \<and> map del_attempt (filter (\<lambda>x. del_event x = ev_id e) (deliveries (committed w'))) = [1..ev_attempts e]
    \<and> (ev_status e = ''delivered'' \<longrightarrow> ev_delivered_at e \<noteq> None)"
proof -
  have "everywhere events_wf w"
    using assms(1-3) by (simp add: everywhere_def events_wf_def)
  then have "everywhere events_wf w'"
    unfolding assms(4) by (rule webhook_machine.run_good)
  then have "event_typed (committed w') e"
    using assms(5) by (simp add: everywhere_def events_wf_def list_all_iff)
  then show ?thesis
    unfolding event_typed_def attempts_of_def .
qed

text \<open>The secret of the subscription, or the default secret when it has none.\<close>

lemma delivery_secret_cases:
  "delivery_secret E sub = (case sub_secret sub of Some (c # cs) \<Rightarrow> c # cs | _ \<Rightarrow> webhook_default_secret (settings_of E))"
  by (simp add: delivery_secret_def split: option.split list.split)


text \<open>C7: A duplicate is refused: once an event with a deduplication key has been stored, and whatever else
  is received while the clock stays within the time to live of the key, every further event that
  passes its signature check and has the same key is refused with \<open>WebhookVerificationFailed\<close>,
  and no row changes.\<close>

theorem duplicates_refused:
  assumes "verify_and_store E reg provider ws h payload w = (Inr ev, w1)" and "ev_dedup ev = Some k"
    and "0 < key_ttl E" and "\<forall>m n. clock E m < clock E n + key_ttl E * 1000000"
    and "u = fold (\<lambda>(p, s, g, q) x. snd (verify_and_store E reg p s g q x)) others w1"
    and "registry_get reg provider = Inr cls" and "supports_webhooks cls"
    and "assert_signature E cls h' payload' = Inr ()"
    and "dedup_key provider h' (event_type_of payload') payload' = Some k"
    and "redis_error E (ticks u) = None"
  shows "\<exists>u'. verify_and_store E reg provider ws' h' payload' u = (Inl (duplicate_event provider k), u')
    \<and> db u' = db u \<and> committed u' = committed u"
proof -
  let ?key = "dedup_key provider h (event_type_of payload) payload"
  obtain w0 where w0: "refuse_duplicate E provider ?key w = (Inr (), w0)"
      "store_event E ws provider (event_type_of payload) ?key payload h w0 = (Inr ev, w1)"
    using verify_and_store_InrD[OF assms(1) refl] .
  then have key: "?key = Some k" "redis w1 = redis w0"
    using store_event_InrD[OF w0(2)] assms(2) by (auto simp: new_event_def)
  let ?d = "clock E (ticks w) + key_ttl E * 1000000"
  let ?held = "on_redis (held_until ?d (dedup_key_name k))"
  have s: "seen E k w = (Inr False, w0)"
    using w0(1) unfolding key(1) refuse_duplicate_def
    by (auto simp: whenever_def elim!: bnd_InrE thn_InrE dest!: proc_InrD split: if_splits)
  then have "?held w1"
    using seen_claims[OF assms(3) s] key(2) by (simp add: on_redis_def)
  then have "?held u"
    unfolding assms(5)
    using keeps_fold[of ?held "\<lambda>(p, s, g, q). verify_and_store E reg p s g q" w1 others]
      keeps_verify_redis[OF assms(3), of ?d] assms(4)
    by (simp add: case_prod_unfold)
  then have "seen E k u = (Inr True, u\<lparr>ticks := ticks u + 1\<rparr>)"
    using assms(4) by (intro seen_held[OF assms(3,10), of ?d]) simp_all
  then have "verify_and_store E reg provider ws' h' payload' u = (Inl (duplicate_event provider k),
      u\<lparr>ticks := ticks u + 1, metrics := metrics u @ [WebhookReceived provider]\<rparr>)"
    using assms(6-9) by (simp add: verify_and_store_def bnd_lift_Inr Let_def refuse_duplicate_def bnd_def
        thn_def whenever_def emit_def modify_def raise_def lift_def)
  then show ?thesis
    by simp
qed

text \<open>One subscription with a target the guard refuses stops the retries of every workspace: while it is
  the first active subscription of the first failed event within its budget, each run of the retry
  task raises that error and changes nothing, so neither this event nor those after it are ever
  attempted again.\<close>

theorem bad_target_blocks_retries:
  assumes "filter (within_budget E) (webhook_events (db w)) = e # es"
    and "filter (\<lambda>s. sub_workspace s = ev_workspace e \<and> sub_provider s = ev_provider e \<and> sub_active s)
           (subscriptions (db w)) = sub # subs"
    and "validate_target_url E (sub_target sub) = Inl x" and "distinct (map ev_id (webhook_events (db w)))"
    and "0 < limit"
  shows "retry_failed E limit w = (Inl x, w) \<and> ((\<lambda>w. snd (retry_failed E limit w)) ^^ n) w = w"
proof -
  have "e \<in> set (filter (within_budget E) (webhook_events (db w)))"
    unfolding assms(1) by simp
  then have e: "refresh_event (ev_id e) w = (Inr e, w)"
    by (intro refresh_present[OF assms(4)]) simp
  have "dispatch_event E e w = (Inl x, w)"
    by (simp add: dispatch_event_def active_subscriptions_def select_def gets_def bnd_def assms(2,3)
        deliver_to_subscription_def e lift_def)
  then have r: "retry_failed E limit w = (Inl x, w)"
    using assms(5) by (cases limit) (simp_all add: retry_failed_def select_def gets_def bnd_def assms(1))
  moreover have "((\<lambda>w. snd (retry_failed E limit w)) ^^ n) w = w"
    by (induction n) (simp_all add: r)
  ultimately show ?thesis
    by blast
qed

text \<open>The key is claimed before the event is stored: an event whose type is no text, or whose row
  violates a constraint, is not stored, and when the provider sends it again within the time to live
  of its key it is refused as a duplicate, although it was never stored.\<close>

theorem failed_store_loses_event:
  assumes "registry_get reg provider = Inr cls" and "supports_webhooks cls"
    and "assert_signature E cls h payload = Inr ()"
    and "dedup_key provider h (event_type_of payload) payload = Some k"
    and "verify_and_store E reg provider ws h payload w = (Inl x, w1)" and "x \<noteq> duplicate_event provider k"
    and "\<forall>n. redis_error E n = None" and "0 < key_ttl E"
    and "\<forall>m n. clock E m < clock E n + key_ttl E * 1000000"
  shows "\<exists>w2. verify_and_store E reg provider ws h payload w1 = (Inl (duplicate_event provider k), w2)
    \<and> committed w1 = committed w \<and> committed w2 = committed w"
proof -
  let ?d = "clock E (ticks w) + key_ttl E * 1000000"
  let ?held = "on_redis (held_until ?d (dedup_key_name k))"
  let ?store = "store_event E ws provider (event_type_of payload) (Some k) payload h"
  have v: "verify_and_store E reg provider ws h payload u = thn (refuse_duplicate E provider (Some k)) ?store u" for u
    using assms(1-4) by (simp add: verify_and_store_def bnd_lift_Inr Let_def)
  obtain c r where c: "claim_key (max 1 (key_ttl E)) (clock E (ticks w)) (dedup_key_name k) (redis w) = (c, r)"
    by fastforce
  define b where "b = (\<not> c)"
  define w0 where "w0 = w\<lparr>redis := r, ticks := ticks w + 1\<rparr>"
  have s: "seen E k w = (Inr b, w0)" "committed w0 = committed w"
    using assms(7) c by (simp_all add: seen_eq[OF assms(8)] b_def w0_def)
  have "\<not> b"
    using assms(5,6) s unfolding v refuse_duplicate_def
    by (auto simp: bnd_def thn_def whenever_def emit_def modify_def raise_def split: if_splits)
  then have st: "?store w0 = (Inl x, w1)"
    using assms(5) s unfolding v refuse_duplicate_def
    by (simp add: bnd_def thn_def whenever_def ret_def)
  have "?held w0"
    using seen_claims[OF assms(8)] s(1) \<open>\<not> b\<close> by simp
  then have "?held w1"
    using keepsD[OF keeps_store_redis _ st] by blast
  then have d: "seen E k w1 = (Inr True, w1\<lparr>ticks := ticks w1 + 1\<rparr>)"
    using assms(7,9) by (intro seen_held[OF assms(8), of _ ?d]) simp_all
  have "committed w1 = committed w0"
    by (rule store_event_eq[of w0 E ws provider "event_type_of payload" "Some k" payload h])
      (use st in \<open>auto simp: Let_def split: sum.splits if_splits\<close>)
  moreover have "verify_and_store E reg provider ws h payload w1 = (Inl (duplicate_event provider k),
      w1\<lparr>ticks := ticks w1 + 1, metrics := metrics w1 @ [WebhookReceived provider]\<rparr>)"
    unfolding v by (simp add: refuse_duplicate_def bnd_def thn_def whenever_def d emit_def modify_def raise_def)
  ultimately show ?thesis
    using s(2) by simp
qed

section \<open>Concrete instances\<close>

definition sample_event :: webhook_event where
  "sample_event = \<lparr>ev_id = ''e-1'', ev_workspace = ''ws-1'', ev_provider = ''acme'', ev_type = Some ''ping'',
     ev_dedup = None, ev_payload = [], ev_headers = [], ev_status = ''failed'', ev_delivered_at = None,
     ev_attempts = 1, ev_created_at = 1700000000000000\<rparr>"

definition sample_subscription :: "string \<Rightarrow> subscription" where
  "sample_subscription target = \<lparr>sub_id = ''s-1'', sub_workspace = ''ws-1'', sub_provider = ''acme'',
     sub_target = target, sub_secret = Some ''s3cret'', sub_events = [], sub_metadata = [], sub_active = True,
     sub_max_retries = 5, sub_created_at = 1700000000000000\<rparr>"

definition sample_webhook_db :: "string \<Rightarrow> database" where
  "sample_webhook_db target = empty_db\<lparr>workspaces := [sample_workspace],
     subscriptions := [sample_subscription target], webhook_events := [sample_event]\<rparr>"

definition sample_webhook_world :: "string \<Rightarrow> world" where
  "sample_webhook_world target =
     sample_world\<lparr>db := sample_webhook_db target, committed := sample_webhook_db target\<rparr>"

definition sample_webhook_registry :: registry where
  "sample_webhook_registry = [(''acme'', sample_class)]"

definition still_env :: env where
  "still_env = sample_env\<lparr>clock := \<lambda>_. 1700000000000000\<rparr>"

lemma sample_webhook_simps [simp]:
  "db (sample_webhook_world t) = sample_webhook_db t" "committed (sample_webhook_world t) = sample_webhook_db t"
  "webhook_events (sample_webhook_db t) = [sample_event]" "deliveries (sample_webhook_db t) = []"
  "subscriptions (sample_webhook_db t) = [sample_subscription t]" "sent (sample_webhook_world t) = []"
  "ev_id sample_event = ''e-1''" "ev_attempts sample_event = 1" "ev_status sample_event = ''failed''"
  "sub_target (sample_subscription t) = t" "entropy (sample_webhook_world t) = 0"
  by (simp_all add: sample_webhook_world_def sample_webhook_db_def sample_event_def sample_subscription_def)

lemma sample_webhook_ok [simp]: "db_ok b (sample_webhook_db t)"
  by (simp add: sample_webhook_db_def db_ok_def unique_ok_def foreign_ok_def sample_event_def sample_subscription_def)

lemma sample_within: "within_budget sample_env sample_event"
  by (simp add: within_budget_def default_settings_def)

lemma sample_delivers:
  "\<exists>del w'. deliver_to_subscription sample_env ''e-1'' (sample_subscription ''https://hooks.example.com/in'')
     (sample_webhook_world ''https://hooks.example.com/in'') = (Inr del, w')"
proof -
  let ?t = "''https://hooks.example.com/in''"
  let ?w = "sample_webhook_world ?t"
  let ?r = "delivery_request sample_env (sample_subscription ?t) sample_event ?t"
  have e: "refresh_event ''e-1'' ?w = (Inr sample_event, ?w)"
    by (simp add: refresh_event_eq)
  have p: "post_delivery sample_env ?r ?w = (Inr (Some 200, take 2000 (http_text sample_response)), ?w\<lparr>sent := [?r]\<rparr>)"
    by (simp add: post_delivery_eq)
  have "deliver_to_subscription sample_env ''e-1'' (sample_subscription ?t) ?w
      = finish_delivery sample_env (sample_subscription ?t) sample_event
          (Some 200, take 2000 (http_text sample_response)) (?w\<lparr>sent := [?r]\<rparr>)"
    by (simp add: deliver_to_subscription_def bnd_def e lift_def sample_target_accepted p)
  moreover have "db_ok b (record_attempt sample_event del stamp (sample_webhook_db ?t))" for b del stamp
    using sample_webhook_ok[of b ?t]
    by (simp add: record_attempt_def db_ok_def unique_ok_def foreign_ok_def map_update_rows)
  moreover obtain stamp i w1 where
      "db w1 = record_attempt sample_event (new_delivery i sample_event (sample_subscription ?t)
         (Some 200, take 2000 (http_text sample_response))) stamp (sample_webhook_db ?t)"
      "finish_delivery sample_env (sample_subscription ?t) sample_event
          (Some 200, take 2000 (http_text sample_response)) (?w\<lparr>sent := [?r]\<rparr>)
        = (if db_ok (foreign_keys sample_env) (db w1)
           then (Inr (new_delivery i sample_event (sample_subscription ?t)
             (Some 200, take 2000 (http_text sample_response))), w1\<lparr>committed := db w1\<rparr>)
           else (Inl (Builtin IntegrityError []), w1\<lparr>db := committed (?w\<lparr>sent := [?r]\<rparr>)\<rparr>))"
    by (rule finish_delivery_eq[where w = "?w\<lparr>sent := [?r]\<rparr>" and E = sample_env and e = sample_event
        and sub = "sample_subscription ?t" and answer = "(Some 200, take 2000 (http_text sample_response))"]) simp
  ultimately show ?thesis
    by simp
qed


theorem bad_target_blocks_retries_witness:
  "retry_failed sample_env 100 (sample_webhook_world ''http://localhost/in'')
    = (Inl (Builtin ValueError ''localhost targets are not allowed''), sample_webhook_world ''http://localhost/in'')"
proof -
  have "validate_target_url sample_env ''http://localhost/in''
      = Inl (Builtin ValueError ''localhost targets are not allowed'')"
    by code_simp
  then show ?thesis
    using bad_target_blocks_retries[of sample_env "sample_webhook_world ''http://localhost/in''" sample_event "[]"
        "sample_subscription ''http://localhost/in''" "[]" _ 100] sample_within
    by (simp add: sample_subscription_def sample_event_def)
qed

lemma sample_payload:
  "dedup_key ''acme'' [] (event_type_of [(''type'', JStr ''ping''), (''id'', JInt 7)])
     [(''type'', JStr ''ping''), (''id'', JInt 7)] = Some ''acme:ping:7''"
  "dedup_key ''acme'' [] (event_type_of [(''type'', JInt 1), (''id'', JInt 7)])
     [(''type'', JInt 1), (''id'', JInt 7)] = Some ''acme:1:7''"
  "text_column (event_type_of [(''type'', JStr ''ping''), (''id'', JInt 7)]) = Inr (Some ''ping'')"
  "text_column (event_type_of [(''type'', JInt 1), (''id'', JInt 7)]) = Inl (Builtin StatementError ''expected str'')"
  by code_simp+

lemma still_env_simps [simp]:
  "clock still_env n = 1700000000000000" "redis_error still_env n = None" "key_ttl still_env = 86400"
  "foreign_keys still_env"
  by (simp_all add: still_env_def key_ttl_def default_settings_def foreign_keys_def)

lemma sample_class_webhooks [simp]:
  "registry_get sample_webhook_registry ''acme'' = Inr sample_class" "supports_webhooks sample_class"
  "assert_signature E sample_class h payload = Inr ()"
  by (simp_all add: registry_get_def sample_webhook_registry_def sample_class_def assert_signature_def)

lemma sample_first_seen:
  "seen still_env k sample_world = (Inr False, sample_world\<lparr>redis := [(dedup_key_name k,
     (RStr ''1'', Some 1700086400000000))], ticks := 1\<rparr>)"
  by (simp add: seen_def redis_call_def redis_set_nx_def redis_lookup_def bnd_def ret_def key_ttl_def[symmetric])

definition ping_payload :: "json dict" where
  "ping_payload = [(''type'', JStr ''ping''), (''id'', JInt 7)]"

definition odd_payload :: "json dict" where
  "odd_payload = [(''type'', JInt 1), (''id'', JInt 7)]"

lemma sample_event_stored:
  assumes "dedup_key ''acme'' [] (event_type_of payload) payload = Some k"
  shows "verify_and_store still_env sample_webhook_registry ''acme'' ''ws-1'' [] payload sample_world
    = store_event still_env ''ws-1'' ''acme'' (event_type_of payload) (Some k) payload []
        (sample_world\<lparr>redis := [(dedup_key_name k, (RStr ''1'', Some 1700086400000000))], ticks := 1\<rparr>)"
  by (simp add: verify_and_store_def bnd_lift_Inr assms Let_def refuse_duplicate_def thn_def bnd_def lift_def
      sample_first_seen whenever_def ret_def)

lemma sample_received:
  "\<exists>ev w1. verify_and_store still_env sample_webhook_registry ''acme'' ''ws-1'' [] ping_payload sample_world
     = (Inr ev, w1) \<and> ev_dedup ev = Some ''acme:ping:7'' \<and> ev \<in> set (webhook_events (committed w1))"
  unfolding ping_payload_def sample_event_stored[OF sample_payload(1)]
  by (simp add: store_event_def bnd_def fresh_def now_utc_def sample_payload(3) Let_def new_event_def thn_def
      add_event_def on_db_def modify_def commit_def db_ok_def unique_ok_def foreign_ok_def emit_def ret_def)

theorem events_well_typed_witness:
  "\<exists>e w'. w' = fold (webhook_step still_env sample_webhook_registry) [Receive ''acme'' ''ws-1'' [] ping_payload]
      sample_world
    \<and> e \<in> set (webhook_events (committed w')) \<and> ev_status e \<in> set event_states"
proof -
  obtain ev w1 where r: "verify_and_store still_env sample_webhook_registry ''acme'' ''ws-1'' [] ping_payload sample_world
      = (Inr ev, w1)" "ev \<in> set (webhook_events (committed w1))"
    using sample_received by blast
  have f: "w1 = fold (webhook_step still_env sample_webhook_registry) [Receive ''acme'' ''ws-1'' [] ping_payload]
      sample_world"
    by (simp add: r(1))
  have "ev_status ev \<in> set event_states"
    using events_well_typed[OF _ _ _ f r(2)] by simp
  then show ?thesis
    using f r(2) by blast
qed

theorem duplicates_refused_witness:
  "\<exists>ev w1 u'. verify_and_store still_env sample_webhook_registry ''acme'' ''ws-1'' [] ping_payload sample_world
      = (Inr ev, w1)
    \<and> verify_and_store still_env sample_webhook_registry ''acme'' ''ws-1'' [] ping_payload w1
      = (Inl (duplicate_event ''acme'' ''acme:ping:7''), u')"
proof -
  obtain ev w1 where r: "verify_and_store still_env sample_webhook_registry ''acme'' ''ws-1'' [] ping_payload sample_world
      = (Inr ev, w1)" "ev_dedup ev = Some ''acme:ping:7''"
    using sample_received by blast
  have "\<exists>u'. verify_and_store still_env sample_webhook_registry ''acme'' ''ws-1'' [] ping_payload w1
      = (Inl (duplicate_event ''acme'' ''acme:ping:7''), u') \<and> db u' = db w1 \<and> committed u' = committed w1"
    by (rule duplicates_refused[OF r, where others = "[]" and cls = sample_class])
      (simp_all add: sample_payload(1) ping_payload_def)
  then show ?thesis
    using r(1) by blast
qed

theorem failed_store_loses_event_witness:
  "\<exists>w1 w2. verify_and_store still_env sample_webhook_registry ''acme'' ''ws-1'' [] odd_payload sample_world
      = (Inl (Builtin StatementError ''expected str''), w1)
    \<and> verify_and_store still_env sample_webhook_registry ''acme'' ''ws-1'' [] odd_payload w1
      = (Inl (duplicate_event ''acme'' ''acme:1:7''), w2)"
proof -
  have "\<exists>w1. verify_and_store still_env sample_webhook_registry ''acme'' ''ws-1'' [] odd_payload sample_world
      = (Inl (Builtin StatementError ''expected str''), w1)"
    unfolding odd_payload_def sample_event_stored[OF sample_payload(2)]
    by (simp add: store_event_def bnd_def fresh_def now_utc_def sample_payload(4) thn_def rollback_def
        modify_def raise_def)
  then obtain w1 where r: "verify_and_store still_env sample_webhook_registry ''acme'' ''ws-1'' [] odd_payload
      sample_world = (Inl (Builtin StatementError ''expected str''), w1)"
    by blast
  have "\<exists>w2. verify_and_store still_env sample_webhook_registry ''acme'' ''ws-1'' [] odd_payload w1
      = (Inl (duplicate_event ''acme'' ''acme:1:7''), w2) \<and> committed w1 = committed sample_world
      \<and> committed w2 = committed sample_world"
    by (rule failed_store_loses_event[OF sample_class_webhooks(1-3) _ r])
      (simp_all add: sample_payload(2) odd_payload_def duplicate_event_def error2_def)
  then show ?thesis
    using r by blast
qed

end
