(* ===== verification/Webhook_Liveness.thy ===== *)
theory Webhook_Liveness
  imports Webhook_Theorems
begin

text \<open>
  The periodic tasks settle every failed event: each run of \<open>retry_failed\<close> uses up part of the retry
  budget that is left, each run of \<open>dead_letter_overflow\<close> buries events without budget. The budget left
  of an event is the measure: an attempt lowers it whatever its outcome.
\<close>

section \<open>The budget left\<close>

definition attempts_left :: "env \<Rightarrow> webhook_event \<Rightarrow> nat" where
  "attempts_left E e = (if within_budget E e then nat (webhook_retry_max (settings_of E) - ev_attempts e) else 0)"

definition budget_left :: "env \<Rightarrow> database \<Rightarrow> nat" where
  "budget_left E d = sum_list (map (attempts_left E) (webhook_events d))"

lemma attempts_left_pos: "0 < attempts_left E e \<longleftrightarrow> within_budget E e"
  by (auto simp: attempts_left_def within_budget_def)

lemma attempts_left_bound:
  "attempts_left E e \<le> nat (webhook_retry_max (settings_of E) - ev_attempts e)"
  by (simp add: attempts_left_def)

lemma budget_zero: "budget_left E d = 0 \<longleftrightarrow> filter (within_budget E) (webhook_events d) = []"
  by (auto simp: budget_left_def filter_empty_conv attempts_left_pos[symmetric])

section \<open>Replacing one row\<close>

abbreviation replace_event :: "webhook_event \<Rightarrow> webhook_event list \<Rightarrow> webhook_event list" where
  "replace_event e rows \<equiv> update_rows ev_id (ev_id e) (\<lambda>_. e) rows"

lemma replace_twice:
  "ev_id e = i \<Longrightarrow> update_rows ev_id i (\<lambda>_. e') (update_rows ev_id i (\<lambda>_. e) rows) = update_rows ev_id i (\<lambda>_. e') rows"
  by (simp add: update_rows_def)

lemma replace_other: "ev_id x \<noteq> i \<Longrightarrow> x \<in> set rows \<Longrightarrow> x \<in> set (update_rows ev_id i f rows)"
  by (force simp: update_rows_def)

lemma replace_member: "x \<in> set rows \<Longrightarrow> ev_id x = ev_id e \<Longrightarrow> e \<in> set (replace_event e rows)"
  by (force simp: update_rows_def)

lemma replace_self: "distinct (map ev_id rows) \<Longrightarrow> e \<in> set rows \<Longrightarrow> replace_event e rows = rows"
  by (auto simp: update_rows_def intro!: map_idI dest: key_unique)

lemma update_as_replace:
  assumes "distinct (map ev_id rows)" and "e \<in> set rows" and "ev_id (f e) = ev_id e"
  shows "update_rows ev_id (ev_id e) f rows = replace_event (f e) rows"
  using key_unique[OF assms(1,2)] by (auto simp: update_rows_def assms(3))

lemma sum_replace:
  fixes g :: "webhook_event \<Rightarrow> nat"
  assumes "distinct (map ev_id rows)" and "e \<in> set rows" and "ev_id e' = ev_id e"
  shows "sum_list (map g (replace_event e' rows)) + g e = sum_list (map g rows) + g e'"
  using assms
proof (induction rows)
  case (Cons r rows)
  show ?case
  proof (cases "r = e")
    case True
    then have "replace_event e' rows = rows"
      using Cons.prems(1,3) by (auto simp: update_rows_def image_iff intro!: map_idI)
    then show ?thesis
      using True Cons.prems(3) by (simp add: update_rows_def)
  next
    case False
    then show ?thesis
      using Cons by (auto simp: update_rows_def image_iff)
  qed
qed simp

section \<open>What the tasks rely on\<close>

definition answers_or_fails :: "env \<Rightarrow> bool" where
  "answers_or_fails E \<longleftrightarrow> (\<forall>h r e. http E h r = Inl e \<longrightarrow> (\<exists>t. e = Builtin HTTPError t))"

lemma answers_or_failsD: "answers_or_fails E \<Longrightarrow> http E h r = Inl e \<Longrightarrow> \<exists>t. e = Builtin HTTPError t"
  by (simp add: answers_or_fails_def)

definition settled :: "env \<Rightarrow> world \<Rightarrow> bool" where
  "settled E w \<longleftrightarrow> committed w = db w \<and> db_ok (foreign_keys E) (db w)
     \<and> (\<forall>s \<in> set (subscriptions (db w)). sub_active s \<longrightarrow> validate_target_url E (sub_target s) = Inr (sub_target s))
     \<and> (\<forall>n \<ge> entropy w. uuid E n \<notin> set (map del_id (deliveries (db w))))"

lemma settled_distinct: "settled E w \<Longrightarrow> distinct (map ev_id (webhook_events (db w)))"
  using db_ok_parts(6) by (auto simp: settled_def)

lemma db_ok_record:
  assumes "db_ok b d" and "del_id del \<notin> set (map del_id (deliveries d))"
  shows "db_ok b (record_attempt e del stamp d)"
  using assms by (simp add: record_attempt_def db_ok_def unique_ok_def foreign_ok_def map_update_rows)

lemma post_delivery_answers:
  assumes "answers_or_fails E"
  shows "\<exists>answer. post_delivery E r w = (Inr answer, w\<lparr>sent := sent w @ [r]\<rparr>)"
proof (cases "http E (sent w) r")
  case (Inl e)
  then obtain t where "e = Builtin HTTPError t"
    using answers_or_failsD[OF assms] by blast
  then show ?thesis
    using Inl by (simp add: post_delivery_eq)
qed (simp add: post_delivery_eq)

lemma deliver_settled:
  assumes "settled E w" and "answers_or_fails E" and "inj (uuid E)" and "e \<in> set (webhook_events (db w))"
    and "sub \<in> set (subscriptions (db w))" and "sub_active sub"
  obtains del w' e' where "deliver_to_subscription E (ev_id e) sub w = (Inr del, w')" and "settled E w'"
    and "subscriptions (db w') = subscriptions (db w)"
    and "webhook_events (db w') = replace_event e' (webhook_events (db w))"
    and "ev_id e' = ev_id e" and "ev_attempts e' = ev_attempts e + 1"
proof -
  let ?r = "delivery_request E sub e (sub_target sub)"
  let ?w1 = "w\<lparr>sent := sent w @ [?r]\<rparr>"
  have t: "validate_target_url E (sub_target sub) = Inr (sub_target sub)"
    using assms(1,5,6) by (auto simp: settled_def)
  obtain answer where p: "post_delivery E ?r w = (Inr answer, ?w1)"
    using post_delivery_answers[OF assms(2)] by blast
  have d: "deliver_to_subscription E (ev_id e) sub w = finish_delivery E sub e answer ?w1"
    using refresh_present[OF settled_distinct[OF assms(1)] assms(4)] t p
    by (simp add: deliver_to_subscription_def bnd_def lift_def)
  let ?del = "new_delivery (uuid E (entropy w)) e sub answer"
  obtain stamp w1 where w1: "committed w1 = committed w" "entropy w1 = entropy w + 1"
      "db w1 = record_attempt e ?del stamp (db w)"
      "finish_delivery E sub e answer ?w1 = (if db_ok (foreign_keys E) (db w1)
         then (Inr ?del, w1\<lparr>committed := db w1\<rparr>)
         else (Inl (Builtin IntegrityError []), w1\<lparr>db := committed w\<rparr>))"
    by (rule finish_delivery_eq[where w = ?w1 and E = E and e = e and sub = sub and answer = answer]) simp
  have id: "del_id ?del = uuid E (entropy w)"
    by (simp add: new_delivery_def)
  have s: "db_ok (foreign_keys E) (db w)" "\<forall>n \<ge> entropy w. uuid E n \<notin> set (map del_id (deliveries (db w)))"
    using assms(1) unfolding settled_def by blast+
  have ok: "db_ok (foreign_keys E) (db w1)"
    unfolding w1(3) using s by (intro db_ok_record) (simp_all only: id order_refl not_False_eq_True)
  let ?e = "mark_attempt (ev_attempts e + 1) stamp e"
  have rows: "webhook_events (db w1) = replace_event ?e (webhook_events (db w))"
    using update_as_replace[OF settled_distinct[OF assms(1)] assms(4), of "mark_attempt (ev_attempts e + 1) stamp"]
    by (simp add: w1(3) record_attempt_def)
  have "settled E (w1\<lparr>committed := db w1\<rparr>)"
    using assms(1) ok w1(2) injD[OF assms(3)]
    by (fastforce simp: settled_def w1(3) record_attempt_def id)
  then show thesis
    using that[of ?del "w1\<lparr>committed := db w1\<rparr>" ?e] d w1(4) ok rows
    by (simp add: w1(3) record_attempt_def)
qed

text \<open>An event dispatched to subscribers that all accept: every one of them is an attempt.\<close>

lemma deliver_all_settled:
  assumes "settled E w" and "answers_or_fails E" and "inj (uuid E)" and "e \<in> set (webhook_events (db w))"
    and "\<forall>sub \<in> set subs. sub \<in> set (subscriptions (db w)) \<and> sub_active sub"
  shows "\<exists>dels w' e'. for_each subs (deliver_to_subscription E (ev_id e)) w = (Inr dels, w')
    \<and> settled E w' \<and> subscriptions (db w') = subscriptions (db w)
    \<and> webhook_events (db w') = replace_event e' (webhook_events (db w))
    \<and> ev_id e' = ev_id e \<and> ev_attempts e' = ev_attempts e + int (length subs)"
  using assms
proof (induction subs arbitrary: w e)
  case Nil
  then show ?case
    using replace_self[OF settled_distinct[OF Nil(1)] Nil(4)] by (auto simp: ret_def intro!: exI[of _ e])
next
  case (Cons sub subs)
  obtain del w1 e1 where w1: "deliver_to_subscription E (ev_id e) sub w = (Inr del, w1)" "settled E w1"
      "subscriptions (db w1) = subscriptions (db w)"
      "webhook_events (db w1) = replace_event e1 (webhook_events (db w))"
      "ev_id e1 = ev_id e" "ev_attempts e1 = ev_attempts e + 1"
    using deliver_settled[OF Cons.prems(1-4), of sub] Cons.prems(5) by auto
  have "e1 \<in> set (webhook_events (db w1))"
    using w1(4,5) Cons.prems(4) replace_member[of e _ e1] by simp
  then obtain dels w2 e2 where w2: "for_each subs (deliver_to_subscription E (ev_id e)) w1 = (Inr dels, w2)"
      "settled E w2" "subscriptions (db w2) = subscriptions (db w1)"
      "webhook_events (db w2) = replace_event e2 (webhook_events (db w1))"
      "ev_id e2 = ev_id e1" "ev_attempts e2 = ev_attempts e1 + int (length subs)"
    using Cons.IH[OF w1(2) Cons.prems(2,3), of e1] Cons.prems(5) w1(3,5) by auto
  then show ?case
    using w1 by (auto simp: ret_def replace_twice intro!: exI[of _ "del # dels"] exI[of _ w2] exI[of _ e2])
qed

lemma attempts_left_less:
  assumes "within_budget E e" and "ev_attempts e < ev_attempts e'"
  shows "attempts_left E e' < attempts_left E e"
proof -
  have "attempts_left E e = nat (webhook_retry_max (settings_of E) - ev_attempts e)"
    using assms(1) by (simp add: attempts_left_def)
  moreover have "nat (webhook_retry_max (settings_of E) - ev_attempts e')
      < nat (webhook_retry_max (settings_of E) - ev_attempts e)"
    using assms by (simp add: within_budget_def)
  ultimately show ?thesis
    using attempts_left_bound[of E e'] by linarith
qed

lemma dispatch_settled:
  assumes "settled E w" and "answers_or_fails E" and "inj (uuid E)" and "e \<in> set (webhook_events (db w))"
    and "within_budget E e"
  obtains dels w' e' where "dispatch_event E e w = (Inr dels, w')" and "settled E w'"
    and "webhook_events (db w') = replace_event e' (webhook_events (db w))"
    and "ev_id e' = ev_id e" and "attempts_left E e' < attempts_left E e"
proof -
  let ?subs = "filter (\<lambda>s. sub_workspace s = ev_workspace e \<and> sub_provider s = ev_provider e \<and> sub_active s)
    (subscriptions (db w))"
  show thesis
  proof (cases "?subs = []")
    case True
    let ?e = "e\<lparr>ev_status := ''no_subscribers''\<rparr>"
    let ?d = "(db w)\<lparr>webhook_events := update_rows ev_id (ev_id e) (\<lambda>r. r\<lparr>ev_status := ''no_subscribers''\<rparr>)
      (webhook_events (db w))\<rparr>"
    have rows: "webhook_events ?d = replace_event ?e (webhook_events (db w))"
      using update_as_replace[OF settled_distinct[OF assms(1)] assms(4),
          of "\<lambda>r. r\<lparr>ev_status := ''no_subscribers''\<rparr>"] by simp
    have ok: "db_ok (foreign_keys E) ?d"
      using assms(1) by (simp add: settled_def db_ok_update_event)
    then have "dispatch_event E e w = (Inr [], w\<lparr>db := ?d, committed := ?d\<rparr>)"
      by (simp add: dispatch_event_def active_subscriptions_def select_def gets_def bnd_def thn_def True
          update_event_def on_db_def modify_def commit_ok ret_def)
    moreover have "settled E (w\<lparr>db := ?d, committed := ?d\<rparr>)"
      using assms(1) ok unfolding settled_def by simp
    moreover have "\<not> within_budget E ?e"
      by (simp add: within_budget_def)
    then have "attempts_left E ?e = 0" "0 < attempts_left E e"
      using assms(5) attempts_left_pos[of E] by auto
    ultimately show ?thesis
      using that[of "[]" "w\<lparr>db := ?d, committed := ?d\<rparr>" ?e] rows by simp
  next
    case False
    obtain dels w' e' where r: "for_each ?subs (deliver_to_subscription E (ev_id e)) w = (Inr dels, w')"
        "settled E w'" "webhook_events (db w') = replace_event e' (webhook_events (db w))"
        "ev_id e' = ev_id e" "ev_attempts e' = ev_attempts e + int (length ?subs)"
      using deliver_all_settled[OF assms(1-4), of ?subs] by auto
    have "dispatch_event E e w = (Inr dels, w')"
      using r(1) False by (simp add: dispatch_event_def active_subscriptions_def select_def gets_def bnd_def)
    moreover have "0 < length ?subs"
      using False by (rule length_greater_0_conv[THEN iffD2])
    then have "attempts_left E e' < attempts_left E e"
      using r(5) by (intro attempts_left_less[OF assms(5)]) linarith
    ultimately show ?thesis
      using that r(2-4) by blast
  qed
qed

section \<open>Runs of the tasks\<close>

lemma dispatches_settled:
  assumes "settled E w" and "answers_or_fails E" and "inj (uuid E)" and "distinct (map ev_id evs)"
    and "\<forall>e \<in> set evs. e \<in> set (webhook_events (db w)) \<and> within_budget E e"
  shows "\<exists>r w'. for_each evs (dispatch_event E) w = (Inr r, w') \<and> settled E w'
    \<and> length (webhook_events (db w')) = length (webhook_events (db w))
    \<and> budget_left E (db w') + length evs \<le> budget_left E (db w)"
  using assms
proof (induction evs arbitrary: w)
  case (Cons e evs)
  obtain dels w1 e1 where w1: "dispatch_event E e w = (Inr dels, w1)" "settled E w1"
      "webhook_events (db w1) = replace_event e1 (webhook_events (db w))"
      "ev_id e1 = ev_id e" "attempts_left E e1 < attempts_left E e"
    using dispatch_settled[OF Cons.prems(1-3), of e] Cons.prems(5) by auto
  have "\<forall>x \<in> set evs. x \<in> set (webhook_events (db w1)) \<and> within_budget E x"
    using Cons.prems(4,5) w1(3,4) by (auto simp: image_iff intro!: replace_other)
  then obtain r w2 where w2: "for_each evs (dispatch_event E) w1 = (Inr r, w2)" "settled E w2"
      "length (webhook_events (db w2)) = length (webhook_events (db w1))"
      "budget_left E (db w2) + length evs \<le> budget_left E (db w1)"
    using Cons.IH[OF w1(2) Cons.prems(2,3)] Cons.prems(4) by auto
  have "budget_left E (db w1) + attempts_left E e = budget_left E (db w) + attempts_left E e1"
    unfolding budget_left_def w1(3)
    using sum_replace[OF settled_distinct[OF Cons.prems(1)] _ w1(4)] Cons.prems(5) by simp
  then have "budget_left E (db w2) + length (e # evs) \<le> budget_left E (db w)"
    using w2(4) w1(5) by simp
  moreover have "for_each (e # evs) (dispatch_event E) w = (Inr (dels # r), w2)"
    using w1(1) w2(1) by (simp add: ret_def)
  moreover have "length (webhook_events (db w2)) = length (webhook_events (db w))"
    using w2(3) w1(3) by (simp add: update_rows_def)
  ultimately show ?case
    using w2(2) by blast
qed (simp add: ret_def)

lemma retry_settled:
  assumes "settled E w" and "answers_or_fails E" and "inj (uuid E)" and "0 < limit"
  obtains n w' where "retry_failed E limit w = (Inr n, w')" and "settled E w'"
    and "length (webhook_events (db w')) = length (webhook_events (db w))"
    and "budget_left E (db w') \<le> budget_left E (db w) - 1"
proof -
  let ?rows = "filter (within_budget E) (webhook_events (db w))"
  have "distinct (map ev_id (take limit ?rows))"
    using settled_distinct[OF assms(1)] by (metis distinct_map_filter distinct_take take_map)
  moreover have "\<forall>e \<in> set (take limit ?rows). e \<in> set (webhook_events (db w)) \<and> within_budget E e"
    by (auto dest: in_set_takeD)
  ultimately obtain r w' where r: "for_each (take limit ?rows) (dispatch_event E) w = (Inr r, w')"
      "settled E w'" "length (webhook_events (db w')) = length (webhook_events (db w))"
      "budget_left E (db w') + length (take limit ?rows) \<le> budget_left E (db w)"
    using dispatches_settled[OF assms(1-3)] by blast
  have "budget_left E (db w') \<le> budget_left E (db w) - 1"
    using r(4) assms(4) budget_zero[of E "db w"] by (cases "?rows = []") (auto simp: length_greater_0_conv[symmetric] simp del: length_greater_0_conv)
  moreover have "retry_failed E limit w = (Inr (length (take limit ?rows)), w')"
    using r(1) by (simp add: retry_failed_def select_def gets_def bnd_def ret_def)
  ultimately show thesis
    using that r(2,3) by blast
qed

lemma retries_settle:
  assumes "settled E w" and "answers_or_fails E" and "inj (uuid E)" and "0 < limit"
    and "retry = (\<lambda>w. snd (retry_failed E limit w))"
  shows "settled E ((retry ^^ n) w) \<and> length (webhook_events (db ((retry ^^ n) w))) = length (webhook_events (db w))
    \<and> budget_left E (db ((retry ^^ n) w)) \<le> budget_left E (db w) - n"
proof (induction n)
  case (Suc n)
  then obtain m w' where "retry_failed E limit ((retry ^^ n) w) = (Inr m, w')" "settled E w'"
      "length (webhook_events (db w')) = length (webhook_events (db ((retry ^^ n) w)))"
      "budget_left E (db w') \<le> budget_left E (db ((retry ^^ n) w)) - 1"
    using retry_settled[OF _ assms(2-4)] by blast
  then show ?case
    using Suc by (simp add: assms(5)) linarith
qed (use assms(1) in simp)

section \<open>Dead letters\<close>

definition exhausted :: "env \<Rightarrow> database \<Rightarrow> nat" where
  "exhausted E d = length (filter (over_budget E) (webhook_events d))"

lemma bury_simps [simp]:
  "ev_id (bury e) = ev_id e" "ev_dedup (bury e) = ev_dedup e" "\<not> over_budget E (bury e)" "\<not> within_budget E (bury e)"
  "attempts_left E (bury e) = 0"
  by (simp_all add: bury_def over_budget_def within_budget_def attempts_left_def)

definition buried :: "string set \<Rightarrow> webhook_event list \<Rightarrow> webhook_event list" where
  "buried ids rows = map (\<lambda>r. if ev_id r \<in> ids then bury r else r) rows"

lemma bury_all:
  "for_each evs (\<lambda>e. update_event (ev_id e) bury) w
     = (Inr (map (\<lambda>_. ()) evs), w\<lparr>db := (db w)\<lparr>webhook_events := buried (ev_id ` set evs) (webhook_events (db w))\<rparr>\<rparr>)"
proof (induction evs arbitrary: w)
  case Nil
  show ?case
    by (simp add: ret_def buried_def)
next
  case (Cons e evs)
  have "bury (bury x) = bury x" for x
    by (simp add: bury_def)
  then show ?case
    using Cons.IH by (auto simp: bnd_def update_event_def on_db_def modify_def ret_def buried_def update_rows_def)
qed

lemma over_budget_buried:
  "filter (over_budget E) (buried ids rows) = filter (\<lambda>r. over_budget E r \<and> ev_id r \<notin> ids) rows"
  by (induction rows) (simp_all add: buried_def)

lemma filter_buried:
  assumes "distinct (map ev_id rows)"
  shows "length (filter (over_budget E) (buried (ev_id ` set (take n (filter (over_budget E) rows))) rows))
    = length (filter (over_budget E) rows) - n"
proof -
  let ?ids = "ev_id ` set (take n (filter (over_budget E) rows))"
  have "filter (over_budget E) (buried ?ids rows) = filter (\<lambda>r. over_budget E r \<and> ev_id r \<notin> ?ids) rows"
    by (rule over_budget_buried)
  also have "\<dots> = filter (\<lambda>r. ev_id r \<notin> ?ids) (filter (over_budget E) rows)"
    by (simp add: conj_commute)
  also have "\<dots> = drop n (filter (over_budget E) rows)"
  proof -
    have "distinct (map ev_id (filter (over_budget E) rows))"
      using assms by (rule distinct_map_filter)
    then have "distinct (map ev_id (take n (filter (over_budget E) rows) @ drop n (filter (over_budget E) rows)))"
      by simp
    then have "filter (\<lambda>r. ev_id r \<notin> ?ids) (take n (filter (over_budget E) rows) @ drop n (filter (over_budget E) rows))
        = drop n (filter (over_budget E) rows)"
      unfolding map_append distinct_append by (auto simp: filter_empty_conv filter_id_conv simp del: append_take_drop_id)
    then show ?thesis
      by simp
  qed
  finally show ?thesis
    by simp
qed

lemma map_buried:
  assumes "\<And>e. g (bury e) = g e"
  shows "map g (buried ids rows) = map g rows"
  by (simp add: buried_def assms)

lemma budget_buried:
  "sum_list (map (attempts_left E) (buried ids rows)) \<le> sum_list (map (attempts_left E) rows)"
  by (induction rows) (simp_all add: buried_def)

lemma dead_letter_settled:
  assumes "settled E w"
  obtains r w' where "dead_letter_overflow E limit w = (Inr r, w')" and "settled E w'"
    and "length (webhook_events (db w')) = length (webhook_events (db w))"
    and "budget_left E (db w') \<le> budget_left E (db w)"
    and "exhausted E (db w') = exhausted E (db w) - limit"
proof -
  let ?rows = "take limit (filter (over_budget E) (webhook_events (db w)))"
  let ?d = "(db w)\<lparr>webhook_events := buried (ev_id ` set ?rows) (webhook_events (db w))\<rparr>"
  have ok: "db_ok (foreign_keys E) ?d"
    using assms by (simp add: settled_def db_ok_def unique_ok_def foreign_ok_def map_buried)
  then have "dead_letter_overflow E limit w = (Inr (map bury ?rows), w\<lparr>db := ?d, committed := ?d\<rparr>)"
    by (simp add: dead_letter_overflow_def select_def gets_def bnd_def bury_all thn_def commit_ok ret_def)
  moreover have "settled E (w\<lparr>db := ?d, committed := ?d\<rparr>)"
    using assms ok unfolding settled_def by simp
  moreover have "exhausted E ?d = exhausted E (db w) - limit"
    using filter_buried[OF settled_distinct[OF assms]] by (simp add: exhausted_def)
  ultimately show thesis
    using that budget_buried[of E] by (fastforce simp: budget_left_def buried_def)
qed

lemma burials_settle:
  assumes "settled E w" and "bury_run = (\<lambda>w. snd (dead_letter_overflow E limit w))" and "0 < limit"
  shows "settled E ((bury_run ^^ n) w) \<and> budget_left E (db ((bury_run ^^ n) w)) \<le> budget_left E (db w)
    \<and> exhausted E (db ((bury_run ^^ n) w)) \<le> exhausted E (db w) - n"
proof (induction n)
  case (Suc n)
  then have "settled E ((bury_run ^^ n) w)"
    by blast
  then obtain r w' where "dead_letter_overflow E limit ((bury_run ^^ n) w) = (Inr r, w')" "settled E w'"
      "budget_left E (db w') \<le> budget_left E (db ((bury_run ^^ n) w))"
      "exhausted E (db w') = exhausted E (db ((bury_run ^^ n) w)) - limit"
    using dead_letter_settled by metis
  then show ?case
    using Suc assms(3) by (simp add: assms(2)) linarith
qed (use assms(1) in simp)

lemma budget_bound:
  assumes "\<forall>e \<in> set (webhook_events d). 0 \<le> ev_attempts e"
  shows "budget_left E d \<le> length (webhook_events d) * nat (webhook_retry_max (settings_of E))"
proof -
  have "attempts_left E e \<le> nat (webhook_retry_max (settings_of E))" if "e \<in> set (webhook_events d)" for e
    using attempts_left_bound[of E e] assms that by fastforce
  then have "sum_list (map (attempts_left E) (webhook_events d))
      \<le> sum_list (map (\<lambda>_. nat (webhook_retry_max (settings_of E))) (webhook_events d))"
    by (intro sum_list_mono) blast
  then show ?thesis
    by (simp add: budget_left_def sum_list_triv)
qed

section \<open>Properties\<close>

text \<open>C12: The retry task terminates the retries: while every active subscription has an acceptable target and
  every exception of the network is an \<open>HTTPError\<close>, each run with a positive limit succeeds and lowers the sum of the
  attempts left to the failed events until it is zero, so that after one run per event and unit of
  \<open>webhook_retry_max\<close> no failed event within its budget is left.\<close>

theorem retries_terminate:
  assumes "settled E w" and "answers_or_fails E" and "inj (uuid E)" and "0 < limit"
    and "\<forall>e \<in> set (webhook_events (db w)). 0 \<le> ev_attempts e"
    and "length (webhook_events (db w)) * nat (webhook_retry_max (settings_of E)) \<le> n"
  shows "filter (within_budget E) (webhook_events (committed
    (((\<lambda>w. snd (retry_failed E limit w)) ^^ n) w))) = []"
proof -
  let ?w = "((\<lambda>w. snd (retry_failed E limit w)) ^^ n) w"
  have r: "settled E ?w" "budget_left E (db ?w) \<le> budget_left E (db w) - n"
    using retries_settle[OF assms(1-4) refl] by blast+
  then have "budget_left E (db ?w) = 0"
    using budget_bound[OF assms(5), of E] assms(6) by linarith
  then show ?thesis
    using r(1) by (simp add: budget_zero settled_def)
qed

text \<open>C4: No event stays failed: under the same conditions, after enough runs of the retry task and then one run of the
  dead-letter task per stored event, no stored event is in the status \<open>failed\<close> any more: its retries have been
  used up or one of them succeeded.\<close>

theorem failed_events_settle:
  assumes "settled E w" and "answers_or_fails E" and "inj (uuid E)" and "0 < limit" and "0 < limit'"
    and "\<forall>e \<in> set (webhook_events (db w)). 0 \<le> ev_attempts e"
    and "length (webhook_events (db w)) * nat (webhook_retry_max (settings_of E)) \<le> n"
    and "length (webhook_events (db w)) \<le> m"
    and "retry = (\<lambda>w. snd (retry_failed E limit w))"
    and "bury_run = (\<lambda>w. snd (dead_letter_overflow E limit' w))"
    and "w' = (bury_run ^^ m) ((retry ^^ n) w)"
  shows "\<forall>e \<in> set (webhook_events (committed w')). ev_status e \<noteq> ''failed''"
proof -
  let ?w = "(retry ^^ n) w"
  have r: "settled E ?w" "length (webhook_events (db ?w)) = length (webhook_events (db w))"
      "budget_left E (db ?w) \<le> budget_left E (db w) - n"
    using retries_settle[OF assms(1-4,9)] by blast+
  then have z: "budget_left E (db ?w) = 0"
    using budget_bound[OF assms(6), of E] assms(7) by linarith
  have "exhausted E (db ?w) \<le> m"
    using assms(8) r(2) length_filter_le[of "over_budget E" "webhook_events (db ?w)"]
    unfolding exhausted_def by linarith
  then have b: "settled E w'" "budget_left E (db w') = 0" "exhausted E (db w') = 0"
    using burials_settle[OF r(1) assms(10,5), of m] z assms(11) by auto
  have "\<not> within_budget E e \<and> \<not> over_budget E e" if "e \<in> set (webhook_events (db w'))" for e
    using b(2,3) that budget_zero[of E "db w'"] by (auto simp: exhausted_def filter_empty_conv)
  then show ?thesis
    using b(1) unfolding within_budget_def over_budget_def settled_def by (metis linorder_not_le)
qed

section \<open>Concrete instances\<close>

lemma sample_uuid_inj: "inj (uuid sample_env)"
proof
  fix a b
  assume "uuid sample_env a = uuid sample_env b"
  then have "show_nat a = show_nat b"
    by (simp add: sample_env_def)
  then show "a = b"
    by (metis read_nat_show_nat)
qed

lemma sample_settled: "settled sample_env (sample_webhook_world ''https://hooks.example.com/in'')"
  unfolding settled_def by (simp add: sample_target_accepted)

lemma sample_answers: "answers_or_fails sample_env"
  by (simp add: answers_or_fails_def)

theorem retries_terminate_witness:
  "filter (within_budget sample_env) (webhook_events (committed (((\<lambda>w. snd (retry_failed sample_env 100 w)) ^^ 5)
     (sample_webhook_world ''https://hooks.example.com/in'')))) = []"
  by (rule retries_terminate[OF sample_settled sample_answers sample_uuid_inj])
    (simp_all add: default_settings_def)

theorem failed_events_settle_witness:
  "filter (\<lambda>e. ev_status e = ''failed'') (webhook_events (committed
     (((\<lambda>w. snd (dead_letter_overflow sample_env 50 w)) ^^ 1)
       (((\<lambda>w. snd (retry_failed sample_env 100 w)) ^^ 5) (sample_webhook_world ''https://hooks.example.com/in''))))) = []"
proof -
  have "\<forall>e \<in> set (webhook_events (committed (((\<lambda>w. snd (dead_letter_overflow sample_env 50 w)) ^^ 1)
     (((\<lambda>w. snd (retry_failed sample_env 100 w)) ^^ 5)
        (sample_webhook_world ''https://hooks.example.com/in''))))). ev_status e \<noteq> ''failed''"
    by (rule failed_events_settle[OF sample_settled sample_answers sample_uuid_inj _ _ _ _ _ refl refl refl])
      (simp_all add: default_settings_def)
  then show ?thesis
    unfolding filter_empty_conv .
qed

end
