(* ===== verification/Credential_Service.thy ===== *)
theory Credential_Service
  imports Security_Utils
begin

text \<open>
  \<open>src/services/credential_service.py\<close>: encryption-aware storage of credentials per workspace and
  provider. A method of the class is a procedure over the world; \<open>svc\<close> is its
  \<open>EncryptionService\<close>. \<open>create\<close> and \<open>update\<close> pop \<open>expires_at\<close> out of the caller's dictionary, which
  the endpoints mask afterwards, so they return the dictionary as well.
\<close>

section \<open>Helpers\<close>

text \<open>\<open>_parse_expiry\<close> of what a JSON request can carry.\<close>

definition parse_expiry :: "json option \<Rightarrow> time option" where
  "parse_expiry value = (case value of
      Some (JStr s) \<Rightarrow> fromisoformat (replace_char (CHR ''Z'') ''+00:00'' s)
    | _ \<Rightarrow> None)"

definition canonical_form :: "json dict \<Rightarrow> string" where
  "canonical_form creds = join ''|'' (map (\<lambda>(k, v). k @ '':'' @ py_str v) (sort_key fst creds))"

definition credential_hash :: "env \<Rightarrow> json dict \<Rightarrow> string" where
  "credential_hash E creds =
     hash_credential (crypto_of E) (canonical_form creds) (hash_salt (settings_of E))"

section \<open>Operations\<close>

definition cred_create ::
    "env \<Rightarrow> encryption \<Rightarrow> string \<Rightarrow> string \<Rightarrow> string \<Rightarrow> json dict \<Rightarrow> (credential \<times> json dict) act" where
  "cred_create E svc ws provider name creds =
    (if creds = [] then raise (error1 CredentialInvalid ''credentials cannot be empty'' provider)
     else (case dpop ''expires_at'' creds of (expires, rest) \<Rightarrow>
       bnd (encrypt_credentials E svc rest) (\<lambda>blob.
       bnd (fresh (uuid E)) (\<lambda>i.
       bnd (now_utc E) (\<lambda>now.
         let record = \<lparr>cred_id = i, cred_workspace = ws, cred_provider = provider, cred_name = name,
               cred_blob = blob, cred_hash = Some (credential_hash E rest),
               cred_expires_at = parse_expiry expires, cred_created_at = now, cred_updated_at = now\<rparr>
         in thn (add_credential record) (thn (commit E) (ret (record, rest))))))))"

definition cred_get :: "string \<Rightarrow> string \<Rightarrow> credential act" where
  "cred_get ws provider =
    bnd (select credentials (\<lambda>c. cred_workspace c = ws \<and> cred_provider c = provider)) (\<lambda>rows.
    bnd (one_or_none rows) (\<lambda>found. case found of
      None \<Rightarrow> raise (error0 CredentialNotFound (''no credentials for provider '' @ repr_str provider))
    | Some record \<Rightarrow> ret record))"

definition cred_list :: "string \<Rightarrow> credential list act" where
  "cred_list ws = bnd (select credentials (\<lambda>c. cred_workspace c = ws))
     (\<lambda>rows. ret (newest_first cred_created_at rows))"

definition decrypt_for :: "env \<Rightarrow> encryption \<Rightarrow> string \<Rightarrow> string \<Rightarrow> json dict act" where
  "decrypt_for E svc ws provider =
    bnd (cred_get ws provider) (\<lambda>record. lift (decrypt_credentials E svc (cred_blob record)))"

definition cred_update ::
    "env \<Rightarrow> encryption \<Rightarrow> string \<Rightarrow> string \<Rightarrow> json dict \<Rightarrow> (credential \<times> json dict) act" where
  "cred_update E svc ws provider creds =
    bnd (cred_get ws provider) (\<lambda>record.
     if creds = [] then raise (error1 CredentialInvalid ''credentials cannot be empty'' provider)
     else (case dpop ''expires_at'' creds of (expires, rest) \<Rightarrow>
       bnd (encrypt_credentials E svc rest) (\<lambda>blob.
       bnd (now_utc E) (\<lambda>now.
         let change = (\<lambda>c. c\<lparr>cred_blob := blob, cred_hash := Some (credential_hash E rest),
               cred_expires_at := parse_expiry expires, cred_updated_at := now\<rparr>)
         in thn (update_credential (cred_id record) change)
            (thn (commit E) (ret (change record, rest)))))))"

definition cred_delete :: "env \<Rightarrow> string \<Rightarrow> string \<Rightarrow> unit act" where
  "cred_delete E ws provider =
    bnd (cred_get ws provider) (\<lambda>record. thn (delete_credential (cred_id record)) (commit E))"

text \<open>\<open>now = None\<close> reads the clock.\<close>

definition expired_before :: "time \<Rightarrow> credential \<Rightarrow> bool" where
  "expired_before now c \<longleftrightarrow> (case cred_expires_at c of None \<Rightarrow> False | Some t \<Rightarrow> t < now)"

definition rotate_expired :: "env \<Rightarrow> time option \<Rightarrow> string list act" where
  "rotate_expired E now =
    bnd (case now of Some t \<Rightarrow> ret t | None \<Rightarrow> now_utc E) (\<lambda>t.
    bnd (select credentials (expired_before t)) (\<lambda>rows.
    bnd (now_utc E) (\<lambda>u.
    thn (for_each rows (\<lambda>r. update_credential (cred_id r)
           (\<lambda>c. c\<lparr>cred_expires_at := None, cred_updated_at := u\<rparr>)))
    (thn (commit E) (ret (map cred_id rows))))))"

section \<open>Facts\<close>

abbreviation cred_rows :: "string \<Rightarrow> string \<Rightarrow> database \<Rightarrow> credential list" where
  "cred_rows ws provider d \<equiv>
     filter (\<lambda>c. cred_workspace c = ws \<and> cred_provider c = provider) (credentials d)"

lemma cred_get_eq:
  "cred_get ws provider w = (case cred_rows ws provider (db w) of
      [] \<Rightarrow> (Inl (error0 CredentialNotFound (''no credentials for provider '' @ repr_str provider)), w)
    | [r] \<Rightarrow> (Inr r, w)
    | _ \<Rightarrow> (Inl (Builtin MultipleResultsFound
             ''Multiple rows were found when one or none was required''), w))"
  by (simp add: cred_get_def select_def gets_def bnd_def one_or_none_def ret_def raise_def
      split: list.splits)

lemma cred_get_row:
  assumes "cred_get ws provider w = (Inr r, w')"
  shows "w' = w \<and> cred_rows ws provider (db w) = [r] \<and> r \<in> set (credentials (db w))
    \<and> cred_workspace r = ws \<and> cred_provider r = provider"
proof -
  have f: "cred_rows ws provider (db w) = [r]" "w' = w"
    using assms by (simp_all add: cred_get_eq split: list.splits)
  then show ?thesis
    by (auto simp: filter_eq_Cons_iff)
qed

lemma final_for_each_updates:
  "for_each rows (\<lambda>r. update_credential (key r) f) w =
     (Inr (replicate (length rows) ()), w\<lparr>db := fold (\<lambda>r d. d\<lparr>credentials :=
        update_rows cred_id (key r) f (credentials d)\<rparr>) rows (db w)\<rparr>)"
  by (induction rows arbitrary: w)
     (simp_all add: ret_def bnd_def update_credential_def on_db_def modify_def)

lemma credential_ops_consistent:
  "keeps (consistent E) (cred_create E svc ws provider name creds)"
  "keeps (consistent E) (cred_update E svc ws provider creds)"
  "keeps (consistent E) (cred_delete E ws provider)"
  "keeps (consistent E) (rotate_expired E now)"
  unfolding cred_create_def cred_update_def cred_delete_def cred_get_def rotate_expired_def
    add_credential_def update_credential_def delete_credential_def encrypt_credentials_def encrypt_def
  by (intro keeps_rules)+

definition tenant_credentials :: "string \<Rightarrow> database \<Rightarrow> credential list" where
  "tenant_credentials ws d = filter (\<lambda>c. cred_workspace c = ws) (credentials d)"

text \<open>
  The rows of workspace \<open>ws\<close> are \<open>rows\<close>, and the row with key \<open>i\<close> is none of them: what an update or
  deletion of row \<open>i\<close> keeps.
\<close>

definition others_are :: "string \<Rightarrow> credential list \<Rightarrow> string \<Rightarrow> database \<Rightarrow> bool" where
  "others_are ws rows i d \<longleftrightarrow> tenant_credentials ws d = rows \<and>
     (\<forall>c \<in> set (credentials d). cred_id c = i \<longrightarrow> cred_workspace c \<noteq> ws)"

lemma others_are_update:
  assumes "\<And>c. cred_workspace (f c) = cred_workspace c" and "\<And>c. cred_id (f c) = cred_id c"
    and "others_are ws rows i d"
  shows "others_are ws rows i (d\<lparr>credentials := update_rows cred_id i f (credentials d)\<rparr>)"
proof -
  have "filter (\<lambda>c. cred_workspace c = ws) (update_rows cred_id i f (credentials d))
      = filter (\<lambda>c. cred_workspace c = ws) (credentials d)"
    by (rule filter_update_rows_other) (use assms in \<open>auto simp: others_are_def\<close>)
  moreover have "cred_workspace c \<noteq> ws"
    if c: "c \<in> set (update_rows cred_id i f (credentials d))" "cred_id c = i" for c
  proof -
    obtain r where "r \<in> set (credentials d)" "c = (if cred_id r = i then f r else r)"
      using c(1) by (auto simp: update_rows_def)
    then show ?thesis
      using assms c(2) by (simp add: others_are_def split: if_splits)
  qed
  ultimately show ?thesis
    using assms(3) by (simp add: others_are_def tenant_credentials_def)
qed

lemma keeps_update_other [keeps_rules]:
  "(\<And>c. cred_workspace (f c) = cred_workspace c) \<Longrightarrow> (\<And>c. cred_id (f c) = cred_id c) \<Longrightarrow>
     keeps (everywhere (others_are ws rows i)) (update_credential i f)"
  unfolding update_credential_def by (rule keeps_on_db) (rule others_are_update)

lemma others_committed:
  "keeps (everywhere (others_are ws rows i)) m \<Longrightarrow> everywhere (others_are ws rows i) w \<Longrightarrow>
     tenant_credentials ws (committed (snd (m w))) = rows"
  unfolding keeps_def by (drule spec[of _ w], drule mp) (simp_all add: everywhere_def others_are_def)

lemma keeps_delete_other [keeps_rules]:
  "keeps (everywhere (others_are ws rows i)) (delete_credential i)"
  unfolding delete_credential_def
  by (rule keeps_on_db) (auto simp: others_are_def tenant_credentials_def intro!: filter_cong)

lemma keeps_encrypt [keeps_rules]:
  "keeps (everywhere P) (encrypt E svc d)" "keeps (everywhere P) (encrypt_credentials E svc creds)"
  unfolding encrypt_credentials_def encrypt_def by (intro keeps_rules)+

lemma cred_get_others:
  assumes "cred_get ws provider w = (Inr r, w')" and "db_ok b (db w)" and "db w = committed w" and "ws' \<noteq> ws"
  shows "everywhere (others_are ws' (tenant_credentials ws' (db w)) (cred_id r)) w"
proof -
  have r: "r \<in> set (credentials (db w))" "cred_workspace r = ws"
    using cred_get_row[OF assms(1)] by simp_all
  have "c = r" if "c \<in> set (credentials (db w))" "cred_id c = cred_id r" for c
    using key_unique[OF db_ok_parts(1)[OF assms(2)] r(1) that(1)] that(2) by simp
  then have "others_are ws' (tenant_credentials ws' (db w)) (cred_id r) (db w)"
    using r(2) assms(4) by (auto simp: others_are_def)
  then show ?thesis
    using assms(3) by (simp add: everywhere_def)
qed

section \<open>Properties\<close>


text \<open>A second credential with the same workspace, provider and name is refused, whatever its
  content: the call ends in an exception and the committed rows are what they were.\<close>

theorem duplicate_credential_refused:
  assumes "(ws, provider, name)
      \<in> set (map (\<lambda>c. (cred_workspace c, cred_provider c, cred_name c)) (credentials (db w)))"
  shows "\<exists>e. fst (cred_create E svc ws provider name creds w) = Inl e
    \<and> committed (snd (cred_create E svc ws provider name creds w)) = committed w"
proof (cases "creds = []")
  case False
  obtain r w1 where e: "encrypt_credentials E svc (AList.delete ''expires_at'' creds) w = (r, w1)"
    by fastforce
  have w1: "db w1 = db w" "committed w1 = committed w"
    using e by (auto simp: encrypt_credentials_def encrypt_def fresh_def lift_def raise_def bnd_def
        catch_def split: prod.splits sum.splits)
  show ?thesis
  proof (cases r)
    case (Inl x)
    then show ?thesis
      using e w1 False by (simp add: cred_create_def dpop_def bnd_def)
  next
    case (Inr tok)
    have "\<not> db_ok (foreign_keys E) ((db w)\<lparr>credentials := credentials (db w) @ [c]\<rparr>)"
      if "cred_workspace c = ws" "cred_provider c = provider" "cred_name c = name" for c
      using db_ok_duplicate_credential[of c "db w"] assms that by simp
    then show ?thesis
      using e w1 False Inr
      by (simp add: cred_create_def dpop_def bnd_def thn_def fresh_def now_utc_def add_credential_def
          on_db_def modify_def Let_def commit_fails)
  qed
qed (simp add: cred_create_def raise_def)

text \<open>With two credentials of a workspace for one provider, under different names, the provider's
  credentials cannot be used or maintained any more: reading, decrypting, updating and deleting all
  raise \<open>MultipleResultsFound\<close>, which no handler turns into a service error, and change nothing.\<close>

theorem two_names_block_credentials:
  assumes "cred_rows ws provider (db w) = r # s # rows"
  shows "fst (cred_get ws provider w) = Inl (Builtin MultipleResultsFound
           ''Multiple rows were found when one or none was required'')
    \<and> fst (decrypt_for E svc ws provider w) = Inl (Builtin MultipleResultsFound
           ''Multiple rows were found when one or none was required'')
    \<and> cred_update E svc ws provider creds w = (Inl (Builtin MultipleResultsFound
           ''Multiple rows were found when one or none was required''), w)
    \<and> cred_delete E ws provider w = (Inl (Builtin MultipleResultsFound
           ''Multiple rows were found when one or none was required''), w)"
proof -
  have g: "cred_get ws provider w = (Inl (Builtin MultipleResultsFound
      ''Multiple rows were found when one or none was required''), w)"
    by (simp only: cred_get_eq assms list.case)
  show ?thesis
    unfolding decrypt_for_def cred_update_def cred_delete_def by (simp add: g)
qed

text \<open>C21: Tenant isolation: creating, updating or deleting credentials for one workspace leaves the
  committed credentials of every other workspace exactly as they were, whether the call succeeds
  or fails.\<close>

theorem credentials_isolated:
  assumes "db_ok (foreign_keys E) (db w)" and "db w = committed w" and "ws' \<noteq> ws"
  shows "tenant_credentials ws' (committed (snd (cred_create E svc ws provider name creds w)))
        = tenant_credentials ws' (committed w)
    \<and> tenant_credentials ws' (committed (snd (cred_update E svc ws provider creds w)))
        = tenant_credentials ws' (committed w)
    \<and> tenant_credentials ws' (committed (snd (cred_delete E ws provider w)))
        = tenant_credentials ws' (committed w)"
proof -
  let ?rows = "tenant_credentials ws' (db w)"
  have "keeps (everywhere (\<lambda>d. tenant_credentials ws' d = ?rows)) (cred_create E svc ws provider name creds)"
    unfolding cred_create_def add_credential_def
    by (intro keeps_rules) (use assms(3) in \<open>simp_all add: tenant_credentials_def\<close>)
  then have 1: "tenant_credentials ws' (committed (snd (cred_create E svc ws provider name creds w))) = ?rows"
    unfolding keeps_def by (drule_tac spec[of _ w], drule_tac mp) (simp_all add: everywhere_def assms(2)[symmetric])
  have 2: "tenant_credentials ws' (committed (snd (cred_update E svc ws provider creds w))) = ?rows
      \<and> tenant_credentials ws' (committed (snd (cred_delete E ws provider w))) = ?rows"
  proof (cases "cred_get ws provider w")
    case (Pair o1 w1)
    have w1: "w1 = w"
      using Pair by (auto simp: cred_get_eq split: list.splits)
    show ?thesis
    proof (cases o1)
      case (Inl e)
      then show ?thesis
        using Pair w1 assms(2) by (simp add: cred_update_def cred_delete_def)
    next
      case (Inr r)
      let ?P = "everywhere (others_are ws' ?rows (cred_id r))"
      let ?delete = "thn (delete_credential (cred_id r)) (commit E)"
      let ?update = "case dpop ''expires_at'' creds of (expires, rest) \<Rightarrow>
          bnd (encrypt_credentials E svc rest) (\<lambda>blob. bnd (now_utc E) (\<lambda>now.
            let change = (\<lambda>c. c\<lparr>cred_blob := blob, cred_hash := Some (credential_hash E rest),
                  cred_expires_at := parse_expiry expires, cred_updated_at := now\<rparr>)
            in thn (update_credential (cred_id r) change) (thn (commit E) (ret (change r, rest)))))"
      have P: "?P w"
        using cred_get_others[of ws provider w r w1] Pair Inr assms by simp
      have "keeps ?P ?update"
        by (intro keeps_rules) simp_all
      then have u: "tenant_credentials ws' (committed (snd (?update w))) = ?rows"
        using P by (rule others_committed)
      have "keeps ?P ?delete"
        by (intro keeps_rules)
      then have d: "tenant_credentials ws' (committed (snd (?delete w))) = ?rows"
        using P by (rule others_committed)
      have g: "cred_get ws provider w = (Inr r, w)"
        using Pair Inr w1 by simp
      have "cred_delete E ws provider w = ?delete w"
        unfolding cred_delete_def bnd_Inr[of "cred_get ws provider", OF g] ..
      moreover have "committed (snd (cred_update E svc ws provider creds w)) =
          (if creds = [] then committed w else committed (snd (?update w)))"
        unfolding cred_update_def bnd_Inr[of "cred_get ws provider", OF g]
        by (cases "creds = []") (simp_all only: if_True if_False simp_thms raise_def snd_conv)
      ultimately show ?thesis
        using d u assms(2) by (metis (no_types, lifting))
    qed
  qed
  show ?thesis
    using 1 2 assms(2) by simp
qed

text \<open>\<open>rotate_expired\<close> clears the expiry of exactly the expired credentials and returns their
  ids; nothing is re-encrypted, so every stored blob stays as it is, and what was expired is
  afterwards indistinguishable from a credential that never expires.\<close>

theorem rotate_expired_clears:
  assumes "db_ok (foreign_keys E) (db w)"
  shows "\<exists>w'. rotate_expired E (Some t) w = (Inr (map cred_id (filter (expired_before t) (credentials (db w)))), w')
    \<and> map cred_blob (credentials (committed w')) = map cred_blob (credentials (db w))
    \<and> map cred_expires_at (credentials (committed w'))
        = map (\<lambda>c. if expired_before t c then None else cred_expires_at c) (credentials (db w))"
proof -
  let ?u = "clock E (ticks w)"
  let ?f = "\<lambda>c. c\<lparr>cred_expires_at := None, cred_updated_at := ?u\<rparr>"
  let ?rows = "filter (expired_before t) (credentials (db w))"
  have ids: "distinct (map cred_id (credentials (db w)))"
    using assms by (rule db_ok_parts)
  define d where "d = fold (\<lambda>r d. d\<lparr>credentials := update_rows cred_id (cred_id r) ?f (credentials d)\<rparr>) ?rows (db w)"
  have ok: "db_ok (foreign_keys E) d" if "db_ok (foreign_keys E) d0"
    "d = fold (\<lambda>r d. d\<lparr>credentials := update_rows cred_id (cred_id r) ?f (credentials d)\<rparr>) rs d0" for rs d0 d
    using that by (induction rs arbitrary: d0) (simp_all add: db_ok_update_credential)
  have creds: "credentials d = map (\<lambda>c. if cred_id c \<in> set (map cred_id rs) then ?f c else c) (credentials d0)"
    if "d = fold (\<lambda>r d. d\<lparr>credentials := update_rows cred_id (cred_id r) ?f (credentials d)\<rparr>) rs d0" for rs d d0
    using that by (induction rs arbitrary: d0) (auto simp: update_rows_def)
  have mem: "cred_id c \<in> set (map cred_id ?rows) \<longleftrightarrow> expired_before t c"
    if "c \<in> set (credentials (db w))" for c
    using key_unique[OF ids _ that] that by (auto simp: image_iff)
  have "rotate_expired E (Some t) w = (Inr (map cred_id ?rows), w\<lparr>ticks := ticks w + 1, db := d, committed := d\<rparr>)"
    using ok[OF assms d_def]
    by (simp add: rotate_expired_def bnd_def thn_def select_def gets_def now_utc_def ret_def
        final_for_each_updates commit_ok d_def[symmetric])
  moreover have "credentials d = map (\<lambda>c. if expired_before t c then ?f c else c) (credentials (db w))"
    unfolding creds[OF d_def] by (rule map_cong) (use mem in auto)
  ultimately show ?thesis
    by (auto simp: comp_def)
qed

section \<open>Witnesses\<close>


theorem duplicate_credential_refused_witness:
  "\<exists>e. fst (cred_create sample_env sample_service ''ws-1'' ''stripe'' ''default'' [(''k'', JStr ''v'')]
     (with_credentials [sample_credential ''c-1'' ''ws-1'' ''stripe'' ''default''])) = Inl e"
  using duplicate_credential_refused[of "''ws-1''" "''stripe''" "''default''"
      "with_credentials [sample_credential ''c-1'' ''ws-1'' ''stripe'' ''default'']" sample_env]
  by (fastforce simp: with_credentials_def sample_credential_def)

theorem two_names_block_credentials_witness:
  "fst (cred_get ''ws-1'' ''stripe'' (with_credentials
      [sample_credential ''c-1'' ''ws-1'' ''stripe'' ''live'', sample_credential ''c-2'' ''ws-1'' ''stripe'' ''test'']))
   = Inl (Builtin MultipleResultsFound ''Multiple rows were found when one or none was required'')"
  using two_names_block_credentials[of "''ws-1''" "''stripe''" "with_credentials
      [sample_credential ''c-1'' ''ws-1'' ''stripe'' ''live'', sample_credential ''c-2'' ''ws-1'' ''stripe'' ''test'']"]
  by (simp add: with_credentials_def sample_credential_def)

theorem credentials_isolated_witness:
  "tenant_credentials ''ws-2'' (committed (snd (cred_create sample_env sample_service ''ws-1'' ''stripe''
     ''default'' [(''k'', JStr ''v'')] sample_world))) = []"
  using credentials_isolated[of sample_env sample_world "''ws-2''" "''ws-1''"]
  by (simp add: tenant_credentials_def)

theorem rotate_expired_clears_witness:
  "fst (rotate_expired sample_env (Some 1700000000000000)
     (with_credentials [sample_credential ''c-1'' ''ws-1'' ''stripe'' ''live''])) = Inr [''c-1'']"
proof -
  have "db_ok (foreign_keys sample_env) (db (with_credentials [sample_credential ''c-1'' ''ws-1'' ''stripe'' ''live'']))"
    by (simp add: with_credentials_def sample_credential_def db_ok_def unique_ok_def foreign_ok_def)
  from rotate_expired_clears[OF this, of 1700000000000000] show ?thesis
    by (auto simp: with_credentials_def sample_credential_def expired_before_def)
qed

end
