(* ===== verification/OAuth_Service.thy ===== *)
theory OAuth_Service
  imports Provider_Base Credential_Service
begin

text \<open>
  \<open>src/services/oauth_service.py\<close>: the OAuth 2 manager. Authorization URLs with a one-time state and
  PKCE, the callback that consumes the state and exchanges the code, token refresh and revocation.
  \<open>reg\<close> is the provider registry, \<open>svc\<close> the encryption service. No provider of the repository
  overrides \<open>oauth_enrich_token\<close>, so it adds nothing to the credentials.
\<close>

section \<open>URL encoding\<close>

definition upper_hex :: "nat \<Rightarrow> char" where
  "upper_hex d = (if d < 10 then digit d else char_of (55 + d))"

definition utf8 :: "char \<Rightarrow> nat list" where
  "utf8 c = (let n = of_char c in if n < 128 then [n] else [192 + n div 64, 128 + n mod 64])"

text \<open>\<open>urllib.parse.quote_plus\<close> and \<open>urlencode\<close>.\<close>

definition quote_char :: "char \<Rightarrow> string" where
  "quote_char c =
    (if is_alpha c \<or> is_digit c \<or> c \<in> {CHR ''_'', CHR ''.'', CHR ''-'', CHR ''~''} then [c]
     else if c = CHR '' '' then ''+''
     else concat (map (\<lambda>b. [CHR ''%'', upper_hex (b div 16), upper_hex (b mod 16)]) (utf8 c)))"

definition quote_plus :: "string \<Rightarrow> string" where
  "quote_plus s = concat (map quote_char s)"

definition urlencode :: "json dict \<Rightarrow> string" where
  "urlencode params = join ''&'' (map (\<lambda>(k, v). quote_plus k @ ''='' @ quote_plus (py_str v)) params)"

section \<open>PKCE and configuration\<close>

text \<open>\<open>config.get(key, "")\<close>; every value of a provider configuration it is used for is a text.\<close>

definition cfg_str :: "json dict \<Rightarrow> string \<Rightarrow> string" where
  "cfg_str config key = (case dget config key of Some (JStr s) \<Rightarrow> s | _ \<Rightarrow> [])"

definition generate_pkce_pair :: "env \<Rightarrow> (string \<times> string) act" where
  "generate_pkce_pair E = bnd (fresh (\<lambda>n. token_bytes E n 48)) (\<lambda>bytes.
     let verifier = base64url bytes; challenge = base64url (sha256 (crypto_of E) verifier)
     in ret (verifier, challenge))"

definition resolve_workspace :: "string \<Rightarrow> workspace_row act" where
  "resolve_workspace ws =
    bnd (select workspaces (\<lambda>r. ws_id r = ws)) (\<lambda>rows. case rows of
      [] \<Rightarrow> raise (error0 WorkspaceNotFound (''workspace '' @ ws @ '' not found''))
    | r # _ \<Rightarrow> ret r)"

definition client_id_for :: "env \<Rightarrow> string \<Rightarrow> string" where
  "client_id_for E provider = cfg_str (provider_config (settings_of E) provider) ''client_id''"

definition default_redirect_uri :: "env \<Rightarrow> string \<Rightarrow> string" where
  "default_redirect_uri E provider =
     strip_while (\<lambda>c. c = CHR ''/'') (oauth_redirect_base_url (settings_of E))
     @ ''/oauth/callback/'' @ provider"

text \<open>\<open>x or y\<close> for a text that may be missing.\<close>

definition or_str :: "string option \<Rightarrow> string \<Rightarrow> string" where
  "or_str x y = (case x of None \<Rightarrow> y | Some s \<Rightarrow> if s = [] then y else s)"

section \<open>Authorization\<close>

fun attr_truthy :: "'a list attr \<Rightarrow> bool" where
  "attr_truthy FieldSpec = True"
| "attr_truthy (Given xs) = (xs \<noteq> [])"

definition effective_scopes :: "provider_class \<Rightarrow> string list option \<Rightarrow> string list attr" where
  "effective_scopes cls scopes =
    (case scopes of
       Some (s # ss) \<Rightarrow> Given (s # ss)
     | _ \<Rightarrow> if attr_truthy (oauth_scopes cls) then oauth_scopes cls else default_scopes cls)"

definition authorize_params ::
    "env \<Rightarrow> string \<Rightarrow> string \<Rightarrow> string list \<Rightarrow> string \<Rightarrow> string option \<Rightarrow> json dict \<Rightarrow> json dict" where
  "authorize_params E provider redirect scopes state challenge extra =
    dupdate
      ([(''client_id'', JStr (client_id_for E provider)), (''response_type'', JStr ''code''),
        (''redirect_uri'', JStr redirect), (''scope'', JStr (join '' '' scopes)), (''state'', JStr state),
        (''access_type'', JStr ''offline''), (''prompt'', JStr ''consent'')]
       @ (case challenge of
            None \<Rightarrow> []
          | Some c \<Rightarrow> (if c = [] then []
              else [(''code_challenge'', JStr c), (''code_challenge_method'', JStr ''S256'')])))
      extra"

definition pkce_for :: "env \<Rightarrow> provider_class \<Rightarrow> (string \<times> string) option act" where
  "pkce_for E cls = (if oauth_pkce cls then bnd (generate_pkce_pair E) (\<lambda>p. ret (Some p)) else ret None)"

text \<open>
  A list of scopes that is a \<open>Field\<close> cannot be written to the JSON column: the flush raises
  \<open>StatementError\<close> and the session is rolled back.
\<close>

definition create_authorization_url ::
    "env \<Rightarrow> registry \<Rightarrow> string \<Rightarrow> string \<Rightarrow> string list option \<Rightarrow> string option \<Rightarrow> json dict \<Rightarrow>
     (string \<times> string \<times> string) act" where
  "create_authorization_url E reg provider ws scopes redirect extra =
    bnd (lift (registry_get reg provider)) (\<lambda>cls.
    bnd (resolve_workspace ws) (\<lambda>_.
    bnd (fresh (token_urlsafe E)) (\<lambda>state.
    bnd (pkce_for E cls) (\<lambda>pkce.
    bnd (now_utc E) (\<lambda>now.
    bnd (fresh (uuid E)) (\<lambda>i.
      case effective_scopes cls scopes of
        FieldSpec \<Rightarrow> thn rollback (raise (Builtin StatementError ''Object of type Field is not JSON serializable''))
      | Given sc \<Rightarrow>
         (let uri = or_str redirect (default_redirect_uri E provider);
              record = \<lparr>ost_id = i, ost_workspace = ws, ost_provider = provider, ost_token = state,
                ost_verifier = map_option fst pkce, ost_redirect = Some uri, ost_scopes = sc,
                ost_expires_at = now + oauth_state_ttl_seconds (settings_of E) * 1000000,
                ost_consumed = False\<rparr>;
              params = authorize_params E provider uri sc state (map_option snd pkce) extra;
              base = (if oauth_authorize_url cls \<noteq> [] then oauth_authorize_url cls else base_url cls);
              separator = (if CHR ''?'' \<in> set base then ''&'' else ''?'')
          in thn (add_state record) (thn (commit E)
             (ret (state, (case pkce of None \<Rightarrow> [] | Some p \<Rightarrow> fst p), base @ separator @ urlencode params))))))))))"

section \<open>The callback\<close>

definition consume_state :: "env \<Rightarrow> string \<Rightarrow> string \<Rightarrow> oauth_state act" where
  "consume_state E provider state =
    bnd (select oauth_states (\<lambda>r. ost_token r = state \<and> ost_provider r = provider \<and> \<not> ost_consumed r)) (\<lambda>rows.
    bnd (one_or_none rows) (\<lambda>found. case found of
      None \<Rightarrow> raise (error1 OAuthFailed ''invalid or already-consumed OAuth state'' provider)
    | Some record \<Rightarrow>
        bnd (now_utc E) (\<lambda>now.
          let consumed = update_state (ost_id record) (\<lambda>r. r\<lparr>ost_consumed := True\<rparr>) in
          if ost_expires_at record < now
          then thn consumed (thn (commit E) (raise (error1 OAuthFailed ''OAuth state has expired'' provider)))
          else thn consumed (ret (record\<lparr>ost_consumed := True\<rparr>)))))"

text \<open>The client's authentication at the token endpoint: HTTP basic, or fields of the form.\<close>

definition client_auth :: "env \<Rightarrow> provider_class \<Rightarrow> string \<Rightarrow> (string \<times> string) option \<times> json dict" where
  "client_auth E cls provider =
    (let config = provider_config (settings_of E) provider;
         client = cfg_str config ''client_id''; secret = cfg_str config ''client_secret''
     in if oauth_token_header_auth cls then (Some (client, secret), [])
        else (None, [(''client_id'', JStr client), (''client_secret'', JStr secret)]))"

definition token_request :: "env \<Rightarrow> provider_class \<Rightarrow> string \<Rightarrow> string \<Rightarrow> json dict \<Rightarrow> request" where
  "token_request E cls provider url data =
    \<lparr>req_method = ''POST'', req_url = url, req_params = [],
     req_body = FormBody (dupdate data (snd (client_auth E cls provider))),
     req_headers = [(''Accept'', ''application/json'')], req_auth = fst (client_auth E cls provider)\<rparr>"

definition safe_body :: "http_response \<Rightarrow> string" where
  "safe_body r = take 200 (http_text r)"

definition exchange_code ::
    "env \<Rightarrow> provider_class \<Rightarrow> string \<Rightarrow> string \<Rightarrow> string option \<Rightarrow> json act" where
  "exchange_code E cls code redirect verifier =
    (let data = [(''grant_type'', JStr ''authorization_code''), (''code'', JStr code),
                 (''redirect_uri'', JStr redirect)]
                @ (case verifier of None \<Rightarrow> [] | Some v \<Rightarrow> (if v = [] then [] else [(''code_verifier'', JStr v)]))
     in bnd (http_send E (token_request E cls (provider_key cls) (oauth_token_url cls) data)) (\<lambda>response.
        if 400 \<le> http_status response
        then raise (error2 OAuthFailed ''OAuth token exchange failed'' (provider_key cls)
               [(''status_code'', JInt (http_status response)), (''body'', JStr (safe_body response))])
        else lift (http_json response)))"

definition extract_credentials :: "provider_class \<Rightarrow> json dict \<Rightarrow> json dict act" where
  "extract_credentials cls tok = thn (new_instance cls) (ret
    ([(''access_token'', jget tok ''access_token''), (''token_type'', jget_or tok ''token_type'' (JStr ''Bearer'')),
      (''expires_in'', jget tok ''expires_in''), (''scope'', jget tok ''scope'')]
     @ (if truthy (jget tok ''refresh_token'') then [(''refresh_token'', jget tok ''refresh_token'')] else [])
     @ (if truthy (jget tok ''id_token'') then [(''id_token'', jget tok ''id_token'')] else [])))"

text \<open>The first microsecond of the year 10000, which \<open>datetime\<close> cannot represent.\<close>

definition end_of_time :: time where
  "end_of_time = 253402300800000000"

definition expiry_from_token :: "env \<Rightarrow> json dict \<Rightarrow> time option act" where
  "expiry_from_token E tok =
    (if \<not> truthy (jget tok ''expires_in'') then ret None
     else bnd (now_utc E) (\<lambda>now. case py_int (jget tok ''expires_in'') of
        Inl _ \<Rightarrow> ret None
      | Inr n \<Rightarrow>
          (let t = now + n * 1000000 in
           if - 62135596800000000 \<le> t \<and> t < end_of_time then ret (Some t)
           else raise (Builtin OtherException ''date value out of range''))))"

text \<open>\<open>session.flush()\<close>, and the constraint checks of an executed statement.\<close>

definition flush :: "env \<Rightarrow> unit act" where
  "flush E = (\<lambda>w.
     if db_ok (foreign_keys E) (db w) then (Inr (), w)
     else (Inl (Builtin IntegrityError []), w\<lparr>db := committed w\<rparr>))"

abbreviation conn_rows :: "string \<Rightarrow> string \<Rightarrow> database \<Rightarrow> connection list" where
  "conn_rows ws provider d \<equiv>
     filter (\<lambda>c. conn_workspace c = ws \<and> conn_provider c = provider) (connections d)"

definition new_connection ::
    "string \<Rightarrow> string \<Rightarrow> string \<Rightarrow> string \<Rightarrow> string list \<Rightarrow> time option \<Rightarrow> time \<Rightarrow> connection" where
  "new_connection i ws provider encrypted scopes expires now =
    \<lparr>conn_id = i, conn_workspace = ws, conn_provider = provider, conn_status = ''connected'',
     conn_encrypted = Some encrypted, conn_scopes = scopes, conn_metadata = [], conn_created_by = None,
     conn_connected_at = Some now, conn_last_synced_at = None, conn_expires_at = expires,
     conn_active = True, conn_created_at = now, conn_updated_at = now\<rparr>"

text \<open>What both branches set on a connection that exists already.\<close>

definition reconnect :: "string \<Rightarrow> string list \<Rightarrow> time option \<Rightarrow> time \<Rightarrow> connection \<Rightarrow> connection" where
  "reconnect encrypted scopes expires now c = c\<lparr>conn_status := ''connected'', conn_encrypted := Some encrypted,
     conn_scopes := scopes, conn_expires_at := expires, conn_connected_at := Some now, conn_updated_at := now\<rparr>"

definition store_new :: "env \<Rightarrow> connection \<Rightarrow> connection act" where
  "store_new E c = thn (add_connection c) (thn (flush E) (ret c))"

definition store_change :: "env \<Rightarrow> connection \<Rightarrow> (connection \<Rightarrow> connection) \<Rightarrow> connection act" where
  "store_change E r change = thn (update_connection (conn_id r) change) (thn (flush E) (ret (change r)))"

text \<open>
  The PostgreSQL statement \<open>INSERT ... ON CONFLICT DO UPDATE\<close> and the portable select-then-write differ
  in the readings of the clock and in who looks for the existing row; both flush at once.
\<close>

definition upsert_connection ::
    "env \<Rightarrow> string \<Rightarrow> string \<Rightarrow> string \<Rightarrow> string list \<Rightarrow> time option \<Rightarrow> connection act" where
  "upsert_connection E provider ws encrypted scopes expires =
    (if startswith (database_url (settings_of E)) ''postgresql'' then
       bnd (now_utc E) (\<lambda>now.
       bnd (now_utc E) (\<lambda>now'.
       bnd (now_utc E) (\<lambda>now''.
       bnd (fresh (uuid E)) (\<lambda>i.
       bnd (select connections (\<lambda>c. conn_workspace c = ws \<and> conn_provider c = provider)) (\<lambda>rows.
         case rows of
           [] \<Rightarrow> store_new E (new_connection i ws provider encrypted scopes expires now)
         | r # _ \<Rightarrow> store_change E r
             (\<lambda>c. (reconnect encrypted scopes expires now' c)\<lparr>conn_updated_at := now''\<rparr>))))))
     else
       bnd (now_utc E) (\<lambda>now.
       bnd (select connections (\<lambda>c. conn_workspace c = ws \<and> conn_provider c = provider)) (\<lambda>rows.
       bnd (one_or_none rows) (\<lambda>found. case found of
           None \<Rightarrow> bnd (fresh (uuid E)) (\<lambda>i.
             store_new E (new_connection i ws provider encrypted scopes expires now))
         | Some r \<Rightarrow> store_change E r (reconnect encrypted scopes expires now)))))"

definition persist_credential ::
    "env \<Rightarrow> string \<Rightarrow> string \<Rightarrow> string \<Rightarrow> time option \<Rightarrow> unit act" where
  "persist_credential E provider ws encrypted expires =
    bnd (fresh (uuid E)) (\<lambda>i. bnd (now_utc E) (\<lambda>now.
      add_credential \<lparr>cred_id = i, cred_workspace = ws, cred_provider = provider,
        cred_name = ''oauth_default'', cred_blob = encrypted, cred_hash = None,
        cred_expires_at = expires, cred_created_at = now, cred_updated_at = now\<rparr>))"

record callback_result =
  cb_provider :: string
  cb_workspace :: string
  cb_connection :: string
  cb_scopes :: "string list"
  cb_expires_at :: "time option"

text \<open>
  \<open>"access_token" not in token_response\<close> in the callback: a dictionary has the key or not; of any other JSON value
  the code raises, \<open>AttributeError\<close> for a text or a list and \<open>TypeError\<close> for the rest.
\<close>

definition token_dict :: "json \<Rightarrow> exn + json dict" where
  "token_dict v = (case v of
      JObj d \<Rightarrow> Inr d
    | JArr _ \<Rightarrow> Inl (no_attribute ''list'' ''keys'')
    | JStr _ \<Rightarrow> Inl (no_attribute ''str'' ''keys'')
    | _ \<Rightarrow> Inl (Builtin TypeError ''argument is not iterable''))"

definition handle_callback ::
    "env \<Rightarrow> encryption \<Rightarrow> registry \<Rightarrow> string \<Rightarrow> string \<Rightarrow> string \<Rightarrow> string option \<Rightarrow> callback_result act" where
  "handle_callback E svc reg provider code state code_verifier =
    bnd (lift (registry_get reg provider)) (\<lambda>cls.
    bnd (consume_state E provider state) (\<lambda>rec.
    bnd (exchange_code E cls code (or_str (ost_redirect rec) (default_redirect_uri E provider))
           (case code_verifier of Some (c # cs) \<Rightarrow> Some (c # cs) | _ \<Rightarrow> ost_verifier rec)) (\<lambda>response.
    bnd (lift (token_dict response)) (\<lambda>tok.
      if \<not> has_key tok ''access_token''
      then raise (error2 OAuthFailed ''OAuth exchange did not return an access token'' provider
             [(''keys'', JArr (map JStr (dkeys tok)))])
      else
        bnd (extract_credentials cls tok) (\<lambda>creds.
        bnd (encrypt_credentials E svc creds) (\<lambda>encrypted.
        bnd (expiry_from_token E tok) (\<lambda>expires.
        bnd (upsert_connection E provider (ost_workspace rec) encrypted (ost_scopes rec) expires) (\<lambda>conn.
        thn (persist_credential E provider (ost_workspace rec) encrypted expires)
        (thn (commit E)
          (ret \<lparr>cb_provider = provider, cb_workspace = conn_workspace conn, cb_connection = conn_id conn,
                cb_scopes = ost_scopes rec, cb_expires_at = expires\<rparr>))))))))))"

section \<open>Refresh and revocation\<close>

definition oauth_get_connection :: "string \<Rightarrow> string \<Rightarrow> connection act" where
  "oauth_get_connection provider ws =
    bnd (select connections (\<lambda>c. conn_workspace c = ws \<and> conn_provider c = provider)) (\<lambda>rows.
    bnd (one_or_none rows) (\<lambda>found. case found of
      None \<Rightarrow> raise (error0 ConnectionNotFound (''no '' @ provider @ '' connection for workspace''))
    | Some c \<Rightarrow> ret c))"

definition stored_text :: "connection \<Rightarrow> string" where
  "stored_text c = (case conn_encrypted c of None \<Rightarrow> [] | Some s \<Rightarrow> s)"

definition refresh_data :: "json \<Rightarrow> json dict" where
  "refresh_data token = [(''grant_type'', JStr ''refresh_token''), (''refresh_token'', token)]"

text \<open>
  The same test on the answer to a refresh: any value without the key is refused, and a text or a
  list that does contain it raises \<open>TypeError\<close> when it is indexed.
\<close>

definition refreshed_dict :: "string \<Rightarrow> json \<Rightarrow> exn + json dict" where
  "refreshed_dict provider v =
    (let missing = Inl (error1 TokenExpired ''token refresh returned no access token'' provider);
         bad = Inl (Builtin TypeError [])
     in case v of
          JObj d \<Rightarrow> if has_key d ''access_token'' then Inr d else missing
        | JArr xs \<Rightarrow> if JStr ''access_token'' \<in> set xs then bad else missing
        | JStr s \<Rightarrow> if contains s ''access_token'' then bad else missing
        | _ \<Rightarrow> bad)"

text \<open>The new credentials, and the part of the method that stores them.\<close>

definition refreshed_credentials :: "json dict \<Rightarrow> json dict \<Rightarrow> json dict" where
  "refreshed_credentials tok creds =
    (let creds' = dset ''access_token'' (jget tok ''access_token'') creds
     in if truthy (jget tok ''refresh_token'')
        then dset ''refresh_token'' (jget tok ''refresh_token'') creds' else creds')"

definition set_expiry :: "connection \<Rightarrow> time option \<Rightarrow> unit act" where
  "set_expiry conn t = update_connection (conn_id conn) (\<lambda>c. c\<lparr>conn_expires_at := t\<rparr>)"

definition refresh_store ::
    "env \<Rightarrow> encryption \<Rightarrow> string \<Rightarrow> connection \<Rightarrow> json dict \<Rightarrow> json dict \<Rightarrow> (json dict \<times> string) act" where
  "refresh_store E svc provider conn creds tok =
    bnd (if truthy (jget tok ''expires_in'')
         then bnd (expiry_from_token E tok) (\<lambda>t. thn (set_expiry conn t) (ret t))
         else ret (conn_expires_at conn)) (\<lambda>expires.
    bnd (encrypt_credentials E svc (refreshed_credentials tok creds)) (\<lambda>encrypted.
    thn (update_connection (conn_id conn) (\<lambda>c. c\<lparr>conn_encrypted := Some encrypted\<rparr>))
    (bnd (expiry_from_token E tok) (\<lambda>t.
    thn (set_expiry conn (case t of None \<Rightarrow> expires | Some _ \<Rightarrow> t))
    (thn (commit E)
    (thn (emit (OAuthRefresh provider))
      (ret (refreshed_credentials tok creds, encrypted))))))))"

definition refresh_request :: "env \<Rightarrow> provider_class \<Rightarrow> string \<Rightarrow> json dict \<Rightarrow> request" where
  "refresh_request E cls provider creds =
     token_request E cls provider (oauth_token_url cls) (refresh_data (jget creds ''refresh_token''))"

definition refresh_access_token ::
    "env \<Rightarrow> encryption \<Rightarrow> registry \<Rightarrow> string \<Rightarrow> string \<Rightarrow> (json dict \<times> string) act" where
  "refresh_access_token E svc reg provider ws =
    bnd (lift (registry_get reg provider)) (\<lambda>cls.
    bnd (oauth_get_connection provider ws) (\<lambda>conn.
    bnd (catch (lift (decrypt_credentials E svc (stored_text conn)))
           (\<lambda>_. raise (error1 TokenExpired ''stored credentials cannot be decrypted'' provider))) (\<lambda>creds.
    if \<not> truthy (jget creds ''refresh_token'')
    then raise (error1 TokenExpired ''no refresh token stored'' provider)
    else
      bnd (catch (http_send E (refresh_request E cls provider creds))
             (\<lambda>e. case e of
                Builtin HTTPError _ \<Rightarrow> raise (error1 TokenExpired ''token refresh request failed'' provider)
              | _ \<Rightarrow> raise e)) (\<lambda>response.
      if 400 \<le> http_status response
      then raise (error2 TokenExpired ''token refresh rejected by provider'' provider
             [(''status_code'', JInt (http_status response))])
      else
        bnd (lift (http_json response)) (\<lambda>v.
        bnd (lift (refreshed_dict provider v)) (\<lambda>tok.
          refresh_store E svc provider conn creds tok))))))"

definition stored_token :: "env \<Rightarrow> encryption \<Rightarrow> connection \<Rightarrow> json" where
  "stored_token E svc conn =
    (let creds = (case decrypt_credentials E svc (stored_text conn) of Inl _ \<Rightarrow> [] | Inr c \<Rightarrow> c)
     in py_or (jget creds ''access_token'') (jget creds ''refresh_token''))"

definition revoke_request :: "env \<Rightarrow> provider_class \<Rightarrow> string \<Rightarrow> json \<Rightarrow> request" where
  "revoke_request E cls provider token = token_request E cls provider (oauth_revoke_url cls)
     [(''token'', token), (''token_type_hint'', JStr ''access_token'')]"

definition mark_revoked :: "connection \<Rightarrow> connection" where
  "mark_revoked c = c\<lparr>conn_status := ''revoked'', conn_active := False\<rparr>"

definition mark_wiped :: "connection \<Rightarrow> connection" where
  "mark_wiped c = c\<lparr>conn_status := ''revoked'', conn_active := False, conn_encrypted := None\<rparr>"

definition revoke_token :: "env \<Rightarrow> encryption \<Rightarrow> registry \<Rightarrow> string \<Rightarrow> string \<Rightarrow> unit act" where
  "revoke_token E svc reg provider ws =
    bnd (lift (registry_get reg provider)) (\<lambda>cls.
    bnd (oauth_get_connection provider ws) (\<lambda>conn.
    if oauth_revoke_url cls = [] then thn (update_connection (conn_id conn) mark_revoked) (commit E)
    else if \<not> truthy (stored_token E svc conn) then ret ()
    else
      thn (catch (bnd (http_send E (revoke_request E cls provider (stored_token E svc conn))) (\<lambda>_. ret ()))
             (\<lambda>e. case e of Builtin HTTPError _ \<Rightarrow> ret () | _ \<Rightarrow> raise e))
      (thn (update_connection (conn_id conn) mark_wiped) (commit E))))"

end
