(* ===== verification/Integration_Manager.thy ===== *)
theory Integration_Manager
  imports OAuth_Service
begin

text \<open>
  \<open>src/services/integration_manager.py\<close> and \<open>src/services/audit_service.py\<close>: discovery, connections,
  and the execution of an action with one token refresh; the audit trail. \<open>svc\<close> is the encryption
  service both the manager and its credential and OAuth services use. \<open>time.perf_counter\<close> is the clock of
  the environment. The \<open>disconnect\<close> of a provider instance closes its HTTP client, which no part of
  the world records.
\<close>

section \<open>The audit trail\<close>

record audit_entry =
  ae_workspace :: string
  ae_action :: string
  ae_actor :: "string option"
  ae_provider :: "string option"
  ae_resource :: "string option"
  ae_details :: "json dict"
  ae_ip :: "string option"
  ae_outcome :: string

text \<open>The defaults of the keyword arguments of \<open>record\<close>.\<close>

definition audit_entry :: "string \<Rightarrow> string \<Rightarrow> audit_entry" where
  "audit_entry ws action = \<lparr>ae_workspace = ws, ae_action = action, ae_actor = None, ae_provider = None,
     ae_resource = None, ae_details = [], ae_ip = None, ae_outcome = ''success''\<rparr>"

definition audit_record :: "env \<Rightarrow> audit_entry \<Rightarrow> audit_row act" where
  "audit_record E a =
    bnd (fresh (uuid E)) (\<lambda>i. bnd (now_utc E) (\<lambda>now.
      let entry = \<lparr>aud_id = i, aud_workspace = ae_workspace a, aud_actor = ae_actor a,
            aud_provider = ae_provider a, aud_action = ae_action a, aud_resource = ae_resource a,
            aud_details = ae_details a, aud_ip = ae_ip a, aud_outcome = ae_outcome a, aud_created_at = now\<rparr>
      in thn (add_audit entry) (thn (commit E) (ret entry))))"

definition audit_list :: "string option \<Rightarrow> nat \<Rightarrow> nat \<Rightarrow> audit_row list act" where
  "audit_list ws limit offset =
    bnd (select audit_logs (\<lambda>r. case ws of Some (c # cs) \<Rightarrow> aud_workspace r = c # cs | _ \<Rightarrow> True)) (\<lambda>rows.
      ret (take limit (drop offset (newest_first aud_created_at rows))))"

section \<open>Discovery\<close>

definition provider_info :: "provider_class \<Rightarrow> json dict" where
  "provider_info cls =
    [(''key'', JStr (provider_key cls)), (''name'', JStr (provider_name cls)),
     (''description'', JStr (description cls)), (''auth_type'', JStr (auth_type cls)),
     (''oauth_supported'', JBool (oauth_authorize_url cls \<noteq> [])),
     (''webhook_supported'', JBool (supports_webhooks cls))]"

definition list_providers :: "registry \<Rightarrow> json dict list" where
  "list_providers reg = map (\<lambda>(_, cls). provider_info cls
     @ [(''capabilities'', JArr (map (\<lambda>cap. JStr (cap_name cap)) (capabilities cls)))]) reg"

definition get_provider_info :: "registry \<Rightarrow> string \<Rightarrow> exn + json dict" where
  "get_provider_info reg provider = (case registry_get reg provider of
      Inl e \<Rightarrow> Inl e
    | Inr cls \<Rightarrow> Inr (provider_info cls))"

definition mgr_list_capabilities :: "registry \<Rightarrow> string \<Rightarrow> exn + json dict list" where
  "mgr_list_capabilities reg provider = (case registry_get reg provider of
      Inl e \<Rightarrow> Inl e
    | Inr cls \<Rightarrow> Inr (map (\<lambda>cap. [(''name'', JStr (cap_name cap)), (''description'', JStr (cap_description cap)),
        (''params_schema'', JObj (cap_schema cap))]) (capabilities cls)))"

section \<open>Connections\<close>

definition mgr_list_connections :: "string \<Rightarrow> connection list act" where
  "mgr_list_connections ws = bnd (select connections (\<lambda>c. conn_workspace c = ws))
     (\<lambda>rows. ret (newest_first conn_created_at rows))"

definition mgr_get_connection :: "string \<Rightarrow> string \<Rightarrow> connection act" where
  "mgr_get_connection ws provider =
    bnd (select connections (\<lambda>c. conn_workspace c = ws \<and> conn_provider c = provider \<and> conn_active c)) (\<lambda>rows.
    bnd (one_or_none rows) (\<lambda>found. case found of
      None \<Rightarrow> raise (error0 ConnectionNotFound
        (''no active '' @ provider @ '' connection for this workspace''))
    | Some c \<Rightarrow> ret c))"

definition mark_disconnected :: "connection \<Rightarrow> connection" where
  "mark_disconnected c = c\<lparr>conn_active := False, conn_status := ''disconnected''\<rparr>"

definition mgr_disconnect :: "env \<Rightarrow> string \<Rightarrow> string \<Rightarrow> unit act" where
  "mgr_disconnect E ws provider =
    bnd (mgr_get_connection ws provider) (\<lambda>c.
      thn (update_connection (conn_id c) mark_disconnected) (commit E))"

section \<open>Execution\<close>

definition usable_credentials :: "env \<Rightarrow> encryption \<Rightarrow> connection \<Rightarrow> json dict act" where
  "usable_credentials E svc c =
    (if stored_text c = [] then raise (error0 CredentialNotFound
       (conn_provider c @ '' connection has stored no credentials''))
     else bnd (lift (decrypt_credentials E svc (stored_text c))) (\<lambda>creds.
       bnd (if creds = [] then decrypt_for E svc (conn_workspace c) (conn_provider c) else ret creds) (\<lambda>creds.
         if creds = [] then raise (error0 CredentialNotFound ''no usable credentials for connection'')
         else ret creds)))"

text \<open>\<open>_build_provider\<close>: the class, its context and the credentials.\<close>

definition build_provider ::
    "env \<Rightarrow> encryption \<Rightarrow> registry \<Rightarrow> connection \<Rightarrow> (provider_class \<times> provider_context) act" where
  "build_provider E svc reg c =
    bnd (usable_credentials E svc c) (\<lambda>creds.
    bnd (registry_build reg (conn_provider c)) (\<lambda>cls.
      ret (cls, \<lparr>ctx_provider = conn_provider c, ctx_workspace = conn_workspace c,
                 ctx_credentials = creds, ctx_metadata = conn_metadata c\<rparr>)))"

definition health_name :: "health_status \<Rightarrow> string" where
  "health_name h = (case h of Ok_Health \<Rightarrow> ''ok'' | Degraded \<Rightarrow> ''degraded'' | Down \<Rightarrow> ''down'')"

definition mgr_validate_connection :: "env \<Rightarrow> encryption \<Rightarrow> registry \<Rightarrow> string \<Rightarrow> string \<Rightarrow> json dict act" where
  "mgr_validate_connection E svc reg ws provider =
    bnd (mgr_get_connection ws provider) (\<lambda>c.
    bnd (build_provider E svc reg c) (\<lambda>(cls, ctx).
    bnd (validate cls E (Some ctx)) (\<lambda>valid.
    bnd (provider_health_of E cls (Some ctx)) (\<lambda>health.
      ret [(''provider'', JStr provider), (''valid'', JBool valid),
           (''checks'', JObj
             [(''validate_connection'', JBool valid), (''health'', JStr (health_name (health_status health))),
              (''credential_masked'', JObj (map (\<lambda>(k, v). (k, JStr v)) (mask_credentials (ctx_credentials ctx))))])]))))"

definition refresh_failed :: "string \<Rightarrow> exn" where
  "refresh_failed provider = error1 TokenExpired ''integration token expired and refresh failed'' provider"

text \<open>\<open>session.refresh(connection)\<close> reads the row again.\<close>

definition reread_connection :: "connection \<Rightarrow> connection act" where
  "reread_connection c = bnd (select connections (\<lambda>r. conn_id r = conn_id c)) (\<lambda>rows. case rows of
      [] \<Rightarrow> raise (Builtin OtherException ''Could not refresh instance'')
    | r # _ \<Rightarrow> ret r)"

definition try_refresh :: "env \<Rightarrow> encryption \<Rightarrow> registry \<Rightarrow> connection \<Rightarrow> connection act" where
  "try_refresh E svc reg c =
    thn (catch (bnd (refresh_access_token E svc reg (conn_provider c) (conn_workspace c)) (\<lambda>_. ret ()))
           (\<lambda>e. if is_a e TokenExpired then raise (refresh_failed (conn_provider c)) else raise e))
      (reread_connection c)"

definition run_action ::
    "env \<Rightarrow> encryption \<Rightarrow> registry \<Rightarrow> string \<Rightarrow> json dict \<Rightarrow> connection \<Rightarrow> json act" where
  "run_action E svc reg name payload c =
    bnd (build_provider E svc reg c) (\<lambda>(cls, ctx). provider_execute E cls (Some ctx) name payload)"

text \<open>
  The first instance is built outside the \<open>try\<close>: an exception of \<open>_build_provider\<close> is not caught; the
  second attempt is made inside the handler, whose exceptions are final.
\<close>

definition execute_connected ::
    "env \<Rightarrow> encryption \<Rightarrow> registry \<Rightarrow> string \<Rightarrow> json dict \<Rightarrow> connection \<Rightarrow> json act" where
  "execute_connected E svc reg name payload c =
    bnd (build_provider E svc reg c) (\<lambda>(cls, ctx).
      catch (provider_execute E cls (Some ctx) name payload)
        (\<lambda>e. if is_a e TokenExpired
             then bnd (try_refresh E svc reg c) (run_action E svc reg name payload)
             else raise e))"

definition mgr_execute_action ::
    "env \<Rightarrow> encryption \<Rightarrow> registry \<Rightarrow> string \<Rightarrow> string \<Rightarrow> string \<Rightarrow> json dict \<Rightarrow> connection option \<Rightarrow>
     (json \<times> rat) act" where
  "mgr_execute_action E svc reg ws provider name payload conn =
    bnd (monotonic E) (\<lambda>start.
    bnd (case conn of Some c \<Rightarrow> ret c | None \<Rightarrow> mgr_get_connection ws provider) (\<lambda>c.
    bnd (execute_connected E svc reg name payload c) (\<lambda>result.
    bnd (monotonic E) (\<lambda>stop. ret (result, (stop - start) * 1000)))))"

section \<open>Payload validation\<close>

definition required_fields :: "json dict \<Rightarrow> string list" where
  "required_fields schema = (case jget schema ''required'' of
      JArr xs \<Rightarrow> List.map_filter (\<lambda>x. case x of JStr s \<Rightarrow> Some s | _ \<Rightarrow> None) xs
    | _ \<Rightarrow> [])"

definition validate_payload :: "registry \<Rightarrow> string \<Rightarrow> string \<Rightarrow> json dict \<Rightarrow> exn + unit" where
  "validate_payload reg provider name payload = (case registry_get reg provider of
      Inl e \<Rightarrow> Inl e
    | Inr cls \<Rightarrow> (case get_capability cls name of
        None \<Rightarrow> Inr ()
      | Some cap \<Rightarrow>
          (let schema = cap_schema cap;
               missing = filter (\<lambda>k. \<not> has_key payload k) (required_fields schema)
           in if missing \<noteq> []
              then Inl (error2 ValidationError
                (''missing required payload fields: '' @ join '', '' missing) provider
                [(''missing'', JArr (map JStr missing)), (''schema'', JObj schema)])
              else Inr ())))"

end
