(* ===== verification/OAuth_Theorems.thy ===== *)
theory OAuth_Theorems
  imports OAuth_Service
begin

text \<open>
  What the OAuth manager guarantees: a state is consumed at most once (an interpretation of the
  interface \<open>once_guard\<close>), PKCE values have the shape RFC 7636 asks for, a refresh or a revocation
  changes the connection as the code says, and the cases in which a connection cannot be made or
  made again.
\<close>

section \<open>Frames\<close>

lemma keeps_on_breaker [keeps_rules]: "keeps (everywhere P) (on_breaker key f)"
  by (auto simp: keeps_def everywhere_def on_breaker_eq)

lemma keeps_flush [keeps_rules]: "keeps (everywhere P) (flush E)"
  by (simp add: keeps_def everywhere_def flush_def)

lemma keeps_exchange [keeps_rules]:
  "keeps (everywhere P) (exchange_code E cls code uri v)"
  "keeps (everywhere P) (extract_credentials cls tok)"
  "keeps (everywhere P) (expiry_from_token E tok)"
  "keeps (everywhere P) (new_instance cls)"
  unfolding exchange_code_def extract_credentials_def expiry_from_token_def new_instance_def Let_def
  by (intro keeps_rules)+

definition keyed_credentials :: "database \<Rightarrow> (string \<times> string \<times> string) list" where
  "keyed_credentials d = map (\<lambda>c. (cred_workspace c, cred_provider c, cred_name c)) (credentials d)"

lemma keeps_consume_state:
  assumes "\<And>d rows. P d \<Longrightarrow> P (d\<lparr>oauth_states := rows\<rparr>)"
  shows "keeps (everywhere P) (consume_state E provider state)"
  unfolding consume_state_def update_state_def Let_def
  by (intro keeps_rules assms)

lemma keeps_upsert:
  assumes "\<And>d rows. P d \<Longrightarrow> P (d\<lparr>connections := rows\<rparr>)"
  shows "keeps (everywhere P) (upsert_connection E provider ws encrypted scopes expires)"
  unfolding upsert_connection_def store_new_def store_change_def add_connection_def update_connection_def Let_def
  by (intro keeps_rules assms)

section \<open>One-time states\<close>

text \<open>No row is left that \<open>consume_state\<close> would accept.\<close>

definition state_taken :: "string \<Rightarrow> world \<Rightarrow> string \<Rightarrow> bool" where
  "state_taken provider w state \<longleftrightarrow>
     (\<forall>r \<in> set (oauth_states (db w)). ost_token r = state \<and> ost_provider r = provider \<longrightarrow> ost_consumed r)"

definition consume_claim :: "env \<Rightarrow> string \<Rightarrow> string \<Rightarrow> world \<Rightarrow> bool \<times> world" where
  "consume_claim E provider state w =
     (case consume_state E provider state w of (r, w') \<Rightarrow> (\<not> isl r, w'))"

abbreviation open_states :: "string \<Rightarrow> string \<Rightarrow> database \<Rightarrow> oauth_state list" where
  "open_states provider state d \<equiv>
     filter (\<lambda>r. ost_token r = state \<and> ost_provider r = provider \<and> \<not> ost_consumed r) (oauth_states d)"

lemma state_taken_open: "state_taken provider w state \<longleftrightarrow> open_states provider state (db w) = []"
  by (auto simp: state_taken_def filter_empty_conv)

lemma consume_state_eq:
  "consume_state E provider state w = (case open_states provider state (db w) of
      [] \<Rightarrow> (Inl (error1 OAuthFailed ''invalid or already-consumed OAuth state'' provider), w)
    | [r] \<Rightarrow>
        (let d = (db w)\<lparr>oauth_states := update_rows ost_id (ost_id r) (\<lambda>r. r\<lparr>ost_consumed := True\<rparr>)
                   (oauth_states (db w))\<rparr>;
             w1 = w\<lparr>ticks := ticks w + 1, db := d\<rparr>
         in if ost_expires_at r < clock E (ticks w)
            then (case commit E w1 of
                    (Inl e, w2) \<Rightarrow> (Inl e, w2)
                  | (Inr _, w2) \<Rightarrow> (Inl (error1 OAuthFailed ''OAuth state has expired'' provider), w2))
            else (Inr (r\<lparr>ost_consumed := True\<rparr>), w1))
    | _ \<Rightarrow> (Inl (Builtin MultipleResultsFound
             ''Multiple rows were found when one or none was required''), w))"
  by (auto simp: consume_state_def select_def gets_def bnd_def one_or_none_def ret_def raise_def thn_def
      now_utc_def update_state_def on_db_def modify_def Let_def split: list.splits prod.splits sum.splits)

lemma consume_state_taken:
  assumes "state_taken provider w state"
  shows "consume_state E provider state w
    = (Inl (error1 OAuthFailed ''invalid or already-consumed OAuth state'' provider), w)"
  using assms by (simp add: consume_state_eq state_taken_open)

text \<open>A successful consumption marks its row and no row becomes open.\<close>

lemma consume_state_marks:
  assumes "consume_state E provider state w = (Inr r, w')"
  shows "state_taken provider w' state \<and> committed w' = committed w
    \<and> (\<exists>q \<in> set (oauth_states (db w)). r = q\<lparr>ost_consumed := True\<rparr> \<and> ost_token q = state
          \<and> ost_provider q = provider \<and> clock E (ticks w) \<le> ost_expires_at q)"
proof -
  obtain q where q: "open_states provider state (db w) = [q]"
    using assms by (auto simp: consume_state_eq split: list.splits)
  have e: "\<not> ost_expires_at q < clock E (ticks w)"
    using assms q by (auto simp: consume_state_eq Let_def split: prod.splits sum.splits if_splits)
  have w': "r = q\<lparr>ost_consumed := True\<rparr>" "committed w' = committed w"
    "oauth_states (db w') = update_rows ost_id (ost_id q) (\<lambda>r. r\<lparr>ost_consumed := True\<rparr>) (oauth_states (db w))"
    using assms q e by (auto simp: consume_state_eq Let_def)
  have m: "q \<in> set (oauth_states (db w)) \<and> ost_token q = state \<and> ost_provider q = provider"
    using q by (auto simp: filter_eq_Cons_iff)
  have "ost_consumed x" if x: "x \<in> set (oauth_states (db w'))" "ost_token x = state" "ost_provider x = provider" for x
  proof -
    obtain y where y: "y \<in> set (oauth_states (db w))"
      "x = (if ost_id y = ost_id q then y\<lparr>ost_consumed := True\<rparr> else y)"
      using x(1) w'(3) by (auto simp: update_rows_def)
    show ?thesis
    proof (cases "ost_id y = ost_id q")
      case False
      then have "y \<notin> set (open_states provider state (db w))"
        unfolding q by auto
      with y False x show ?thesis
        by simp
    qed (use y in simp)
  qed
  then show ?thesis
    using w' m e by (auto simp: state_taken_def intro!: bexI[of _ q])
qed

lemma consumed_update_taken:
  "state_taken provider w state \<Longrightarrow>
   state_taken provider (w\<lparr>ticks := n, db := (db w)\<lparr>oauth_states :=
     update_rows ost_id i (\<lambda>r. r\<lparr>ost_consumed := True\<rparr>) (oauth_states (db w))\<rparr>\<rparr>) state"
  by (auto simp: state_taken_def update_rows_def)

text \<open>
  On a session whose committed rows are those it sees, as a request starts, no consumption makes a
  used state usable again: what a failing commit would restore is used as well.
\<close>

definition used_everywhere :: "string \<Rightarrow> world \<Rightarrow> string \<Rightarrow> bool" where
  "used_everywhere provider w state \<longleftrightarrow>
     everywhere (\<lambda>d. \<forall>r \<in> set (oauth_states d).
        ost_token r = state \<and> ost_provider r = provider \<longrightarrow> ost_consumed r) w"

definition consume_committed :: "env \<Rightarrow> string \<Rightarrow> string \<Rightarrow> world \<Rightarrow> bool \<times> world" where
  "consume_committed E provider state w =
     (case with_session (bnd (consume_state E provider state) (\<lambda>r. thn (commit E) (ret r))) w of
        (r, w') \<Rightarrow> (\<not> isl r, w'))"

lemma keeps_used: "keeps (\<lambda>w. used_everywhere provider w state) (consume_state E p s)"
  unfolding used_everywhere_def consume_state_def update_state_def Let_def
  by (intro keeps_rules) (auto simp: update_rows_def)

lemma keeps_used_session:
  "keeps (\<lambda>w. used_everywhere provider w state)
     (with_session (bnd (consume_state E p s) (\<lambda>r. thn (commit E) (ret r))))"
  using keeps_used[of provider state E p s] unfolding used_everywhere_def by (intro keeps_rules)

lemma consume_committed_fresh:
  assumes "fst (consume_committed E provider state w)"
  shows "\<not> used_everywhere provider w state \<and> used_everywhere provider (snd (consume_committed E provider state w)) state"
proof -
  let ?w0 = "w\<lparr>db := committed w\<rparr>"
  obtain r w1 where c: "consume_state E provider state ?w0 = (Inr r, w1)"
      and k: "db_ok (foreign_keys E) (db w1)"
    using assms
    by (auto simp: consume_committed_def with_session_def thn_def bnd_def ensure_def rollback_def
        modify_def commit_def ret_def split: prod.splits sum.splits if_splits)
  have "\<not> state_taken provider ?w0 state"
    using c consume_state_taken by fastforce
  moreover have "state_taken provider w1 state"
    using consume_state_marks[OF c] by simp
  moreover have "snd (consume_committed E provider state w) = w1\<lparr>committed := db w1, db := db w1\<rparr>"
    using c k by (simp add: consume_committed_def with_session_def thn_def bnd_def ensure_def rollback_def
        modify_def commit_def ret_def)
  ultimately show ?thesis
    by (auto simp: used_everywhere_def everywhere_def state_taken_def)
qed

interpretation oauth_states: once_guard "consume_committed E provider" "used_everywhere provider"
  for E provider
proof
  fix k w
  show "fst (consume_committed E provider k w) \<Longrightarrow> \<not> used_everywhere provider w k"
    and "fst (consume_committed E provider k w) \<Longrightarrow> used_everywhere provider (snd (consume_committed E provider k w)) k"
    using consume_committed_fresh by blast+
next
  fix w j k
  assume "used_everywhere provider w j"
  then show "used_everywhere provider (snd (consume_committed E provider k w)) j"
    using keepsD[OF keeps_used_session[of provider j E provider k]]
    by (simp add: consume_committed_def split: prod.splits)
qed

section \<open>Steps of the callback\<close>

text \<open>Everything the callback does after it consumed the state.\<close>

definition finish_callback ::
    "env \<Rightarrow> encryption \<Rightarrow> string \<Rightarrow> provider_class \<Rightarrow> string \<Rightarrow> string option \<Rightarrow> oauth_state \<Rightarrow> callback_result act" where
  "finish_callback E svc provider cls code code_verifier rec =
    bnd (exchange_code E cls code (or_str (ost_redirect rec) (default_redirect_uri E provider))
           (case code_verifier of Some (c # cs) \<Rightarrow> Some (c # cs) | _ \<Rightarrow> ost_verifier rec)) (\<lambda>response.
    bnd (lift (token_dict response)) (\<lambda>tok.
      if \<not> has_key tok ''access_token''
      then raise (error2 OAuthFailed ''OAuth exchange did not return an access token'' provider
             [(''keys'', JArr (map JStr (dkeys tok)))])
      else
        bnd (extract_credentials cls tok) (\<lambda>creds.
        bnd (encrypt_credentials E svc creds) (\<lambda>encrypted.
        bnd (expiry_from_token E tok) (\<lambda>expires.
        bnd (upsert_connection E provider (ost_workspace rec) encrypted (ost_scopes rec) expires) (\<lambda>conn.
        thn (persist_credential E provider (ost_workspace rec) encrypted expires)
        (thn (commit E)
          (ret \<lparr>cb_provider = provider, cb_workspace = conn_workspace conn, cb_connection = conn_id conn,
                cb_scopes = ost_scopes rec, cb_expires_at = expires\<rparr>))))))))"

lemma handle_callback_split:
  "registry_get reg provider = Inr cls \<Longrightarrow> handle_callback E svc reg provider code state v =
     bnd (consume_state E provider state) (finish_callback E svc provider cls code v)"
  unfolding handle_callback_def finish_callback_def by (simp add: lift_def bnd_def)

lemma handle_callback_taken:
  assumes "state_taken provider w state" and "registry_get reg provider = Inr cls"
  shows "handle_callback E svc reg provider code state v w
    = (Inl (error1 OAuthFailed ''invalid or already-consumed OAuth state'' provider), w)"
  by (simp add: handle_callback_split[OF assms(2)] consume_state_taken[OF assms(1)])

lemma persist_then_commit_fails:
  assumes "(ws, provider, ''oauth_default'') \<in> set (keyed_credentials (db w))"
  shows "\<exists>w'. thn (persist_credential E provider ws encrypted expires) (thn (commit E) m) w
      = (Inl (Builtin IntegrityError []), w') \<and> committed w' = committed w"
proof -
  have "\<not> db_ok (foreign_keys E) ((db w)\<lparr>credentials := credentials (db w) @ [c]\<rparr>)"
    if "cred_workspace c = ws" "cred_provider c = provider" "cred_name c = ''oauth_default''" for c
    using db_ok_duplicate_credential[of c "db w"] assms that by (simp add: keyed_credentials_def)
  then show ?thesis
    by (simp add: thn_def bnd_def persist_credential_def fresh_def now_utc_def add_credential_def on_db_def
        modify_def commit_fails)
qed

text \<open>The connections and credentials are \<open>C\<close> and \<open>D\<close>; and the same with the session's connections free.\<close>

definition tables_are :: "connection list \<Rightarrow> credential list \<Rightarrow> database \<Rightarrow> bool" where
  "tables_are C D d \<longleftrightarrow> connections d = C \<and> credentials d = D"

definition committed_are :: "connection list \<Rightarrow> credential list \<Rightarrow> world \<Rightarrow> bool" where
  "committed_are C D w \<longleftrightarrow> tables_are C D (committed w)"

definition only_connections_changed :: "connection list \<Rightarrow> credential list \<Rightarrow> world \<Rightarrow> bool" where
  "only_connections_changed C D w \<longleftrightarrow> credentials (db w) = D \<and> committed_are C D w"

lemma keeps_upsert_changed: "keeps (only_connections_changed C D) (upsert_connection E p ws enc sc ex)"
proof -
  have steps: "keeps (only_connections_changed C D) (now_utc E)"
    "keeps (only_connections_changed C D) (fresh g)"
    "keeps (only_connections_changed C D) (add_connection c)"
    "keeps (only_connections_changed C D) (update_connection i f)"
    "keeps (only_connections_changed C D) (flush E)" for g :: "nat \<Rightarrow> string" and c i f
    by (auto simp: keeps_def only_connections_changed_def committed_are_def tables_are_def now_utc_def
        fresh_def add_connection_def update_connection_def on_db_def modify_def flush_def)
  show ?thesis
    unfolding upsert_connection_def store_new_def store_change_def Let_def by (intro keeps_rules steps)
qed

lemma finish_callback_fails:
  assumes "everywhere (tables_are C D) w" and "(ost_workspace rec, provider, ''oauth_default'')
      \<in> set (map (\<lambda>c. (cred_workspace c, cred_provider c, cred_name c)) D)"
  shows "fails (committed_are C D) (finish_callback E svc provider cls code v rec) w"
proof -
  have ec: "committed_are C D t" if "everywhere (tables_are C D) t" for t
    using that by (simp add: everywhere_def committed_are_def)
  have oc: "only_connections_changed C D t" if "everywhere (tables_are C D) t" for t
    using that by (simp add: everywhere_def only_connections_changed_def committed_are_def tables_are_def)
  have last: "fails (committed_are C D) (thn (persist_credential E provider (ost_workspace rec) enc ex)
      (thn (commit E) (ret x))) t" if "only_connections_changed C D t" for enc ex x t
    using persist_then_commit_fails[of "ost_workspace rec" provider t E enc ex "ret x"] that assms(2)
    by (auto simp: fails_def only_connections_changed_def committed_are_def keyed_credentials_def)
  show ?thesis
    unfolding finish_callback_def
    apply (rule fails_bnd[where I = "everywhere (tables_are C D)"], intro keeps_rules, rule assms(1), erule ec)
    apply (rule fails_bnd[where I = "everywhere (tables_are C D)"], intro keeps_rules, assumption, erule ec)
    apply (rule fails_if, rule fails_raise, erule ec)
    apply (rule fails_bnd[where I = "everywhere (tables_are C D)"], intro keeps_rules, assumption, erule ec)
    apply (rule fails_bnd[where I = "everywhere (tables_are C D)"], intro keeps_rules, assumption, erule ec)
    apply (rule fails_bnd[where I = "everywhere (tables_are C D)"], intro keeps_rules, assumption, erule ec)
    apply (rule fails_bnd[where I = "only_connections_changed C D"], rule keeps_upsert_changed, erule oc)
     apply (simp add: only_connections_changed_def)
    apply (erule last)
    done
qed

lemma keeps_used_callback:
  "keeps (\<lambda>w. used_everywhere provider w state) (handle_callback E svc reg p code s v)"
proof -
  let ?P = "\<lambda>d. \<forall>r \<in> set (oauth_states d).
        ost_token r = state \<and> ost_provider r = provider \<longrightarrow> ost_consumed r"
  have c: "keeps (everywhere ?P) (consume_state E p s)"
    using keeps_used[of provider state E p s] unfolding used_everywhere_def .
  have u: "keeps (everywhere ?P) (upsert_connection E p ws enc sc ex)" for ws enc sc ex
    by (rule keeps_upsert) simp
  have k: "keeps (everywhere ?P) (persist_credential E p ws enc ex)" for ws enc ex
    unfolding persist_credential_def add_credential_def by (intro keeps_rules) simp
  show ?thesis
    unfolding used_everywhere_def handle_callback_def by (intro keeps_rules c u k)
qed

lemma steady_on_breaker [steady_rules]: "steady g (on_breaker key f)" "steady g (flush E)"
  by (auto simp: steady_def on_breaker_eq flush_def split: if_splits)

lemma finish_callback_steady: "steady oauth_states (finish_callback E svc provider cls code v rec)"
  unfolding finish_callback_def exchange_code_def extract_credentials_def new_instance_def Let_def
    encrypt_credentials_def encrypt_def expiry_from_token_def upsert_connection_def store_new_def store_change_def persist_credential_def
    add_connection_def update_connection_def add_credential_def
  by (intro steady_rules steady_on_db) simp_all

lemma finish_callback_commits:
  assumes "finish_callback E svc provider cls code v rec w = (Inr res, w')"
  shows "committed w' = db w'"
  using assms unfolding finish_callback_def
  by (auto elim!: bnd_InrE thn_InrE split: if_splits dest!: proc_InrD commit_InrD)

text \<open>What a connection row holds after it was written by a callback.\<close>

definition connected_row ::
    "string \<Rightarrow> string \<Rightarrow> string \<Rightarrow> string list \<Rightarrow> time option \<Rightarrow> connection \<Rightarrow> database \<Rightarrow> bool" where
  "connected_row ws provider enc scopes ex c d \<longleftrightarrow>
     c \<in> set (connections d) \<and> conn_workspace c = ws \<and> conn_provider c = provider
     \<and> conn_status c = ''connected'' \<and> conn_encrypted c = Some enc \<and> conn_scopes c = scopes
     \<and> conn_expires_at c = ex"

lemma store_new_row:
  "store_new E (new_connection i ws provider enc scopes ex now) w = (Inr c, w') \<Longrightarrow>
     connected_row ws provider enc scopes ex c (db w')"
  by (auto simp: store_new_def thn_def bnd_def add_connection_def on_db_def modify_def flush_def ret_def
      new_connection_def connected_row_def split: if_splits)

lemma store_change_row:
  assumes "store_change E r f w = (Inr c, w')" and "conn_rows ws provider (db w) = r # rs"
    and "f r = (reconnect enc scopes ex now r)\<lparr>conn_updated_at := u\<rparr>"
  shows "connected_row ws provider enc scopes ex c (db w')"
proof -
  have r: "r \<in> set (connections (db w))" "conn_workspace r = ws" "conn_provider r = provider"
    using assms(2) by (auto simp: filter_eq_Cons_iff)
  have "c = f r" and "connections (db w') = update_rows conn_id (conn_id r) f (connections (db w))"
    using assms(1) by (auto simp: store_change_def thn_def bnd_def update_connection_def on_db_def modify_def
        flush_def ret_def split: if_splits)
  moreover have "f r \<in> set (update_rows conn_id (conn_id r) f (connections (db w)))"
    using r(1) by (auto simp: update_rows_def image_iff)
  ultimately show ?thesis
    using r assms(3) by (simp add: connected_row_def reconnect_def)
qed

lemma upsert_connection_row:
  assumes "upsert_connection E provider ws enc scopes ex w = (Inr c, w')"
  shows "connected_row ws provider enc scopes ex c (db w')"
proof -
  have same: "\<exists>u. reconnect enc scopes ex now r = (reconnect enc scopes ex now r)\<lparr>conn_updated_at := u\<rparr>" for now r
    by (rule exI[of _ now]) (simp add: reconnect_def)
  have sel: "select connections (\<lambda>c. conn_workspace c = ws \<and> conn_provider c = provider) v
      = (Inr (conn_rows ws provider (db v)), v)" for v
    by (simp add: select_def gets_def)
  show ?thesis
  proof (cases "startswith (database_url (settings_of E)) ''postgresql''")
    case True
    show ?thesis
    proof (cases "conn_rows ws provider (db w)")
      case Nil
      then show ?thesis
        using assms True by (auto simp: upsert_connection_def bnd_def now_utc_def fresh_def sel intro: store_new_row)
    next
      case (Cons r rs)
      then show ?thesis
        using assms True
        by (auto simp: upsert_connection_def bnd_def now_utc_def fresh_def sel intro!: store_change_row[where r = r])
    qed
  next
    case False
    show ?thesis
    proof (cases "conn_rows ws provider (db w)")
      case Nil
      then show ?thesis
        using assms False
        by (auto simp: upsert_connection_def bnd_def now_utc_def fresh_def sel one_or_none_def ret_def intro: store_new_row)
    next
      case (Cons r rs)
      then have "rs = [] \<and> store_change E r (reconnect enc scopes ex (clock E (ticks w)))
          (w\<lparr>ticks := ticks w + 1\<rparr>) = (Inr c, w')"
        using assms False
        by (auto simp: upsert_connection_def bnd_def now_utc_def sel one_or_none_def ret_def raise_def split: list.splits)
      then show ?thesis
        using Cons same[of "clock E (ticks w)" r] by (auto intro: store_change_row[where r = r])
    qed
  qed
qed

section \<open>Steps of refresh and revocation\<close>

definition row_keys :: "database \<Rightarrow> (string \<times> string \<times> string) list" where
  "row_keys d = map (\<lambda>c. (conn_id c, conn_workspace c, conn_provider c)) (connections d)"

lemma oauth_get_connection_eq:
  "oauth_get_connection provider ws w = (case conn_rows ws provider (db w) of
      [] \<Rightarrow> (Inl (error0 ConnectionNotFound (''no '' @ provider @ '' connection for workspace'')), w)
    | [c] \<Rightarrow> (Inr c, w)
    | _ \<Rightarrow> (Inl (Builtin MultipleResultsFound
             ''Multiple rows were found when one or none was required''), w))"
  by (simp add: oauth_get_connection_def select_def gets_def bnd_def one_or_none_def ret_def raise_def
      split: list.splits)

lemma oauth_get_connection_InrD:
  "oauth_get_connection provider ws w = (Inr c, w') \<Longrightarrow> w' = w \<and> conn_rows ws provider (db w) = [c]"
  by (simp add: oauth_get_connection_eq split: list.splits)

lemma encrypt_frame:
  assumes "encrypt_credentials E svc creds w = (r, w')"
  shows "db w' = db w \<and> committed w' = committed w \<and> sent w' = sent w \<and> metrics w' = metrics w"
  using assms by (auto simp: encrypt_credentials_def encrypt_def fresh_def lift_def raise_def bnd_def
      catch_def split: prod.splits sum.splits)

lemma expiry_frame:
  assumes "expiry_from_token E tok w = (r, w')"
  shows "db w' = db w \<and> committed w' = committed w \<and> sent w' = sent w \<and> metrics w' = metrics w"
  using assms by (auto simp: expiry_from_token_def ret_def raise_def bnd_def now_utc_def Let_def
      split: prod.splits sum.splits if_splits)

lemma refreshed_dict_InrD: "refreshed_dict p v = Inr d \<Longrightarrow> v = JObj d \<and> has_key d ''access_token''"
  by (auto simp: refreshed_dict_def Let_def split: json.splits if_splits)

text \<open>Rows with another key than \<open>i\<close>.\<close>

abbreviation other_connections :: "string \<Rightarrow> database \<Rightarrow> connection list" where
  "other_connections i d \<equiv> filter (\<lambda>c. conn_id c \<noteq> i) (connections d)"

lemma other_connections_update:
  "(\<And>c. conn_id (f c) = conn_id c) \<Longrightarrow>
     filter (\<lambda>c. conn_id c \<noteq> i) (update_rows conn_id i f rows) = filter (\<lambda>c. conn_id c \<noteq> i) rows"
  by (induction rows) (auto simp: update_rows_def)

lemma set_expiry_frame:
  assumes "set_expiry c t w = (Inr x, w')"
  shows "sent w' = sent w \<and> other_connections (conn_id c) (db w') = other_connections (conn_id c) (db w)
    \<and> map (\<lambda>x. (conn_id x, conn_encrypted x)) (connections (db w'))
        = map (\<lambda>x. (conn_id x, conn_encrypted x)) (connections (db w))"
  using assms by (auto simp: set_expiry_def update_connection_def on_db_def modify_def other_connections_update
      map_update_rows)

lemma refreshed_credentials_get:
  "jget (refreshed_credentials tok creds) ''access_token'' = jget tok ''access_token''"
  "jget (refreshed_credentials tok creds) ''refresh_token''
     = py_or (jget tok ''refresh_token'') (jget creds ''refresh_token'')"
  by (simp_all add: refreshed_credentials_def Let_def py_or_def)

lemma refresh_store_effect:
  assumes "refresh_store E svc provider c creds tok w = (Inr (creds', enc), w')"
  shows "creds' = refreshed_credentials tok creds \<and> sent w' = sent w \<and> db w' = committed w'
    \<and> other_connections (conn_id c) (db w') = other_connections (conn_id c) (db w)
    \<and> (\<forall>x \<in> set (connections (db w')). conn_id x = conn_id c \<longrightarrow> conn_encrypted x = Some enc)"
proof -
  obtain expires w2 w3 w4 w5 t w6 w7 w8 where
      x: "(if truthy (jget tok ''expires_in'')
         then bnd (expiry_from_token E tok) (\<lambda>t. thn (set_expiry c t) (ret t))
         else ret (conn_expires_at c)) w = (Inr expires, w2)"
    and e: "encrypt_credentials E svc (refreshed_credentials tok creds) w2 = (Inr enc, w3)"
    and u: "update_connection (conn_id c) (\<lambda>c. c\<lparr>conn_encrypted := Some enc\<rparr>) w3 = (Inr (), w4)"
    and t: "expiry_from_token E tok w4 = (Inr t, w5)"
    and y: "set_expiry c (case t of None \<Rightarrow> expires | Some _ \<Rightarrow> t) w5 = (Inr (), w6)"
    and k: "commit E w6 = (Inr (), w7)" and m: "emit (OAuthRefresh provider) w7 = (Inr (), w')"
    and cr: "creds' = refreshed_credentials tok creds"
    using assms unfolding refresh_store_def
    by (elim bnd_InrE thn_InrE) (auto dest!: proc_InrD)
  let ?o = "\<lambda>w. other_connections (conn_id c) (db w)"
  have 2: "sent w2 = sent w \<and> ?o w2 = ?o w"
    using x by (auto elim!: bnd_InrE thn_InrE dest!: proc_InrD expiry_frame set_expiry_frame split: if_splits)
  have 3: "sent w3 = sent w2 \<and> db w3 = db w2"
    using encrypt_frame[OF e] by simp
  have 4: "sent w4 = sent w3" "?o w4 = ?o w3"
    "\<forall>x \<in> set (map (\<lambda>x. (conn_id x, conn_encrypted x)) (connections (db w4))). fst x = conn_id c \<longrightarrow> snd x = Some enc"
    using u by (auto simp: update_connection_def on_db_def modify_def other_connections_update)
      (auto simp: update_rows_def)
  have 5: "sent w5 = sent w4 \<and> db w5 = db w4"
    using expiry_frame[OF t] by simp
  note 6 = set_expiry_frame[OF y]
  have 7: "sent w' = sent w6" "db w' = db w6" "committed w' = db w6"
    using commit_InrD[OF k] m by (auto simp: emit_def modify_def)
  have all: "\<forall>x \<in> set (map (\<lambda>x. (conn_id x, conn_encrypted x)) (connections (db w6))). fst x = conn_id c \<longrightarrow> snd x = Some enc"
    using 4(3) 5 6 by metis
  have "conn_encrypted x = Some enc" if "x \<in> set (connections (db w'))" "conn_id x = conn_id c" for x
  proof -
    have "(conn_id x, conn_encrypted x) \<in> set (map (\<lambda>x. (conn_id x, conn_encrypted x)) (connections (db w6)))"
      using that(1) 7(2) by force
    from bspec[OF all this] show ?thesis
      using that(2) by simp
  qed
  then show ?thesis
    using cr 2 3 4(1,2) 5 6 7 by simp
qed

section \<open>Properties\<close>


text \<open>A state cannot be replayed: once a callback with it has succeeded, every later callback with
  the same provider and state, after any other callbacks in sessions of their own, fails with
  \<open>OAuthFailed\<close> before any request is sent to the provider, and changes nothing.\<close>

theorem callback_replay_refused:
  assumes "registry_get reg provider = Inr cls"
    and "handle_callback E svc reg provider code state v w = (Inr res, w')"
    and "u = fold (\<lambda>(p, c, s) x. snd (get_db (handle_callback E svc reg p c s None) x)) calls w'"
  shows "handle_callback E svc reg provider code' state v' u
    = (Inl (error1 OAuthFailed ''invalid or already-consumed OAuth state'' provider), u)"
proof -
  obtain r w1 where c: "consume_state E provider state w = (Inr r, w1)"
      and f: "finish_callback E svc provider cls code v r w1 = (Inr res, w')"
    using assms(2) unfolding handle_callback_split[OF assms(1)] by (rule bnd_InrE)
  have "state_taken provider w' state"
    using consume_state_marks[OF c] steadyD[OF finish_callback_steady f] by (simp add: state_taken_def)
  then have "used_everywhere provider w' state"
    using finish_callback_commits[OF f] by (simp add: used_everywhere_def everywhere_def state_taken_def)
  then have "used_everywhere provider u state"
    unfolding assms(3)
  proof (induction calls arbitrary: w')
    case (Cons x calls)
    obtain p c s where x: "x = (p, c, s)"
      by (cases x)
    have "keeps (\<lambda>w. used_everywhere provider w state) (get_db (handle_callback E svc reg p c s None))"
      using keeps_used_callback[of provider state E svc reg p c s None]
      unfolding used_everywhere_def by (rule keeps_get_db)
    then have "used_everywhere provider (snd (get_db (handle_callback E svc reg p c s None) w')) state"
      using Cons.prems by (simp add: keeps_def)
    from Cons.IH[OF this] show ?case
      by (simp add: x)
  qed simp
  then have "state_taken provider u state"
    by (simp add: used_everywhere_def everywhere_def state_taken_def)
  then show ?thesis
    by (rule handle_callback_taken[OF _ assms(1)])
qed

text \<open>A provider can be connected only once per workspace: every callback stores a credential named
  \<open>oauth_default\<close> with a plain insert, so while one exists for the workspace and provider, no
  callback succeeds, with the tokens already exchanged, and the committed connections and
  credentials stay as they were.\<close>

theorem second_connect_fails:
  assumes "registry_get reg provider = Inr cls" and "db w = committed w"
    and "\<forall>r \<in> set (oauth_states (db w)). ost_token r = state \<and> ost_provider r = provider \<longrightarrow>
           (ost_workspace r, provider, ''oauth_default'') \<in> set (keyed_credentials (db w))"
  shows "\<exists>e w'. handle_callback E svc reg provider code state v w = (Inl e, w')
    \<and> connections (committed w') = connections (committed w)
    \<and> credentials (committed w') = credentials (committed w)"
proof -
  let ?C = "connections (db w)" and ?D = "credentials (db w)"
  have w: "everywhere (tables_are ?C ?D) w"
    using assms(2) by (simp add: everywhere_def tables_are_def)
  have k: "keeps (everywhere (tables_are ?C ?D)) (consume_state E provider state)"
    by (rule keeps_consume_state) (simp add: tables_are_def)
  have "fails (committed_are ?C ?D) (handle_callback E svc reg provider code state v) w"
  proof (cases "consume_state E provider state w")
    case (Pair r w1)
    have w1: "everywhere (tables_are ?C ?D) w1"
      using keepsD[OF k w Pair] .
    show ?thesis
    proof (cases r)
      case (Inl e)
      then show ?thesis
        using Pair w1 by (simp add: handle_callback_split[OF assms(1)] fails_def committed_are_def everywhere_def)
    next
      case (Inr rec)
      have "(ost_workspace rec, provider, ''oauth_default'')
          \<in> set (map (\<lambda>c. (cred_workspace c, cred_provider c, cred_name c)) ?D)"
        using consume_state_marks[OF Pair[unfolded Inr]] assms(3) by (auto simp: keyed_credentials_def)
      from finish_callback_fails[OF w1 this] show ?thesis
        using Pair Inr by (simp add: handle_callback_split[OF assms(1)] fails_def)
    qed
  qed
  then show ?thesis
    using assms(2) by (auto simp: fails_def committed_are_def tables_are_def)
qed


lemma refresh_effect:
  assumes "registry_get reg provider = Inr cls"
    and "refresh_access_token E svc reg provider ws w = (Inr (creds', enc), w')"
  shows "\<exists>c creds response tok. conn_rows ws provider (db w) = [c]
    \<and> decrypt_credentials E svc (stored_text c) = Inr creds
    \<and> sent w' = sent w @ [refresh_request E cls provider creds]
    \<and> http E (sent w) (refresh_request E cls provider creds) = Inr response
    \<and> http_status response < 400 \<and> http_json response = Inr (JObj tok)
    \<and> jget creds' ''access_token'' = jget tok ''access_token''
    \<and> jget creds' ''refresh_token'' = py_or (jget tok ''refresh_token'') (jget creds ''refresh_token'')
    \<and> db w' = committed w'
    \<and> (\<forall>x \<in> set (connections (committed w')). conn_id x = conn_id c \<longrightarrow> conn_encrypted x = Some enc)
    \<and> other_connections (conn_id c) (committed w') = other_connections (conn_id c) (db w)"
proof -
  obtain c creds response tok w1 where
      c: "oauth_get_connection provider ws w = (Inr c, w)"
    and d: "decrypt_credentials E svc (stored_text c) = Inr creds"
    and h: "http_send E (refresh_request E cls provider creds) w = (Inr response, w1)"
    and st: "\<not> 400 \<le> http_status response" "http_json response = Inr (JObj tok)"
    and s: "refresh_store E svc provider c creds tok w1 = (Inr (creds', enc), w')"
    using assms(2) unfolding refresh_access_token_def assms(1)
    by (auto elim!: bnd_InrE catch_InrE dest!: proc_InrD refreshed_dict_InrD oauth_get_connection_InrD
        split: if_splits exn.splits builtin.splits simp: oauth_get_connection_eq)
  have w1: "sent w1 = sent w @ [refresh_request E cls provider creds]" "db w1 = db w"
    "http E (sent w) (refresh_request E cls provider creds) = Inr response"
    using h by (auto simp: http_send_def)
  note r = refresh_store_effect[OF s]
  have "conn_rows ws provider (db w) = [c]"
    using oauth_get_connection_InrD[OF c] by simp
  then show ?thesis
    using d w1 st r refreshed_credentials_get[of tok creds] by (intro exI[of _ c] exI[of _ creds] exI[of _ response] exI[of _ tok] conjI) auto
qed


text \<open>A refresh that cannot work ends in \<open>TokenExpired\<close> and leaves every row as it was: without a
  request when the stored credentials cannot be decrypted or hold no refresh token, after one
  request when the provider cannot be reached or answers with an error status.\<close>

theorem refresh_refused:
  assumes "registry_get reg provider = Inr cls" and "conn_rows ws provider (db w) = [c]"
  shows "case decrypt_credentials E svc (stored_text c) of
      Inl _ \<Rightarrow> refresh_access_token E svc reg provider ws w
          = (Inl (error1 TokenExpired ''stored credentials cannot be decrypted'' provider), w)
    | Inr creds \<Rightarrow>
        (if \<not> truthy (jget creds ''refresh_token'')
         then refresh_access_token E svc reg provider ws w
           = (Inl (error1 TokenExpired ''no refresh token stored'' provider), w)
         else (case http E (sent w) (refresh_request E cls provider creds) of
             Inl (Builtin HTTPError _) \<Rightarrow> refresh_access_token E svc reg provider ws w
               = (Inl (error1 TokenExpired ''token refresh request failed'' provider),
                  w\<lparr>sent := sent w @ [refresh_request E cls provider creds]\<rparr>)
           | Inl _ \<Rightarrow> True
           | Inr response \<Rightarrow> http_status response < 400 \<or> refresh_access_token E svc reg provider ws w
               = (Inl (error2 TokenExpired ''token refresh rejected by provider'' provider
                        [(''status_code'', JInt (http_status response))]),
                  w\<lparr>sent := sent w @ [refresh_request E cls provider creds]\<rparr>)))"
proof -
  have g: "oauth_get_connection provider ws w = (Inr c, w)"
    by (simp only: oauth_get_connection_eq assms(2) list.case)
  have r: "refresh_access_token E svc reg provider ws w =
    bnd (catch (lift (decrypt_credentials E svc (stored_text c)))
           (\<lambda>_. raise (error1 TokenExpired ''stored credentials cannot be decrypted'' provider))) (\<lambda>creds.
    if \<not> truthy (jget creds ''refresh_token'')
    then raise (error1 TokenExpired ''no refresh token stored'' provider)
    else
      bnd (catch (http_send E (refresh_request E cls provider creds))
             (\<lambda>e. case e of
                Builtin HTTPError _ \<Rightarrow> raise (error1 TokenExpired ''token refresh request failed'' provider)
              | _ \<Rightarrow> raise e)) (\<lambda>response.
      if 400 \<le> http_status response
      then raise (error2 TokenExpired ''token refresh rejected by provider'' provider
             [(''status_code'', JInt (http_status response))])
      else
        bnd (lift (http_json response)) (\<lambda>v.
        bnd (lift (refreshed_dict provider v)) (\<lambda>tok.
          refresh_store E svc provider c creds tok)))) w"
    unfolding refresh_access_token_def assms(1) bnd_def[of "lift (Inr cls)"] lift_def[of "Inr cls"]
    by (simp add: bnd_def[of "oauth_get_connection provider ws"] g)
  show ?thesis
    unfolding r
    by (auto simp: bnd_def catch_def lift_def raise_def http_send_def split: sum.splits exn.splits builtin.splits)
qed


text \<open>An authorization request is bound to one stored state: the returned state is the token of the
  only row added, for this workspace and provider, unused, and valid for \<open>oauth_state_ttl_seconds\<close>
  from now; with PKCE the returned verifier is the stored one and has 64 characters of the
  unreserved alphabet, as RFC 7636 demands.\<close>

theorem authorization_state_bound:
  assumes "create_authorization_url E reg provider ws scopes redirect extra w = (Inr (state, verifier, url), w')"
    and "\<forall>n. length (token_bytes E n 48) = 48"
  shows "\<exists>r cls. registry_get reg provider = Inr cls \<and> db w' = committed w'
    \<and> oauth_states (committed w') = oauth_states (db w) @ [r]
    \<and> ost_token r = state \<and> ost_workspace r = ws \<and> ost_provider r = provider \<and> \<not> ost_consumed r
    \<and> ost_expires_at r = clock E (ticks w) + oauth_state_ttl_seconds (settings_of E) * 1000000
    \<and> (if oauth_pkce cls
       then ost_verifier r = Some verifier \<and> length verifier = 64 \<and> set verifier \<subseteq> set b64_chars
       else ost_verifier r = None \<and> verifier = [])"
proof -
  have pkce: "length (base64url (token_bytes E n 48)) = 64 \<and> set (base64url (token_bytes E n 48)) \<subseteq> set b64_chars" for n
    using base64url_no_pad[of "token_bytes E n 48"] assms(2) by simp
  obtain cls r0 st p where
      cls: "registry_get reg provider = Inr cls"
    and p: "pkce_for E cls (w\<lparr>entropy := entropy w + 1\<rparr>) = (Inr p, r0)"
    and w': "committed w' = db w'" "oauth_states (db w') = oauth_states (db r0) @ [\<lparr>ost_id = uuid E (entropy r0),
                ost_workspace = ws, ost_provider = provider,
                ost_token = token_urlsafe E (entropy w), ost_verifier = map_option fst p,
                ost_redirect = Some (or_str redirect (default_redirect_uri E provider)), ost_scopes = st,
                ost_expires_at = clock E (ticks r0) + oauth_state_ttl_seconds (settings_of E) * 1000000,
                ost_consumed = False\<rparr>]"
    and out: "state = token_urlsafe E (entropy w)" "verifier = (case p of None \<Rightarrow> [] | Some p \<Rightarrow> fst p)"
    using assms(1) unfolding create_authorization_url_def
    by (auto simp: resolve_workspace_def select_def gets_def now_utc_def fresh_def Let_def thn_def
        add_state_def on_db_def modify_def
        elim!: bnd_InrE split: attr.splits list.splits dest!: proc_InrD commit_InrD)
  have r0: "ticks r0 = ticks w" "db r0 = db w"
    "if oauth_pkce cls then \<exists>ch. p = Some (base64url (token_bytes E (entropy w + 1) 48), ch) else p = None"
    using p by (auto simp: pkce_for_def generate_pkce_pair_def fresh_def ret_def bnd_def Let_def split: if_splits)
  show ?thesis
    using cls w' out r0 pkce[of "entropy w + 1"]
    by (intro exI[of _ "last (oauth_states (db w'))"] exI[of _ cls]) auto
qed

text \<open>A provider class that declares neither \<open>oauth_scopes\<close> nor is given scopes in the request
  cannot be authorized: the inherited \<open>Field\<close> object is taken for the scopes, and the call ends in an
  exception without storing a state, whatever \<open>default_scopes\<close> the class has.\<close>

theorem authorization_needs_scopes:
  assumes "registry_get reg provider = Inr cls" and "oauth_scopes cls = FieldSpec"
    and "scopes = None \<or> scopes = Some []"
  shows "\<exists>e w'. create_authorization_url E reg provider ws scopes redirect extra w = (Inl e, w')
    \<and> committed w' = committed w"
proof -
  have f: "effective_scopes cls scopes = FieldSpec"
    using assms(2,3) by (auto simp: effective_scopes_def)
  have "fails (\<lambda>v. committed v = committed w) (create_authorization_url E reg provider ws scopes redirect extra) w"
  proof -
    let ?I = "\<lambda>v. committed v = committed w"
    have k: "keeps ?I (resolve_workspace ws)" "keeps ?I (fresh g)" "keeps ?I (pkce_for E cls)"
      "keeps ?I (now_utc E)" for g :: "nat \<Rightarrow> string"
      by (auto simp: keeps_def resolve_workspace_def select_def gets_def bnd_def raise_def ret_def
          fresh_def pkce_for_def generate_pkce_pair_def now_utc_def Let_def split: list.splits)
    show ?thesis
      unfolding create_authorization_url_def assms(1) bnd_lift_Inr f attr.case
      by (rule fails_bnd[where I = ?I] k refl | assumption)+
        (simp add: fails_def thn_def bnd_def rollback_def modify_def raise_def)
  qed
  then show ?thesis
    by (simp add: fails_def)
qed

section \<open>Concrete instances\<close>

definition sample_state :: oauth_state where
  "sample_state = \<lparr>ost_id = ''o-1'', ost_workspace = ''ws-1'', ost_provider = ''acme'', ost_token = ''st-1'',
     ost_verifier = Some ''ver'', ost_redirect = None, ost_scopes = [''read''],
     ost_expires_at = 1800000000000000, ost_consumed = False\<rparr>"

definition sample_registry :: registry where
  "sample_registry = [(''acme'', sample_class)]"

definition sample_oauth_world :: world where
  "sample_oauth_world = sample_world
     \<lparr>db := (db sample_world)\<lparr>oauth_states := [sample_state]\<rparr>,
      committed := (db sample_world)\<lparr>oauth_states := [sample_state]\<rparr>\<rparr>"

lemma sample_registered [simp]: "registry_get sample_registry ''acme'' = Inr sample_class"
  by (simp add: registry_get_def sample_registry_def)

lemma sample_oauth_world_simps [simp]:
  "db sample_oauth_world = empty_db\<lparr>workspaces := [sample_workspace], oauth_states := [sample_state]\<rparr>"
  "committed sample_oauth_world = empty_db\<lparr>workspaces := [sample_workspace], oauth_states := [sample_state]\<rparr>"
  "ticks sample_oauth_world = 0" "entropy sample_oauth_world = 0" "sent sample_oauth_world = []"
  "breakers sample_oauth_world = []"
  by (simp_all add: sample_oauth_world_def)

lemma sample_consume:
  "\<exists>w1. consume_state sample_env ''acme'' ''st-1'' sample_oauth_world = (Inr (sample_state\<lparr>ost_consumed := True\<rparr>), w1)
    \<and> credentials (db w1) = [] \<and> connections (db w1) = [] \<and> workspaces (db w1) = [sample_workspace]
    \<and> db_ok b (db w1) \<and> ticks w1 = 1"
  by (simp add: consume_state_eq sample_state_def update_rows_def Let_def db_ok_def unique_ok_def foreign_ok_def)


lemma sample_exchange: "exchange_code sample_env sample_class code uri v w
   = (http_json sample_response, w\<lparr>sent := sent w @ [token_request sample_env sample_class ''acme'' ''https://acme.test/token''
       ([(''grant_type'', JStr ''authorization_code''), (''code'', JStr code),
                 (''redirect_uri'', JStr uri)]
                @ (case v of None \<Rightarrow> [] | Some v \<Rightarrow> (if v = [] then [] else [(''code_verifier'', JStr v)])))]\<rparr>)"
  by (simp add: exchange_code_def http_send_def bnd_def lift_def sample_class_def Let_def)

lemma sample_encrypts: "encrypt_credentials sample_env sample_service creds w =
   (Inr (sample_key (CHR ''A'') @ dumps_sorted (JObj (stored_form creds))), w\<lparr>entropy := entropy w + 1\<rparr>)"
  by (simp add: encrypt_credentials_def encrypt_def bnd_def catch_def fresh_def lift_def
     sample_crypto_def sample_fernet_encrypt_def)

lemma sample_token: "http_json sample_response = Inr (JObj [(''access_token'', JStr ''at-1''), (''refresh_token'', JStr ''rt-1''),
                            (''expires_in'', JInt 3600)])"
  by (simp add: sample_response_def)

lemma sample_commit: "commit sample_env w = (if db_ok True (db w) then (Inr (), w\<lparr>committed := db w\<rparr>)
     else (Inl (Builtin IntegrityError []), w\<lparr>db := committed w\<rparr>))"
  by (simp add: commit_def foreign_keys_def default_settings_def)

lemma sample_finish:
  assumes "credentials (db w1) = []" "connections (db w1) = []" "workspaces (db w1) = [sample_workspace]"
     "ticks w1 < 1000" "db_ok True (db w1)" "ost_workspace r = ''ws-1''"
  shows "\<exists>res w'. finish_callback sample_env sample_service ''acme'' sample_class code None r w1 = (Inr res, w')"
proof -
  have fl: "flush sample_env w = (if db_ok True (db w) then (Inr (), w)
     else (Inl (Builtin IntegrityError []), w\<lparr>db := committed w\<rparr>))" for w
    by (simp add: flush_def foreign_keys_def default_settings_def)
  have pg: "startswith (database_url default_settings) ''postgresql''"
    by (simp add: default_settings_def)
  have ok: "conn_workspace c = ''ws-1'' \<Longrightarrow> db_ok True ((db w1)\<lparr>connections := [c]\<rparr>)"
    "conn_workspace c = ''ws-1'' \<Longrightarrow> cred_workspace q = ''ws-1'' \<Longrightarrow>
       db_ok True ((db w1)\<lparr>connections := [c], credentials := [q]\<rparr>)" for c q
    using assms by (auto simp: db_ok_def unique_ok_def foreign_ok_def)
  show ?thesis
    using assms(1-4)
    by (simp add: finish_callback_def bnd_def sample_exchange sample_token lift_def token_dict_def has_key_def
      extract_credentials_def thn_def new_instance_def on_breaker_eq ret_def sample_encrypts expiry_from_token_def jget_def
      now_utc_def py_int_def Let_def end_of_time_def upsert_connection_def pg fresh_def select_def gets_def
      store_new_def add_connection_def on_db_def modify_def fl ok new_connection_def persist_credential_def
      add_credential_def sample_commit assms(6))
qed


lemma sample_callback:
  "\<exists>res w'. handle_callback sample_env sample_service sample_registry ''acme'' code ''st-1'' None sample_oauth_world
     = (Inr res, w')"
proof -
  obtain w1 where w1: "consume_state sample_env ''acme'' ''st-1'' sample_oauth_world
      = (Inr (sample_state\<lparr>ost_consumed := True\<rparr>), w1)"
    "credentials (db w1) = []" "connections (db w1) = []" "workspaces (db w1) = [sample_workspace]"
    "db_ok True (db w1)" "ticks w1 = 1"
    using sample_consume by metis
  have "ost_workspace (sample_state\<lparr>ost_consumed := True\<rparr>) = ''ws-1''"
    by (simp add: sample_state_def)
  from sample_finish[OF w1(2-4) _ w1(5) this] w1(1,6) show ?thesis
    by (simp add: handle_callback_split)
qed


theorem callback_replay_refused_witness:
  "\<exists>res w'. handle_callback sample_env sample_service sample_registry ''acme'' ''code'' ''st-1'' None sample_oauth_world
      = (Inr res, w')
    \<and> handle_callback sample_env sample_service sample_registry ''acme'' ''code'' ''st-1'' None w'
      = (Inl (error1 OAuthFailed ''invalid or already-consumed OAuth state'' ''acme''), w')"
  using sample_callback[of "''code''"]
    callback_replay_refused[OF sample_registered, where calls = "[]" and state = "''st-1''" and E = sample_env
      and svc = sample_service]
  by fastforce

theorem second_connect_fails_witness:
  "\<exists>e w'. handle_callback sample_env sample_service sample_registry ''acme'' ''code'' ''st-2'' None
     (with_credentials [sample_credential ''c-1'' ''ws-1'' ''acme'' ''oauth_default'']) = (Inl e, w')"
  using second_connect_fails[OF sample_registered, of
      "with_credentials [sample_credential ''c-1'' ''ws-1'' ''acme'' ''oauth_default'']"]
  by (simp add: with_credentials_def) blast



definition sample_tokens :: "json dict" where
  "sample_tokens = [(''access_token'', JStr ''at-0''), (''refresh_token'', JStr ''rt-0'')]"

definition sample_connection :: connection where
  "sample_connection = new_connection ''n-1'' ''ws-1'' ''acme''
     (sample_key (CHR ''A'') @ dumps_sorted (JObj (stored_form sample_tokens))) [''read''] None 1600000000000000"

definition sample_connected_world :: world where
  "sample_connected_world = sample_world
     \<lparr>db := (db sample_world)\<lparr>connections := [sample_connection]\<rparr>,
      committed := (db sample_world)\<lparr>connections := [sample_connection]\<rparr>\<rparr>"

lemma sample_connected_simps [simp]:
  "db sample_connected_world = empty_db\<lparr>workspaces := [sample_workspace], connections := [sample_connection]\<rparr>"
  "committed sample_connected_world = empty_db\<lparr>workspaces := [sample_workspace], connections := [sample_connection]\<rparr>"
  "ticks sample_connected_world = 0" "entropy sample_connected_world = 0" "sent sample_connected_world = []"
  by (simp_all add: sample_connected_world_def)

lemma sample_connection_simps [simp]:
  "conn_id sample_connection = ''n-1''" "conn_workspace sample_connection = ''ws-1''"
  "conn_provider sample_connection = ''acme''" "conn_active sample_connection"
  "conn_expires_at sample_connection = None"
  by (simp_all add: sample_connection_def new_connection_def)

lemma sample_connected_ok: "db_ok b (empty_db\<lparr>workspaces := [sample_workspace], connections := [sample_connection]\<rparr>)"
  by (simp add: db_ok_def unique_ok_def foreign_ok_def)

lemma sample_decrypts:
  "decrypt_credentials sample_env sample_service (stored_text sample_connection) = Inr sample_tokens"
proof -
  have "wf_json (JObj sample_tokens)"
    by (simp add: sample_tokens_def)
  then obtain tok where "encrypt_credentials sample_env sample_service sample_tokens sample_world
      = (Inr tok, sample_world\<lparr>entropy := entropy sample_world + 1\<rparr>)"
      "sealed sample_env (enc_current sample_service) (stored_form sample_tokens) tok"
    using encrypt_credentials_seals[of sample_env sample_service sample_tokens sample_world] sample_fernet_ok
    by auto
  then have "decrypt_credentials sample_env sample_service (stored_text sample_connection)
      = Inr (sorted_dict sample_tokens)"
    using sealed_credentials[of sample_env "enc_current sample_service" sample_tokens tok sample_service]
    by (simp add: sample_encrypts stored_text_def sample_connection_def new_connection_def)
  then show ?thesis
    by (simp add: sorted_dict_def sample_tokens_def)
qed

abbreviation sample_answer :: "json dict" where
  "sample_answer \<equiv> [(''access_token'', JStr ''at-1''), (''refresh_token'', JStr ''rt-1''), (''expires_in'', JInt 3600)]"

lemma sample_store:
  assumes "db w = empty_db\<lparr>workspaces := [sample_workspace], connections := [sample_connection]\<rparr>"
    and "ticks w < 1000"
  shows "\<exists>w'. refresh_store sample_env sample_service ''acme'' sample_connection creds sample_answer w
     = (Inr (refreshed_credentials sample_answer creds, sample_key (CHR ''A'')
          @ dumps_sorted (JObj (stored_form (refreshed_credentials sample_answer creds)))), w')"
proof -
  have ok: "db_ok True (empty_db\<lparr>workspaces := [sample_workspace], connections := update_rows conn_id ''n-1''
      (\<lambda>c. c\<lparr>conn_expires_at := a\<rparr>) (update_rows conn_id ''n-1'' (\<lambda>c. c\<lparr>conn_encrypted := b\<rparr>)
        (update_rows conn_id ''n-1'' (\<lambda>c. c\<lparr>conn_expires_at := d\<rparr>) [sample_connection]))\<rparr>)" for a b d
    by (simp add: update_rows_def db_ok_def unique_ok_def foreign_ok_def)
  show ?thesis
    using assms
    by (simp add: refresh_store_def has_key_def Let_def jget_def expiry_from_token_def now_utc_def bnd_def
        py_int_def end_of_time_def thn_def set_expiry_def update_connection_def on_db_def modify_def ret_def
        sample_encrypts sample_commit ok emit_def lift_def)
qed

text \<open>The refresh of the stored tokens, by any provider class.\<close>

lemma sample_refresh_in:
  assumes "registry_get reg ''acme'' = Inr cls" and "ticks w < 1000"
    and "db w = empty_db\<lparr>workspaces := [sample_workspace], connections := [sample_connection]\<rparr>"
  shows "\<exists>w'. refresh_access_token sample_env sample_service reg ''acme'' ''ws-1'' w
     = (Inr (refreshed_credentials sample_answer sample_tokens, sample_key (CHR ''A'')
          @ dumps_sorted (JObj (stored_form (refreshed_credentials sample_answer sample_tokens)))), w')"
proof -
  have t: "truthy (jget sample_tokens ''refresh_token'')"
    by (simp add: sample_tokens_def jget_def)
  have d: "refreshed_dict ''acme'' (JObj sample_answer) = Inr sample_answer"
    by (simp add: refreshed_dict_def has_key_def)
  obtain w' where s: "refresh_store sample_env sample_service ''acme'' sample_connection sample_tokens sample_answer
     (w\<lparr>sent := sent w @ [refresh_request sample_env cls ''acme'' sample_tokens]\<rparr>)
     = (Inr (refreshed_credentials sample_answer sample_tokens, sample_key (CHR ''A'')
          @ dumps_sorted (JObj (stored_form (refreshed_credentials sample_answer sample_tokens)))), w')"
    using sample_store[of "w\<lparr>sent := sent w @ [refresh_request sample_env cls ''acme'' sample_tokens]\<rparr>"
        sample_tokens] assms(2,3) by auto
  have c: "catch (lift (Inr x)) h = ret x" for x :: "json dict" and h :: "exn \<Rightarrow> json dict act"
    by (simp add: catch_def lift_def ret_def)
  have h: "catch (http_send sample_env r) h w = (Inr sample_response, w\<lparr>sent := sent w @ [r]\<rparr>)"
    for r h and w :: world
    by (simp add: catch_def http_send_def)
  have g: "oauth_get_connection ''acme'' ''ws-1'' w = (Inr sample_connection, w)"
    by (simp add: oauth_get_connection_eq assms(3))
  show ?thesis
    by (simp add: refresh_access_token_def assms(1) bnd_lift_Inr bnd_def[of "oauth_get_connection ''acme'' ''ws-1''"]
        g sample_decrypts t c bnd_Inr[where m = "catch _ _", OF h] sample_token d s)
qed

lemma sample_refresh:
  "\<exists>creds enc w'. refresh_access_token sample_env sample_service sample_registry ''acme'' ''ws-1''
     sample_connected_world = (Inr (creds, enc), w')"
  using sample_refresh_in[OF sample_registered, of sample_connected_world] by auto


theorem refresh_refused_witness:
  "refresh_access_token (sample_env\<lparr>http := \<lambda>_ _. Inl (Builtin HTTPError [])\<rparr>) sample_service sample_registry
     ''acme'' ''ws-1'' sample_connected_world
   = (Inl (error1 TokenExpired ''token refresh request failed'' ''acme''),
      sample_connected_world\<lparr>sent := [refresh_request (sample_env\<lparr>http := \<lambda>_ _. Inl (Builtin HTTPError [])\<rparr>)
         sample_class ''acme'' sample_tokens]\<rparr>)"
proof -
  let ?E = "sample_env\<lparr>http := \<lambda>_ _. Inl (Builtin HTTPError [])\<rparr>"
  have "decrypt_credentials ?E sample_service s = decrypt_credentials sample_env sample_service s" for s
    by (simp add: decrypt_credentials_def decrypt_def)
  then have d: "decrypt_credentials ?E sample_service (stored_text sample_connection) = Inr sample_tokens"
    by (simp add: sample_decrypts)
  have t: "truthy (jget sample_tokens ''refresh_token'')"
    by (simp add: sample_tokens_def jget_def)
  show ?thesis
    using refresh_refused[OF sample_registered, of "''ws-1''" sample_connected_world sample_connection ?E sample_service]
    by (simp add: d t)
qed


theorem authorization_needs_scopes_witness:
  "\<exists>e w'. create_authorization_url sample_env [(''stripe'', sample_class\<lparr>oauth_scopes := FieldSpec\<rparr>)] ''stripe''
     ''ws-1'' None None [] sample_world = (Inl e, w')"
  using authorization_needs_scopes[of "[(''stripe'', sample_class\<lparr>oauth_scopes := FieldSpec\<rparr>)]" "''stripe''"
      "sample_class\<lparr>oauth_scopes := FieldSpec\<rparr>" None sample_env "''ws-1''" None "[]" sample_world]
  by (auto simp: registry_get_def)

theorem authorization_state_bound_witness:
  "\<exists>state verifier url w'. create_authorization_url sample_env sample_registry ''acme'' ''ws-1'' None None []
      sample_world = (Inr (state, verifier, url), w') \<and> length verifier = 64"
proof -
  have e: "effective_scopes sample_class None = Given [''read'']" "oauth_pkce sample_class"
    by (simp_all add: effective_scopes_def sample_class_def)
  obtain state verifier url w' where c: "create_authorization_url sample_env sample_registry ''acme'' ''ws-1'' None None []
      sample_world = (Inr (state, verifier, url), w')"
    by (simp add: create_authorization_url_def bnd_lift_Inr resolve_workspace_def select_def gets_def bnd_def lift_def raise_def
        ret_def fresh_def pkce_for_def generate_pkce_pair_def now_utc_def Let_def e thn_def add_state_def on_db_def
        modify_def sample_commit db_ok_def unique_ok_def foreign_ok_def)
  have "\<forall>n. length (token_bytes sample_env n 48) = 48"
    by (simp add: sample_env_def)
  from authorization_state_bound[OF c this] c e(2) show ?thesis
    by auto
qed

end
