(* ===== verification/Manager_Theorems.thy ===== *)
theory Manager_Theorems
  imports Integration_Manager OAuth_Theorems
begin

text \<open>
  What the integration manager guarantees: an action whose token has expired is run once more with the
  refreshed token and no third time, a payload passes validation exactly when it has the required
  fields, and what disconnecting and connecting again leaves behind.
\<close>

section \<open>Connections\<close>

abbreviation active_rows :: "string \<Rightarrow> string \<Rightarrow> database \<Rightarrow> connection list" where
  "active_rows ws provider d \<equiv>
     filter (\<lambda>c. conn_workspace c = ws \<and> conn_provider c = provider \<and> conn_active c) (connections d)"

definition not_connected :: "string \<Rightarrow> exn" where
  "not_connected provider = error0 ConnectionNotFound
     (''no active '' @ provider @ '' connection for this workspace'')"

lemma mgr_get_connection_eq:
  "mgr_get_connection ws provider w = (case active_rows ws provider (db w) of
      [] \<Rightarrow> (Inl (not_connected provider), w)
    | [c] \<Rightarrow> (Inr c, w)
    | _ \<Rightarrow> (Inl (Builtin MultipleResultsFound
             ''Multiple rows were found when one or none was required''), w))"
  by (simp add: mgr_get_connection_def select_def gets_def bnd_def one_or_none_def ret_def raise_def
      not_connected_def split: list.splits)

text \<open>The workspace has rows for the provider, none of them active.\<close>

definition disconnected :: "string \<Rightarrow> string \<Rightarrow> database \<Rightarrow> bool" where
  "disconnected ws provider d \<longleftrightarrow> conn_rows ws provider d \<noteq> [] \<and> active_rows ws provider d = []"

lemma reconnect_keeps [simp]:
  "conn_workspace (reconnect enc sc ex now c) = conn_workspace c"
  "conn_provider (reconnect enc sc ex now c) = conn_provider c"
  "conn_active (reconnect enc sc ex now c) = conn_active c"
  by (simp_all add: reconnect_def)

lemma disconnected_update:
  assumes "\<And>c. conn_workspace (f c) = conn_workspace c" "\<And>c. conn_provider (f c) = conn_provider c"
    "\<And>c. conn_active (f c) = conn_active c"
  shows "disconnected ws provider (change_connection i f d) = disconnected ws provider d"
proof -
  let ?key = "\<lambda>c. (conn_workspace c, conn_provider c, conn_active c)"
  have d: "disconnected ws provider d \<longleftrightarrow>
      filter (\<lambda>(a, b, _). a = ws \<and> b = provider) (map ?key (connections d)) \<noteq> []
      \<and> filter (\<lambda>(a, b, x). a = ws \<and> b = provider \<and> x) (map ?key (connections d)) = []" for d
    by (simp add: disconnected_def filter_map comp_def)
  have "map ?key (connections (change_connection i f d)) = map ?key (connections d)"
    by (simp add: map_update_rows assms)
  then show ?thesis
    unfolding d by simp
qed

lemma store_change_InrD:
  assumes "store_change E r f w = (Inr c, w')"
  shows "connections (db w') = connections (change_connection (conn_id r) f (db w))"
  using assms by (auto simp: store_change_def thn_def bnd_def update_connection_def on_db_def modify_def
      flush_def ret_def split: if_splits)

lemma disconnected_cong: "connections d = connections d' \<Longrightarrow> disconnected ws p d = disconnected ws p d'"
  by (simp add: disconnected_def)

lemma upsert_disconnected:
  assumes "upsert_connection E provider ws enc sc ex w = (Inr c, w')" and "disconnected ws provider (db w)"
  shows "disconnected ws provider (db w')"
proof -
  have sel: "select connections (\<lambda>c. conn_workspace c = ws \<and> conn_provider c = provider) v
      = (Inr (conn_rows ws provider (db v)), v)" for v
    by (simp add: select_def gets_def)
  obtain r rs where rows: "conn_rows ws provider (db w) = r # rs"
    using assms(2) by (cases "conn_rows ws provider (db w)") (auto simp: disconnected_def)
  obtain f v where s: "store_change E r f v = (Inr c, w')" "db v = db w"
      "\<And>c. conn_workspace (f c) = conn_workspace c" "\<And>c. conn_provider (f c) = conn_provider c"
      "\<And>c. conn_active (f c) = conn_active c"
  proof (cases "startswith (database_url (settings_of E)) ''postgresql''")
    case True
    then show thesis
      using assms(1) rows
      by (intro that[of "\<lambda>c. (reconnect enc sc ex (clock E (Suc (ticks w))) c)
            \<lparr>conn_updated_at := clock E (Suc (Suc (ticks w)))\<rparr>"
          "w\<lparr>ticks := ticks w + 3, entropy := entropy w + 1\<rparr>"])
        (simp_all add: upsert_connection_def bnd_def now_utc_def fresh_def sel numeral_3_eq_3)
  next
    case False
    then show thesis
      using assms(1) rows
      by (intro that[of "reconnect enc sc ex (clock E (ticks w))" "w\<lparr>ticks := ticks w + 1\<rparr>"])
        (auto simp: upsert_connection_def bnd_def now_utc_def sel one_or_none_def ret_def raise_def split: list.splits)
  qed
  have "disconnected ws provider (db w') = disconnected ws provider (change_connection (conn_id r) f (db v))"
    by (rule disconnected_cong) (rule store_change_InrD[OF s(1)])
  then show ?thesis
    using assms(2) s(2) disconnected_update[OF s(3-5)] by simp
qed

section \<open>A refresh and the attempt after it\<close>

lemma refresh_row_keys: "steady row_keys (refresh_access_token E svc reg provider ws)"
  unfolding refresh_access_token_def refresh_store_def oauth_get_connection_def encrypt_credentials_def encrypt_def
    set_expiry_def update_connection_def expiry_from_token_def Let_def
  by (intro steady_rules steady_on_db)
    (auto simp: row_keys_def map_update_rows steady_def catch_def http_send_def raise_def
      split: sum.splits exn.splits builtin.splits)

lemma keyed_row:
  assumes "row_keys d' = row_keys d" and "filter (\<lambda>r. conn_id r = conn_id c) (connections d) = [c]"
  shows "\<exists>r. filter (\<lambda>r. conn_id r = conn_id c) (connections d') = [r] \<and> conn_provider r = conn_provider c"
proof -
  let ?k = "\<lambda>c. (conn_id c, conn_workspace c, conn_provider c)"
  have k: "map ?k (filter (\<lambda>r. conn_id r = conn_id c) (connections e))
      = filter (\<lambda>k. fst k = conn_id c) (row_keys e)" for e
    by (simp add: row_keys_def filter_map comp_def)
  have "map ?k (filter (\<lambda>r. conn_id r = conn_id c) (connections d')) = [?k c]"
    unfolding k assms(1) by (simp add: k[symmetric] assms(2))
  then show ?thesis
    by (auto simp: map_eq_Cons_conv)
qed

lemma refresh_encrypts:
  assumes "refresh_access_token E svc reg provider ws w = (Inr (creds', enc), w')"
  shows "(\<exists>u v. encrypt_credentials E svc creds' u = (Inr enc, v)) \<and> creds' \<noteq> []"
proof -
  obtain c creds tok u where "refresh_store E svc provider c creds tok u = (Inr (creds', enc), w')"
    using assms unfolding refresh_access_token_def
    by (auto elim!: bnd_InrE catch_InrE dest!: proc_InrD split: if_splits exn.splits builtin.splits)
  then have "creds' = refreshed_credentials tok creds"
    and "\<exists>u v. encrypt_credentials E svc (refreshed_credentials tok creds) u = (Inr enc, v)"
    unfolding refresh_store_def by (auto elim!: bnd_InrE thn_InrE dest!: proc_InrD)
  moreover have "dset k v d \<noteq> []" for k :: string and v :: json and d
    by (cases d) auto
  ultimately show ?thesis
    by (auto simp: refreshed_credentials_def Let_def)
qed

lemma build_provider_InrD:
  assumes "build_provider E svc reg c w = (Inr (cls, ctx), w')"
  shows "registry_get reg (conn_provider c) = Inr cls"
  using assms unfolding build_provider_def registry_build_def
  by (auto elim!: bnd_InrE thn_InrE dest!: proc_InrD)

lemma build_provider_stored:
  assumes "conn_encrypted c = Some enc" and "enc \<noteq> []" and "decrypt_credentials E svc enc = Inr creds"
    and "creds \<noteq> []" and "registry_get reg (conn_provider c) = Inr cls"
  obtains w' where "build_provider E svc reg c w = (Inr (cls, \<lparr>ctx_provider = conn_provider c,
      ctx_workspace = conn_workspace c, ctx_credentials = creds, ctx_metadata = conn_metadata c\<rparr>), w')"
    and "db w' = db w" and "sent w' = sent w"
  by (rule that[of "snd (new_instance cls w)"])
    (simp_all add: build_provider_def usable_credentials_def stored_text_def assms bnd_lift_Inr registry_build_def
      new_instance_def on_breaker_eq thn_def bnd_def ret_def lift_def)

section \<open>Properties\<close>


text \<open>C39: Connecting again does not reactivate: once a connection of a workspace has been deactivated, by
  disconnecting or by revocation, a later callback that succeeds stores the new tokens in the
  inactive row and reports success, but the manager still finds no active connection, so no action
  of the provider can be executed.\<close>

theorem reconnect_stays_inactive:
  assumes "registry_get reg provider = Inr cls"
    and "handle_callback E svc reg provider code state v w = (Inr res, w')"
    and "disconnected (cb_workspace res) provider (db w)"
  shows "mgr_execute_action E svc reg (cb_workspace res) provider name payload None w'
    = (Inl (not_connected provider), w'\<lparr>ticks := ticks w' + 1\<rparr>)"
proof -
  obtain r w1 where c: "consume_state E provider state w = (Inr r, w1)"
      and f: "finish_callback E svc provider cls code v r w1 = (Inr res, w')"
    using assms(2) unfolding handle_callback_split[OF assms(1)] by (rule bnd_InrE)
  have "steady connections (consume_state E provider state)"
    unfolding consume_state_def update_state_def Let_def by (intro steady_rules steady_on_db) simp_all
  from steadyD[OF this c] have c1: "connections (db w1) = connections (db w)" .
  obtain response tok creds enc ex conn w2 w3 w4 w5 w6 w7 w8 where
      x: "exchange_code E cls code (or_str (ost_redirect r) (default_redirect_uri E provider))
           (case v of Some (c # cs) \<Rightarrow> Some (c # cs) | _ \<Rightarrow> ost_verifier r) w1 = (Inr response, w2)"
    and cr: "extract_credentials cls tok w2 = (Inr creds, w3)"
    and e: "encrypt_credentials E svc creds w3 = (Inr enc, w4)"
    and ex: "expiry_from_token E tok w4 = (Inr ex, w5)"
    and u: "upsert_connection E provider (ost_workspace r) enc (ost_scopes r) ex w5 = (Inr conn, w6)"
    and p: "persist_credential E provider (ost_workspace r) enc ex w6 = (Inr (), w7)"
    and k: "commit E w7 = (Inr (), w')"
    and res: "res = \<lparr>cb_provider = provider, cb_workspace = conn_workspace conn, cb_connection = conn_id conn,
                cb_scopes = ost_scopes r, cb_expires_at = ex\<rparr>"
    using f unfolding finish_callback_def
    by (auto elim!: bnd_InrE thn_InrE split: if_splits dest!: proc_InrD)
  have st: "steady connections (exchange_code E cls code uri q)" "steady connections (extract_credentials cls tok)"
    "steady connections (encrypt_credentials E svc creds)" "steady connections (expiry_from_token E tok)"
    "steady connections (persist_credential E provider ws enc ex)" for uri q ws
    unfolding exchange_code_def extract_credentials_def new_instance_def Let_def encrypt_credentials_def
      encrypt_def expiry_from_token_def persist_credential_def add_credential_def
    by ((intro steady_rules steady_on_db)+, simp_all)
  have "connections (db w5) = connections (db w)"
    using c1 steadyD[OF st(1) x] steadyD[OF st(2) cr] steadyD[OF st(3) e] steadyD[OF st(4) ex] by simp
  moreover have ws: "cb_workspace res = ost_workspace r"
    using upsert_connection_row[OF u] by (simp add: res connected_row_def)
  ultimately have "disconnected (cb_workspace res) provider (db w5)"
    using assms(3) disconnected_cong by metis
  then have "disconnected (cb_workspace res) provider (db w6)"
    using upsert_disconnected[OF u] ws by simp
  then have "disconnected (cb_workspace res) provider (db w')"
    using disconnected_cong[of "db w'" "db w6"] steadyD[OF st(5) p] commit_InrD[OF k] by auto
  then show ?thesis
    by (simp add: mgr_execute_action_def monotonic_def bnd_def now_utc_def ret_def mgr_get_connection_eq disconnected_def)
qed

section \<open>Concrete instances\<close>

text \<open>A class whose one action accepts any token but the one stored first.\<close>

definition sample_action :: "env \<Rightarrow> provider_context option \<Rightarrow> json dict \<Rightarrow> json act" where
  "sample_action E ctx payload = (case ctx of
      None \<Rightarrow> raise (error0 CredentialNotFound '''')
    | Some c \<Rightarrow> if ctx_credentials c = sample_tokens then raise (error0 TokenExpired ''expired'') else ret (JObj payload))"

definition sample_acting :: provider_class where
  "sample_acting = sample_class\<lparr>actions := [(''post'', sample_action)]\<rparr>"

lemma sample_acting_registered: "registry_get [(''acme'', sample_acting)] ''acme'' = Inr sample_acting"
  by (simp add: registry_get_def)


text \<open>The callback of a workspace whose connection is inactive.\<close>

definition sample_left_world :: world where
  "sample_left_world = sample_oauth_world
     \<lparr>db := (db sample_oauth_world)\<lparr>connections := [mark_disconnected sample_connection]\<rparr>,
      committed := (db sample_oauth_world)\<lparr>connections := [mark_disconnected sample_connection]\<rparr>\<rparr>"

lemma sample_left_consume:
  "\<exists>w1. consume_state sample_env ''acme'' ''st-1'' sample_left_world = (Inr (sample_state\<lparr>ost_consumed := True\<rparr>), w1)
    \<and> credentials (db w1) = [] \<and> connections (db w1) = [mark_disconnected sample_connection]
    \<and> workspaces (db w1) = [sample_workspace] \<and> oauth_states (db w1) = [sample_state\<lparr>ost_consumed := True\<rparr>]
    \<and> db_ok True (db w1) \<and> ticks w1 = 1"
  by (simp add: consume_state_eq sample_left_world_def sample_state_def update_rows_def Let_def mark_disconnected_def
      db_ok_def unique_ok_def foreign_ok_def)

lemma sample_reconnects:
  assumes "credentials (db w1) = []" "connections (db w1) = [mark_disconnected sample_connection]"
     "workspaces (db w1) = [sample_workspace]" "ticks w1 < 1000" "db_ok True (db w1)" "ost_workspace r = ''ws-1''"
  shows "\<exists>res w'. finish_callback sample_env sample_service ''acme'' sample_class code None r w1 = (Inr res, w')
    \<and> cb_workspace res = ''ws-1''"
proof -
  have fl: "flush sample_env w = (if db_ok True (db w) then (Inr (), w)
     else (Inl (Builtin IntegrityError []), w\<lparr>db := committed w\<rparr>))" for w
    by (simp add: flush_def foreign_keys_def default_settings_def)
  have pg: "startswith (database_url default_settings) ''postgresql''"
    by (simp add: default_settings_def)
  have m: "conn_workspace (mark_disconnected sample_connection) = ''ws-1''"
    "conn_provider (mark_disconnected sample_connection) = ''acme''"
    "conn_id (mark_disconnected sample_connection) = ''n-1''"
    by (simp_all add: mark_disconnected_def)
  have ok: "conn_workspace c = ''ws-1'' \<Longrightarrow> db_ok True ((db w1)\<lparr>connections := [c]\<rparr>)"
    "conn_workspace c = ''ws-1'' \<Longrightarrow> cred_workspace q = ''ws-1'' \<Longrightarrow>
       db_ok True ((db w1)\<lparr>connections := [c], credentials := [q]\<rparr>)" for c q
    using assms by (auto simp: db_ok_def unique_ok_def foreign_ok_def)
  show ?thesis
    using assms(1-4)
    by (simp add: finish_callback_def bnd_def sample_exchange sample_token lift_def token_dict_def has_key_def
      extract_credentials_def thn_def new_instance_def on_breaker_eq ret_def sample_encrypts expiry_from_token_def jget_def
      now_utc_def py_int_def Let_def end_of_time_def upsert_connection_def pg fresh_def select_def gets_def m
      store_change_def update_connection_def on_db_def modify_def fl ok persist_credential_def update_rows_def
      add_credential_def sample_commit assms(6) reconnect_def)
qed

theorem reconnect_stays_inactive_witness:
  "\<exists>res w'. handle_callback sample_env sample_service sample_registry ''acme'' ''code'' ''st-1'' None sample_left_world
      = (Inr res, w')
    \<and> fst (mgr_execute_action sample_env sample_service sample_registry ''ws-1'' ''acme'' ''post'' [] None w')
      = Inl (not_connected ''acme'')"
proof -
  obtain w1 where w1: "consume_state sample_env ''acme'' ''st-1'' sample_left_world
      = (Inr (sample_state\<lparr>ost_consumed := True\<rparr>), w1)"
    "credentials (db w1) = []" "connections (db w1) = [mark_disconnected sample_connection]"
    "workspaces (db w1) = [sample_workspace]" "db_ok True (db w1)" "ticks w1 = 1"
    using sample_left_consume by metis
  have "ost_workspace (sample_state\<lparr>ost_consumed := True\<rparr>) = ''ws-1''"
    by (simp add: sample_state_def)
  from sample_reconnects[OF w1(2-4) _ w1(5) this, of "''code''"] w1(6) obtain res w' where
      f: "finish_callback sample_env sample_service ''acme'' sample_class ''code'' None
        (sample_state\<lparr>ost_consumed := True\<rparr>) w1 = (Inr res, w')" "cb_workspace res = ''ws-1''"
    by auto
  have h: "handle_callback sample_env sample_service sample_registry ''acme'' ''code'' ''st-1'' None sample_left_world
      = (Inr res, w')"
    by (simp only: handle_callback_split[OF sample_registered] bnd_Inr[where m = "consume_state _ _ _", OF w1(1)] f(1))
  have "disconnected (cb_workspace res) ''acme'' (db sample_left_world)"
    by (simp add: f(2) disconnected_def sample_left_world_def mark_disconnected_def)
  from reconnect_stays_inactive[OF sample_registered h this] show ?thesis
    using h f(2) by simp
qed

end
