(* ===== verification/Tasks.thy ===== *)
theory Tasks
  imports Credential_Service OAuth_Theorems Webhook_Dispatcher
begin

text \<open>
  \<open>src/services/token_refresh.py\<close> and \<open>src/tasks/\<close>: the periodic refresh of tokens, the cleanups, the
  tasks a Celery worker runs and the schedule of Celery beat. Celery itself is outside: \<open>worker_receive\<close>
  states what it documents, that a message names a task and that a message with a name no task was
  registered under is discarded.
\<close>

section \<open>Refresh and cleanup\<close>

definition refresh_due :: "time \<Rightarrow> connection \<Rightarrow> bool" where
  "refresh_due cutoff c \<longleftrightarrow> conn_active c \<and> conn_encrypted c \<noteq> None
     \<and> (case conn_expires_at c of None \<Rightarrow> True | Some t \<Rightarrow> t \<le> cutoff)"

text \<open>One connection: every exception is swallowed; the refresh has counted its own metric before.\<close>

definition refresh_connection :: "env \<Rightarrow> encryption \<Rightarrow> registry \<Rightarrow> connection \<Rightarrow> nat act" where
  "refresh_connection E svc reg c =
    catch (bnd (refresh_access_token E svc reg (conn_provider c) (conn_workspace c)) (\<lambda>_.
             thn (emit (OAuthRefresh (conn_provider c))) (ret 1)))
      (\<lambda>_. ret 0)"

definition refresh_ending_tokens :: "env \<Rightarrow> encryption \<Rightarrow> registry \<Rightarrow> int \<Rightarrow> nat \<Rightarrow> nat act" where
  "refresh_ending_tokens E svc reg within_minutes limit =
    bnd (now_utc E) (\<lambda>cutoff.
    bnd (select connections (refresh_due cutoff)) (\<lambda>rows.
    bnd (for_each (take limit rows) (refresh_connection E svc reg)) (\<lambda>counts. ret (sum_list counts))))"

definition state_over :: "time \<Rightarrow> oauth_state \<Rightarrow> bool" where
  "state_over now r \<longleftrightarrow> ost_consumed r \<or> ost_expires_at r < now"

definition cleanup_expired_states :: "env \<Rightarrow> nat act" where
  "cleanup_expired_states E =
    bnd (now_utc E) (\<lambda>now.
    bnd (select oauth_states (state_over now)) (\<lambda>rows.
    thn (for_each rows (\<lambda>r. delete_state (ost_id r)))
    (thn (commit E) (ret (length rows)))))"

definition cleanup_expired_credentials :: "env \<Rightarrow> nat act" where
  "cleanup_expired_credentials E =
    bnd (now_utc E) (\<lambda>now.
    bnd (select credentials (expired_before now)) (\<lambda>rows.
    thn (for_each rows (\<lambda>r. delete_credential (cred_id r)))
    (thn (commit E) (ret (length rows)))))"

section \<open>The tasks\<close>

datatype task =
    Refresh_Ending_Tokens
  | Refresh_Single_Token string string
  | Retry_Webhooks nat
  | Dead_Letter nat
  | Dispatch_Webhook string
  | Cleanup_Expired_States
  | Rotate_Expired_Credentials
  | Cleanup_Expired_Credentials

text \<open>\<open>async_task\<close>: the name a function is registered under, and the event loop the wrapper refuses.\<close>

definition async_task_name :: "string option \<Rightarrow> string \<Rightarrow> string" where
  "async_task_name name func = (case name of
      Some n \<Rightarrow> if n = [] then ''agentforge.'' @ func else n
    | None \<Rightarrow> ''agentforge.'' @ func)"

definition run_async :: "bool \<Rightarrow> 'a act \<Rightarrow> 'a act" where
  "run_async in_loop m =
    (if in_loop then raise (Builtin RuntimeError
       ''celery worker is running within an event loop; use async execution mode'')
     else m)"

fun task_name :: "task \<Rightarrow> string" where
  "task_name Refresh_Ending_Tokens =
     async_task_name (Some ''agentforge.refresh_ending_tokens'') ''refresh_ending_tokens_task''"
| "task_name (Refresh_Single_Token _ _) =
     async_task_name (Some ''agentforge.refresh_single_token'') ''refresh_single_token_task''"
| "task_name (Retry_Webhooks _) = async_task_name (Some ''agentforge.retry_webhooks'') ''retry_webhooks_task''"
| "task_name (Dead_Letter _) = async_task_name (Some ''agentforge.dead_letter'') ''dead_letter_task''"
| "task_name (Dispatch_Webhook _) =
     async_task_name (Some ''agentforge.dispatch_webhook'') ''dispatch_webhook_task''"
| "task_name Cleanup_Expired_States =
     async_task_name (Some ''agentforge.cleanup_expired_states'') ''cleanup_expired_states_task''"
| "task_name Rotate_Expired_Credentials =
     async_task_name (Some ''agentforge.rotate_expired_credentials'') ''rotate_expired_credentials_task''"
| "task_name Cleanup_Expired_Credentials =
     async_task_name (Some ''agentforge.cleanup_expired_credentials'') ''cleanup_expired_credentials_task''"

definition refresh_ending_tokens_task :: "env \<Rightarrow> encryption \<Rightarrow> registry \<Rightarrow> json dict act" where
  "refresh_ending_tokens_task E svc reg =
    bnd (with_session (refresh_ending_tokens E svc reg 30 200)) (\<lambda>n. ret [(''refreshed'', JInt (int n))])"

definition refresh_single_token_task ::
    "env \<Rightarrow> encryption \<Rightarrow> registry \<Rightarrow> string \<Rightarrow> string \<Rightarrow> json dict act" where
  "refresh_single_token_task E svc reg provider ws =
    (let answer = (\<lambda>ok. [(''provider'', JStr provider), (''workspace_id'', JStr ws), (''success'', JBool ok)])
     in with_session (catch
          (bnd (refresh_access_token E svc reg provider ws) (\<lambda>_. ret (answer True)))
          (\<lambda>_. ret (answer False))))"

definition retry_webhooks_task :: "env \<Rightarrow> nat \<Rightarrow> json dict act" where
  "retry_webhooks_task E limit =
    bnd (with_session (retry_failed E limit)) (\<lambda>n. ret [(''retried'', JInt (int n))])"

definition dead_letter_task :: "env \<Rightarrow> nat \<Rightarrow> json dict act" where
  "dead_letter_task E limit =
    bnd (with_session (dead_letter_overflow E limit)) (\<lambda>es. ret [(''dead_lettered'', JInt (int (length es)))])"

definition dispatch_webhook_task :: "env \<Rightarrow> string \<Rightarrow> json dict act" where
  "dispatch_webhook_task E i = with_session
    (bnd (select webhook_events (\<lambda>e. ev_id e = i)) (\<lambda>rows.
     bnd (one_or_none rows) (\<lambda>found. case found of
       None \<Rightarrow> ret [(''status'', JStr ''not_found''), (''event_id'', JStr i)]
     | Some e \<Rightarrow> bnd (dispatch_event E e) (\<lambda>_.
         ret [(''status'', JStr ''dispatched''), (''event_id'', JStr i)]))))"

definition cleanup_expired_states_task :: "env \<Rightarrow> json dict act" where
  "cleanup_expired_states_task E =
    bnd (with_session (cleanup_expired_states E)) (\<lambda>n. ret [(''removed'', JInt (int n))])"

definition rotate_expired_credentials_task :: "env \<Rightarrow> json dict act" where
  "rotate_expired_credentials_task E =
    bnd (with_session (rotate_expired E None)) (\<lambda>ids. ret [(''affected'', JInt (int (length ids)))])"

definition cleanup_expired_credentials_task :: "env \<Rightarrow> json dict act" where
  "cleanup_expired_credentials_task E =
    bnd (with_session (cleanup_expired_credentials E)) (\<lambda>n. ret [(''removed'', JInt (int n))])"

fun run_task :: "env \<Rightarrow> encryption \<Rightarrow> registry \<Rightarrow> task \<Rightarrow> json dict act" where
  "run_task E svc reg Refresh_Ending_Tokens = refresh_ending_tokens_task E svc reg"
| "run_task E svc reg (Refresh_Single_Token p ws) = refresh_single_token_task E svc reg p ws"
| "run_task E svc reg (Retry_Webhooks n) = retry_webhooks_task E n"
| "run_task E svc reg (Dead_Letter n) = dead_letter_task E n"
| "run_task E svc reg (Dispatch_Webhook i) = dispatch_webhook_task E i"
| "run_task E svc reg Cleanup_Expired_States = cleanup_expired_states_task E"
| "run_task E svc reg Rotate_Expired_Credentials = rotate_expired_credentials_task E"
| "run_task E svc reg Cleanup_Expired_Credentials = cleanup_expired_credentials_task E"

section \<open>The schedule\<close>

datatype schedule = Crontab nat | Every rat

record beat_entry =
  beat_key :: string
  beat_task :: string
  beat_schedule_at :: schedule

definition beat_schedule :: "beat_entry list" where
  "beat_schedule =
    [\<lparr>beat_key = ''refresh-oauth-tokens-hourly'',
      beat_task = ''tasks.token_tasks.refresh_ending_tokens_task'', beat_schedule_at = Crontab 5\<rparr>,
     \<lparr>beat_key = ''retry-failed-webhooks-every-2m'',
      beat_task = ''tasks.webhook_tasks.retry_webhooks_task'', beat_schedule_at = Every 120\<rparr>,
     \<lparr>beat_key = ''dead-letter-overflow-hourly'',
      beat_task = ''tasks.webhook_tasks.dead_letter_task'', beat_schedule_at = Crontab 35\<rparr>,
     \<lparr>beat_key = ''cleanup-expired-oauth-states-daily'',
      beat_task = ''tasks.maintenance_tasks.cleanup_expired_states_task'', beat_schedule_at = Every (3600 * 6)\<rparr>,
     \<lparr>beat_key = ''rotate-expired-credentials-daily'',
      beat_task = ''tasks.maintenance_tasks.rotate_expired_credentials_task'', beat_schedule_at = Every (3600 * 24)\<rparr>]"

text \<open>
  The registered tasks that can be called without arguments, with the defaults of their parameters; a
  message of beat has none. A task that fails changes what it changed until then.
\<close>

definition task_table :: "task dict" where
  "task_table = map (\<lambda>t. (task_name t, t))
     [Refresh_Ending_Tokens, Retry_Webhooks 100, Dead_Letter 50, Cleanup_Expired_States,
      Rotate_Expired_Credentials, Cleanup_Expired_Credentials]"

definition worker_receive :: "env \<Rightarrow> encryption \<Rightarrow> registry \<Rightarrow> string \<Rightarrow> world \<Rightarrow> world" where
  "worker_receive E svc reg name w = (case dget task_table name of
      None \<Rightarrow> w
    | Some t \<Rightarrow> snd (run_async False (run_task E svc reg t) w))"

definition beat_run :: "env \<Rightarrow> encryption \<Rightarrow> registry \<Rightarrow> beat_entry list \<Rightarrow> world \<Rightarrow> world" where
  "beat_run E svc reg due w = fold (worker_receive E svc reg) (map beat_task due) w"

end
