(* ===== verification/Task_Theorems.thy ===== *)
theory Task_Theorems
  imports Tasks
begin

text \<open>
  What the periodic tasks guarantee: the cleanup of OAuth states cannot be noticed by a callback, the
  token refresh touches the connections that are due and no other, and what the schedule of beat runs.
\<close>

section \<open>Deletions\<close>

lemma for_each_on_db:
  "for_each xs (\<lambda>x. on_db (g x)) w = (Inr (map (\<lambda>_. ()) xs), w\<lparr>db := fold g xs (db w)\<rparr>)"
  by (induction xs arbitrary: w) (simp_all add: ret_def bnd_def on_db_def modify_def)

lemma fold_delete_states:
  "fold (\<lambda>r d. d\<lparr>oauth_states := filter (\<lambda>c. ost_id c \<noteq> ost_id r) (oauth_states d)\<rparr>) rs d
   = d\<lparr>oauth_states := filter (\<lambda>c. ost_id c \<notin> ost_id ` set rs) (oauth_states d)\<rparr>"
  by (induction rs arbitrary: d) (auto intro!: arg_cong[where f = "\<lambda>x. oauth_states_update x _"] simp: fun_eq_iff
      intro!: filter_cong)

lemma filter_ids:
  assumes "distinct (map key rows)"
  shows "filter (\<lambda>c. key c \<notin> key ` set (filter P rows)) rows = filter (\<lambda>c. \<not> P c) rows"
proof (rule filter_cong[OF refl])
  fix c
  assume "c \<in> set rows"
  then show "key c \<notin> key ` set (filter P rows) \<longleftrightarrow> \<not> P c"
    using key_unique[OF assms] by (auto simp: image_iff)
qed

lemma distinct_filter_map: "distinct (map f xs) \<Longrightarrow> distinct (map f (filter P xs))"
  by (induction xs) auto

lemma at_most_one: "distinct xs \<Longrightarrow> set xs \<subseteq> {a} \<Longrightarrow> length xs \<le> 1"
  by (cases xs; cases "tl xs") auto

lemma cleanup_eq:
  assumes "db_ok (foreign_keys E) (db w)"
  defines "now \<equiv> clock E (ticks w)"
  defines "d \<equiv> (db w)\<lparr>oauth_states := filter (\<lambda>r. \<not> state_over now r) (oauth_states (db w))\<rparr>"
  shows "cleanup_expired_states E w = (Inr (length (filter (state_over now) (oauth_states (db w)))),
     w\<lparr>ticks := ticks w + 1, db := d, committed := d\<rparr>)"
proof -
  let ?rows = "filter (state_over now) (oauth_states (db w))"
  have "fold (\<lambda>r d. d\<lparr>oauth_states := filter (\<lambda>c. ost_id c \<noteq> ost_id r) (oauth_states d)\<rparr>) ?rows (db w) = d"
    unfolding fold_delete_states d_def using filter_ids[OF db_ok_parts(3)[OF assms(1)]] by simp
  moreover have "db_ok (foreign_keys E) d"
    using assms(1) by (simp add: d_def db_ok_def unique_ok_def foreign_ok_def distinct_filter_map)
  ultimately show ?thesis
    by (simp add: cleanup_expired_states_def now_utc_def bnd_def select_def gets_def thn_def delete_state_def
        for_each_on_db commit_def ret_def now_def[symmetric])
qed

section \<open>The refresh of one connection\<close>

text \<open>The keys of the connections are \<open>K\<close> and \<open>c\<close> is a row: what a refresh of another connection keeps.\<close>

definition holds_row :: "(string \<times> string \<times> string) list \<Rightarrow> connection \<Rightarrow> database \<Rightarrow> bool" where
  "holds_row K c d \<longleftrightarrow> row_keys d = K \<and> c \<in> set (connections d)"

lemma holds_row_update:
  assumes "\<And>x. conn_id (f x) = conn_id x" "\<And>x. conn_workspace (f x) = conn_workspace x"
    "\<And>x. conn_provider (f x) = conn_provider x"
    and "conn_id c \<noteq> i" and "holds_row K c d"
  shows "holds_row K c (change_connection i f d)"
  using assms by (force simp: holds_row_def row_keys_def map_update_rows update_rows_def)

lemma keeps_refresh_store:
  assumes "conn_id r \<noteq> conn_id c"
  shows "keeps (everywhere (holds_row K c)) (refresh_store E svc provider r creds tok)"
  unfolding refresh_store_def encrypt_credentials_def encrypt_def set_expiry_def update_connection_def
    expiry_from_token_def Let_def
  by (intro keeps_rules holds_row_update) (use assms in auto)

lemma keeps_refresh:
  assumes "distinct (map fst K)" and "distinct (map snd K)" and "(ws, p) \<noteq> (conn_workspace c, conn_provider c)"
  shows "keeps (everywhere (holds_row K c)) (refresh_access_token E svc reg p ws)"
proof -
  have g: "keeps (everywhere (holds_row K c)) (bnd (oauth_get_connection p ws) f)"
    if f: "\<And>r. conn_id r \<noteq> conn_id c \<Longrightarrow> keeps (everywhere (holds_row K c)) (f r)" for f :: "connection \<Rightarrow> 'b act"
    unfolding keeps_def
  proof (intro allI impI)
    fix w
    assume w: "everywhere (holds_row K c) w"
    show "everywhere (holds_row K c) (snd (bnd (oauth_get_connection p ws) f w))"
    proof (cases "fst (oauth_get_connection p ws w)")
      case (Inl e)
      then show ?thesis
        using w by (auto simp: bnd_def oauth_get_connection_eq split: list.splits)
    next
      case (Inr r)
      then have r: "oauth_get_connection p ws w = (Inr r, w)" "conn_rows ws p (db w) = [r]"
        by (auto simp: oauth_get_connection_eq split: list.splits)
      then have m: "r \<in> set (connections (db w))" "conn_workspace r = ws" "conn_provider r = p"
        by (auto simp: filter_eq_Cons_iff)
      have k: "row_keys (db w) = K" "c \<in> set (connections (db w))"
        using w by (simp_all add: everywhere_def holds_row_def)
      have "distinct (map conn_id (connections (db w)))"
        using assms(1) unfolding k(1)[symmetric] by (simp add: row_keys_def comp_def)
      then have "conn_id r \<noteq> conn_id c"
        using key_unique[of conn_id "connections (db w)" c r] k(2) m assms(3) by auto
      then show ?thesis
        using f w unfolding bnd_Inr[where m = "oauth_get_connection p ws", OF r(1)] by (simp add: keeps_def)
    qed
  qed
  show ?thesis
    unfolding refresh_access_token_def
    by (intro keeps_rules g keeps_refresh_store)
      (auto intro!: keeps_rules split: exn.splits builtin.splits)
qed

section \<open>Properties\<close>

text \<open>C23: The cleanup of OAuth states cannot be noticed by a callback: it deletes exactly the consumed and the
  expired states, commits, and returns their number, and while the clock does not run backwards a state
  presented afterwards is accepted if and only if it would have been accepted without the cleanup.\<close>

theorem cleanup_invisible_to_callbacks:
  assumes "db_ok (foreign_keys E) (db w)" and "\<forall>m n. m \<le> n \<longrightarrow> clock E m \<le> clock E n"
  shows "\<exists>w'. cleanup_expired_states E w
      = (Inr (length (filter (state_over (clock E (ticks w))) (oauth_states (db w)))), w')
    \<and> oauth_states (committed w') = filter (\<lambda>r. \<not> state_over (clock E (ticks w)) r) (oauth_states (db w))
    \<and> fst (consume_claim E provider state w') = fst (consume_claim E provider state (w\<lparr>ticks := ticks w + 1\<rparr>))"
proof -
  let ?now = "clock E (ticks w)"
  let ?d = "(db w)\<lparr>oauth_states := filter (\<lambda>r. \<not> state_over ?now r) (oauth_states (db w))\<rparr>"
  let ?w = "w\<lparr>ticks := ticks w + 1, db := ?d, committed := ?d\<rparr>"
  have le: "?now \<le> clock E (ticks w + 1)"
    using assms(2) by simp
  have u: "distinct (map ost_token (oauth_states (db w)))"
    by (rule db_ok_parts(4)[OF assms(1)])
  have left: "open_states provider state ?d
      = filter (\<lambda>r. \<not> state_over ?now r) (open_states provider state (db w))"
    by (simp add: conj_commute)
  have "length (map ost_token (open_states provider state (db w))) \<le> 1"
    by (rule at_most_one[of _ state]) (auto simp: distinct_filter_map[OF u])
  then have one: "length (open_states provider state (db w)) \<le> 1"
    by simp
  have "fst (consume_claim E provider state ?w) = fst (consume_claim E provider state (w\<lparr>ticks := ticks w + 1\<rparr>))"
  proof (cases "open_states provider state (db w)")
    case Nil
    then show ?thesis
      using left by (simp add: consume_claim_def consume_state_eq)
  next
    case (Cons r rs)
    then have "open_states provider state (db w) = [r]"
      using one by simp
    moreover have "r \<in> set (open_states provider state (db w))"
      unfolding Cons by simp
    then have "\<not> ost_consumed r"
      by simp
    ultimately have r: "open_states provider state (db w) = [r]" "\<not> ost_consumed r"
      by blast+
    show ?thesis
    proof (cases "state_over ?now r")
      case True
      then have "ost_expires_at r < clock E (ticks w + 1)"
        using r(2) le by (simp add: state_over_def)
      then show ?thesis
        using True r left by (simp add: consume_claim_def consume_state_eq Let_def split: prod.splits sum.splits)
    next
      case False
      then show ?thesis
        using r left by (simp add: consume_claim_def consume_state_eq Let_def split: prod.splits sum.splits)
    qed
  qed
  then show ?thesis
    unfolding cleanup_eq[OF assms(1)] by auto
qed

lemma refresh_connection_counts: "\<exists>n w'. refresh_connection E svc reg c w = (Inr n, w') \<and> n \<le> 1"
  by (auto simp: refresh_connection_def catch_def bnd_def thn_def emit_def modify_def ret_def
      split: prod.splits sum.splits)

lemma refreshes_count:
  "\<exists>ns w'. for_each rows (refresh_connection E svc reg) w = (Inr ns, w') \<and> sum_list ns \<le> length rows"
proof (induction rows arbitrary: w)
  case Nil
  then show ?case
    by (simp add: ret_def)
next
  case (Cons r rows)
  obtain n w1 where n: "refresh_connection E svc reg r w = (Inr n, w1)" "n \<le> 1"
    using refresh_connection_counts by blast
  obtain ns w2 where ns: "for_each rows (refresh_connection E svc reg) w1 = (Inr ns, w2)" "sum_list ns \<le> length rows"
    using Cons by blast
  show ?case
    using n ns by (simp add: bnd_def ret_def)
qed


text \<open>The schedule runs nothing: no entry of the beat schedule names a task under the name it is registered
  by, so every message of beat is discarded, and the world is the same after any number of them: no token is
  ever refreshed, no failed event retried or buried, and no state cleaned up by schedule.\<close>

theorem schedule_runs_nothing:
  assumes "set due \<subseteq> set beat_schedule"
  shows "beat_run E svc reg due w = w"
proof -
  have none: "list_all (\<lambda>e. dget task_table (beat_task e) = None) beat_schedule"
    by code_simp
  have "fold (worker_receive E svc reg) (map beat_task due) w = w"
    using assms
  proof (induction due)
    case (Cons e due)
    then have "dget task_table (beat_task e) = None"
      using none by (auto simp: list_all_iff)
    then show ?case
      using Cons by (simp add: worker_receive_def)
  qed simp
  then show ?thesis
    by (simp only: beat_run_def)
qed

section \<open>Witnesses\<close>

theorem cleanup_invisible_to_callbacks_witness:
  "\<exists>w'. cleanup_expired_states sample_env sample_oauth_world = (Inr 0, w')
    \<and> fst (consume_claim sample_env ''acme'' ''st-1'' w')"
proof -
  have ok: "db_ok (foreign_keys sample_env) (db sample_oauth_world)"
    by (simp add: db_ok_def unique_ok_def foreign_ok_def sample_state_def)
  have le: "\<forall>m n. m \<le> n \<longrightarrow> clock sample_env m \<le> clock sample_env n"
    by simp
  have "\<not> state_over 1700000000000000 sample_state"
    by (simp add: state_over_def sample_state_def)
  moreover have "fst (consume_claim sample_env ''acme'' ''st-1'' (sample_oauth_world\<lparr>ticks := 1\<rparr>))"
    by (simp add: consume_claim_def consume_state_eq Let_def) (simp add: sample_state_def)
  ultimately show ?thesis
    using cleanup_invisible_to_callbacks[OF ok le, of "''acme''" "''st-1''"] by auto
qed


theorem schedule_runs_nothing_witness:
  "beat_run sample_env sample_service sample_registry (beat_schedule @ beat_schedule) sample_world = sample_world"
  by (rule schedule_runs_nothing) simp

end
