(* ===== verification/Auth_Tokens.thy ===== *)
theory Auth_Tokens
  imports Encryption_Service
begin

text \<open>
  \<open>src/security.py\<close> and \<open>src/dependencies.py\<close>: minting and checking of the service's JWTs and the
  FastAPI dependencies that turn a bearer token into a principal. A \<open>Principal\<close> is the pydantic
  model of \<open>src/schemas/__init__.py\<close>; values of the wrong type make its constructor raise. The
  context variable that \<open>get_principal\<close> sets is read by the logger only and is left out.
\<close>

section \<open>Minting\<close>

definition jose_time :: "time \<Rightarrow> json" where
  "jose_time t = JInt (t div 1000000)"

definition minutes :: "int \<Rightarrow> int" where
  "minutes n = n * 60000000"

definition days :: "int \<Rightarrow> int" where
  "days n = n * 86400000000"

definition base_claims ::
    "settings \<Rightarrow> string \<Rightarrow> string \<Rightarrow> time \<Rightarrow> time \<Rightarrow> string option \<Rightarrow> string list \<Rightarrow> json dict" where
  "base_claims s token_type subject iat expires ws roles =
    [(''sub'', JStr subject), (''type'', JStr token_type), (''iat'', jose_time iat),
     (''exp'', jose_time expires), (''iss'', JStr (app_name s)), (''aud'', JStr (app_name s))]
    @ (case ws of None \<Rightarrow> [] | Some x \<Rightarrow> (if x = [] then [] else [(''ws'', JStr x)]))
    @ (if roles = [] then [] else [(''roles'', JArr (map JStr roles))])"

definition mint_token ::
    "env \<Rightarrow> string \<Rightarrow> string \<Rightarrow> time \<Rightarrow> string option \<Rightarrow> string list \<Rightarrow> json dict \<Rightarrow> string act" where
  "mint_token E token_type subject expires ws roles extra =
    bnd (now_utc E) (\<lambda>iat.
      let s = settings_of E;
          claims = base_claims s token_type subject iat expires ws roles
      in ret (jwt_encode E (dupdate claims extra) (jwt_secret s) (jwt_algorithm s)))"

definition create_access_token ::
    "env \<Rightarrow> string \<Rightarrow> string option \<Rightarrow> string list \<Rightarrow> json dict \<Rightarrow> string act" where
  "create_access_token E subject ws roles extra =
    bnd (now_utc E) (\<lambda>now. mint_token E ''access'' subject
      (now + minutes (jwt_access_token_expire_minutes (settings_of E))) ws roles extra)"

definition create_refresh_token :: "env \<Rightarrow> string \<Rightarrow> string act" where
  "create_refresh_token E subject =
    bnd (now_utc E) (\<lambda>now. mint_token E ''refresh'' subject
      (now + days (jwt_refresh_token_expire_days (settings_of E))) None [] [])"

section \<open>Checking\<close>

definition decode_token :: "env \<Rightarrow> string \<Rightarrow> string option \<Rightarrow> json dict act" where
  "decode_token E token expected =
    bnd (now_utc E) (\<lambda>now.
      let s = settings_of E in
      case jwt_decode E now token (jwt_secret s) (jwt_algorithm s) (app_name s) (app_name s) of
        Inl (Builtin JWTError _) \<Rightarrow> raise (error0 UnauthorizedError ''invalid or expired token'')
      | Inl e \<Rightarrow> raise e
      | Inr claims \<Rightarrow>
          (case expected of
             None \<Rightarrow> ret claims
           | Some ty \<Rightarrow>
               if ty \<noteq> [] \<and> jget claims ''type'' \<noteq> JStr ty
               then raise (error0 UnauthorizedError (''expected '' @ ty @ '' token''))
               else ret claims))"

definition principal_from_claims :: "json dict \<Rightarrow> exn + (json \<times> json \<times> json)" where
  "principal_from_claims claims =
    (if \<not> truthy (jget claims ''sub'')
     then Inl (error0 UnauthorizedError ''token missing subject'')
     else Inr (jget claims ''sub'', jget claims ''ws'', py_or (jget claims ''roles'') (JArr [])))"

definition token_expiry_seconds :: "env \<Rightarrow> json dict \<Rightarrow> int act" where
  "token_expiry_seconds E claims =
    (if \<not> truthy (jget claims ''exp'') then ret 0
     else bnd (lift (py_int (jget claims ''exp''))) (\<lambda>e.
          bnd (now_utc E) (\<lambda>now. ret (max 0 (e - now div 1000000)))))"

section \<open>Dependencies\<close>

record principal =
  principal_user :: string
  principal_roles :: "string list"
  principal_workspace :: "string option"

fun json_strs :: "json list \<Rightarrow> string list option" where
  "json_strs [] = Some []"
| "json_strs (JStr s # xs) = map_option (\<lambda>ss. s # ss) (json_strs xs)"
| "json_strs (_ # xs) = None"

definition make_principal :: "json \<Rightarrow> json \<Rightarrow> json \<Rightarrow> exn + principal" where
  "make_principal user roles ws = (case (user, roles) of
      (JStr u, JArr rs) \<Rightarrow>
        (case (json_strs rs, ws) of
           (Some ss, JNull) \<Rightarrow> Inr \<lparr>principal_user = u, principal_roles = ss, principal_workspace = None\<rparr>
         | (Some ss, JStr x) \<Rightarrow> Inr \<lparr>principal_user = u, principal_roles = ss, principal_workspace = Some x\<rparr>
         | _ \<Rightarrow> Inl (Builtin OtherException ''validation error''))
    | _ \<Rightarrow> Inl (Builtin OtherException ''validation error''))"

definition get_principal :: "env \<Rightarrow> string option \<Rightarrow> principal act" where
  "get_principal E bearer = (case bearer of
      None \<Rightarrow> raise (error0 UnauthorizedError ''missing bearer token'')
    | Some token \<Rightarrow>
        bnd (decode_token E token (Some ''access'')) (\<lambda>claims.
        bnd (lift (principal_from_claims claims)) (\<lambda>(user, ws, roles).
          lift (make_principal user roles ws))))"

definition require_workspace :: "principal \<Rightarrow> exn + (string \<times> principal)" where
  "require_workspace p = (case principal_workspace p of
      None \<Rightarrow> Inl (error0 UnauthorizedError ''workspace is required'')
    | Some ws \<Rightarrow> (if ws = [] then Inl (error0 UnauthorizedError ''workspace is required'') else Inr (ws, p)))"

definition admin_principal :: "principal \<Rightarrow> exn + principal" where
  "admin_principal p =
    (if ''admin'' \<notin> set (principal_roles p)
     then Inl (Integration \<lparr>err_class = ForbiddenError, err_message = ''admin role required'',
            err_provider = None,
            err_details = [(''required_role'', JStr ''admin''), (''user_id'', JStr (principal_user p))]\<rparr>)
     else Inr p)"

definition require_admin :: "env \<Rightarrow> string option \<Rightarrow> principal act" where
  "require_admin E bearer = bnd (get_principal E bearer) (\<lambda>p. lift (admin_principal p))"

definition rate_limit_key :: "principal option \<Rightarrow> string option \<Rightarrow> string" where
  "rate_limit_key p client = (case p of
      Some x \<Rightarrow> principal_user x
    | None \<Rightarrow> (case client of Some host \<Rightarrow> host | None \<Rightarrow> ''unknown''))"

section \<open>What jose promises\<close>

text \<open>
  Decoding with the same secret, algorithm, audience and issuer gives the claims back until they
  expire; anything else is a \<open>JWTError\<close>. Stated for claims with a text subject, audience and issuer
  and a numeric expiry.
\<close>

definition jose_ok :: "env \<Rightarrow> bool" where
  "jose_ok E \<longleftrightarrow> (\<forall>claims secret secret' alg aud iss now n sub.
     wf_json (JObj claims) \<and> jget claims ''exp'' = JInt n \<and> jget claims ''sub'' = JStr sub
       \<and> jget claims ''aud'' = JStr aud \<and> jget claims ''iss'' = JStr iss \<longrightarrow>
     jwt_decode E now (jwt_encode E claims secret alg) secret' alg aud iss =
       (if secret' = secret \<and> now div 1000000 \<le> n then Inr claims else Inl (Builtin JWTError [])))"

section \<open>Facts\<close>

lemma base_claims_get [simp]:
  "jget (base_claims s ty sub iat e ws roles) ''sub'' = JStr sub"
  "jget (base_claims s ty sub iat e ws roles) ''type'' = JStr ty"
  "jget (base_claims s ty sub iat e ws roles) ''exp'' = JInt (e div 1000000)"
  "jget (base_claims s ty sub iat e ws roles) ''iss'' = JStr (app_name s)"
  "jget (base_claims s ty sub iat e ws roles) ''aud'' = JStr (app_name s)"
  by (simp_all add: base_claims_def jget_def jose_time_def)

lemma base_claims_ws [simp]:
  "jget (base_claims s ty sub iat e ws roles) ''ws''
     = (case ws of None \<Rightarrow> JNull | Some x \<Rightarrow> if x = [] then JNull else JStr x)"
  by (simp add: base_claims_def jget_def split: option.splits)

lemma base_claims_roles [simp]:
  "jget (base_claims s ty sub iat e ws roles) ''roles'' = (if roles = [] then JNull else JArr (map JStr roles))"
  by (simp add: base_claims_def jget_def split: option.splits)

lemma base_claims_wf: "wf_json (JObj (base_claims s ty sub iat e ws roles))"
  by (auto simp: base_claims_def jose_time_def split: option.splits)

lemma json_strs_map [simp]: "json_strs (map JStr ss) = Some ss"
  by (induction ss) simp_all

lemma decode_minted:
  assumes "jose_ok E" and "mint_token E ty sub e ws roles [] w = (Inr tok, w1)"
  shows "decode_token E tok (Some want) v =
    (if clock E (ticks v) div 1000000 \<le> e div 1000000
     then (if want \<noteq> [] \<and> ty \<noteq> want then Inl (error0 UnauthorizedError (''expected '' @ want @ '' token''))
           else Inr (base_claims (settings_of E) ty sub (clock E (ticks w)) e ws roles))
     else Inl (error0 UnauthorizedError ''invalid or expired token''), v\<lparr>ticks := ticks v + 1\<rparr>)"
proof -
  let ?s = "settings_of E"
  let ?c = "base_claims ?s ty sub (clock E (ticks w)) e ws roles"
  have "tok = jwt_encode E ?c (jwt_secret ?s) (jwt_algorithm ?s)"
    using assms(2) by (simp add: mint_token_def bnd_def now_utc_def ret_def Let_def)
  then have "jwt_decode E now tok (jwt_secret ?s) (jwt_algorithm ?s) (app_name ?s) (app_name ?s) =
      (if now div 1000000 \<le> e div 1000000 then Inr ?c else Inl (Builtin JWTError []))" for now
    using assms(1) base_claims_wf[of ?s ty sub "clock E (ticks w)" e ws roles]
    unfolding jose_ok_def by simp
  then show ?thesis
    by (simp add: decode_token_def bnd_def now_utc_def ret_def raise_def Let_def)
qed

section \<open>Properties\<close>


text \<open>A refresh token is no access token: presented as a bearer token it is refused with
  \<open>UnauthorizedError\<close> at any time, and so is a missing token; no principal is ever made of either.\<close>

theorem refresh_token_is_no_principal:
  assumes "jose_ok E" and "create_refresh_token E subject w = (Inr tok, w')"
  shows "\<exists>e e'. fst (get_principal E (Some tok) v) = Inl e \<and> is_a e UnauthorizedError
    \<and> fst (get_principal E None v) = Inl e' \<and> is_a e' UnauthorizedError"
proof -
  let ?e = "clock E (ticks w) + days (jwt_refresh_token_expire_days (settings_of E))"
  have "mint_token E ''refresh'' subject ?e None [] [] (w\<lparr>ticks := ticks w + 1\<rparr>) = (Inr tok, w')"
    using assms(2) by (simp add: create_refresh_token_def bnd_def now_utc_def)
  note d = decode_minted[OF assms(1) this, of "''access''" v]
  then show ?thesis
    by (simp add: get_principal_def bnd_def raise_def)
qed

section \<open>Witnesses\<close>

lemma sample_jose_ok: "jose_ok sample_env"
proof -
  have l: "loads (sample_jwt_encode c s a) = Some (JArr [JStr s, JStr a, JObj c])"
    if "wf_json (JObj c)" for c s a
    unfolding sample_jwt_encode_def by (rule loads_dumps) (use that in simp)
  show ?thesis
    unfolding jose_ok_def by (auto simp: sample_env_def sample_jwt_decode_def l)
qed


theorem refresh_token_is_no_principal_witness:
  "\<exists>tok w' e. create_refresh_token sample_env ''u-1'' sample_world = (Inr tok, w')
    \<and> fst (get_principal sample_env (Some tok) w') = Inl e \<and> is_a e UnauthorizedError"
proof -
  obtain tok w' where t: "create_refresh_token sample_env ''u-1'' sample_world = (Inr tok, w')"
    by (simp add: create_refresh_token_def mint_token_def bnd_def now_utc_def ret_def Let_def)
  show ?thesis
    using refresh_token_is_no_principal[OF sample_jose_ok t, of w'] t by blast
qed

end
