(* ===== verification/Api_Common.thy ===== *)
theory Api_Common
  imports Integration_Manager Auth_Tokens Tasks
begin

text \<open>
  What the endpoints of \<open>src/api/\<close> share: the pydantic models of \<open>src/schemas/__init__.py\<close> they answer
  with, the workspace an endpoint acts for, pages of a query, and \<open>src/middleware.py\<close> and
  \<open>src/main.py\<close> around them. A pydantic model is a record with its fields; a value its constructor or
  \<open>model_validate\<close> refuses raises \<open>ValidationError\<close>, which is a \<open>ValueError\<close>. FastAPI and Starlette
  are outside; the model uses that a dependency runs before the handler, that an \<open>IntegrationError\<close> a
  handler raises reaches the registered exception handler, any other exception the middlewares, and that
  the session of \<open>get_db\<close> encloses the handler.
\<close>

section \<open>Requests and answers\<close>

text \<open>The parts of a request the handlers read: the query parameters, the bearer token, the
  client, the raw headers and body.\<close>

record http_request =
  rq_method :: string
  rq_path :: string
  rq_query :: "string dict"
  rq_bearer :: "string option"
  rq_client :: "string option"
  rq_headers :: "(string \<times> string) list"
  rq_body :: string

record 'a api_response =
  ar_data :: 'a
  ar_message :: "string option"
  ar_request_id :: "string option"

definition api_response :: "'a \<Rightarrow> 'a api_response" where
  "api_response x = \<lparr>ar_data = x, ar_message = None, ar_request_id = None\<rparr>"

record 'a page =
  pg_items :: "'a list"
  pg_total :: nat

definition validation_error :: "string \<Rightarrow> exn" where
  "validation_error model = Builtin ValueError (''1 validation error for '' @ model)"

section \<open>The models\<close>

record capability_out =
  co_name :: string
  co_description :: string
  co_schema :: "json dict"

record connection_out =
  cno_id :: string
  cno_workspace :: string
  cno_provider :: string
  cno_status :: string
  cno_scopes :: "string list"
  cno_metadata :: "json dict"
  cno_connected_at :: "time option"
  cno_last_synced_at :: "time option"
  cno_expires_at :: "time option"

text \<open>\<open>from_attributes\<close>: the model is built from the attributes of the row.\<close>

definition connection_out :: "connection \<Rightarrow> connection_out" where
  "connection_out c =
    \<lparr>cno_id = conn_id c, cno_workspace = conn_workspace c, cno_provider = conn_provider c,
     cno_status = conn_status c, cno_scopes = conn_scopes c, cno_metadata = conn_metadata c,
     cno_connected_at = conn_connected_at c, cno_last_synced_at = conn_last_synced_at c,
     cno_expires_at = conn_expires_at c\<rparr>"

record execute_request =
  xr_action :: string
  xr_payload :: "json dict"
  xr_connection :: "string option"

definition valid_execute_request :: "execute_request \<Rightarrow> bool" where
  "valid_execute_request r \<longleftrightarrow> 1 \<le> length (xr_action r) \<and> length (xr_action r) \<le> 128"

record execute_result =
  xo_provider :: string
  xo_action :: string
  xo_success :: bool
  xo_data :: json
  xo_latency :: "rat option"

record validate_result =
  vo_provider :: string
  vo_valid :: bool
  vo_checks :: "json dict"

record credential_create =
  cc_provider :: string
  cc_name :: string
  cc_credentials :: "json dict"

definition valid_credential_create :: "credential_create \<Rightarrow> bool" where
  "valid_credential_create r \<longleftrightarrow>
     1 \<le> length (cc_provider r) \<and> length (cc_provider r) \<le> 64 \<and> length (cc_name r) \<le> 128"

record credential_out =
  cro_provider :: string
  cro_name :: string
  cro_created_at :: time
  cro_updated_at :: time
  cro_expires_at :: "time option"
  cro_masked :: "string dict"

definition credential_out :: "credential \<Rightarrow> string dict \<Rightarrow> credential_out" where
  "credential_out r masked =
    \<lparr>cro_provider = cred_provider r, cro_name = cred_name r, cro_created_at = cred_created_at r,
     cro_updated_at = cred_updated_at r, cro_expires_at = cred_expires_at r, cro_masked = masked\<rparr>"

record connect_result =
  oc_provider :: string
  oc_workspace :: string
  oc_connected :: bool
  oc_scopes :: "string list"
  oc_expires_at :: "time option"

text \<open>\<open>wr_target\<close> is the text pydantic writes for the URL it accepted.\<close>

record webhook_register =
  wr_provider :: string
  wr_target :: string
  wr_secret :: "string option"
  wr_events :: "string list"
  wr_metadata :: "json dict"
  wr_max_retries :: int

definition valid_webhook_register :: "webhook_register \<Rightarrow> bool" where
  "valid_webhook_register r \<longleftrightarrow> 1 \<le> length (wr_provider r) \<and> length (wr_provider r) \<le> 64
     \<and> 0 \<le> wr_max_retries r \<and> wr_max_retries r \<le> 20"

record subscription_out =
  so_id :: string
  so_workspace :: string
  so_provider :: string
  so_target :: string
  so_events :: "string list"
  so_active :: bool
  so_max_retries :: int

definition subscription_out :: "subscription \<Rightarrow> subscription_out" where
  "subscription_out s =
    \<lparr>so_id = sub_id s, so_workspace = sub_workspace s, so_provider = sub_provider s,
     so_target = sub_target s, so_events = sub_events s, so_active = sub_active s,
     so_max_retries = sub_max_retries s\<rparr>"

record event_out =
  eo_id :: string
  eo_workspace :: string
  eo_provider :: string
  eo_type :: "string option"
  eo_status :: string
  eo_attempts :: int
  eo_created_at :: time

definition event_out :: "webhook_event \<Rightarrow> event_out" where
  "event_out e =
    \<lparr>eo_id = ev_id e, eo_workspace = ev_workspace e, eo_provider = ev_provider e, eo_type = ev_type e,
     eo_status = ev_status e, eo_attempts = ev_attempts e, eo_created_at = ev_created_at e\<rparr>"

record audit_out =
  ao_id :: string
  ao_workspace :: string
  ao_actor :: "string option"
  ao_provider :: "string option"
  ao_action :: string
  ao_outcome :: string
  ao_created_at :: time

definition audit_out :: "audit_row \<Rightarrow> audit_out" where
  "audit_out r =
    \<lparr>ao_id = aud_id r, ao_workspace = aud_workspace r, ao_actor = aud_actor r, ao_provider = aud_provider r,
     ao_action = aud_action r, ao_outcome = aud_outcome r, ao_created_at = aud_created_at r\<rparr>"

text \<open>
  \<open>AdminIntegrationRow\<close> and \<open>AdminWebhookRow\<close> derive from \<open>BaseModel\<close>, without \<open>from_attributes\<close>:
  \<open>model_validate\<close> accepts a dictionary or an instance of the model, and refuses a row.
\<close>

record admin_integration_row =
  air_id :: string
  air_workspace :: string
  air_provider :: string
  air_status :: string
  air_created_at :: time
  air_updated_at :: time

record admin_webhook_row =
  awr_id :: string
  awr_workspace :: string
  awr_provider :: string
  awr_target :: string
  awr_active :: bool

definition admin_integration_row :: "connection \<Rightarrow> exn + admin_integration_row" where
  "admin_integration_row c = Inl (validation_error ''AdminIntegrationRow'')"

definition admin_webhook_row :: "subscription \<Rightarrow> exn + admin_webhook_row" where
  "admin_webhook_row s = Inl (validation_error ''AdminWebhookRow'')"

section \<open>Pages and workspaces\<close>

text \<open>
  \<open>offset(o).limit(n)\<close> of a query: a negative number is an error of PostgreSQL; SQLite reads a negative
  limit as none and a negative offset as zero.
\<close>

definition page_of :: "env \<Rightarrow> int \<Rightarrow> int \<Rightarrow> 'r list \<Rightarrow> 'r list act" where
  "page_of E offset limit rows =
    (if foreign_keys E \<and> (offset < 0 \<or> limit < 0)
     then raise (Builtin StatementError ''LIMIT must not be negative'')
     else let rest = drop (nat offset) rows in ret (if limit < 0 then rest else take (nat limit) rest))"

definition workspace_required :: "error_class \<Rightarrow> exn" where
  "workspace_required cls = error0 cls ''workspace required''"

text \<open>\<open>principal.workspace_id\<close>, or the error of the handler.\<close>

definition own_workspace :: "error_class \<Rightarrow> principal \<Rightarrow> exn + string" where
  "own_workspace cls p = (case principal_workspace p of
      Some (c # cs) \<Rightarrow> Inr (c # cs)
    | _ \<Rightarrow> Inl (workspace_required cls))"

text \<open>\<open>_ws_id\<close> of \<open>src/api/integrations.py\<close>.\<close>

definition ws_id_of :: "principal \<Rightarrow> string option \<Rightarrow> exn + string" where
  "ws_id_of p workspace_id = (case workspace_id of
      Some (c # cs) \<Rightarrow> Inr (c # cs)
    | _ \<Rightarrow> (case principal_workspace p of
        Some (c # cs) \<Rightarrow> Inr (c # cs)
      | _ \<Rightarrow> Inl (error0 IntegrationError ''workspace_id is required'')))"

end
