(* ===== verification/Api_Handlers.thy ===== *)
theory Api_Handlers
  imports Api_Common
begin

text \<open>
  The handlers of \<open>src/api/\<close>, one definition each, named \<open>ep_<handler>\<close>. A handler runs with its
  dependencies resolved: the principal, the parameters, and a body its model has accepted; the session of
  \<open>get_db\<close> around it and the dependencies themselves are added in \<open>Api_Application\<close>.
\<close>

section \<open>api/integrations.py\<close>

definition ep_list_providers :: "registry \<Rightarrow> json dict list api_response" where
  "ep_list_providers reg = api_response (list_providers reg)"

definition ep_provider_info :: "registry \<Rightarrow> string \<Rightarrow> exn + json dict api_response" where
  "ep_provider_info reg provider = (case get_provider_info reg provider of
      Inl e \<Rightarrow> Inl e
    | Inr info \<Rightarrow> Inr (api_response info))"

text \<open>\<open>list_capabilities\<close> returns dictionaries, which FastAPI validates as \<open>CapabilityOut\<close>.\<close>

definition capability_out :: "capability \<Rightarrow> capability_out" where
  "capability_out c = \<lparr>co_name = cap_name c, co_description = cap_description c, co_schema = cap_schema c\<rparr>"

definition ep_provider_capabilities :: "registry \<Rightarrow> string \<Rightarrow> exn + capability_out list api_response" where
  "ep_provider_capabilities reg provider = (case registry_get reg provider of
      Inl e \<Rightarrow> Inl e
    | Inr cls \<Rightarrow> Inr (api_response (map capability_out (capabilities cls))))"

definition ep_list_connections :: "principal \<Rightarrow> string option \<Rightarrow> connection_out list api_response act" where
  "ep_list_connections p workspace_id =
    bnd (lift (ws_id_of p workspace_id)) (\<lambda>ws.
    bnd (mgr_list_connections ws) (\<lambda>rows. ret (api_response (map connection_out rows))))"

definition ep_execute_action ::
    "env \<Rightarrow> encryption \<Rightarrow> registry \<Rightarrow> string \<Rightarrow> execute_request \<Rightarrow> string option \<Rightarrow> principal \<Rightarrow> string option \<Rightarrow>
     execute_result api_response act" where
  "ep_execute_action E svc reg provider r client p workspace_id =
    bnd (lift (ws_id_of p workspace_id)) (\<lambda>ws.
    bnd (lift (validate_payload reg provider (xr_action r) (xr_payload r))) (\<lambda>_.
    bnd (mgr_execute_action E svc reg ws provider (xr_action r) (xr_payload r) None) (\<lambda>(result, latency).
    thn (audit_record E ((audit_entry ws (provider @ ''.'' @ xr_action r))
           \<lparr>ae_actor := Some (principal_user p), ae_provider := Some provider, ae_ip := client\<rparr>))
      (ret (api_response \<lparr>xo_provider = provider, xo_action = xr_action r, xo_success = True, xo_data = result,
              xo_latency = Some latency\<rparr>)))))"

text \<open>\<open>checks\<close> is the dictionary of the manager, \<open>valid\<close> its entry.\<close>

definition ep_validate ::
    "env \<Rightarrow> encryption \<Rightarrow> registry \<Rightarrow> string \<Rightarrow> principal \<Rightarrow> string option \<Rightarrow> validate_result api_response act" where
  "ep_validate E svc reg provider p workspace_id =
    bnd (lift (ws_id_of p workspace_id)) (\<lambda>ws.
    bnd (mgr_validate_connection E svc reg ws provider) (\<lambda>checks.
      ret (api_response \<lparr>vo_provider = provider, vo_valid = truthy (jget checks ''valid''), vo_checks = checks\<rparr>)))"

definition ep_disconnect_provider ::
    "env \<Rightarrow> string \<Rightarrow> principal \<Rightarrow> string option \<Rightarrow> json dict api_response act" where
  "ep_disconnect_provider E provider p workspace_id =
    bnd (lift (ws_id_of p workspace_id)) (\<lambda>ws.
    thn (mgr_disconnect E ws provider)
      (ret (api_response [(''provider'', JStr provider), (''disconnected'', JBool True)])))"

section \<open>api/credentials.py\<close>

definition credential_audit :: "env \<Rightarrow> string \<Rightarrow> principal \<Rightarrow> string \<Rightarrow> string \<Rightarrow> string option \<Rightarrow> audit_row act" where
  "credential_audit E ws p action provider client =
    audit_record E ((audit_entry ws action)
      \<lparr>ae_actor := Some (principal_user p), ae_provider := Some provider, ae_ip := client\<rparr>)"

text \<open>The service removes \<open>expires_at\<close> from the credentials of the body, which are masked after that.\<close>

definition ep_create_credential ::
    "env \<Rightarrow> encryption \<Rightarrow> credential_create \<Rightarrow> string option \<Rightarrow> principal \<Rightarrow> credential_out api_response act" where
  "ep_create_credential E svc r client p =
    bnd (lift (own_workspace IntegrationError p)) (\<lambda>ws.
    bnd (cred_create E svc ws (cc_provider r) (cc_name r) (cc_credentials r)) (\<lambda>(record, creds).
    thn (credential_audit E ws p ''credential.create'' (cc_provider r) client)
      (ret (api_response (credential_out record (mask_credentials creds))))))"

definition ep_update_credential ::
    "env \<Rightarrow> encryption \<Rightarrow> string \<Rightarrow> json dict \<Rightarrow> string option \<Rightarrow> principal \<Rightarrow> credential_out api_response act" where
  "ep_update_credential E svc provider new client p =
    bnd (lift (own_workspace IntegrationError p)) (\<lambda>ws.
    bnd (cred_update E svc ws provider new) (\<lambda>(record, creds).
    thn (credential_audit E ws p ''credential.update'' provider client)
      (ret (api_response (credential_out record (mask_credentials creds))))))"

definition ep_list_credentials :: "principal \<Rightarrow> credential_out list api_response act" where
  "ep_list_credentials p =
    bnd (lift (own_workspace IntegrationError p)) (\<lambda>ws.
    bnd (cred_list ws) (\<lambda>rows. ret (api_response (map (\<lambda>r. credential_out r []) rows))))"

definition ep_delete_credential ::
    "env \<Rightarrow> string \<Rightarrow> string option \<Rightarrow> principal \<Rightarrow> json dict api_response act" where
  "ep_delete_credential E provider client p =
    bnd (lift (own_workspace IntegrationError p)) (\<lambda>ws.
    thn (cred_delete E ws provider)
    (thn (credential_audit E ws p ''credential.delete'' provider client)
      (ret (api_response [(''provider'', JStr provider), (''deleted'', JBool True)]))))"

section \<open>api/auth.py\<close>

definition ep_list_oauth_providers :: "registry \<Rightarrow> json dict list api_response" where
  "ep_list_oauth_providers reg = api_response
    (map (\<lambda>(_, cls). [(''key'', JStr (provider_key cls)), (''name'', JStr (provider_name cls)),
        (''description'', JStr (description cls)), (''auth_type'', JStr (auth_type cls))])
      (filter (\<lambda>(_, cls). oauth_authorize_url cls \<noteq> []) reg))"

definition scope_list :: "string option \<Rightarrow> string list option" where
  "scope_list scopes = (case scopes of
      Some (c # cs) \<Rightarrow> Some (map strip (split_on (CHR '','') (c # cs)))
    | _ \<Rightarrow> None)"

definition ep_connect ::
    "env \<Rightarrow> registry \<Rightarrow> string \<Rightarrow> string \<Rightarrow> string option \<Rightarrow> string option \<Rightarrow> json dict api_response act" where
  "ep_connect E reg provider workspace_id scopes redirect_uri =
    bnd (create_authorization_url E reg provider workspace_id (scope_list scopes) redirect_uri [])
      (\<lambda>(state, verifier, url).
        ret (api_response [(''authorization_url'', JStr url), (''state'', JStr state)]))"

text \<open>A \<open>RedirectResponse\<close> is its target.\<close>

definition redirect_error :: "env \<Rightarrow> string \<Rightarrow> string" where
  "redirect_error E reason = frontend_url (settings_of E) @ ''/integrations?error=1&reason='' @ reason"

definition callback_audit_failed :: "env \<Rightarrow> string \<Rightarrow> exn \<Rightarrow> audit_row act" where
  "callback_audit_failed E provider e =
    audit_record E ((audit_entry ''unknown'' ''oauth.callback.failed'')
      \<lparr>ae_provider := Some provider, ae_details := [(''error'', JStr (exn_text e))], ae_outcome := ''failure''\<rparr>)"

definition callback_audit_success :: "env \<Rightarrow> string \<Rightarrow> callback_result \<Rightarrow> audit_row act" where
  "callback_audit_success E provider res =
    audit_record E ((audit_entry (cb_workspace res) ''oauth.callback.success'')
      \<lparr>ae_provider := Some provider, ae_details := [(''scopes'', JArr (map JStr (cb_scopes res)))]\<rparr>)"

text \<open>Only \<open>OAuthFailed\<close> is caught, and only around \<open>handle_callback\<close>.\<close>

definition ep_callback ::
    "env \<Rightarrow> encryption \<Rightarrow> registry \<Rightarrow> string \<Rightarrow> string option \<Rightarrow> string option \<Rightarrow> string option \<Rightarrow> string act" where
  "ep_callback E svc reg provider code state error = (case error of
      Some (c # cs) \<Rightarrow> ret (redirect_error E (''oauth_error='' @ c # cs))
    | _ \<Rightarrow> (case (code, state) of
        (Some (a # as), Some (b # bs)) \<Rightarrow>
          bnd (catch (bnd (handle_callback E svc reg provider (a # as) (b # bs) None) (\<lambda>res. ret (Inr res)))
                 (\<lambda>e. if is_a e OAuthFailed then ret (Inl e) else raise e)) (\<lambda>outcome. case outcome of
             Inl e \<Rightarrow> thn (callback_audit_failed E provider e) (ret (redirect_error E ''oauth_exchange_failed''))
           | Inr res \<Rightarrow> thn (callback_audit_success E provider res)
               (ret (frontend_url (settings_of E) @ ''/integrations/'' @ provider @ ''?connected=1'')))
      | _ \<Rightarrow> raise (error1 OAuthFailed ''missing code or state in OAuth callback'' provider)))"

definition ep_disconnect ::
    "env \<Rightarrow> encryption \<Rightarrow> registry \<Rightarrow> string \<Rightarrow> string \<Rightarrow> string option \<Rightarrow> principal \<Rightarrow> connect_result api_response act" where
  "ep_disconnect E svc reg provider workspace_id client p =
    thn (revoke_token E svc reg provider workspace_id)
    (thn (audit_record E ((audit_entry workspace_id ''oauth.disconnect'')
           \<lparr>ae_actor := Some (principal_user p), ae_provider := Some provider, ae_ip := client\<rparr>))
      (ret (api_response \<lparr>oc_provider = provider, oc_workspace = workspace_id, oc_connected = False,
              oc_scopes = [], oc_expires_at = None\<rparr>)))"

section \<open>api/webhooks.py\<close>

text \<open>
  \<open>request.headers\<close> looks a name up without regard to case, the first entry wins; the dictionary made
  of its items has the names in lower case, as an ASGI server passes them, and the last entry wins. A body
  with a number that has a fraction or an exponent is outside the model of JSON.
\<close>

definition header_get :: "(string \<times> string) list \<Rightarrow> string \<Rightarrow> string option" where
  "header_get hs name = map_option snd (List.find (\<lambda>(k, _). lower k = lower name) hs)"

definition header_dict :: "(string \<times> string) list \<Rightarrow> string dict" where
  "header_dict hs = dupdate [] (map (\<lambda>(k, v). (lower k, v)) hs)"

definition webhook_payload :: "string \<Rightarrow> string \<Rightarrow> exn + json dict" where
  "webhook_payload provider body = (case loads body of
      Some (JObj payload) \<Rightarrow> Inr payload
    | _ \<Rightarrow> Inl (error1 WebhookVerificationFailed ''invalid JSON webhook payload'' provider))"

definition webhook_workspace :: "string \<Rightarrow> (string \<times> string) list \<Rightarrow> exn + string" where
  "webhook_workspace provider hs = (case header_get hs ''X-Workspace-Id'' of
      Some (c # cs) \<Rightarrow> Inr (c # cs)
    | _ \<Rightarrow> Inl (error1 WebhookVerificationFailed ''missing X-Workspace-Id header'' provider))"

definition ep_receive_webhook :: "env \<Rightarrow> registry \<Rightarrow> string \<Rightarrow> http_request \<Rightarrow> json dict act" where
  "ep_receive_webhook E reg provider r =
    bnd (lift (webhook_payload provider (rq_body r))) (\<lambda>payload.
    bnd (lift (webhook_workspace provider (rq_headers r))) (\<lambda>ws.
    bnd (verify_and_store E reg provider ws (header_dict (rq_headers r)) payload) (\<lambda>e.
    bnd (dispatch_event E e) (\<lambda>_.
      ret [(''status'', JStr ''accepted''), (''event_id'', JStr (ev_id e))]))))"

definition ep_list_events ::
    "env \<Rightarrow> principal \<Rightarrow> string option \<Rightarrow> int \<Rightarrow> int \<Rightarrow> event_out page api_response act" where
  "ep_list_events E p provider limit offset =
    bnd (lift (own_workspace WebhookVerificationFailed p)) (\<lambda>ws.
    bnd (select webhook_events (\<lambda>e. ev_workspace e = ws
           \<and> (case provider of Some (c # cs) \<Rightarrow> ev_provider e = c # cs | _ \<Rightarrow> True))) (\<lambda>rows.
    bnd (page_of E offset limit (newest_first ev_created_at rows)) (\<lambda>items.
      ret (api_response \<lparr>pg_items = map event_out items, pg_total = length rows\<rparr>))))"

definition new_subscription :: "string \<Rightarrow> time \<Rightarrow> string \<Rightarrow> string \<Rightarrow> webhook_register \<Rightarrow> subscription" where
  "new_subscription i now ws secret r =
    \<lparr>sub_id = i, sub_workspace = ws, sub_provider = wr_provider r, sub_target = wr_target r,
     sub_secret = Some secret, sub_events = wr_events r, sub_metadata = wr_metadata r, sub_active = True,
     sub_max_retries = wr_max_retries r, sub_created_at = now\<rparr>"

text \<open>A \<open>SecretStr\<close> is false when it is empty: then, as without one, the default secret is stored.\<close>

definition ep_register_webhook ::
    "env \<Rightarrow> webhook_register \<Rightarrow> string option \<Rightarrow> principal \<Rightarrow> subscription_out api_response act" where
  "ep_register_webhook E r client p =
    bnd (lift (own_workspace WebhookVerificationFailed p)) (\<lambda>ws.
    bnd (case wr_secret r of Some (c # cs) \<Rightarrow> ret (c # cs) | _ \<Rightarrow> default_webhook_secret E) (\<lambda>secret.
    bnd (fresh (uuid E)) (\<lambda>i.
    bnd (now_utc E) (\<lambda>now.
      let sub = new_subscription i now ws secret r
      in thn (add_subscription sub) (thn (commit E)
         (thn (audit_record E ((audit_entry ws ''webhook.register'')
                \<lparr>ae_actor := Some (principal_user p), ae_provider := Some (wr_provider r),
                 ae_resource := Some i, ae_ip := client\<rparr>))
           (ret (api_response (subscription_out sub)))))))))"

definition ep_list_subscriptions :: "principal \<Rightarrow> subscription_out list api_response act" where
  "ep_list_subscriptions p =
    bnd (lift (own_workspace WebhookVerificationFailed p)) (\<lambda>ws.
    bnd (select subscriptions (\<lambda>s. sub_workspace s = ws)) (\<lambda>rows.
      ret (api_response (map subscription_out rows))))"

text \<open>A comparison with a missing workspace holds of no row.\<close>

definition ep_delete_webhook :: "env \<Rightarrow> string \<Rightarrow> principal \<Rightarrow> json dict api_response act" where
  "ep_delete_webhook E webhook_id p =
    bnd (select subscriptions (\<lambda>s. sub_id s = webhook_id \<and> Some (sub_workspace s) = principal_workspace p)) (\<lambda>rows.
    bnd (one_or_none rows) (\<lambda>found. case found of
      None \<Rightarrow> raise (error0 WebhookVerificationFailed ''webhook subscription not found'')
    | Some s \<Rightarrow>
        thn (update_subscription (sub_id s) (\<lambda>s. s\<lparr>sub_active := False\<rparr>)) (thn (commit E)
          (ret (api_response [(''id'', JStr webhook_id), (''deleted'', JBool True)])))))"

definition ep_redispatch_event :: "env \<Rightarrow> string \<Rightarrow> principal \<Rightarrow> json dict api_response act" where
  "ep_redispatch_event E event_id p =
    bnd (select webhook_events (\<lambda>e. ev_id e = event_id \<and> Some (ev_workspace e) = principal_workspace p)) (\<lambda>rows.
    bnd (one_or_none rows) (\<lambda>found. case found of
      None \<Rightarrow> raise (error0 WebhookVerificationFailed ''event not found'')
    | Some e \<Rightarrow> bnd (dispatch_event E e) (\<lambda>ds.
        ret (api_response [(''event_id'', JStr event_id), (''deliveries'', JInt (int (length ds)))]))))"

section \<open>api/admin.py\<close>

definition ep_admin_integrations ::
    "env \<Rightarrow> int \<Rightarrow> int \<Rightarrow> string option \<Rightarrow> admin_integration_row page api_response act" where
  "ep_admin_integrations E limit offset provider =
    bnd (select connections (\<lambda>c. case provider of Some (a # as) \<Rightarrow> conn_provider c = a # as | _ \<Rightarrow> True)) (\<lambda>rows.
    bnd (page_of E offset limit (newest_first conn_created_at rows)) (\<lambda>cs.
    bnd (for_each cs (\<lambda>c. lift (admin_integration_row c))) (\<lambda>items.
      ret (api_response \<lparr>pg_items = items, pg_total = length rows\<rparr>))))"

definition ep_admin_webhooks :: "env \<Rightarrow> int \<Rightarrow> int \<Rightarrow> admin_webhook_row page api_response act" where
  "ep_admin_webhooks E limit offset =
    bnd (select subscriptions (\<lambda>_. True)) (\<lambda>rows.
    bnd (page_of E offset limit (newest_first sub_created_at rows)) (\<lambda>ss.
    bnd (for_each ss (\<lambda>s. lift (admin_webhook_row s))) (\<lambda>items.
      ret (api_response \<lparr>pg_items = items, pg_total = length rows\<rparr>))))"

text \<open>The bounds of \<open>limit\<close> and \<open>offset\<close> are those of the query parameters.\<close>

definition valid_page :: "int \<Rightarrow> int \<Rightarrow> bool" where
  "valid_page limit offset \<longleftrightarrow> 1 \<le> limit \<and> limit \<le> 500 \<and> 0 \<le> offset"

definition ep_admin_logs ::
    "int \<Rightarrow> int \<Rightarrow> string option \<Rightarrow> string option \<Rightarrow> audit_out page api_response act" where
  "ep_admin_logs limit offset provider workspace_id =
    bnd (audit_list workspace_id (nat limit) (nat offset)) (\<lambda>rows.
      let filtered = filter (\<lambda>r. case provider of Some (c # cs) \<Rightarrow> aud_provider r = provider | _ \<Rightarrow> True) rows
      in ret (api_response \<lparr>pg_items = map audit_out filtered, pg_total = length filtered\<rparr>))"

definition ep_admin_stats :: "json dict api_response act" where
  "ep_admin_stats = gets (\<lambda>w. api_response
    [(''connections'', JInt (int (length (connections (db w))))),
     (''webhook_subscriptions'', JInt (int (length (subscriptions (db w))))),
     (''webhook_events'', JInt (int (length (webhook_events (db w))))),
     (''audit_logs'', JInt (int (length (audit_logs (db w)))))])"

end
