(* ===== verification/Api_Application.thy ===== *)
theory Api_Application
  imports Api_Handlers
begin

text \<open>
  The application: the health endpoints, the bodies and query parameters of the requests, the routes of
  \<open>src/api/__init__.py\<close> in the order they are registered, and the middlewares of \<open>src/middleware.py\<close>
  and \<open>src/main.py\<close>. Starlette takes the first route whose method and path match. The rate limiter
  (slowapi) and CORS are left out; an answer of status 422, with which FastAPI refuses parameters that are
  not valid, carries no details here. \<open>serve\<close> is one request.
\<close>

section \<open>api/health.py\<close>

text \<open>\<open>round(x, 2)\<close>, half to even.\<close>

definition round_half_even :: "rat \<Rightarrow> int" where
  "round_half_even x =
    (let f = \<lfloor>x\<rfloor>; r = x - of_int f
     in if r < 1 / 2 then f else if 1 / 2 < r then f + 1 else if even f then f else f + 1)"

definition round2 :: "rat \<Rightarrow> rat" where
  "round2 x = of_int (round_half_even (x * 100)) / 100"

record component_health =
  ch_name :: string
  ch_status :: string
  ch_latency :: "rat option"

record health_response =
  hr_status :: string
  hr_version :: string
  hr_uptime :: rat
  hr_components :: "component_health list"

text \<open>
  \<open>db_down\<close>: the statement \<open>SELECT 1\<close> fails. When it does not, \<open>result.scalar_one()\<close> is the number 1, and
  \<open>await 1\<close> raises \<open>TypeError\<close>.
\<close>

definition probe_database :: "bool \<Rightarrow> component_health act" where
  "probe_database db_down =
    catch (if db_down then raise (Builtin OSError []) else raise (Builtin TypeError ''object int can't be used in 'await' expression''))
      (\<lambda>_. ret \<lparr>ch_name = ''database'', ch_status = ''down'', ch_latency = None\<rparr>)"

definition ep_health :: "env \<Rightarrow> rat \<Rightarrow> bool \<Rightarrow> health_response act" where
  "ep_health E started db_down =
    bnd (monotonic E) (\<lambda>db_start.
    bnd (probe_database db_down) (\<lambda>database.
    bnd (monotonic E) (\<lambda>redis_start.
    bnd (ping_redis E) (\<lambda>redis_ok.
    bnd (monotonic E) (\<lambda>redis_stop.
    bnd (monotonic E) (\<lambda>now.
      let cs = [database, \<lparr>ch_name = ''redis'', ch_status = (if redis_ok then ''ok'' else ''down''),
                 ch_latency = Some ((redis_stop - redis_start) * 1000)\<rparr>];
          ok = list_all (\<lambda>c. ch_status c = ''ok'') cs
      in ret \<lparr>hr_status = (if ok then ''ok'' else if is_production (settings_of E) then ''down'' else ''degraded''),
              hr_version = app_version (settings_of E), hr_uptime = round2 (now - started),
              hr_components = cs\<rparr>))))))"

record live_response =
  lr_status :: string
  lr_uptime :: rat

definition ep_live :: "env \<Rightarrow> rat \<Rightarrow> live_response act" where
  "ep_live E started = bnd (monotonic E) (\<lambda>now. ret \<lparr>lr_status = ''ok'', lr_uptime = round2 (now - started)\<rparr>)"

definition ep_ready :: "env \<Rightarrow> bool \<Rightarrow> json dict act" where
  "ep_ready E db_down = bnd (ping_redis E) (\<lambda>redis_ok.
     ret [(''status'', JStr (if \<not> db_down \<and> redis_ok then ''ok'' else ''down'')),
          (''database'', JBool (\<not> db_down)), (''redis'', JBool redis_ok)])"

section \<open>Bodies and parameters\<close>

definition dict_field :: "json dict \<Rightarrow> string \<Rightarrow> json dict option \<Rightarrow> json dict option" where
  "dict_field d k dflt = (case dget d k of None \<Rightarrow> dflt | Some (JObj v) \<Rightarrow> Some v | _ \<Rightarrow> None)"

definition str_field :: "json dict \<Rightarrow> string \<Rightarrow> string option \<Rightarrow> string option" where
  "str_field d k dflt = (case dget d k of None \<Rightarrow> dflt | Some (JStr v) \<Rightarrow> Some v | _ \<Rightarrow> None)"

definition opt_str_field :: "json dict \<Rightarrow> string \<Rightarrow> string option option" where
  "opt_str_field d k = (case jget d k of JNull \<Rightarrow> Some None | JStr v \<Rightarrow> Some (Some v) | _ \<Rightarrow> None)"

definition body_object :: "http_request \<Rightarrow> json dict option" where
  "body_object r = (case loads (rq_body r) of Some (JObj d) \<Rightarrow> Some d | _ \<Rightarrow> None)"

definition parse_execute_request :: "json dict \<Rightarrow> execute_request option" where
  "parse_execute_request d = (case (str_field d ''action'' None, dict_field d ''payload'' (Some []),
       opt_str_field d ''provider_connection_id'') of
      (Some a, Some p, Some c) \<Rightarrow>
        (let r = \<lparr>xr_action = a, xr_payload = p, xr_connection = c\<rparr>
         in if valid_execute_request r then Some r else None)
    | _ \<Rightarrow> None)"

definition parse_credential_create :: "json dict \<Rightarrow> credential_create option" where
  "parse_credential_create d = (case (str_field d ''provider'' None, str_field d ''name'' (Some ''default''),
       dict_field d ''credentials'' None) of
      (Some p, Some n, Some c) \<Rightarrow>
        (let r = \<lparr>cc_provider = p, cc_name = n, cc_credentials = c\<rparr>
         in if valid_credential_create r then Some r else None)
    | _ \<Rightarrow> None)"

definition parse_credential_update :: "json dict \<Rightarrow> json dict option" where
  "parse_credential_update d = dict_field d ''credentials'' None"

definition strs_field :: "json dict \<Rightarrow> string \<Rightarrow> string list option" where
  "strs_field d k = (case jget_or d k (JArr []) of JArr xs \<Rightarrow> json_strs xs | _ \<Rightarrow> None)"

definition int_field :: "json dict \<Rightarrow> string \<Rightarrow> int \<Rightarrow> int option" where
  "int_field d k dflt = (case jget_or d k (JInt dflt) of
      JInt n \<Rightarrow> Some n
    | JStr s \<Rightarrow> int_text s
    | JBool b \<Rightarrow> Some (if b then 1 else 0)
    | _ \<Rightarrow> None)"

text \<open>\<open>http_url\<close> is pydantic's \<open>HttpUrl\<close>: the text of the URL if it accepts one.\<close>

definition parse_webhook_register :: "(string \<Rightarrow> string option) \<Rightarrow> json dict \<Rightarrow> webhook_register option" where
  "parse_webhook_register http_url d =
    (case (str_field d ''provider'' None, Option.bind (str_field d ''target_url'' None) http_url,
       opt_str_field d ''secret'', strs_field d ''events'', dict_field d ''metadata'' (Some []),
       int_field d ''max_retries'' 5) of
      (Some p, Some u, Some s, Some es, Some m, Some n) \<Rightarrow>
        (let r = \<lparr>wr_provider = p, wr_target = u, wr_secret = s, wr_events = es, wr_metadata = m, wr_max_retries = n\<rparr>
         in if valid_webhook_register r then Some r else None)
    | _ \<Rightarrow> None)"

definition int_param :: "string dict \<Rightarrow> string \<Rightarrow> int \<Rightarrow> int option" where
  "int_param query k dflt = (case dget query k of None \<Rightarrow> Some dflt | Some s \<Rightarrow> int_text s)"

definition page_params :: "string dict \<Rightarrow> (int \<times> int) option" where
  "page_params query = (case (int_param query ''limit'' 100, int_param query ''offset'' 0) of
      (Some n, Some o1) \<Rightarrow> if valid_page n o1 then Some (n, o1) else None
    | _ \<Rightarrow> None)"

section \<open>Routes\<close>

datatype endpoint =
    Health | Health_Live | Health_Ready
  | OAuth_Providers | OAuth_Connect | OAuth_Callback | OAuth_Disconnect
  | List_Providers | Provider_Info | Provider_Capabilities | List_Connections
  | Execute_Action | Validate_Connection | Disconnect_Provider
  | Create_Credential | Update_Credential | List_Credentials | Delete_Credential
  | Receive_Webhook | List_Events | Register_Webhook | List_Subscriptions | Delete_Webhook | Redispatch_Event
  | Admin_Integrations | Admin_Webhooks | Admin_Logs | Admin_Stats

datatype segment = Lit string | Par string

type_synonym route = "string \<times> segment list \<times> endpoint"

definition health_routes :: "route list" where
  "health_routes =
    [(''GET'', [Lit ''health''], Health), (''GET'', [Lit ''health'', Lit ''live''], Health_Live),
     (''GET'', [Lit ''health'', Lit ''ready''], Health_Ready)]"

definition oauth_routes :: "route list" where
  "oauth_routes =
    [(''GET'', [Lit ''providers''], OAuth_Providers), (''GET'', [Lit ''connect'', Par ''provider''], OAuth_Connect),
     (''GET'', [Lit ''callback'', Par ''provider''], OAuth_Callback),
     (''POST'', [Lit ''disconnect'', Par ''provider''], OAuth_Disconnect)]"

definition integration_routes :: "route list" where
  "integration_routes =
    [(''GET'', [], List_Providers), (''GET'', [Par ''provider''], Provider_Info),
     (''GET'', [Par ''provider'', Lit ''capabilities''], Provider_Capabilities),
     (''GET'', [Lit ''connections''], List_Connections),
     (''POST'', [Par ''provider'', Lit ''execute''], Execute_Action),
     (''POST'', [Par ''provider'', Lit ''validate''], Validate_Connection),
     (''POST'', [Par ''provider'', Lit ''disconnect''], Disconnect_Provider)]"

definition credential_routes :: "route list" where
  "credential_routes =
    [(''POST'', [], Create_Credential), (''PATCH'', [Par ''provider''], Update_Credential),
     (''GET'', [], List_Credentials), (''DELETE'', [Par ''provider''], Delete_Credential)]"

definition webhook_routes :: "route list" where
  "webhook_routes =
    [(''POST'', [Par ''provider''], Receive_Webhook), (''GET'', [Lit ''events''], List_Events),
     (''POST'', [Lit ''register''], Register_Webhook), (''GET'', [Lit ''subscriptions''], List_Subscriptions),
     (''DELETE'', [Par ''webhook_id''], Delete_Webhook),
     (''POST'', [Lit ''dispatch'', Par ''event_id''], Redispatch_Event)]"

definition admin_routes :: "route list" where
  "admin_routes =
    [(''GET'', [Lit ''integrations''], Admin_Integrations), (''GET'', [Lit ''webhooks''], Admin_Webhooks),
     (''GET'', [Lit ''logs''], Admin_Logs), (''GET'', [Lit ''stats''], Admin_Stats)]"

text \<open>\<open>include_router\<close> with a prefix.\<close>

definition under :: "string \<Rightarrow> route list \<Rightarrow> route list" where
  "under prefix = map (\<lambda>(m, path, e). (m, Lit prefix # path, e))"

definition api_router :: "route list" where
  "api_router = health_routes @ under ''oauth'' oauth_routes @ under ''integrations'' integration_routes
     @ under ''credentials'' credential_routes @ under ''webhooks'' webhook_routes @ under ''admin'' admin_routes"

fun match_path :: "segment list \<Rightarrow> string list \<Rightarrow> string dict option" where
  "match_path [] [] = Some []"
| "match_path (Lit s # ps) (x # xs) = (if s = x then match_path ps xs else None)"
| "match_path (Par p # ps) (x # xs) =
     (if x = [] then None else map_option (\<lambda>d. (p, x) # d) (match_path ps xs))"
| "match_path _ _ = None"

datatype routed = Routed endpoint "string dict" | Method_Not_Allowed | Not_Found

fun route_request :: "route list \<Rightarrow> string \<Rightarrow> string list \<Rightarrow> routed" where
  "route_request [] m path = Not_Found"
| "route_request ((m', p, e) # rs) m path = (case match_path p path of
      Some params \<Rightarrow>
        if m' = m then Routed e params
        else (case route_request rs m path of Not_Found \<Rightarrow> Method_Not_Allowed | found \<Rightarrow> found)
    | None \<Rightarrow> route_request rs m path)"

section \<open>Endpoints\<close>

datatype answer =
    Plain "json dict"
  | Info "json dict api_response"
  | Infos "json dict list api_response"
  | Capabilities "capability_out list api_response"
  | Connections "connection_out list api_response"
  | Executed "execute_result api_response"
  | Validated "validate_result api_response"
  | Credential_Answer "credential_out api_response"
  | Credentials_Answer "credential_out list api_response"
  | Redirect string
  | Disconnected "connect_result api_response"
  | Events "event_out page api_response"
  | Subscription_Answer "subscription_out api_response"
  | Subscriptions_Answer "subscription_out list api_response"
  | Integration_Rows "admin_integration_row page api_response"
  | Webhook_Rows "admin_webhook_row page api_response"
  | Audit_Rows "audit_out page api_response"
  | Health_Answer health_response
  | Live_Answer live_response

text \<open>\<open>None\<close>: the parameters or the body are refused, the handler does not run.\<close>

definition answered :: "('a \<Rightarrow> answer) \<Rightarrow> 'a act \<Rightarrow> answer option act" where
  "answered f m = bnd m (\<lambda>x. ret (Some (f x)))"

definition with_value :: "'a option \<Rightarrow> ('a \<Rightarrow> answer option act) \<Rightarrow> answer option act" where
  "with_value v f = (case v of None \<Rightarrow> ret None | Some x \<Rightarrow> f x)"

definition with_body :: "http_request \<Rightarrow> (json dict \<Rightarrow> 'r option) \<Rightarrow> ('r \<Rightarrow> answer option act) \<Rightarrow> answer option act" where
  "with_body r parse f = with_value (Option.bind (body_object r) parse) f"

definition path_param :: "string dict \<Rightarrow> string \<Rightarrow> string" where
  "path_param params k = (case dget params k of Some v \<Rightarrow> v | None \<Rightarrow> [])"

record service =
  sv_env :: env
  sv_encryption :: encryption
  sv_registry :: registry
  sv_started :: rat
  sv_db_down :: bool
  sv_http_url :: "string \<Rightarrow> string option"

text \<open>The dependencies \<open>PrincipalDep\<close> and \<open>AdminDep\<close>.\<close>

definition as_principal :: "service \<Rightarrow> http_request \<Rightarrow> (principal \<Rightarrow> answer option act) \<Rightarrow> answer option act" where
  "as_principal S r f = bnd (get_principal (sv_env S) (rq_bearer r)) f"

definition as_admin :: "service \<Rightarrow> http_request \<Rightarrow> answer option act \<Rightarrow> answer option act" where
  "as_admin S r m = bnd (require_admin (sv_env S) (rq_bearer r)) (\<lambda>_. m)"

fun handle :: "service \<Rightarrow> http_request \<Rightarrow> string dict \<Rightarrow> endpoint \<Rightarrow> answer option act" where
  "handle S r ps Health = answered Health_Answer (ep_health (sv_env S) (sv_started S) (sv_db_down S))"
| "handle S r ps Health_Live = answered Live_Answer (ep_live (sv_env S) (sv_started S))"
| "handle S r ps Health_Ready = answered Plain (ep_ready (sv_env S) (sv_db_down S))"
| "handle S r ps OAuth_Providers = answered Infos (ret (ep_list_oauth_providers (sv_registry S)))"
| "handle S r ps OAuth_Connect = with_value (dget (rq_query r) ''workspace_id'') (\<lambda>ws.
     answered Info (ep_connect (sv_env S) (sv_registry S) (path_param ps ''provider'') ws
       (dget (rq_query r) ''scopes'') (dget (rq_query r) ''redirect_uri'')))"
| "handle S r ps OAuth_Callback = answered Redirect (ep_callback (sv_env S) (sv_encryption S) (sv_registry S)
     (path_param ps ''provider'') (dget (rq_query r) ''code'') (dget (rq_query r) ''state'')
     (dget (rq_query r) ''error''))"
| "handle S r ps OAuth_Disconnect = as_principal S r (\<lambda>p. with_value (dget (rq_query r) ''workspace_id'') (\<lambda>ws.
     answered Disconnected (ep_disconnect (sv_env S) (sv_encryption S) (sv_registry S) (path_param ps ''provider'')
       ws (rq_client r) p)))"
| "handle S r ps List_Providers = answered Infos (ret (ep_list_providers (sv_registry S)))"
| "handle S r ps Provider_Info = answered Info (lift (ep_provider_info (sv_registry S) (path_param ps ''provider'')))"
| "handle S r ps Provider_Capabilities =
     answered Capabilities (lift (ep_provider_capabilities (sv_registry S) (path_param ps ''provider'')))"
| "handle S r ps List_Connections = as_principal S r (\<lambda>p.
     answered Connections (ep_list_connections p (dget (rq_query r) ''workspace_id'')))"
| "handle S r ps Execute_Action = as_principal S r (\<lambda>p. with_body r parse_execute_request (\<lambda>x.
     answered Executed (ep_execute_action (sv_env S) (sv_encryption S) (sv_registry S) (path_param ps ''provider'')
       x (rq_client r) p (dget (rq_query r) ''workspace_id''))))"
| "handle S r ps Validate_Connection = as_principal S r (\<lambda>p.
     answered Validated (ep_validate (sv_env S) (sv_encryption S) (sv_registry S) (path_param ps ''provider'')
       p (dget (rq_query r) ''workspace_id'')))"
| "handle S r ps Disconnect_Provider = as_principal S r (\<lambda>p.
     answered Info (ep_disconnect_provider (sv_env S) (path_param ps ''provider'') p
       (dget (rq_query r) ''workspace_id'')))"
| "handle S r ps Create_Credential = as_principal S r (\<lambda>p. with_body r parse_credential_create (\<lambda>x.
     answered Credential_Answer (ep_create_credential (sv_env S) (sv_encryption S) x (rq_client r) p)))"
| "handle S r ps Update_Credential = as_principal S r (\<lambda>p. with_body r parse_credential_update (\<lambda>x.
     answered Credential_Answer (ep_update_credential (sv_env S) (sv_encryption S) (path_param ps ''provider'') x
       (rq_client r) p)))"
| "handle S r ps List_Credentials = as_principal S r (\<lambda>p. answered Credentials_Answer (ep_list_credentials p))"
| "handle S r ps Delete_Credential = as_principal S r (\<lambda>p.
     answered Info (ep_delete_credential (sv_env S) (path_param ps ''provider'') (rq_client r) p))"
| "handle S r ps Receive_Webhook =
     answered Plain (ep_receive_webhook (sv_env S) (sv_registry S) (path_param ps ''provider'') r)"
| "handle S r ps List_Events = as_principal S r (\<lambda>p.
     with_value (int_param (rq_query r) ''limit'' 50) (\<lambda>limit.
     with_value (int_param (rq_query r) ''offset'' 0) (\<lambda>offset.
       answered Events (ep_list_events (sv_env S) p (dget (rq_query r) ''provider'') limit offset))))"
| "handle S r ps Register_Webhook = as_principal S r (\<lambda>p.
     with_body r (parse_webhook_register (sv_http_url S)) (\<lambda>x.
     answered Subscription_Answer (ep_register_webhook (sv_env S) x (rq_client r) p)))"
| "handle S r ps List_Subscriptions = as_principal S r (\<lambda>p. answered Subscriptions_Answer (ep_list_subscriptions p))"
| "handle S r ps Delete_Webhook = as_principal S r (\<lambda>p.
     answered Info (ep_delete_webhook (sv_env S) (path_param ps ''webhook_id'') p))"
| "handle S r ps Redispatch_Event = as_principal S r (\<lambda>p.
     answered Info (ep_redispatch_event (sv_env S) (path_param ps ''event_id'') p))"
| "handle S r ps Admin_Integrations = as_admin S r (with_value (page_params (rq_query r)) (\<lambda>(limit, offset).
     answered Integration_Rows (ep_admin_integrations (sv_env S) limit offset (dget (rq_query r) ''provider''))))"
| "handle S r ps Admin_Webhooks = as_admin S r (with_value (page_params (rq_query r)) (\<lambda>(limit, offset).
     answered Webhook_Rows (ep_admin_webhooks (sv_env S) limit offset)))"
| "handle S r ps Admin_Logs = as_admin S r (with_value (page_params (rq_query r)) (\<lambda>(limit, offset).
     answered Audit_Rows (ep_admin_logs limit offset (dget (rq_query r) ''provider'')
       (dget (rq_query r) ''workspace_id''))))"
| "handle S r ps Admin_Stats = as_admin S r (answered Info ep_admin_stats)"

section \<open>The application\<close>

record reply =
  rp_status :: nat
  rp_headers :: "string dict"
  rp_body :: "json + answer"

definition error_reply :: "response \<Rightarrow> reply" where
  "error_reply r = \<lparr>rp_status = resp_status r, rp_headers = [], rp_body = Inl (resp_body r)\<rparr>"

definition plain_error :: "nat \<Rightarrow> string \<Rightarrow> reply" where
  "plain_error n text = \<lparr>rp_status = n, rp_headers = [], rp_body = Inl (JObj [(''detail'', JStr text)])\<rparr>"

text \<open>A \<open>RedirectResponse\<close> has the status 307.\<close>

definition answer_reply :: "answer option \<Rightarrow> reply" where
  "answer_reply a = (case a of
      None \<Rightarrow> \<lparr>rp_status = 422, rp_headers = [], rp_body = Inl (JObj [])\<rparr>
    | Some (Redirect url) \<Rightarrow> \<lparr>rp_status = 307, rp_headers = [(''location'', url)], rp_body = Inr (Redirect url)\<rparr>
    | Some x \<Rightarrow> \<lparr>rp_status = 200, rp_headers = [], rp_body = Inr x\<rparr>)"

text \<open>The segments of the path below the prefix of the API.\<close>

definition path_segments :: "env \<Rightarrow> string \<Rightarrow> string list option" where
  "path_segments E path = (let prefix = api_v1_prefix (settings_of E) @ ''/''
     in if startswith path prefix then Some (split_on (CHR ''/'') (drop (length prefix) path)) else None)"

text \<open>The registered exception handler answers every \<open>IntegrationError\<close>; the session is closed by then.\<close>

definition run_endpoint :: "answer option act \<Rightarrow> reply act" where
  "run_endpoint m = catch (bnd (get_db m) (\<lambda>a. ret (answer_reply a)))
     (\<lambda>e. case e of Integration ie \<Rightarrow> ret (error_reply (integration_error_handler ie)) | Builtin _ _ \<Rightarrow> raise e)"

definition root_info :: "env \<Rightarrow> json dict" where
  "root_info E = (let s = settings_of E in
     [(''service'', JStr (app_name s)), (''version'', JStr (app_version s)),
      (''health'', JStr (api_v1_prefix s @ ''/health'')), (''docs'', JStr ''/docs'')])"

definition dispatch_route :: "service \<Rightarrow> http_request \<Rightarrow> reply act" where
  "dispatch_route S r = (case path_segments (sv_env S) (rq_path r) of
      None \<Rightarrow> ret (if rq_path r = ''/''
         then (if rq_method r = ''GET'' then answer_reply (Some (Plain (root_info (sv_env S))))
               else plain_error 405 ''Method Not Allowed'')
         else plain_error 404 ''Not Found'')
    | Some path \<Rightarrow> (case route_request api_router (rq_method r) path of
        Routed e params \<Rightarrow> run_endpoint (handle S r params e)
      | Method_Not_Allowed \<Rightarrow> ret (plain_error 405 ''Method Not Allowed'')
      | Not_Found \<Rightarrow> ret (plain_error 404 ''Not Found'')))"

definition error_handling :: "env \<Rightarrow> reply act \<Rightarrow> reply act" where
  "error_handling E app = catch app (\<lambda>e. ret (error_reply (error_middleware (debug (settings_of E)) e)))"

definition context_middleware :: "env \<Rightarrow> http_request \<Rightarrow> reply act \<Rightarrow> reply act" where
  "context_middleware E r app =
    bnd (monotonic E) (\<lambda>start.
    bnd (fresh (uuid E)) (\<lambda>request_id.
    bnd (case header_get (rq_headers r) ''x-correlation-id'' of Some (c # cs) \<Rightarrow> ret (c # cs) | _ \<Rightarrow> fresh (uuid E))
      (\<lambda>correlation_id.
    bnd app (\<lambda>rep.
    bnd (monotonic E) (\<lambda>stop.
    thn (emit (ApiRequest (rq_path r) (rq_method r) (int (rp_status rep))))
      (ret (rep\<lparr>rp_headers := dset ''X-Correlation-Id'' correlation_id
                 (dset ''X-Request-Id'' request_id (rp_headers rep))\<rparr>)))))))"

text \<open>\<open>str(round(ms, 2))\<close> of a time that is not negative.\<close>

definition float2_text :: "rat \<Rightarrow> string" where
  "float2_text x = (let n = round_half_even (x * 100); f = n mod 100
     in show_int (n div 100) @ ''.'' @ (if f mod 10 = 0 then show_int (f div 10) else pad 2 f))"

definition add_metrics_headers :: "env \<Rightarrow> reply act \<Rightarrow> reply act" where
  "add_metrics_headers E app =
    bnd (monotonic E) (\<lambda>start.
    bnd app (\<lambda>rep.
    bnd (monotonic E) (\<lambda>stop.
      ret (rep\<lparr>rp_headers := dset ''X-Processed-In-Ms'' (float2_text ((stop - start) * 1000)) (rp_headers rep)\<rparr>))))"

definition serve :: "service \<Rightarrow> http_request \<Rightarrow> reply act" where
  "serve S r = add_metrics_headers (sv_env S) (context_middleware (sv_env S) r
     (error_handling (sv_env S) (dispatch_route S r)))"

end
