(* ===== verification/Api_Theorems.thy ===== *)
theory Api_Theorems
  imports Api_Application Signatures
begin

text \<open>
  What the HTTP interface guarantees: which endpoints a request can reach, that every request is answered
  and leaves no uncommitted row behind, that a protected endpoint does nothing without a principal, and
  what becomes of the signed events a server with lower-case header names passes on.
\<close>

section \<open>Routing\<close>

lemma routed_member:
  "route_request rs m path = Routed e ps \<Longrightarrow> \<exists>p. (m, p, e) \<in> set rs \<and> match_path p path = Some ps"
  by (induction rs m path rule: route_request.induct) (auto split: option.splits if_splits routed.splits)

lemma match_Lit: "match_path (Lit s # ps) xs = Some d \<Longrightarrow> \<exists>ys. xs = s # ys \<and> match_path ps ys = Some d"
  by (cases xs) (auto split: if_splits)

lemma match_Nil: "match_path [] xs = Some d \<Longrightarrow> xs = []"
  by (cases xs) auto

lemmas router_defs = api_router_def under_def health_routes_def oauth_routes_def integration_routes_def
  credential_routes_def webhook_routes_def admin_routes_def

lemma shadowed:
  "route_request api_router ''GET'' [''integrations'', ''connections'']
     = Routed Provider_Info [(''provider'', ''connections'')]"
  "route_request api_router ''POST'' [''webhooks'', ''register'']
     = Routed Receive_Webhook [(''provider'', ''register'')]"
  by code_simp+

lemma only_route:
  "(m, p, List_Connections) \<in> set api_router \<Longrightarrow> m = ''GET'' \<and> p = [Lit ''integrations'', Lit ''connections'']"
  "(m, p, Register_Webhook) \<in> set api_router \<Longrightarrow> m = ''POST'' \<and> p = [Lit ''webhooks'', Lit ''register'']"
  by (auto simp: router_defs)

lemma not_reached:
  "route_request api_router m path \<noteq> Routed List_Connections ps"
  "route_request api_router m path \<noteq> Routed Register_Webhook ps"
proof
  assume r: "route_request api_router m path = Routed List_Connections ps"
  from routed_member[OF this] obtain p where p: "(m, p, List_Connections) \<in> set api_router" "match_path p path = Some ps"
    by blast
  then have "m = ''GET''" "path = [''integrations'', ''connections'']"
    using only_route(1)[OF p(1)] by (auto dest!: match_Lit match_Nil)
  then show False
    using r shadowed(1) by simp
next
  show "route_request api_router m path \<noteq> Routed Register_Webhook ps"
  proof
    assume r: "route_request api_router m path = Routed Register_Webhook ps"
    from routed_member[OF this] obtain p where p: "(m, p, Register_Webhook) \<in> set api_router" "match_path p path = Some ps"
      by blast
    then have "m = ''POST''" "path = [''webhooks'', ''register'']"
      using only_route(2)[OF p(1)] by (auto dest!: match_Lit match_Nil)
    then show False
      using r shadowed(2) by simp
  qed
qed

text \<open>A request that reaches each of the others.\<close>

fun sample_path :: "endpoint \<Rightarrow> string \<times> string list" where
  "sample_path Health = (''GET'', [''health''])"
| "sample_path Health_Live = (''GET'', [''health'', ''live''])"
| "sample_path Health_Ready = (''GET'', [''health'', ''ready''])"
| "sample_path OAuth_Providers = (''GET'', [''oauth'', ''providers''])"
| "sample_path OAuth_Connect = (''GET'', [''oauth'', ''connect'', ''github''])"
| "sample_path OAuth_Callback = (''GET'', [''oauth'', ''callback'', ''github''])"
| "sample_path OAuth_Disconnect = (''POST'', [''oauth'', ''disconnect'', ''github''])"
| "sample_path List_Providers = (''GET'', [''integrations''])"
| "sample_path Provider_Info = (''GET'', [''integrations'', ''github''])"
| "sample_path Provider_Capabilities = (''GET'', [''integrations'', ''github'', ''capabilities''])"
| "sample_path List_Connections = (''GET'', [''integrations'', ''connections''])"
| "sample_path Execute_Action = (''POST'', [''integrations'', ''github'', ''execute''])"
| "sample_path Validate_Connection = (''POST'', [''integrations'', ''github'', ''validate''])"
| "sample_path Disconnect_Provider = (''POST'', [''integrations'', ''github'', ''disconnect''])"
| "sample_path Create_Credential = (''POST'', [''credentials''])"
| "sample_path Update_Credential = (''PATCH'', [''credentials'', ''github''])"
| "sample_path List_Credentials = (''GET'', [''credentials''])"
| "sample_path Delete_Credential = (''DELETE'', [''credentials'', ''github''])"
| "sample_path Receive_Webhook = (''POST'', [''webhooks'', ''github''])"
| "sample_path List_Events = (''GET'', [''webhooks'', ''events''])"
| "sample_path Register_Webhook = (''POST'', [''webhooks'', ''register''])"
| "sample_path List_Subscriptions = (''GET'', [''webhooks'', ''subscriptions''])"
| "sample_path Delete_Webhook = (''DELETE'', [''webhooks'', ''w-1''])"
| "sample_path Redispatch_Event = (''POST'', [''webhooks'', ''dispatch'', ''e-1''])"
| "sample_path Admin_Integrations = (''GET'', [''admin'', ''integrations''])"
| "sample_path Admin_Webhooks = (''GET'', [''admin'', ''webhooks''])"
| "sample_path Admin_Logs = (''GET'', [''admin'', ''logs''])"
| "sample_path Admin_Stats = (''GET'', [''admin'', ''stats''])"

definition reaches :: "routed \<Rightarrow> endpoint \<Rightarrow> bool" where
  "reaches r e \<longleftrightarrow> (case r of Routed e' _ \<Rightarrow> e' = e | _ \<Rightarrow> False)"

lemma sample_reaches:
  assumes "e \<noteq> List_Connections" and "e \<noteq> Register_Webhook"
  shows "reaches (route_request api_router (fst (sample_path e)) (snd (sample_path e))) e"
  using assms by (cases e; simp only: simp_thms; code_simp)

text \<open>Two endpoints are unreachable, every other one is reached by some request: a GET of \<open>connections\<close> below
  \<open>integrations\<close> is taken as the information of a provider with that name, and a POST to \<open>register\<close>
  below \<open>webhooks\<close> as an event received from one, because those routes are registered first. So no
  connection can be listed and no webhook subscription registered over the interface.\<close>

theorem reachable_endpoints:
  "(\<exists>m path ps. route_request api_router m path = Routed e ps) \<longleftrightarrow> e \<noteq> List_Connections \<and> e \<noteq> Register_Webhook"
proof
  assume "\<exists>m path ps. route_request api_router m path = Routed e ps"
  then show "e \<noteq> List_Connections \<and> e \<noteq> Register_Webhook"
    using not_reached by blast
next
  assume "e \<noteq> List_Connections \<and> e \<noteq> Register_Webhook"
  then have "reaches (route_request api_router (fst (sample_path e)) (snd (sample_path e))) e"
    using sample_reaches by blast
  then show "\<exists>m path ps. route_request api_router m path = Routed e ps"
    by (auto simp: reaches_def split: routed.splits)
qed

section \<open>Every request is answered\<close>

definition clean :: "world \<Rightarrow> bool" where
  "clean w \<longleftrightarrow> db w = committed w"

lemma get_db_clean: "clean (snd (get_db m w))"
  by (simp add: get_db_def with_session_def clean_def thn_def bnd_def ensure_def rollback_def modify_def
      split: prod.splits sum.splits)

lemma run_endpoint_outcome:
  "case run_endpoint m w of
     (Inr rep, w') \<Rightarrow> clean w' \<and> (rp_status rep \<in> {200, 307, 422} \<or> (\<exists>c. rp_status rep = status_code c))
   | (Inl e, w') \<Rightarrow> clean w'"
  using get_db_clean[of m w]
  by (auto simp: run_endpoint_def catch_def bnd_def ret_def raise_def answer_reply_def error_reply_def
      integration_error_handler_def split: prod.splits sum.splits exn.splits option.splits answer.splits)

text \<open>The statuses the application answers with.\<close>

definition app_statuses :: "nat set" where
  "app_statuses = {200, 307, 404, 405, 422, 500} \<union> range status_code"

lemma error_handled:
  assumes "clean w"
  shows "\<exists>rep w'. error_handling E (dispatch_route S r) w = (Inr rep, w') \<and> clean w' \<and> rp_status rep \<in> app_statuses"
proof -
  have e: "rp_status (error_reply (error_middleware b e)) \<in> app_statuses" for b e
    by (cases e) (auto simp: error_middleware_def error_reply_def app_statuses_def)
  have p: "rp_status (plain_error 404 t) \<in> app_statuses" "rp_status (plain_error 405 t) \<in> app_statuses"
    "rp_status (answer_reply (Some (Plain d))) \<in> app_statuses" for t d
    by (auto simp: plain_error_def answer_reply_def app_statuses_def)
  have "case dispatch_route S r w of
     (Inr rep, w') \<Rightarrow> clean w' \<and> rp_status rep \<in> app_statuses
   | (Inl e, w') \<Rightarrow> clean w'"
  proof (cases "path_segments (sv_env S) (rq_path r)")
    case None
    then show ?thesis
      using assms p by (simp add: dispatch_route_def ret_def)
  next
    case (Some path)
    show ?thesis
    proof (cases "route_request api_router (rq_method r) path")
      case (Routed e params)
      have "dispatch_route S r = run_endpoint (handle S r params e)"
        by (simp add: dispatch_route_def Some Routed)
      then show ?thesis
        using run_endpoint_outcome[of "handle S r params e" w] by (auto simp: app_statuses_def split: prod.splits sum.splits)
    qed (use assms p Some in \<open>simp_all add: dispatch_route_def ret_def\<close>)
  qed
  then show ?thesis
    using e by (auto simp: error_handling_def catch_def ret_def split: prod.splits sum.splits)
qed

lemma correlation_id:
  "\<exists>cid k. (case h of Some (c # cs) \<Rightarrow> ret (c # cs) | _ \<Rightarrow> fresh (uuid E)) (w\<lparr>ticks := n, entropy := m\<rparr>)
     = (Inr cid, w\<lparr>ticks := n, entropy := k\<rparr>)"
  by (cases h rule: option.exhaust; cases "case h of Some cs \<Rightarrow> cs | None \<Rightarrow> []") (auto simp: fresh_def ret_def)

text \<open>What the two outer middlewares add.\<close>

lemma outer_middlewares:
  assumes "\<And>n m. \<exists>rep w'. app (w\<lparr>ticks := n, entropy := m\<rparr>) = (Inr rep, w') \<and> P rep w'"
    and "\<And>rep u w' n ms. P rep w' \<Longrightarrow> Q (rep\<lparr>rp_headers := u\<rparr>) (w'\<lparr>ticks := n, metrics := ms\<rparr>)"
  shows "\<exists>rep w'. add_metrics_headers E (context_middleware E r app) w = (Inr rep, w') \<and> Q rep w'
    \<and> dget (rp_headers rep) ''X-Request-Id'' = Some (uuid E (entropy w))"
proof -
  let ?c = "case header_get (rq_headers r) ''x-correlation-id'' of Some (c # cs) \<Rightarrow> ret (c # cs) | _ \<Rightarrow> fresh (uuid E)"
  obtain cid k where c: "?c (w\<lparr>ticks := ticks w + 2, entropy := entropy w + 1\<rparr>)
      = (Inr cid, w\<lparr>ticks := ticks w + 2, entropy := k\<rparr>)"
    using correlation_id by blast
  obtain rep w' where a: "app (w\<lparr>ticks := ticks w + 2, entropy := k\<rparr>) = (Inr rep, w')" "P rep w'"
    using assms(1) by blast
  let ?h = "dset ''X-Correlation-Id'' cid (dset ''X-Request-Id'' (uuid E (entropy w)) (rp_headers rep))"
  let ?w = "w'\<lparr>ticks := ticks w' + 2, metrics := metrics w' @ [ApiRequest (rq_path r) (rq_method r) (int (rp_status rep))]\<rparr>"
  have x: "context_middleware E r app (w\<lparr>ticks := ticks w + 1\<rparr>) = (Inr (rep\<lparr>rp_headers := ?h\<rparr>),
      w'\<lparr>ticks := ticks w' + 1, metrics := metrics w' @ [ApiRequest (rq_path r) (rq_method r) (int (rp_status rep))]\<rparr>)"
    using c a by (simp add: context_middleware_def monotonic_def bnd_def now_utc_def ret_def fresh_def thn_def emit_def
        modify_def)
  have "\<exists>u. add_metrics_headers E (context_middleware E r app) w = (Inr (rep\<lparr>rp_headers := u\<rparr>), ?w)
      \<and> dget u ''X-Request-Id'' = Some (uuid E (entropy w))"
    by (simp add: add_metrics_headers_def monotonic_def bnd_def now_utc_def ret_def x[simplified])
      (intro exI conjI, rule refl, simp)
  then show ?thesis
    using assms(2)[OF a(2)] by fastforce
qed

text \<open>C10: Every request is answered: whatever the method, path, headers, body and token, and whatever the handler
  raises, the application returns a response with the identifier of the request and a status of its own,
  never an exception, and the session it leaves has no uncommitted change.\<close>

theorem requests_always_answered:
  assumes "committed w = db w"
  shows "\<exists>rep w'. serve S r w = (Inr rep, w') \<and> rp_status rep \<in> app_statuses \<and> db w' = committed w'
    \<and> dget (rp_headers rep) ''X-Request-Id'' = Some (uuid (sv_env S) (entropy w))"
proof -
  let ?P = "\<lambda>rep w'. clean w' \<and> rp_status rep \<in> app_statuses"
  have "\<exists>rep w'. add_metrics_headers (sv_env S) (context_middleware (sv_env S) r
        (error_handling (sv_env S) (dispatch_route S r))) w = (Inr rep, w') \<and> ?P rep w'
      \<and> dget (rp_headers rep) ''X-Request-Id'' = Some (uuid (sv_env S) (entropy w))"
  proof (rule outer_middlewares[where P = ?P])
    show "\<exists>rep w'. error_handling (sv_env S) (dispatch_route S r) (w\<lparr>ticks := n, entropy := k\<rparr>) = (Inr rep, w')
        \<and> ?P rep w'" for n k
      by (rule error_handled) (simp add: clean_def assms)
  qed (simp add: clean_def)
  then show ?thesis
    by (auto simp: serve_def clean_def)
qed

section \<open>Protected endpoints\<close>

fun protected :: "endpoint \<Rightarrow> bool" where
  "protected Health = False"
| "protected Health_Live = False"
| "protected Health_Ready = False"
| "protected OAuth_Providers = False"
| "protected OAuth_Connect = False"
| "protected OAuth_Callback = False"
| "protected List_Providers = False"
| "protected Provider_Info = False"
| "protected Provider_Capabilities = False"
| "protected Receive_Webhook = False"
| "protected _ = True"

text \<open>Nothing but the clock, the identifiers and the metrics has moved.\<close>

definition untouched :: "world \<Rightarrow> world \<Rightarrow> bool" where
  "untouched w w' \<longleftrightarrow> db w' = db w \<and> committed w' = committed w \<and> sent w' = sent w \<and> redis w' = redis w
     \<and> breakers w' = breakers w"

lemma get_principal_frame: "\<exists>n. snd (get_principal E b w) = w\<lparr>ticks := n\<rparr>"
proof (cases b)
  case None
  then have "snd (get_principal E b w) = w\<lparr>ticks := ticks w\<rparr>"
    by (cases w) (simp add: get_principal_def raise_def)
  then show ?thesis ..
next
  case (Some t)
  have "snd (get_principal E b w) = w\<lparr>ticks := ticks w + 1\<rparr>"
    by (auto simp: Some get_principal_def decode_token_def bnd_def now_utc_def Let_def raise_def ret_def lift_def
        split: sum.splits exn.splits builtin.splits option.splits prod.splits)
  then show ?thesis ..
qed

lemma refused_handler:
  assumes "protected e" and "\<forall>w. fst (get_principal (sv_env S) (rq_bearer r) w) = Inl x"
  shows "\<exists>n. handle S r ps e w = (Inl x, w\<lparr>ticks := n\<rparr>)"
proof -
  obtain n where "get_principal (sv_env S) (rq_bearer r) w = (Inl x, w\<lparr>ticks := n\<rparr>)"
    using get_principal_frame[of "sv_env S" "rq_bearer r" w] assms(2) by (metis prod.collapse)
  then have p: "as_principal S r f w = (Inl x, w\<lparr>ticks := n\<rparr>)" "as_admin S r m w = (Inl x, w\<lparr>ticks := n\<rparr>)" for f m
    by (simp_all add: as_principal_def as_admin_def require_admin_def bnd_def)
  show ?thesis
    using assms(1) by (cases e) (simp_all only: protected.simps handle.simps p, auto)
qed


section \<open>Signed events behind a server\<close>

lemma lower_idem: "lower (lower s) = lower s"
proof -
  have "list_all (\<lambda>c. lower_char (lower_char c) = lower_char c) Enum.enum"
    by code_simp
  then have "lower_char (lower_char c) = lower_char c" for c
    by (simp add: list_all_iff enum_UNIV)
  then show ?thesis
    by (simp add: lower_def)
qed

lemma keys_dupdate: "set (dkeys (dupdate d e)) \<subseteq> set (dkeys d) \<union> set (dkeys e)"
  by (induction d e rule: dupdate.induct) (auto simp: dom_update)

lemma lower_header_dict: "lower_names (header_dict hs)"
proof -
  have "set (dkeys (header_dict hs)) \<subseteq> lower ` fst ` set hs"
    using keys_dupdate[of "[]" "map (\<lambda>(k, v). (lower k, v)) hs"]
    by (force simp: header_dict_def image_iff split: prod.splits)
  then show ?thesis
    by (auto simp: lower_names_def lower_idem)
qed

text \<open>C40: No event of GitHub, Jira, Twilio or HubSpot is ever received: whatever the headers and the body of the
  request, and however it is signed, the handler refuses it with \<open>WebhookVerificationFailed\<close> and changes
  nothing, because the headers are handed to the scheme as a dictionary with lower-case names and it looks up
  capitalised ones.\<close>

theorem signed_events_never_received:
  assumes "registry_get reg provider = Inr cls" and "supports_webhooks cls"
    and "verify cls \<in> {Some github_verify, Some jira_verify, Some twilio_verify, Some hubspot_verify}"
  shows "\<exists>ie. ep_receive_webhook E reg provider r w = (Inl (Integration ie), w)
    \<and> err_class ie = WebhookVerificationFailed"
proof -
  have v: "verify cls = Some f \<Longrightarrow> f (settings_of E) (crypto_of E) (header_dict (rq_headers r)) payload = Inr False"
    for f payload
    using assms(3) capital_headers_refused[OF lower_header_dict, of "settings_of E" "crypto_of E" "rq_headers r" payload]
    by auto
  obtain f where f: "verify cls = Some f"
    using assms(3) by auto
  have refused: "verify_and_store E reg provider ws (header_dict (rq_headers r)) payload w
      = (Inl (bad_signature (provider_key cls)), w)" for ws payload
    by (simp add: verify_and_store_def assms(1,2) bnd_lift_Inr assert_signature_def f v[OF f])
      (simp add: bnd_def lift_def)
  show ?thesis
    unfolding ep_receive_webhook_def
    by (cases "webhook_payload provider (rq_body r)"; cases "webhook_workspace provider (rq_headers r)")
      (auto simp: bnd_def lift_def refused bad_signature_def webhook_payload_def webhook_workspace_def error1_def
        split: option.splits json.splits list.splits)
qed

section \<open>Observations\<close>

text \<open>
  The \<open>workspace_id\<close> of the query wins over the workspace of the token, which is not compared with it: any
  principal acts in any workspace.
\<close>

theorem workspace_parameter_wins:
  assumes "ws \<noteq> []" and "p' = p\<lparr>principal_workspace := other\<rparr>"
  shows "ep_execute_action E svc reg provider r client p' (Some ws) = ep_execute_action E svc reg provider r client p (Some ws)
    \<and> ep_disconnect_provider E provider p' (Some ws) = ep_disconnect_provider E provider p (Some ws)
    \<and> ep_list_connections p' (Some ws) = ep_list_connections p (Some ws)"
  using assms by (cases ws) (simp_all add: ep_execute_action_def ep_disconnect_provider_def ep_list_connections_def
      ws_id_of_def)

text \<open>The health endpoint reports the database down also when it answers, and so never says \<open>ok\<close>.\<close>

theorem health_never_ok:
  "\<exists>h w'. ep_health E started db_down w = (Inr h, w')
    \<and> hr_status h = (if is_production (settings_of E) then ''down'' else ''degraded'')
    \<and> map ch_status (take 1 (hr_components h)) = [''down'']"
proof -
  have p: "\<exists>ok w'. ping_redis E u = (Inr ok, w')" for u
    by (auto simp: ping_redis_def catch_def redis_call_def ret_def split: option.splits)
  obtain ok w' where r: "ping_redis E (w\<lparr>ticks := Suc (Suc (ticks w))\<rparr>) = (Inr ok, w')"
    using p by blast
  show ?thesis
    by (simp add: ep_health_def monotonic_def bnd_def now_utc_def ret_def probe_database_def catch_def raise_def r)
qed

text \<open>The admin views of connections and of subscriptions fail as soon as there is a row to show.\<close>

lemma admin_row_fails: "rows \<noteq> [] \<Longrightarrow> \<exists>e. for_each rows (\<lambda>c. lift (admin_integration_row c)) w = (Inl e, w)"
  by (cases rows) (simp_all add: admin_integration_row_def bnd_def lift_def)

theorem admin_rows_fail:
  assumes "valid_page limit offset" and "offset < int (length (connections (db w)))"
  shows "\<exists>e. ep_admin_integrations E limit offset None w = (Inl e, w)"
proof -
  let ?rows = "take (nat limit) (drop (nat offset) (newest_first conn_created_at (connections (db w))))"
  have "?rows \<noteq> []"
    using assms by (auto simp: valid_page_def newest_first_def)
  from admin_row_fails[OF this, of w] obtain e where
      e: "for_each ?rows (\<lambda>c. lift (admin_integration_row c)) w = (Inl e, w)" ..
  have "page_of E offset limit rows = ret (take (nat limit) (drop (nat offset) rows))" for rows :: "connection list"
    using assms(1) by (auto simp: page_of_def valid_page_def Let_def)
  then show ?thesis
    by (simp add: ep_admin_integrations_def select_def gets_def bnd_def ret_def e)
qed

section \<open>Concrete instances\<close>

definition sample_request :: "string \<Rightarrow> string \<Rightarrow> http_request" where
  "sample_request m path = \<lparr>rq_method = m, rq_path = path, rq_query = [], rq_bearer = None,
     rq_client = Some ''10.0.0.1'', rq_headers = [(''X-Hub-Signature-256'', ''sha256=00''), (''X-Workspace-Id'', ''ws-1'')],
     rq_body = ''{}''\<rparr>"

definition sample_sv :: service where
  "sample_sv = \<lparr>sv_env = sample_env, sv_encryption = sample_service, sv_registry = sample_registry,
     sv_started = 0, sv_db_down = False, sv_http_url = Some\<rparr>"

lemma sample_path_segments:
  "path_segments sample_env ''/api/v1/admin/stats'' = Some [''admin'', ''stats'']"
  by (simp add: path_segments_def default_settings_def split_on.simps)

theorem requests_always_answered_witness:
  "\<exists>rep w'. serve sample_sv (sample_request ''GET'' ''/api/v1/health'') sample_world = (Inr rep, w')
    \<and> rp_status rep \<in> app_statuses"
  using requests_always_answered[of sample_world sample_sv "sample_request ''GET'' ''/api/v1/health''"] by auto


theorem signed_events_never_received_witness:
  "\<exists>ie. ep_receive_webhook sample_env [(''github'', sample_class\<lparr>verify := Some github_verify\<rparr>)] ''github''
      (sample_request ''POST'' ''/api/v1/webhooks/github'') sample_world = (Inl (Integration ie), sample_world)"
proof -
  have "registry_get [(''github'', sample_class\<lparr>verify := Some github_verify\<rparr>)] ''github''
      = Inr (sample_class\<lparr>verify := Some github_verify\<rparr>)" "supports_webhooks (sample_class\<lparr>verify := Some github_verify\<rparr>)"
    by (simp_all add: registry_get_def sample_class_def)
  from signed_events_never_received[OF this, of sample_env "sample_request ''POST'' ''/api/v1/webhooks/github''" sample_world]
  show ?thesis
    by auto
qed

end
