(* ===== verification/Provider_Actions.thy ===== *)
theory Provider_Actions
  imports Provider_Base Signatures
begin

text \<open>
  How the methods marked with \<open>@action\<close> run. \<open>execute_action\<close> calls the method with the payload as
  keyword arguments; \<open>bind_args\<close> is that call, by the signature of the method. A value of the
  payload is a JSON value, since it comes from the body of a request, and the operations the methods
  apply to it are those of Python on such values: formatting, truth, \<open>get\<close>, \<open>in\<close>, iteration.

  The methods of a provider take \<open>self\<close>: the class whose attributes they read, its retry driver,
  the context of the connection and the environment. \<open>send_call\<close> is \<open>self._request\<close>, and
  \<open>http_get\<close>, \<open>http_post\<close> and so on its wrappers; the requests are those of \<open>Provider_Base\<close>, with the
  breaker, the retries and the checks of the response. \<open>provider_of\<close> puts the attributes, the
  actions, \<open>validate_connection\<close> and \<open>health\<close> of a class together.
\<close>

section \<open>Methods and their arguments\<close>

record self =
  env_of :: env
  retrying_of :: retrying
  class_of :: provider_class
  context_of :: "provider_context option"

text \<open>A method without and one with a \<open>**kwargs\<close> parameter, whose entries are its last argument.\<close>

datatype action_method =
    Method "self \<Rightarrow> json dict \<Rightarrow> json act"
  | Method_Kw "self \<Rightarrow> json dict \<Rightarrow> json dict \<Rightarrow> json act"

record action_spec =
  required :: "string list"
  optional :: "json dict"
  run_method :: action_method

fun takes_keywords :: "action_method \<Rightarrow> bool" where
  "takes_keywords (Method _) = False"
| "takes_keywords (Method_Kw _) = True"

definition parameters :: "action_spec \<Rightarrow> string list" where
  "parameters sp = required sp @ dkeys (optional sp)"

text \<open>\<open>handler(**payload)\<close>: the named arguments, with the defaults, and the remaining entries.\<close>

definition bind_named ::
    "string list \<Rightarrow> json dict \<Rightarrow> bool \<Rightarrow> json dict \<Rightarrow> exn + (json dict \<times> json dict)" where
  "bind_named req opt keywords payload =
    (let extra = filter (\<lambda>(k, _). k \<notin> set (req @ dkeys opt)) payload
     in if has_key payload ''self'' then Inl (Builtin TypeError ''got multiple values for argument self'')
        else if extra \<noteq> [] \<and> \<not> keywords
        then Inl (Builtin TypeError ''got an unexpected keyword argument'')
        else if filter (\<lambda>k. \<not> has_key payload k) req \<noteq> []
        then Inl (Builtin TypeError ''missing required positional arguments'')
        else Inr (map (\<lambda>k. (k, jget payload k)) req @ map (\<lambda>(k, d). (k, jget_or payload k d)) opt, extra))"

definition bind_args :: "action_spec \<Rightarrow> json dict \<Rightarrow> exn + (json dict \<times> json dict)" where
  "bind_args sp payload =
     bind_named (required sp) (optional sp) (takes_keywords (run_method sp)) payload"

definition run_action_spec :: "action_spec \<Rightarrow> self \<Rightarrow> json dict \<Rightarrow> json act" where
  "run_action_spec sp s payload = bnd (lift (bind_args sp payload)) (\<lambda>(a, kw).
     case run_method sp of Method f \<Rightarrow> f s a | Method_Kw f \<Rightarrow> f s a kw)"

abbreviation spec :: "string list \<Rightarrow> json dict \<Rightarrow> (self \<Rightarrow> json dict \<Rightarrow> json act) \<Rightarrow> action_spec" where
  "spec req opt f \<equiv> \<lparr>required = req, optional = opt, run_method = Method f\<rparr>"

abbreviation spec_kw ::
    "string list \<Rightarrow> json dict \<Rightarrow> (self \<Rightarrow> json dict \<Rightarrow> json dict \<Rightarrow> json act) \<Rightarrow> action_spec" where
  "spec_kw req opt f \<equiv> \<lparr>required = req, optional = opt, run_method = Method_Kw f\<rparr>"

section \<open>Operations on JSON values\<close>

text \<open>An f-string's \<open>{x}\<close>.\<close>

abbreviation text_of :: "json dict \<Rightarrow> string \<Rightarrow> string" where
  "text_of a k \<equiv> py_str (jget a k)"

text \<open>\<open>if v is not None: d[k] = v\<close> and \<open>if v: d[k] = v\<close>.\<close>

definition put_given :: "string \<Rightarrow> json \<Rightarrow> json dict \<Rightarrow> json dict" where
  "put_given k v d = (if v = JNull then d else dset k v d)"

definition put_truthy :: "string \<Rightarrow> json \<Rightarrow> json dict \<Rightarrow> json dict" where
  "put_truthy k v d = (if truthy v then dset k v d else d)"

fun py_type :: "json \<Rightarrow> string" where
  "py_type JNull = ''NoneType''"
| "py_type (JBool _) = ''bool''"
| "py_type (JInt _) = ''int''"
| "py_type (JStr _) = ''str''"
| "py_type (JArr _) = ''list''"
| "py_type (JObj _) = ''dict''"

definition attribute_error :: "json \<Rightarrow> string \<Rightarrow> exn" where
  "attribute_error v name = no_attribute (py_type v) name"

text \<open>\<open>v.get(k, d)\<close>, \<open>v[k]\<close>, \<open>k in v\<close>, iteration over \<open>v\<close>, \<open>v.items()\<close> and the methods of \<open>str\<close>.\<close>

definition py_get :: "json \<Rightarrow> string \<Rightarrow> json \<Rightarrow> exn + json" where
  "py_get v k d = (case v of JObj o1 \<Rightarrow> Inr (jget_or o1 k d) | _ \<Rightarrow> Inl (attribute_error v ''get''))"

definition py_item :: "json \<Rightarrow> string \<Rightarrow> exn + json" where
  "py_item v k = (case v of
      JObj o1 \<Rightarrow> (case dget o1 k of Some x \<Rightarrow> Inr x | None \<Rightarrow> Inl (Builtin KeyError (repr_str k)))
    | _ \<Rightarrow> Inl (Builtin TypeError []))"

definition py_in :: "string \<Rightarrow> json \<Rightarrow> exn + bool" where
  "py_in k v = (case v of
      JObj o1 \<Rightarrow> Inr (has_key o1 k)
    | JArr xs \<Rightarrow> Inr (JStr k \<in> set xs)
    | JStr s \<Rightarrow> Inr (contains s k)
    | _ \<Rightarrow> Inl (Builtin TypeError []))"

definition py_iter :: "json \<Rightarrow> exn + json list" where
  "py_iter v = (case v of
      JArr xs \<Rightarrow> Inr xs
    | JObj o1 \<Rightarrow> Inr (map JStr (dkeys o1))
    | JStr s \<Rightarrow> Inr (map (\<lambda>c. JStr [c]) s)
    | _ \<Rightarrow> Inl (Builtin TypeError []))"

definition py_items :: "json \<Rightarrow> exn + json dict" where
  "py_items v = (case v of JObj o1 \<Rightarrow> Inr o1 | _ \<Rightarrow> Inl (attribute_error v ''items''))"

definition py_len :: "json \<Rightarrow> exn + int" where
  "py_len v = (case v of
      JArr xs \<Rightarrow> Inr (int (length xs))
    | JObj o1 \<Rightarrow> Inr (int (length o1))
    | JStr s \<Rightarrow> Inr (int (length s))
    | _ \<Rightarrow> Inl (Builtin TypeError []))"

definition py_string :: "string \<Rightarrow> json \<Rightarrow> exn + string" where
  "py_string name v = (case v of JStr s \<Rightarrow> Inr s | _ \<Rightarrow> Inl (attribute_error v name))"

text \<open>\<open>s.rstrip("/")\<close> and \<open>urllib.parse.quote(s)\<close>, whose result is ASCII (UTF-8, percent-encoded).\<close>

definition rstrip_slash :: "string \<Rightarrow> string" where
  "rstrip_slash = strip_while (\<lambda>c. c = CHR ''/'')"

definition url_safe :: "char \<Rightarrow> bool" where
  "url_safe c \<longleftrightarrow> is_alpha c \<or> is_digit c \<or> c \<in> set ''_.-~/''"

definition upper_hex :: "nat \<Rightarrow> string" where
  "upper_hex n = ''%'' @ upper [hex_digit (n div 16), hex_digit (n mod 16)]"

definition utf8 :: "char \<Rightarrow> nat list" where
  "utf8 c = (let n = of_char c in if n < 128 then [n] else [192 + n div 64, 128 + n mod 64])"

definition quote_char :: "char \<Rightarrow> string" where
  "quote_char c = (if url_safe c then [c] else concat (map upper_hex (utf8 c)))"

definition quote_url :: "json \<Rightarrow> exn + string" where
  "quote_url v = (case v of JStr s \<Rightarrow> Inr (concat (map quote_char s)) | _ \<Rightarrow> Inl (Builtin TypeError []))"

text \<open>The bytes of \<open>s.encode()\<close>, \<open>base64.b64encode\<close>, which is the encoding of \<open>Base64\<close> in the standard
  alphabet, and the header of the \<open>Basic\<close> scheme.\<close>

definition utf8_bytes :: "string \<Rightarrow> string" where
  "utf8_bytes s = concat (map (\<lambda>c. map char_of (utf8 c)) s)"

definition std_alphabet :: "char \<Rightarrow> char" where
  "std_alphabet c = (if c = CHR ''-'' then CHR ''+'' else if c = CHR ''_'' then CHR ''/'' else c)"

definition b64_standard :: "string \<Rightarrow> string" where
  "b64_standard s = map std_alphabet (b64encode s)"

definition basic_scheme :: "json \<Rightarrow> json \<Rightarrow> string" where
  "basic_scheme user password =
     ''Basic '' @ b64_standard (utf8_bytes (py_str user @ '':'' @ py_str password))"

section \<open>Requests of a method\<close>

text \<open>\<open>self.context.credentials.get(k, d) if self.context else d\<close>.\<close>

definition ctx_credential :: "provider_context option \<Rightarrow> string \<Rightarrow> json \<Rightarrow> json" where
  "ctx_credential ctx k d = (case ctx of None \<Rightarrow> d | Some c \<Rightarrow> jget_or (ctx_credentials c) k d)"

abbreviation credential_of :: "self \<Rightarrow> string \<Rightarrow> json \<Rightarrow> json" where
  "credential_of s \<equiv> ctx_credential (context_of s)"

definition bearer :: "string \<Rightarrow> provider_context option \<Rightarrow> string" where
  "bearer k ctx = ''Bearer '' @ py_str (ctx_credential ctx k (JStr []))"

definition api_call :: "string \<Rightarrow> string \<Rightarrow> call" where
  "api_call meth url = \<lparr>call_method = meth, call_url = url, call_params = [], call_body = NoBody,
     call_headers = [], call_allowed = [], call_retry = True\<rparr>"

definition send_call :: "self \<Rightarrow> call \<Rightarrow> http_response act" where
  "send_call s c = provider_request (env_of s) (retrying_of s) (class_of s) (context_of s) c"

definition http_get :: "self \<Rightarrow> string \<Rightarrow> json dict \<Rightarrow> http_response act" where
  "http_get s url params = send_call s ((api_call ''GET'' url)\<lparr>call_params := params\<rparr>)"

definition http_post :: "self \<Rightarrow> string \<Rightarrow> body \<Rightarrow> http_response act" where
  "http_post s url b = send_call s ((api_call ''POST'' url)\<lparr>call_body := b\<rparr>)"

definition http_patch :: "self \<Rightarrow> string \<Rightarrow> body \<Rightarrow> http_response act" where
  "http_patch s url b = send_call s ((api_call ''PATCH'' url)\<lparr>call_body := b\<rparr>)"

definition http_put :: "self \<Rightarrow> string \<Rightarrow> body \<Rightarrow> http_response act" where
  "http_put s url b = send_call s ((api_call ''PUT'' url)\<lparr>call_body := b\<rparr>)"

definition http_delete :: "self \<Rightarrow> string \<Rightarrow> json dict \<Rightarrow> http_response act" where
  "http_delete s url params = send_call s ((api_call ''DELETE'' url)\<lparr>call_params := params\<rparr>)"

text \<open>\<open>resp = await ...; return resp.json()\<close>.\<close>

definition json_of :: "http_response act \<Rightarrow> json act" where
  "json_of m = bnd m (\<lambda>resp. lift (http_json resp))"

text \<open>\<open>try: return healthy(...) except Exception as exc: return down({"error": str(exc)})\<close>.\<close>

definition or_down :: "provider_health act \<Rightarrow> provider_health act" where
  "or_down m = catch m (\<lambda>e. ret (down [(''error'', JStr (exn_text e))]))"

definition healthy_with :: "json dict \<Rightarrow> provider_health" where
  "healthy_with detail = \<lparr>health_status = Ok_Health, health_detail = detail\<rparr>"

text \<open>The health of several providers: \<open>validate_connection\<close>, and a reason when it is false.\<close>

definition health_by :: "(self \<Rightarrow> bool act) \<Rightarrow> string \<Rightarrow> self \<Rightarrow> provider_health act" where
  "health_by probe reason s = or_down (bnd (probe s) (\<lambda>valid.
     ret (if valid then healthy else down [(''reason'', JStr reason)])))"

section \<open>Classes\<close>

text \<open>The attributes of \<open>BaseIntegrationProvider\<close>, which a class overrides.\<close>

definition base_class :: provider_class where
  "base_class = \<lparr>provider_key = [], provider_name = [], description = [], auth_type = ''oauth2'',
     default_scopes = FieldSpec, capabilities = [], base_url = [], timeout = 30,
     retry_policy_attr = FieldSpec, supports_webhooks = False, oauth_authorize_url = [],
     oauth_token_url = [], oauth_revoke_url = [], oauth_scopes = FieldSpec, oauth_pkce = True,
     oauth_token_header_auth = True, verify = None, auth_headers = (\<lambda>_ _. []), actions = [],
     validate = (\<lambda>_ _. ret False), own_health = None\<rparr>"

type_synonym action_table = "action_spec dict"

record provider_code =
  attributes :: provider_class
  action_table :: action_table
  probe :: "self \<Rightarrow> bool act"
  probe_health :: "self \<Rightarrow> provider_health act"

definition self_of :: "retrying \<Rightarrow> provider_class \<Rightarrow> env \<Rightarrow> provider_context option \<Rightarrow> self" where
  "self_of retrying cls E ctx =
     \<lparr>env_of = E, retrying_of = retrying, class_of = cls, context_of = ctx\<rparr>"

definition provider_of :: "retrying \<Rightarrow> provider_code \<Rightarrow> provider_class" where
  "provider_of retrying code = (let cls = attributes code in cls\<lparr>
     actions := map (\<lambda>(name, sp). (name, \<lambda>E ctx. run_action_spec sp (self_of retrying cls E ctx)))
       (action_table code),
     validate := (\<lambda>E ctx. probe code (self_of retrying cls E ctx)),
     own_health := Some (\<lambda>E ctx. probe_health code (self_of retrying cls E ctx))\<rparr>)"

end
