(* ===== verification/Provider_Shapes.thy ===== *)
theory Provider_Shapes
  imports Provider_Actions
begin

text \<open>
  The shape of an action of an HTTP provider. \<open>requests_only C s m\<close>: all \<open>m\<close> sends are calls of \<open>s\<close>
  that satisfy \<open>C\<close>, made with the headers of its class. \<open>requests_first C s m\<close>: moreover \<open>m\<close> does
  nothing and returns nothing before it has made a call with retries. The rules follow the structure
  of a method, so that the shape of an action is one application of them.
\<close>

section \<open>The shape of an action\<close>

text \<open>\<open>runs_only retrying\<close>: the retry driver does nothing to the world but run the function it is given,
  as tenacity documents it, so that it keeps what the function keeps.\<close>

definition runs_only :: "retrying \<Rightarrow> bool" where
  "runs_only retrying \<longleftrightarrow> (\<forall>p I f. keeps I f \<longrightarrow> keeps I (retrying p f))"

text \<open>The requests sent after \<open>h\<close> are calls of \<open>s\<close> that satisfy \<open>C\<close>.\<close>

definition calls_after :: "(call \<Rightarrow> bool) \<Rightarrow> self \<Rightarrow> request list \<Rightarrow> world \<Rightarrow> bool" where
  "calls_after C s h w \<longleftrightarrow> (\<exists>cs. list_all C cs
     \<and> sent w = h @ map (request_of (env_of s) (class_of s) (context_of s)) cs)"

definition requests_only :: "(call \<Rightarrow> bool) \<Rightarrow> self \<Rightarrow> 'a act \<Rightarrow> bool" where
  "requests_only C s m \<longleftrightarrow> (runs_only (retrying_of s) \<longrightarrow> (\<forall>h. keeps (calls_after C s h) m))"

text \<open>\<open>barren m\<close>: \<open>m\<close> fails, and has sent nothing.\<close>

definition barren :: "'a act \<Rightarrow> bool" where
  "barren m \<longleftrightarrow> (\<forall>w. \<exists>e w'. m w = (Inl e, w') \<and> sent w' = sent w)"

definition requests_first :: "(call \<Rightarrow> bool) \<Rightarrow> self \<Rightarrow> 'a act \<Rightarrow> bool" where
  "requests_first C s m \<longleftrightarrow> requests_only C s m
     \<and> (retry_policy_attr (class_of s) = FieldSpec \<longrightarrow> barren m)"

named_theorems only_rules \<open>introduction rules for \<open>requests_only\<close>\<close>
named_theorems first_rules \<open>introduction rules for \<open>requests_first\<close>\<close>

lemma keeps_calls_frame:
  "(\<And>w r w'. m w = (r, w') \<Longrightarrow> sent w' = sent w) \<Longrightarrow> keeps (calls_after C s h) m"
  unfolding keeps_def calls_after_def by (metis prod.collapse)

lemma only_plain [only_rules]:
  "requests_only C s (ret x)" "requests_only C s (raise e)" "requests_only C s (lift r)"
  by (simp_all add: requests_only_def keeps_ret keeps_raise keeps_lift)

lemma only_bnd [only_rules]:
  "requests_only C s m \<Longrightarrow> (\<And>x. requests_only C s (f x)) \<Longrightarrow> requests_only C s (bnd m f)"
  by (simp add: requests_only_def keeps_bnd)

lemma only_catch [only_rules]:
  "requests_only C s m \<Longrightarrow> (\<And>e. requests_only C s (f e)) \<Longrightarrow> requests_only C s (catch m f)"
  by (simp add: requests_only_def keeps_catch)

lemma only_if [only_rules]:
  "requests_only C s m \<Longrightarrow> requests_only C s n \<Longrightarrow> requests_only C s (if b then m else n)"
  by simp

lemma only_Let [only_rules]: "requests_only C s (f t) \<Longrightarrow> requests_only C s (let x = t in f x)"
  by simp

lemma only_send_call [only_rules]:
  assumes "C c"
  shows "requests_only C s (send_call s c)"
  unfolding requests_only_def
proof (intro impI allI)
  fix h
  assume retrying: "runs_only (retrying_of s)"
  let ?E = "env_of s" and ?key = "provider_key (class_of s)"
  let ?f = "do_request ?E ?key (call_allowed c) (request_of ?E (class_of s) (context_of s) c)"
  have f: "keeps (calls_after C s h) ?f"
    unfolding keeps_def
  proof (intro allI impI)
    fix w
    assume "calls_after C s h w"
    then obtain cs where "list_all C cs" "sent w = h @ map (request_of ?E (class_of s) (context_of s)) cs"
      unfolding calls_after_def by blast
    with assms have "list_all C (cs @ [c])"
      "sent (snd (?f w)) = h @ map (request_of ?E (class_of s) (context_of s)) (cs @ [c])"
      by (simp_all add: do_request_eq)
    then show "calls_after C s h (snd (?f w))"
      unfolding calls_after_def by blast
  qed
  have retried: "keeps (calls_after C s h) (with_retry (retrying_of s) (retry_policy_attr (class_of s)) ?f)"
    using retrying f by (auto simp: with_retry_def runs_only_def keeps_raise split: attr.splits)
  have "keeps (calls_after C s h) (breaker_allow ?E ?key)"
    "keeps (calls_after C s h) (breaker_failed ?E ?key)"
    "keeps (calls_after C s h) (breaker_succeeded ?key)"
    by (rule keeps_calls_frame; metis breaker_allow_spec breaker_failed_spec breaker_succeeded_spec prod.inject)+
  with f retried show "keeps (calls_after C s h) (send_call s c)"
    unfolding send_call_def provider_request_def Let_def by (intro keeps_rules) auto
qed

lemma only_wrappers [only_rules]:
  "C ((api_call ''GET'' url)\<lparr>call_params := params\<rparr>) \<Longrightarrow> requests_only C s (http_get s url params)"
  "C ((api_call ''DELETE'' url)\<lparr>call_params := params\<rparr>) \<Longrightarrow> requests_only C s (http_delete s url params)"
  "C ((api_call ''POST'' url)\<lparr>call_body := b\<rparr>) \<Longrightarrow> requests_only C s (http_post s url b)"
  "C ((api_call ''PATCH'' url)\<lparr>call_body := b\<rparr>) \<Longrightarrow> requests_only C s (http_patch s url b)"
  "C ((api_call ''PUT'' url)\<lparr>call_body := b\<rparr>) \<Longrightarrow> requests_only C s (http_put s url b)"
  unfolding http_get_def http_delete_def http_post_def http_patch_def http_put_def
  by (rule only_send_call, assumption)+

lemma only_json_of [only_rules]: "requests_only C s m \<Longrightarrow> requests_only C s (json_of m)"
  unfolding json_of_def by (intro only_rules)

text \<open>The first thing an action does to the world is a request.\<close>

lemma first_only: "requests_first C s m \<Longrightarrow> requests_only C s m"
  by (simp add: requests_first_def)

lemma first_lift [first_rules]:
  assumes "\<And>x. requests_first C s (f x)"
  shows "requests_first C s (bnd (lift r) f)"
proof -
  have "barren (bnd (lift r) f)" if "\<And>x. barren (f x)"
    using that by (auto simp: barren_def bnd_def lift_def split: sum.splits)
  with assms show ?thesis
    by (auto simp: requests_first_def intro: only_rules)
qed

lemma first_raise [first_rules]: "requests_first C s (raise e)"
  unfolding requests_first_def by (intro conjI impI only_rules) (simp add: barren_def raise_def)

lemma first_bnd [first_rules]:
  assumes "requests_first C s m" and "\<And>x. requests_only C s (f x)"
  shows "requests_first C s (bnd m f)"
proof -
  have "barren (bnd m f)" if m: "barren m"
    unfolding barren_def
  proof
    fix w
    obtain e w' where "m w = (Inl e, w')" "sent w' = sent w"
      using m unfolding barren_def by blast
    then show "\<exists>e w'. bnd m f w = (Inl e, w') \<and> sent w' = sent w"
      by (simp add: bnd_def)
  qed
  with assms show ?thesis
    by (auto simp: requests_first_def intro: only_rules)
qed

lemma first_if [first_rules]:
  "requests_first C s m \<Longrightarrow> requests_first C s n \<Longrightarrow> requests_first C s (if b then m else n)"
  by simp

lemma first_Let [first_rules]: "requests_first C s (f t) \<Longrightarrow> requests_first C s (let x = t in f x)"
  by simp

lemma first_send_call [first_rules]:
  assumes "C c" and "call_retry c"
  shows "requests_first C s (send_call s c)"
  unfolding requests_first_def
proof (intro conjI impI)
  show "requests_only C s (send_call s c)"
    using assms(1) by (rule only_send_call)
  assume "retry_policy_attr (class_of s) = FieldSpec"
  from request_with_field[OF assms(2) this] show "barren (send_call s c)"
    unfolding barren_def send_call_def by blast
qed

lemma first_wrappers [first_rules]:
  "C ((api_call ''GET'' url)\<lparr>call_params := params\<rparr>) \<Longrightarrow> requests_first C s (http_get s url params)"
  "C ((api_call ''DELETE'' url)\<lparr>call_params := params\<rparr>) \<Longrightarrow> requests_first C s (http_delete s url params)"
  "C ((api_call ''POST'' url)\<lparr>call_body := b\<rparr>) \<Longrightarrow> requests_first C s (http_post s url b)"
  "C ((api_call ''PATCH'' url)\<lparr>call_body := b\<rparr>) \<Longrightarrow> requests_first C s (http_patch s url b)"
  "C ((api_call ''PUT'' url)\<lparr>call_body := b\<rparr>) \<Longrightarrow> requests_first C s (http_put s url b)"
  unfolding http_get_def http_delete_def http_post_def http_patch_def http_put_def
  by (rule first_send_call, assumption, simp add: api_call_def)+

lemma first_json_of [first_rules]: "requests_first C s m \<Longrightarrow> requests_first C s (json_of m)"
  unfolding json_of_def by (intro first_bnd only_rules)

text \<open>A catch that lets the \<open>AttributeError\<close> of a missing retry policy through.\<close>

lemma first_run:
  "(\<And>a. requests_first C s (f s a)) \<Longrightarrow> requests_first C s (run_action_spec (spec req opt f) s payload)"
  unfolding run_action_spec_def by (intro first_lift) auto

lemma first_run_kw:
  "(\<And>a kw. requests_first C s (f s a kw)) \<Longrightarrow>
     requests_first C s (run_action_spec (spec_kw req opt f) s payload)"
  unfolding run_action_spec_def by (intro first_lift) auto

end
