(* ===== verification/Providers_Development.thy ===== *)
theory Providers_Development
  imports Provider_Actions
begin

text \<open>
  \<open>src/providers/*/__init__.py\<close> of the providers of development tools: GitHub, Jira, Trello, Notion and Airtable:
  per provider the declared capabilities, the authorization headers, the class attributes, one
  definition per action, the table of the actions with their signatures, \<open>validate_connection\<close> and
  \<open>health\<close>.
\<close>

section \<open>GitHub\<close>

definition github_capabilities :: "capability list" where
  "github_capabilities = [
     \<lparr>cap_name = ''list_repositories'',
       cap_description = ''List repositories owned or accessible by the authenticated user.'',
       cap_schema = [(''properties'', JObj [(''per_page'', JObj [(''type'', JStr ''integer'')]),
       (''page'', JObj [(''type'', JStr ''integer'')])])], cap_examples = []\<rparr>,
     \<lparr>cap_name = ''get_repository'',
       cap_description = ''Fetch a single repository by owner and repo name.'',
       cap_schema = [(''required'', JArr [JStr ''owner'', JStr ''repo'']), (''properties'',
       JObj [(''owner'', JObj [(''type'', JStr ''string'')]),
       (''repo'', JObj [(''type'', JStr ''string'')])])], cap_examples = []\<rparr>,
     \<lparr>cap_name = ''create_issue'', cap_description = ''Open a new issue on a repository.'',
       cap_schema = [(''required'', JArr [JStr ''owner'', JStr ''repo'', JStr ''title'']),
       (''properties'', JObj [(''owner'', JObj [(''type'', JStr ''string'')]),
       (''repo'', JObj [(''type'', JStr ''string'')]),
       (''title'', JObj [(''type'', JStr ''string'')]),
       (''body'', JObj [(''type'', JStr ''string'')]), (''labels'',
       JObj [(''type'', JStr ''array''), (''items'', JObj [(''type'', JStr ''string'')])])])],
       cap_examples = []\<rparr>,
     \<lparr>cap_name = ''list_issues'',
       cap_description = ''List issues for a repository, optionally filtered by state.'',
       cap_schema = [(''required'', JArr [JStr ''owner'', JStr ''repo'']), (''properties'',
       JObj [(''owner'', JObj [(''type'', JStr ''string'')]),
       (''repo'', JObj [(''type'', JStr ''string'')]),
       (''state'', JObj [(''type'', JStr ''string'')]),
       (''per_page'', JObj [(''type'', JStr ''integer'')])])], cap_examples = []\<rparr>,
     \<lparr>cap_name = ''get_issue'', cap_description = ''Fetch a single issue by number.'',
       cap_schema = [(''required'', JArr [JStr ''owner'', JStr ''repo'', JStr ''issue_number'']),
       (''properties'', JObj [(''owner'', JObj [(''type'', JStr ''string'')]),
       (''repo'', JObj [(''type'', JStr ''string'')]),
       (''issue_number'', JObj [(''type'', JStr ''integer'')])])], cap_examples = []\<rparr>,
     \<lparr>cap_name = ''update_issue'',
       cap_description = ''Update arbitrary fields of an issue.'', cap_schema = [(''required'',
       JArr [JStr ''owner'', JStr ''repo'', JStr ''issue_number'']), (''properties'',
       JObj [(''owner'', JObj [(''type'', JStr ''string'')]),
       (''repo'', JObj [(''type'', JStr ''string'')]),
       (''issue_number'', JObj [(''type'', JStr ''integer'')])])], cap_examples = []\<rparr>,
     \<lparr>cap_name = ''create_pull_request'', cap_description = ''Open a new pull request.'',
       cap_schema = [(''required'', JArr [JStr ''owner'', JStr ''repo'', JStr ''title'',
       JStr ''head'', JStr ''base'']), (''properties'',
       JObj [(''owner'', JObj [(''type'', JStr ''string'')]),
       (''repo'', JObj [(''type'', JStr ''string'')]),
       (''title'', JObj [(''type'', JStr ''string'')]),
       (''head'', JObj [(''type'', JStr ''string'')]),
       (''base'', JObj [(''type'', JStr ''string'')]),
       (''body'', JObj [(''type'', JStr ''string'')])])], cap_examples = []\<rparr>,
     \<lparr>cap_name = ''list_pull_requests'',
       cap_description = ''List pull requests for a repository.'',
       cap_schema = [(''required'', JArr [JStr ''owner'', JStr ''repo'']), (''properties'',
       JObj [(''owner'', JObj [(''type'', JStr ''string'')]),
       (''repo'', JObj [(''type'', JStr ''string'')]),
       (''state'', JObj [(''type'', JStr ''string'')]),
       (''per_page'', JObj [(''type'', JStr ''integer'')])])], cap_examples = []\<rparr>,
     \<lparr>cap_name = ''list_commits'',
       cap_description = ''List commits on the default branch of a repository.'',
       cap_schema = [(''required'', JArr [JStr ''owner'', JStr ''repo'']), (''properties'',
       JObj [(''owner'', JObj [(''type'', JStr ''string'')]),
       (''repo'', JObj [(''type'', JStr ''string'')]),
       (''per_page'', JObj [(''type'', JStr ''integer'')])])], cap_examples = []\<rparr>,
     \<lparr>cap_name = ''list_branches'', cap_description = ''List all branches in a repository.'',
       cap_schema = [(''required'', JArr [JStr ''owner'', JStr ''repo'']), (''properties'',
       JObj [(''owner'', JObj [(''type'', JStr ''string'')]),
       (''repo'', JObj [(''type'', JStr ''string'')])])], cap_examples = []\<rparr>,
     \<lparr>cap_name = ''create_branch'',
       cap_description = ''Create a new branch pointing at an existing commit SHA.'',
       cap_schema = [(''required'', JArr [JStr ''owner'', JStr ''repo'', JStr ''branch'',
       JStr ''from_sha'']), (''properties'', JObj [(''owner'', JObj [(''type'', JStr ''string'')]),
       (''repo'', JObj [(''type'', JStr ''string'')]),
       (''branch'', JObj [(''type'', JStr ''string'')]),
       (''from_sha'', JObj [(''type'', JStr ''string'')])])], cap_examples = []\<rparr>,
     \<lparr>cap_name = ''get_file_content'',
       cap_description = ''Fetch the content of a file at a given path.'',
       cap_schema = [(''required'', JArr [JStr ''owner'', JStr ''repo'', JStr ''path'']),
       (''properties'', JObj [(''owner'', JObj [(''type'', JStr ''string'')]),
       (''repo'', JObj [(''type'', JStr ''string'')]),
       (''path'', JObj [(''type'', JStr ''string'')])])], cap_examples = []\<rparr>,
     \<lparr>cap_name = ''create_comment'',
       cap_description = ''Add a comment to an issue or pull request.'',
       cap_schema = [(''required'', JArr [JStr ''owner'', JStr ''repo'', JStr ''issue_number'',
       JStr ''body'']), (''properties'', JObj [(''owner'', JObj [(''type'', JStr ''string'')]),
       (''repo'', JObj [(''type'', JStr ''string'')]),
       (''issue_number'', JObj [(''type'', JStr ''integer'')]),
       (''body'', JObj [(''type'', JStr ''string'')])])], cap_examples = []\<rparr>]"

definition github_auth_headers :: "env \<Rightarrow> provider_context option \<Rightarrow> string dict" where
  "github_auth_headers E ctx = [(''Authorization'', bearer ''access_token'' ctx),
     (''Accept'', ''application/vnd.github+json''), (''X-GitHub-Api-Version'', ''2022-11-28'')]"

definition github_attributes :: provider_class where
  "github_attributes = base_class\<lparr>provider_key := ''github'', provider_name := ''GitHub'',
    description := ''Manage repositories, issues, pull requests, branches, and comments on GitHub.'',
    auth_type := ''oauth2'', base_url := ''https://api.github.com'', timeout := 30,
    supports_webhooks := True,
    default_scopes := Given [''repo'', ''read:org'', ''workflow'', ''user:email''],
    oauth_authorize_url := ''https://github.com/login/oauth/authorize'',
    oauth_token_url := ''https://github.com/login/oauth/access_token'', oauth_revoke_url := [],
    oauth_scopes := Given [''repo'', ''read:org'', ''workflow'', ''user:email''],
    oauth_pkce := False, oauth_token_header_auth := False, capabilities := github_capabilities,
    verify := Some github_verify, auth_headers := github_auth_headers\<rparr>"

definition github_list_repositories :: "self \<Rightarrow> json dict \<Rightarrow> json act" where
  "github_list_repositories s a =
     json_of (http_get s ''/user/repos'' [(''per_page'', jget a ''per_page''),
       (''page'', jget a ''page'')])"

definition github_get_repository :: "self \<Rightarrow> json dict \<Rightarrow> json act" where
  "github_get_repository s a =
     json_of (http_get s (''/repos/'' @ text_of a ''owner'' @ ''/'' @ text_of a ''repo'') [])"

definition github_create_issue :: "self \<Rightarrow> json dict \<Rightarrow> json act" where
  "github_create_issue s a =
     json_of (http_post s (''/repos/'' @ text_of a ''owner'' @ ''/'' @ text_of a ''repo'' @
       ''/issues'') (JsonBody (JObj (put_given ''labels'' (jget a ''labels'') (put_given ''body''
       (jget a ''body'') [(''title'', jget a ''title'')])))))"

definition github_list_issues :: "self \<Rightarrow> json dict \<Rightarrow> json act" where
  "github_list_issues s a =
     json_of (http_get s (''/repos/'' @ text_of a ''owner'' @ ''/'' @ text_of a ''repo'' @
       ''/issues'') [(''state'', jget a ''state''), (''per_page'', jget a ''per_page'')])"

definition github_get_issue :: "self \<Rightarrow> json dict \<Rightarrow> json act" where
  "github_get_issue s a =
     json_of (http_get s (''/repos/'' @ text_of a ''owner'' @ ''/'' @ text_of a ''repo'' @
       ''/issues/'' @ text_of a ''issue_number'') [])"

definition github_update_issue :: "self \<Rightarrow> json dict \<Rightarrow> json dict \<Rightarrow> json act" where
  "github_update_issue s a kw =
     json_of (http_patch s (''/repos/'' @ text_of a ''owner'' @ ''/'' @ text_of a ''repo'' @
       ''/issues/'' @ text_of a ''issue_number'') (JsonBody (JObj kw)))"

definition github_create_pull_request :: "self \<Rightarrow> json dict \<Rightarrow> json act" where
  "github_create_pull_request s a =
     json_of (http_post s (''/repos/'' @ text_of a ''owner'' @ ''/'' @ text_of a ''repo'' @
       ''/pulls'') (JsonBody (JObj (put_given ''body'' (jget a ''body'')
       [(''title'', jget a ''title''), (''head'', jget a ''head''), (''base'', jget a ''base'')]))))"

definition github_list_pull_requests :: "self \<Rightarrow> json dict \<Rightarrow> json act" where
  "github_list_pull_requests s a =
     json_of (http_get s (''/repos/'' @ text_of a ''owner'' @ ''/'' @ text_of a ''repo'' @
       ''/pulls'') [(''state'', jget a ''state''), (''per_page'', jget a ''per_page'')])"

definition github_list_commits :: "self \<Rightarrow> json dict \<Rightarrow> json act" where
  "github_list_commits s a =
     json_of (http_get s (''/repos/'' @ text_of a ''owner'' @ ''/'' @ text_of a ''repo'' @
       ''/commits'') [(''per_page'', jget a ''per_page'')])"

definition github_list_branches :: "self \<Rightarrow> json dict \<Rightarrow> json act" where
  "github_list_branches s a =
     json_of (http_get s (''/repos/'' @ text_of a ''owner'' @ ''/'' @ text_of a ''repo'' @
       ''/branches'') [])"

definition github_create_branch :: "self \<Rightarrow> json dict \<Rightarrow> json act" where
  "github_create_branch s a =
     json_of (http_post s (''/repos/'' @ text_of a ''owner'' @ ''/'' @ text_of a ''repo'' @
       ''/git/refs'') (JsonBody (JObj [(''ref'', JStr (''refs/heads/'' @ text_of a ''branch'')),
       (''sha'', jget a ''from_sha'')])))"

definition github_get_file_content :: "self \<Rightarrow> json dict \<Rightarrow> json act" where
  "github_get_file_content s a =
     json_of (http_get s (''/repos/'' @ text_of a ''owner'' @ ''/'' @ text_of a ''repo'' @
       ''/contents/'' @ text_of a ''path'') [])"

definition github_create_comment :: "self \<Rightarrow> json dict \<Rightarrow> json act" where
  "github_create_comment s a =
     json_of (http_post s (''/repos/'' @ text_of a ''owner'' @ ''/'' @ text_of a ''repo'' @
       ''/issues/'' @ text_of a ''issue_number'' @ ''/comments'')
       (JsonBody (JObj [(''body'', jget a ''body'')])))"

definition github_actions :: action_table where
  "github_actions = [
     (''list_repositories'', spec [] [(''per_page'', JInt 30), (''page'', JInt 1)]
       github_list_repositories),
     (''get_repository'', spec [''owner'', ''repo''] [] github_get_repository),
     (''create_issue'', spec [''owner'', ''repo'', ''title'']
       [(''body'', JNull), (''labels'', JNull)] github_create_issue),
     (''list_issues'', spec [''owner'', ''repo'']
       [(''state'', JStr ''open''), (''per_page'', JInt 30)] github_list_issues),
     (''get_issue'', spec [''owner'', ''repo'', ''issue_number''] [] github_get_issue),
     (''update_issue'', spec_kw [''owner'', ''repo'', ''issue_number''] [] github_update_issue),
     (''create_pull_request'', spec [''owner'', ''repo'', ''title'', ''head'', ''base'']
       [(''body'', JNull)] github_create_pull_request),
     (''list_pull_requests'', spec [''owner'', ''repo'']
       [(''state'', JStr ''open''), (''per_page'', JInt 30)] github_list_pull_requests),
     (''list_commits'', spec [''owner'', ''repo''] [(''per_page'', JInt 30)] github_list_commits),
     (''list_branches'', spec [''owner'', ''repo''] [] github_list_branches),
     (''create_branch'', spec [''owner'', ''repo'', ''branch'', ''from_sha''] []
       github_create_branch),
     (''get_file_content'', spec [''owner'', ''repo'', ''path''] [] github_get_file_content),
     (''create_comment'', spec [''owner'', ''repo'', ''issue_number'', ''body''] []
       github_create_comment)]"

definition github_probe :: "self \<Rightarrow> bool act" where
  "github_probe s = bnd (json_of (http_get s ''/user'' [])) (\<lambda>data. lift (py_in ''login'' data))"

definition github_health :: "self \<Rightarrow> provider_health act" where
  "github_health s = or_down (bnd (json_of (http_get s ''/user'' [])) (\<lambda>data.
     bnd (lift (py_get data ''login'' JNull)) (\<lambda>v. ret (healthy_with [(''login'', v)]))))"

definition github_code :: provider_code where
  "github_code = \<lparr>attributes = github_attributes, action_table = github_actions,
     probe = github_probe, probe_health = github_health\<rparr>"

section \<open>Jira\<close>

definition jira_site :: "provider_context option \<Rightarrow> json" where
  "jira_site ctx = py_or (ctx_credential ctx ''site_url'' JNull)
     (py_or (ctx_credential ctx ''instance_url'' JNull) (JStr []))"

text \<open>The \<open>base_url\<close> the constructor gives an instance.\<close>

definition jira_base_url :: "provider_context option \<Rightarrow> string" where
  "jira_base_url ctx =
     (if truthy (jira_site ctx) then ''https://'' @ py_str (jira_site ctx) else ''https://auth.atlassian.com'')"

definition jira_url :: "self \<Rightarrow> string \<Rightarrow> string" where
  "jira_url s path = ''https://'' @ py_str (jira_site (context_of s)) @ ''/rest/api/3/'' @ path"

definition jira_agile_url :: "self \<Rightarrow> string \<Rightarrow> string" where
  "jira_agile_url s path = ''https://'' @ py_str (jira_site (context_of s)) @ ''/rest/agile/1.0/'' @ path"

definition jira_capabilities :: "capability list" where
  "jira_capabilities = [
     \<lparr>cap_name = ''create_issue'',
       cap_description = ''Create a new issue on a Jira project.'', cap_schema = [(''required'',
       JArr [JStr ''project_key'', JStr ''summary'']), (''properties'',
       JObj [(''project_key'', JObj [(''type'', JStr ''string'')]),
       (''summary'', JObj [(''type'', JStr ''string'')]),
       (''issue_type'', JObj [(''type'', JStr ''string'')]),
       (''description'', JObj [(''type'', JStr ''string'')]),
       (''priority'', JObj [(''type'', JStr ''string'')]),
       (''assignee'', JObj [(''type'', JStr ''string'')])])], cap_examples = []\<rparr>,
     \<lparr>cap_name = ''get_issue'', cap_description = ''Fetch a single issue by key.'',
       cap_schema = [(''required'', JArr [JStr ''issue_key'']), (''properties'',
       JObj [(''issue_key'', JObj [(''type'', JStr ''string'')]),
       (''fields'', JObj [(''type'', JStr ''string'')])])], cap_examples = []\<rparr>,
     \<lparr>cap_name = ''update_issue'',
       cap_description = ''Update arbitrary fields of an issue.'',
       cap_schema = [(''required'', JArr [JStr ''issue_key'']), (''properties'',
       JObj [(''issue_key'', JObj [(''type'', JStr ''string'')])])], cap_examples = []\<rparr>,
     \<lparr>cap_name = ''search_issues'', cap_description = ''Search issues with a JQL query.'',
       cap_schema = [(''required'', JArr [JStr ''jql'']), (''properties'',
       JObj [(''jql'', JObj [(''type'', JStr ''string'')]),
       (''max_results'', JObj [(''type'', JStr ''integer'')])])], cap_examples = []\<rparr>,
     \<lparr>cap_name = ''get_sprint'',
       cap_description = ''List sprints on a board, filtered by state.'',
       cap_schema = [(''required'', JArr [JStr ''board_id'']), (''properties'',
       JObj [(''board_id'', JObj [(''type'', JStr ''integer'')]),
       (''state'', JObj [(''type'', JStr ''string'')])])], cap_examples = []\<rparr>,
     \<lparr>cap_name = ''list_projects'',
       cap_description = ''List all projects visible to the user.'', cap_schema = [],
       cap_examples = []\<rparr>,
     \<lparr>cap_name = ''add_comment'', cap_description = ''Add a comment to an issue.'',
       cap_schema = [(''required'', JArr [JStr ''issue_key'', JStr ''body'']), (''properties'',
       JObj [(''issue_key'', JObj [(''type'', JStr ''string'')]),
       (''body'', JObj [(''type'', JStr ''string'')])])], cap_examples = []\<rparr>,
     \<lparr>cap_name = ''get_user'', cap_description = ''Fetch a user by Atlassian account id.'',
       cap_schema = [(''required'', JArr [JStr ''account_id'']), (''properties'',
       JObj [(''account_id'', JObj [(''type'', JStr ''string'')])])], cap_examples = []\<rparr>]"

definition jira_auth_headers :: "env \<Rightarrow> provider_context option \<Rightarrow> string dict" where
  "jira_auth_headers E ctx =
    (let access_token = ctx_credential ctx ''access_token'' JNull; email = ctx_credential ctx ''email'' JNull;
         api_token = ctx_credential ctx ''api_token'' JNull
     in if truthy access_token then [(''Authorization'', ''Bearer '' @ py_str access_token)]
        else if truthy email \<and> truthy api_token then [(''Authorization'', basic_scheme email api_token)]
        else [])"

definition jira_attributes :: provider_class where
  "jira_attributes = base_class\<lparr>provider_key := ''jira'', provider_name := ''Jira'',
    description := ''Manage issues, projects, sprints, and users on a Jira Cloud site.'',
    auth_type := ''oauth2'', base_url := [], timeout := 30, supports_webhooks := True,
    default_scopes := Given [''read:jira-user'', ''offline_access''],
    oauth_authorize_url := ''https://auth.atlassian.com/authorize'',
    oauth_token_url := ''https://auth.atlassian.com/oauth/token'', oauth_revoke_url := [],
    oauth_scopes := Given [''read:jira-user'', ''offline_access''], oauth_pkce := True,
    oauth_token_header_auth := False, capabilities := jira_capabilities, verify := Some jira_verify,
    auth_headers := jira_auth_headers\<rparr>"

definition jira_create_issue :: "self \<Rightarrow> json dict \<Rightarrow> json act" where
  "jira_create_issue s a =
     json_of (http_post s (jira_url s ''issue'') (JsonBody (JObj [(''fields'', JObj (if
       jget a ''assignee'' \<noteq> JNull then dset ''assignee''
       (JObj [(''accountId'', jget a ''assignee'')]) (if jget a ''priority'' \<noteq> JNull then
       dset ''priority'' (JObj [(''name'', jget a ''priority'')]) (put_given ''description''
       (jget a ''description'') [(''project'', JObj [(''key'', jget a ''project_key'')]),
       (''summary'', jget a ''summary''),
       (''issuetype'', JObj [(''name'', jget a ''issue_type'')])]) else put_given ''description''
       (jget a ''description'') [(''project'', JObj [(''key'', jget a ''project_key'')]),
       (''summary'', jget a ''summary''),
       (''issuetype'', JObj [(''name'', jget a ''issue_type'')])]) else if jget a ''priority''
       \<noteq> JNull then dset ''priority'' (JObj [(''name'', jget a ''priority'')]) (put_given
       ''description'' (jget a ''description'')
       [(''project'', JObj [(''key'', jget a ''project_key'')]), (''summary'', jget a ''summary''),
       (''issuetype'', JObj [(''name'', jget a ''issue_type'')])]) else put_given ''description''
       (jget a ''description'') [(''project'', JObj [(''key'', jget a ''project_key'')]),
       (''summary'', jget a ''summary''),
       (''issuetype'', JObj [(''name'', jget a ''issue_type'')])]))])))"

definition jira_get_issue :: "self \<Rightarrow> json dict \<Rightarrow> json act" where
  "jira_get_issue s a =
     json_of (http_get s (jira_url s (''issue/'' @ text_of a ''issue_key''))
       (put_given ''fields'' (jget a ''fields'') []))"

definition jira_update_issue :: "self \<Rightarrow> json dict \<Rightarrow> json dict \<Rightarrow> json act" where
  "jira_update_issue s a kw =
     json_of (http_put s (jira_url s (''issue/'' @ text_of a ''issue_key''))
       (JsonBody (JObj [(''fields'', JObj kw)])))"

definition jira_search_issues :: "self \<Rightarrow> json dict \<Rightarrow> json act" where
  "jira_search_issues s a =
     bnd (lift (quote_url (jget a ''jql''))) (\<lambda>quoted. json_of (http_get s (jira_url s
       (''search?jql='' @ quoted @ ''&maxResults='' @ text_of a ''max_results'')) []))"

definition jira_get_sprint :: "self \<Rightarrow> json dict \<Rightarrow> json act" where
  "jira_get_sprint s a =
     json_of (http_get s (jira_agile_url s (''board/'' @ text_of a ''board_id'' @ ''/sprint?state=''
       @ text_of a ''state'')) [])"

definition jira_list_projects :: "self \<Rightarrow> json dict \<Rightarrow> json act" where
  "jira_list_projects s a = json_of (http_get s (jira_url s ''project'') [])"

definition jira_add_comment :: "self \<Rightarrow> json dict \<Rightarrow> json act" where
  "jira_add_comment s a =
     json_of (http_post s (jira_url s (''issue/'' @ text_of a ''issue_key'' @ ''/comment''))
       (JsonBody (JObj [(''body'', jget a ''body'')])))"

definition jira_get_user :: "self \<Rightarrow> json dict \<Rightarrow> json act" where
  "jira_get_user s a =
     json_of (http_get s (jira_url s ''user'') [(''accountId'', jget a ''account_id'')])"

definition jira_actions :: action_table where
  "jira_actions = [
     (''create_issue'', spec [''project_key'', ''summary''] [(''issue_type'', JStr ''Task''),
       (''description'', JNull), (''priority'', JNull), (''assignee'', JNull)] jira_create_issue),
     (''get_issue'', spec [''issue_key''] [(''fields'', JNull)] jira_get_issue),
     (''update_issue'', spec_kw [''issue_key''] [] jira_update_issue),
     (''search_issues'', spec [''jql''] [(''max_results'', JInt 50)] jira_search_issues),
     (''get_sprint'', spec [''board_id''] [(''state'', JStr ''active'')] jira_get_sprint),
     (''list_projects'', spec [] [] jira_list_projects),
     (''add_comment'', spec [''issue_key'', ''body''] [] jira_add_comment),
     (''get_user'', spec [''account_id''] [] jira_get_user)]"

definition jira_probe :: "self \<Rightarrow> bool act" where
  "jira_probe s = bnd (json_of (http_get s (jira_url s ''myself'') [])) (\<lambda>data. lift (py_in ''accountId'' data))"

definition jira_health :: "self \<Rightarrow> provider_health act" where
  "jira_health s = or_down (bnd (json_of (http_get s (jira_url s ''myself'') [])) (\<lambda>data.
     bnd (lift (py_get data ''accountId'' JNull)) (\<lambda>v. ret (healthy_with [(''account_id'', v)]))))"

definition jira_code :: provider_code where
  "jira_code = \<lparr>attributes = jira_attributes, action_table = jira_actions,
     probe = jira_probe, probe_health = jira_health\<rparr>"

section \<open>Trello\<close>

text \<open>The key and the token of the credentials are added to the parameters of every request.\<close>

definition trello_params :: "self \<Rightarrow> json dict \<Rightarrow> exn + json dict" where
  "trello_params s params = (case (case context_of s of
        None \<Rightarrow> Inr [] | Some c \<Rightarrow> require_fields c [''api_key'', ''api_token'']) of
      Inl e \<Rightarrow> Inl e
    | Inr creds \<Rightarrow> Inr (dset ''token'' (jget_or creds ''api_token'' (JStr []))
        (dset ''key'' (jget_or creds ''api_key'' (JStr [])) params)))"

definition trello_capabilities :: "capability list" where
  "trello_capabilities = [
     \<lparr>cap_name = ''list_boards'',
       cap_description = ''List all boards visible to the authenticated user.'', cap_schema = [],
       cap_examples = []\<rparr>,
     \<lparr>cap_name = ''create_board'', cap_description = ''Create a new board.'',
       cap_schema = [(''required'', JArr [JStr ''name'']), (''properties'',
       JObj [(''name'', JObj [(''type'', JStr ''string'')]),
       (''default_lists'', JObj [(''type'', JStr ''boolean'')])])], cap_examples = []\<rparr>,
     \<lparr>cap_name = ''list_lists'', cap_description = ''List all lists on a board.'',
       cap_schema = [(''required'', JArr [JStr ''board_id'']), (''properties'',
       JObj [(''board_id'', JObj [(''type'', JStr ''string'')])])], cap_examples = []\<rparr>,
     \<lparr>cap_name = ''create_list'', cap_description = ''Create a new list on a board.'',
       cap_schema = [(''required'', JArr [JStr ''board_id'', JStr ''name'']), (''properties'',
       JObj [(''board_id'', JObj [(''type'', JStr ''string'')]),
       (''name'', JObj [(''type'', JStr ''string'')])])], cap_examples = []\<rparr>,
     \<lparr>cap_name = ''list_cards'', cap_description = ''List all cards in a list.'',
       cap_schema = [(''required'', JArr [JStr ''list_id'']), (''properties'',
       JObj [(''list_id'', JObj [(''type'', JStr ''string'')])])], cap_examples = []\<rparr>,
     \<lparr>cap_name = ''create_card'', cap_description = ''Create a new card in a list.'',
       cap_schema = [(''required'', JArr [JStr ''list_id'', JStr ''name'']), (''properties'',
       JObj [(''list_id'', JObj [(''type'', JStr ''string'')]),
       (''name'', JObj [(''type'', JStr ''string'')]),
       (''description'', JObj [(''type'', JStr ''string'')]),
       (''due'', JObj [(''type'', JStr ''string'')])])], cap_examples = []\<rparr>,
     \<lparr>cap_name = ''get_card'', cap_description = ''Fetch a single card by id.'',
       cap_schema = [(''required'', JArr [JStr ''card_id'']), (''properties'',
       JObj [(''card_id'', JObj [(''type'', JStr ''string'')])])], cap_examples = []\<rparr>,
     \<lparr>cap_name = ''update_card'', cap_description = ''Update arbitrary fields of a card.'',
       cap_schema = [(''required'', JArr [JStr ''card_id'']), (''properties'',
       JObj [(''card_id'', JObj [(''type'', JStr ''string'')])])], cap_examples = []\<rparr>,
     \<lparr>cap_name = ''add_comment'', cap_description = ''Add a comment to a card.'',
       cap_schema = [(''required'', JArr [JStr ''card_id'', JStr ''text'']), (''properties'',
       JObj [(''card_id'', JObj [(''type'', JStr ''string'')]),
       (''text'', JObj [(''type'', JStr ''string'')])])], cap_examples = []\<rparr>,
     \<lparr>cap_name = ''create_label'', cap_description = ''Create a label on a board.'',
       cap_schema = [(''required'', JArr [JStr ''board_id'', JStr ''name'']), (''properties'',
       JObj [(''board_id'', JObj [(''type'', JStr ''string'')]),
       (''name'', JObj [(''type'', JStr ''string'')]),
       (''color'', JObj [(''type'', JStr ''string'')])])], cap_examples = []\<rparr>,
     \<lparr>cap_name = ''move_card'', cap_description = ''Move a card to a different list.'',
       cap_schema = [(''required'', JArr [JStr ''card_id'', JStr ''list_id'']), (''properties'',
       JObj [(''card_id'', JObj [(''type'', JStr ''string'')]),
       (''list_id'', JObj [(''type'', JStr ''string'')])])], cap_examples = []\<rparr>,
     \<lparr>cap_name = ''delete_card'', cap_description = ''Permanently delete a card.'',
       cap_schema = [(''required'', JArr [JStr ''card_id'']), (''properties'',
       JObj [(''card_id'', JObj [(''type'', JStr ''string'')])])], cap_examples = []\<rparr>]"

definition trello_auth_headers :: "env \<Rightarrow> provider_context option \<Rightarrow> string dict" where
  "trello_auth_headers E ctx = []"

definition trello_attributes :: provider_class where
  "trello_attributes = base_class\<lparr>provider_key := ''trello'', provider_name := ''Trello'',
    description := ''Manage boards, lists, cards, labels, and comments in Trello.'',
    auth_type := ''api_key'', base_url := ''https://api.trello.com/1'', timeout := 30,
    supports_webhooks := True, capabilities := trello_capabilities, verify := Some trello_verify,
    auth_headers := trello_auth_headers\<rparr>"

definition trello_list_boards :: "self \<Rightarrow> json dict \<Rightarrow> json act" where
  "trello_list_boards s a =
     bnd (lift (trello_params s [])) (\<lambda>params. json_of
       (http_get s ''/members/me/boards'' params))"

definition trello_create_board :: "self \<Rightarrow> json dict \<Rightarrow> json act" where
  "trello_create_board s a =
     bnd (lift (trello_params s [(''name'', jget a ''name''), (''defaultLists'', JStr (lower
       (py_str (JBool (truthy (jget a ''default_lists''))))))])) (\<lambda>params. json_of
       (send_call s ((api_call ''POST'' ''/boards'')\<lparr>call_params := params\<rparr>)))"

definition trello_list_lists :: "self \<Rightarrow> json dict \<Rightarrow> json act" where
  "trello_list_lists s a =
     bnd (lift (trello_params s [])) (\<lambda>params. json_of (http_get s
       (''/boards/'' @ text_of a ''board_id'' @ ''/lists'') params))"

definition trello_create_list :: "self \<Rightarrow> json dict \<Rightarrow> json act" where
  "trello_create_list s a =
     bnd (lift (trello_params s [(''idBoard'', jget a ''board_id''), (''name'', jget a ''name'')]))
       (\<lambda>params. json_of (send_call s ((api_call ''POST'' ''/lists'')\<lparr>call_params :=
       params\<rparr>)))"

definition trello_list_cards :: "self \<Rightarrow> json dict \<Rightarrow> json act" where
  "trello_list_cards s a =
     bnd (lift (trello_params s [])) (\<lambda>params. json_of (http_get s
       (''/lists/'' @ text_of a ''list_id'' @ ''/cards'') params))"

definition trello_create_card :: "self \<Rightarrow> json dict \<Rightarrow> json act" where
  "trello_create_card s a =
     bnd (lift (trello_params s (put_given ''due'' (jget a ''due'') (put_given ''desc''
       (jget a ''description'') [(''idList'', jget a ''list_id''), (''name'', jget a ''name'')]))))
       (\<lambda>params. json_of (send_call s ((api_call ''POST'' ''/cards'')\<lparr>call_params :=
       params\<rparr>)))"

definition trello_get_card :: "self \<Rightarrow> json dict \<Rightarrow> json act" where
  "trello_get_card s a =
     bnd (lift (trello_params s [])) (\<lambda>params. json_of
       (http_get s (''/cards/'' @ text_of a ''card_id'') params))"

definition trello_update_card :: "self \<Rightarrow> json dict \<Rightarrow> json dict \<Rightarrow> json act" where
  "trello_update_card s a kw =
     bnd (lift (trello_params s kw)) (\<lambda>params. json_of (send_call s
       ((api_call ''PUT'' (''/cards/'' @ text_of a ''card_id''))\<lparr>call_params :=
       params\<rparr>)))"

definition trello_add_comment :: "self \<Rightarrow> json dict \<Rightarrow> json act" where
  "trello_add_comment s a =
     bnd (lift (trello_params s [(''text'', jget a ''text'')])) (\<lambda>params. json_of (send_call
       s ((api_call ''POST'' (''/cards/'' @ text_of a ''card_id'' @
       ''/actions/comments''))\<lparr>call_params := params\<rparr>)))"

definition trello_create_label :: "self \<Rightarrow> json dict \<Rightarrow> json act" where
  "trello_create_label s a =
     bnd (lift (trello_params s [(''idBoard'', jget a ''board_id''), (''name'', jget a ''name''),
       (''color'', jget a ''color'')])) (\<lambda>params. json_of (send_call s
       ((api_call ''POST'' ''/labels'')\<lparr>call_params := params\<rparr>)))"

definition trello_move_card :: "self \<Rightarrow> json dict \<Rightarrow> json act" where
  "trello_move_card s a =
     bnd (lift (trello_params s [(''idList'', jget a ''list_id'')])) (\<lambda>params. json_of
       (send_call s ((api_call ''PUT'' (''/cards/'' @ text_of a ''card_id''))\<lparr>call_params :=
       params\<rparr>)))"

definition trello_delete_card :: "self \<Rightarrow> json dict \<Rightarrow> json act" where
  "trello_delete_card s a =
     bnd (lift (trello_params s [])) (\<lambda>params. bnd (http_delete s
       (''/cards/'' @ text_of a ''card_id'') params)
       (\<lambda>_. ret (JObj [(''deleted'', JBool True)])))"

definition trello_actions :: action_table where
  "trello_actions = [
     (''list_boards'', spec [] [] trello_list_boards),
     (''create_board'', spec [''name''] [(''default_lists'', JBool True)] trello_create_board),
     (''list_lists'', spec [''board_id''] [] trello_list_lists),
     (''create_list'', spec [''board_id'', ''name''] [] trello_create_list),
     (''list_cards'', spec [''list_id''] [] trello_list_cards),
     (''create_card'', spec [''list_id'', ''name''] [(''description'', JNull), (''due'', JNull)]
       trello_create_card),
     (''get_card'', spec [''card_id''] [] trello_get_card),
     (''update_card'', spec_kw [''card_id''] [] trello_update_card),
     (''add_comment'', spec [''card_id'', ''text''] [] trello_add_comment),
     (''create_label'', spec [''board_id'', ''name''] [(''color'', JStr ''yellow'')]
       trello_create_label),
     (''move_card'', spec [''card_id'', ''list_id''] [] trello_move_card),
     (''delete_card'', spec [''card_id''] [] trello_delete_card)]"

definition trello_probe :: "self \<Rightarrow> bool act" where
  "trello_probe s = bnd (lift (trello_params s [])) (\<lambda>params.
     bnd (json_of (http_get s ''/members/me'' params)) (\<lambda>data. lift (py_in ''id'' data)))"

definition trello_health :: "self \<Rightarrow> provider_health act" where
  "trello_health s = or_down (bnd (lift (trello_params s [])) (\<lambda>params.
     bnd (json_of (http_get s ''/members/me'' params)) (\<lambda>data.
     bnd (lift (py_get data ''username'' JNull)) (\<lambda>v. ret (healthy_with [(''username'', v)])))))"

definition trello_code :: provider_code where
  "trello_code = \<lparr>attributes = trello_attributes, action_table = trello_actions,
     probe = trello_probe, probe_health = trello_health\<rparr>"

section \<open>Notion\<close>

definition notion_capabilities :: "capability list" where
  "notion_capabilities = [
     \<lparr>cap_name = ''search'',
       cap_description = ''Search pages and databases in the workspace.'',
       cap_schema = [(''properties'', JObj [(''query'', JObj [(''type'', JStr ''string'')]),
       (''filter_object'', JObj [(''type'', JStr ''object'')])])], cap_examples = []\<rparr>,
     \<lparr>cap_name = ''get_page'', cap_description = ''Fetch a single page by id.'',
       cap_schema = [(''required'', JArr [JStr ''page_id'']), (''properties'',
       JObj [(''page_id'', JObj [(''type'', JStr ''string'')])])], cap_examples = []\<rparr>,
     \<lparr>cap_name = ''get_block_children'',
       cap_description = ''Fetch the child blocks of a block or page.'',
       cap_schema = [(''required'', JArr [JStr ''block_id'']), (''properties'',
       JObj [(''block_id'', JObj [(''type'', JStr ''string'')])])], cap_examples = []\<rparr>,
     \<lparr>cap_name = ''create_page'',
       cap_description = ''Create a new page inside a parent page or database.'',
       cap_schema = [(''required'', JArr [JStr ''parent_id'', JStr ''properties'']),
       (''properties'', JObj [(''parent_id'', JObj [(''type'', JStr ''string'')]),
       (''parent_type'', JObj [(''type'', JStr ''string'')]),
       (''properties'', JObj [(''type'', JStr ''object'')]),
       (''children'', JObj [(''type'', JStr ''array'')])])], cap_examples = []\<rparr>,
     \<lparr>cap_name = ''update_page'',
       cap_description = ''Update page properties or archive a page.'',
       cap_schema = [(''required'', JArr [JStr ''page_id'']), (''properties'',
       JObj [(''page_id'', JObj [(''type'', JStr ''string'')]),
       (''properties'', JObj [(''type'', JStr ''object'')]),
       (''archived'', JObj [(''type'', JStr ''boolean'')])])], cap_examples = []\<rparr>,
     \<lparr>cap_name = ''append_block_children'',
       cap_description = ''Append child blocks to an existing block.'',
       cap_schema = [(''required'', JArr [JStr ''block_id'', JStr ''children'']), (''properties'',
       JObj [(''block_id'', JObj [(''type'', JStr ''string'')]),
       (''children'', JObj [(''type'', JStr ''array'')])])], cap_examples = []\<rparr>,
     \<lparr>cap_name = ''create_database'',
       cap_description = ''Create a new database under a parent page.'',
       cap_schema = [(''required'', JArr [JStr ''parent_page_id'', JStr ''title'',
       JStr ''properties'']), (''properties'',
       JObj [(''parent_page_id'', JObj [(''type'', JStr ''string'')]),
       (''title'', JObj [(''type'', JStr ''string'')]),
       (''properties'', JObj [(''type'', JStr ''object'')])])], cap_examples = []\<rparr>,
     \<lparr>cap_name = ''query_database'',
       cap_description = ''Query entries in an existing database.'',
       cap_schema = [(''required'', JArr [JStr ''database_id'']), (''properties'',
       JObj [(''database_id'', JObj [(''type'', JStr ''string'')]),
       (''filter'', JObj [(''type'', JStr ''object'')]),
       (''sorts'', JObj [(''type'', JStr ''array'')]),
       (''page_size'', JObj [(''type'', JStr ''integer'')])])], cap_examples = []\<rparr>]"

definition notion_auth_headers :: "env \<Rightarrow> provider_context option \<Rightarrow> string dict" where
  "notion_auth_headers E ctx = [(''Authorization'', bearer ''access_token'' ctx),
     (''Notion-Version'', ''2022-06-28'')]"

definition notion_attributes :: provider_class where
  "notion_attributes = base_class\<lparr>provider_key := ''notion'', provider_name := ''Notion'',
    description := ''Read and write pages, databases, and blocks in a Notion workspace.'',
    auth_type := ''oauth2'', base_url := ''https://api.notion.com/v1'', timeout := 30,
    supports_webhooks := False, default_scopes := Given [''read_content'', ''write_content''],
    oauth_authorize_url := ''https://api.notion.com/v1/oauth/authorize'',
    oauth_token_url := ''https://api.notion.com/v1/oauth/token'', oauth_revoke_url := [],
    oauth_scopes := Given [''read_content'', ''write_content''], oauth_pkce := False,
    oauth_token_header_auth := False, capabilities := notion_capabilities,
    auth_headers := notion_auth_headers\<rparr>"

definition notion_search :: "self \<Rightarrow> json dict \<Rightarrow> json act" where
  "notion_search s a =
     json_of (http_post s ''/search'' (JsonBody (JObj (put_given ''filter''
       (jget a ''filter_object'') (put_given ''query'' (jget a ''query'') [])))))"

definition notion_get_page :: "self \<Rightarrow> json dict \<Rightarrow> json act" where
  "notion_get_page s a = json_of (http_get s (''/pages/'' @ text_of a ''page_id'') [])"

definition notion_get_block_children :: "self \<Rightarrow> json dict \<Rightarrow> json act" where
  "notion_get_block_children s a =
     json_of (http_get s (''/blocks/'' @ text_of a ''block_id'' @ ''/children'') [])"

definition notion_create_page :: "self \<Rightarrow> json dict \<Rightarrow> json act" where
  "notion_create_page s a =
    (let parent = (if jget a ''parent_type'' = JStr ''database'' then [(''database_id'', jget a ''parent_id'')]
                   else [(''page_id'', jget a ''parent_id'')])
     in json_of (http_post s ''/pages'' (JsonBody (JObj (put_truthy ''children'' (jget a ''children'')
          [(''parent'', JObj parent), (''properties'', py_or (jget a ''properties'') (JObj []))])))))"

definition notion_update_page :: "self \<Rightarrow> json dict \<Rightarrow> json act" where
  "notion_update_page s a =
     json_of (http_patch s (''/pages/'' @ text_of a ''page_id'') (JsonBody (JObj (put_given
       ''archived'' (jget a ''archived'') (put_given ''properties'' (jget a ''properties'') [])))))"

definition notion_append_block_children :: "self \<Rightarrow> json dict \<Rightarrow> json act" where
  "notion_append_block_children s a =
     json_of (http_patch s (''/blocks/'' @ text_of a ''block_id'' @ ''/children'')
       (JsonBody (JObj [(''children'', jget a ''children'')])))"

definition notion_create_database :: "self \<Rightarrow> json dict \<Rightarrow> json act" where
  "notion_create_database s a =
     json_of (http_post s ''/databases'' (JsonBody (JObj [(''parent'',
       JObj [(''page_id'', jget a ''parent_page_id'')]), (''title'',
       JArr [JObj [(''type'', JStr ''text''), (''text'', JObj [(''content'', jget a ''title'')])]]),
       (''properties'', jget a ''properties'')])))"

definition notion_query_database :: "self \<Rightarrow> json dict \<Rightarrow> json act" where
  "notion_query_database s a =
     json_of (http_post s (''/databases/'' @ text_of a ''database_id'' @ ''/query'') (JsonBody
       (JObj (put_given ''sorts'' (jget a ''sorts'') (put_given ''filter'' (jget a ''filter'')
       [(''page_size'', jget a ''page_size'')])))))"

definition notion_actions :: action_table where
  "notion_actions = [
     (''search'', spec [] [(''query'', JNull), (''filter_object'', JNull)] notion_search),
     (''get_page'', spec [''page_id''] [] notion_get_page),
     (''get_block_children'', spec [''block_id''] [] notion_get_block_children),
     (''create_page'', spec [''parent_id''] [(''parent_type'', JStr ''page''),
       (''properties'', JNull), (''children'', JNull)] notion_create_page),
     (''update_page'', spec [''page_id''] [(''properties'', JNull), (''archived'', JNull)]
       notion_update_page),
     (''append_block_children'', spec [''block_id'', ''children''] [] notion_append_block_children),
     (''create_database'', spec [''parent_page_id'', ''title'', ''properties''] []
       notion_create_database),
     (''query_database'', spec [''database_id''] [(''filter'', JNull), (''sorts'', JNull),
       (''page_size'', JInt 100)] notion_query_database)]"

definition notion_probe :: "self \<Rightarrow> bool act" where
  "notion_probe s = bnd (json_of (http_get s ''/users/me'' [])) (\<lambda>data. lift (py_in ''id'' data))"

definition notion_health :: "self \<Rightarrow> provider_health act" where
  "notion_health s = or_down (bnd (json_of (http_get s ''/users/me'' [])) (\<lambda>data.
     bnd (lift (py_get data ''id'' JNull)) (\<lambda>v. ret (healthy_with [(''user_id'', v)]))))"

definition notion_code :: provider_code where
  "notion_code = \<lparr>attributes = notion_attributes, action_table = notion_actions,
     probe = notion_probe, probe_health = notion_health\<rparr>"

section \<open>Airtable\<close>

definition airtable_base :: "self \<Rightarrow> json \<Rightarrow> json" where
  "airtable_base s base_id = (if truthy base_id then base_id else credential_of s ''base_id'' (JStr []))"

definition airtable_table_url :: "self \<Rightarrow> json \<Rightarrow> json \<Rightarrow> string" where
  "airtable_table_url s table base_id =
     ''https://api.airtable.com/v0/'' @ py_str (airtable_base s base_id) @ ''/'' @ py_str table"

definition airtable_capabilities :: "capability list" where
  "airtable_capabilities = [
     \<lparr>cap_name = ''list_bases'',
       cap_description = ''List all bases accessible to the API token.'', cap_schema = [],
       cap_examples = []\<rparr>,
     \<lparr>cap_name = ''list_tables'', cap_description = ''List tables in a base.'',
       cap_schema = [(''properties'', JObj [(''base_id'', JObj [(''type'', JStr ''string'')])])],
       cap_examples = []\<rparr>,
     \<lparr>cap_name = ''list_records'', cap_description = ''List records from a table.'',
       cap_schema = [(''required'', JArr [JStr ''table'']), (''properties'',
       JObj [(''table'', JObj [(''type'', JStr ''string'')]),
       (''base_id'', JObj [(''type'', JStr ''string'')]),
       (''view'', JObj [(''type'', JStr ''string'')]),
       (''page_size'', JObj [(''type'', JStr ''integer'')]),
       (''filter_by_formula'', JObj [(''type'', JStr ''string'')])])], cap_examples = []\<rparr>,
     \<lparr>cap_name = ''create_record'', cap_description = ''Create a new record in a table.'',
       cap_schema = [(''required'', JArr [JStr ''table'', JStr ''fields'']), (''properties'',
       JObj [(''table'', JObj [(''type'', JStr ''string'')]),
       (''fields'', JObj [(''type'', JStr ''object'')]),
       (''base_id'', JObj [(''type'', JStr ''string'')])])], cap_examples = []\<rparr>,
     \<lparr>cap_name = ''get_record'', cap_description = ''Fetch a single record by id.'',
       cap_schema = [(''required'', JArr [JStr ''table'', JStr ''record_id'']), (''properties'',
       JObj [(''table'', JObj [(''type'', JStr ''string'')]),
       (''record_id'', JObj [(''type'', JStr ''string'')]),
       (''base_id'', JObj [(''type'', JStr ''string'')])])], cap_examples = []\<rparr>,
     \<lparr>cap_name = ''update_record'', cap_description = ''Update an existing record.'',
       cap_schema = [(''required'', JArr [JStr ''table'', JStr ''record_id'', JStr ''fields'']),
       (''properties'', JObj [(''table'', JObj [(''type'', JStr ''string'')]),
       (''record_id'', JObj [(''type'', JStr ''string'')]),
       (''fields'', JObj [(''type'', JStr ''object'')]),
       (''base_id'', JObj [(''type'', JStr ''string'')])])], cap_examples = []\<rparr>,
     \<lparr>cap_name = ''delete_record'', cap_description = ''Delete a record by id.'',
       cap_schema = [(''required'', JArr [JStr ''table'', JStr ''record_id'']), (''properties'',
       JObj [(''table'', JObj [(''type'', JStr ''string'')]),
       (''record_id'', JObj [(''type'', JStr ''string'')]),
       (''base_id'', JObj [(''type'', JStr ''string'')])])], cap_examples = []\<rparr>,
     \<lparr>cap_name = ''batch_create_records'',
       cap_description = ''Create multiple records in one request (max 10).'',
       cap_schema = [(''required'', JArr [JStr ''table'', JStr ''records'']), (''properties'',
       JObj [(''table'', JObj [(''type'', JStr ''string'')]),
       (''records'', JObj [(''type'', JStr ''array'')]),
       (''base_id'', JObj [(''type'', JStr ''string'')])])], cap_examples = []\<rparr>]"

definition airtable_auth_headers :: "env \<Rightarrow> provider_context option \<Rightarrow> string dict" where
  "airtable_auth_headers E ctx = [(''Authorization'', bearer ''api_key'' ctx)]"

definition airtable_attributes :: provider_class where
  "airtable_attributes = base_class\<lparr>provider_key := ''airtable'',
    provider_name := ''Airtable'',
    description := ''Read and write Airtable bases, tables, and records.'',
    auth_type := ''api_key'', base_url := ''https://api.airtable.com/v0'', timeout := 30,
    supports_webhooks := False, capabilities := airtable_capabilities,
    auth_headers := airtable_auth_headers\<rparr>"

definition airtable_list_bases :: "self \<Rightarrow> json dict \<Rightarrow> json act" where
  "airtable_list_bases s a = json_of (http_get s ''https://api.airtable.com/v0/meta/bases'' [])"

definition airtable_list_tables :: "self \<Rightarrow> json dict \<Rightarrow> json act" where
  "airtable_list_tables s a =
     json_of (http_get s (''https://api.airtable.com/v0/meta/bases/'' @ py_str
       (airtable_base s (jget a ''base_id'')) @ ''/tables'') [])"

definition airtable_list_records :: "self \<Rightarrow> json dict \<Rightarrow> json act" where
  "airtable_list_records s a =
     json_of (http_get s (airtable_table_url s (jget a ''table'') (jget a ''base_id'')) (put_truthy
       ''filterByFormula'' (jget a ''filter_by_formula'') (put_truthy ''view'' (jget a ''view'')
       [(''pageSize'', jget a ''page_size'')])))"

definition airtable_create_record :: "self \<Rightarrow> json dict \<Rightarrow> json act" where
  "airtable_create_record s a =
     json_of (http_post s (airtable_table_url s (jget a ''table'') (jget a ''base_id'')) (JsonBody
       (JObj [(''fields'', jget a ''fields''), (''typecast'', JBool True)])))"

definition airtable_get_record :: "self \<Rightarrow> json dict \<Rightarrow> json act" where
  "airtable_get_record s a =
     json_of (http_get s (airtable_table_url s (jget a ''table'') (jget a ''base_id'') @ ''/'' @
       text_of a ''record_id'') [])"

definition airtable_update_record :: "self \<Rightarrow> json dict \<Rightarrow> json act" where
  "airtable_update_record s a =
     json_of (http_patch s (airtable_table_url s (jget a ''table'') (jget a ''base_id'') @ ''/'' @
       text_of a ''record_id'') (JsonBody (JObj [(''fields'', jget a ''fields''),
       (''typecast'', JBool True)])))"

definition airtable_delete_record :: "self \<Rightarrow> json dict \<Rightarrow> json act" where
  "airtable_delete_record s a =
     bnd (http_delete s (airtable_table_url s (jget a ''table'') (jget a ''base_id'') @ ''/'' @
       text_of a ''record_id'') []) (\<lambda>_. ret (JObj [(''deleted'', JBool True),
       (''record_id'', jget a ''record_id'')]))"

definition airtable_batch_create_records :: "self \<Rightarrow> json dict \<Rightarrow> json act" where
  "airtable_batch_create_records s a =
     bnd (lift (py_iter (jget a ''records''))) (\<lambda>items. json_of (http_post s
       (airtable_table_url s (jget a ''table'') (jget a ''base_id'')) (JsonBody (JObj [(''records'',
       JArr (map (\<lambda>x. JObj [(''fields'', x)]) items)), (''typecast'', JBool True)]))))"

definition airtable_actions :: action_table where
  "airtable_actions = [
     (''list_bases'', spec [] [] airtable_list_bases),
     (''list_tables'', spec [] [(''base_id'', JNull)] airtable_list_tables),
     (''list_records'', spec [''table''] [(''base_id'', JNull), (''view'', JNull),
       (''page_size'', JInt 100), (''filter_by_formula'', JNull)] airtable_list_records),
     (''create_record'', spec [''table'', ''fields''] [(''base_id'', JNull)] airtable_create_record),
     (''get_record'', spec [''table'', ''record_id''] [(''base_id'', JNull)] airtable_get_record),
     (''update_record'', spec [''table'', ''record_id'', ''fields''] [(''base_id'', JNull)]
       airtable_update_record),
     (''delete_record'', spec [''table'', ''record_id''] [(''base_id'', JNull)]
       airtable_delete_record),
     (''batch_create_records'', spec [''table'', ''records''] [(''base_id'', JNull)]
       airtable_batch_create_records)]"

definition airtable_probe :: "self \<Rightarrow> bool act" where
  "airtable_probe s = bnd (json_of (http_get s ''https://api.airtable.com/v0/meta/bases'' [])) (\<lambda>data.
     ret (case data of JObj d \<Rightarrow> has_key d ''bases'' | _ \<Rightarrow> False))"

definition airtable_health :: "self \<Rightarrow> provider_health act" where
  "airtable_health s = or_down (bnd (json_of (http_get s ''https://api.airtable.com/v0/meta/bases'' []))
     (\<lambda>data. bnd (lift (py_len (case data of JObj d \<Rightarrow> jget_or d ''bases'' (JArr []) | _ \<Rightarrow> JArr [])))
     (\<lambda>n. ret (healthy_with [(''bases'', JInt n)]))))"

definition airtable_code :: provider_code where
  "airtable_code = \<lparr>attributes = airtable_attributes, action_table = airtable_actions,
     probe = airtable_probe, probe_health = airtable_health\<rparr>"

end
