(* ===== verification/Providers_Messaging.thy ===== *)
theory Providers_Messaging
  imports Provider_Actions
begin

text \<open>
  \<open>src/providers/*/__init__.py\<close> of the providers that send messages: Slack, Discord, Twilio, SendGrid and Gmail:
  per provider the declared capabilities, the authorization headers, the class attributes, one
  definition per action, the table of the actions with their signatures, \<open>validate_connection\<close> and
  \<open>health\<close>.
\<close>

section \<open>Slack\<close>

text \<open>Slack answers with status 200 and \<open>ok\<close> false when a call fails.\<close>

definition slack_check :: "json \<Rightarrow> exn + json" where
  "slack_check resp_json = (case py_get resp_json ''ok'' JNull of
      Inl e \<Rightarrow> Inl e
    | Inr ok \<Rightarrow> if truthy ok then Inr resp_json
        else (case py_get resp_json ''error'' (JStr ''unknown_error'') of
            Inl e \<Rightarrow> Inl e
          | Inr text \<Rightarrow> Inl (error1 IntegrationError (''slack api error: '' @ py_str text) ''slack'')))"

definition slack_json_of :: "http_response act \<Rightarrow> json act" where
  "slack_json_of m = bnd (json_of m) (\<lambda>resp_json. lift (slack_check resp_json))"

definition slack_capabilities :: "capability list" where
  "slack_capabilities = [
     \<lparr>cap_name = ''send_message'', cap_description = ''Send a message to a Slack channel.'',
       cap_schema = [(''required'', JArr [JStr ''channel'', JStr ''text'']), (''properties'',
       JObj [(''channel'', JObj [(''type'', JStr ''string'')]),
       (''text'', JObj [(''type'', JStr ''string'')]),
       (''thread_ts'', JObj [(''type'', JStr ''string'')])])], cap_examples = []\<rparr>,
     \<lparr>cap_name = ''post_message_in_thread'', cap_description = ''Post a reply in a thread.'',
       cap_schema = [(''required'', JArr [JStr ''channel'', JStr ''text'', JStr ''thread_ts'']),
       (''properties'', JObj [(''channel'', JObj [(''type'', JStr ''string'')]),
       (''text'', JObj [(''type'', JStr ''string'')]),
       (''thread_ts'', JObj [(''type'', JStr ''string'')])])], cap_examples = []\<rparr>,
     \<lparr>cap_name = ''list_channels'', cap_description = ''List channels in the workspace.'',
       cap_schema = [(''properties'', JObj [(''limit'',
       JObj [(''type'', JStr ''integer''), (''default'', JInt 100)]),
       (''cursor'', JObj [(''type'', JStr ''string'')]), (''exclude_archived'',
       JObj [(''type'', JStr ''boolean''), (''default'', JBool True)])])], cap_examples = []\<rparr>,
     \<lparr>cap_name = ''create_channel'', cap_description = ''Create a new Slack channel.'',
       cap_schema = [(''required'', JArr [JStr ''name'']), (''properties'',
       JObj [(''name'', JObj [(''type'', JStr ''string'')]), (''is_private'',
       JObj [(''type'', JStr ''boolean''), (''default'', JBool False)])])],
       cap_examples = []\<rparr>,
     \<lparr>cap_name = ''get_channel_info'',
       cap_description = ''Get information about a channel.'',
       cap_schema = [(''required'', JArr [JStr ''channel'']), (''properties'',
       JObj [(''channel'', JObj [(''type'', JStr ''string'')])])], cap_examples = []\<rparr>,
     \<lparr>cap_name = ''send_message_to_user'',
       cap_description = ''Open a DM and send a message to a user.'',
       cap_schema = [(''required'', JArr [JStr ''user'']), (''properties'',
       JObj [(''user'', JObj [(''type'', JStr ''string'')]),
       (''text'', JObj [(''type'', JStr ''string'')])])], cap_examples = []\<rparr>,
     \<lparr>cap_name = ''list_users'', cap_description = ''List users in the workspace.'',
       cap_schema = [(''properties'', JObj [(''limit'',
       JObj [(''type'', JStr ''integer''), (''default'', JInt 100)])])], cap_examples = []\<rparr>,
     \<lparr>cap_name = ''archive_channel'', cap_description = ''Archive a Slack channel.'',
       cap_schema = [(''required'', JArr [JStr ''channel'']), (''properties'',
       JObj [(''channel'', JObj [(''type'', JStr ''string'')])])], cap_examples = []\<rparr>]"

definition slack_auth_headers :: "env \<Rightarrow> provider_context option \<Rightarrow> string dict" where
  "slack_auth_headers E ctx = (case ctx of
      None \<Rightarrow> []
    | Some _ \<Rightarrow> [(''Authorization'', ''Bearer '' @ py_str (py_or (ctx_credential ctx ''access_token'' JNull)
        (ctx_credential ctx ''bot_token'' (JStr []))))])"

definition slack_attributes :: provider_class where
  "slack_attributes = base_class\<lparr>provider_key := ''slack'', provider_name := ''Slack'',
    description := ''Send messages, manage channels, and interact with Slack workspaces.'',
    auth_type := ''oauth2'', base_url := ''https://slack.com/api'', timeout := 30,
    supports_webhooks := True, default_scopes := Given [''channels:read'', ''channels:manage'',
    ''chat:write'', ''users:read'', ''files:write'', ''reactions:write''],
    oauth_authorize_url := ''https://slack.com/oauth/v2/authorize'',
    oauth_token_url := ''https://slack.com/api/oauth.v2.access'', oauth_revoke_url := [],
    oauth_scopes := Given [''channels:read'', ''channels:manage'', ''chat:write'', ''users:read'',
    ''files:write'', ''reactions:write''], oauth_pkce := False, oauth_token_header_auth := False,
    capabilities := slack_capabilities, verify := Some slack_verify,
    auth_headers := slack_auth_headers\<rparr>"

definition slack_send_message :: "self \<Rightarrow> json dict \<Rightarrow> json act" where
  "slack_send_message s a =
     slack_json_of (http_post s ''/chat.postMessage'' (JsonBody (JObj (put_truthy ''thread_ts''
       (jget a ''thread_ts'') [(''channel'', jget a ''channel''), (''text'', jget a ''text'')]))))"

definition slack_post_message_in_thread :: "self \<Rightarrow> json dict \<Rightarrow> json act" where
  "slack_post_message_in_thread s a =
     slack_json_of (http_post s ''/chat.postMessage'' (JsonBody
       (JObj [(''channel'', jget a ''channel''), (''text'', jget a ''text''),
       (''thread_ts'', jget a ''thread_ts'')])))"

definition slack_list_channels :: "self \<Rightarrow> json dict \<Rightarrow> json act" where
  "slack_list_channels s a =
     slack_json_of (http_get s ''/conversations.list'' (put_truthy ''cursor'' (jget a ''cursor'')
       [(''limit'', jget a ''limit''), (''exclude_archived'',
       JStr (lower (py_str (jget a ''exclude_archived''))))]))"

definition slack_create_channel :: "self \<Rightarrow> json dict \<Rightarrow> json act" where
  "slack_create_channel s a =
     slack_json_of (http_post s ''/conversations.create'' (JsonBody
       (JObj [(''name'', jget a ''name''), (''is_private'', jget a ''is_private'')])))"

definition slack_get_channel_info :: "self \<Rightarrow> json dict \<Rightarrow> json act" where
  "slack_get_channel_info s a =
     slack_json_of (http_get s ''/conversations.info'' [(''channel'', jget a ''channel'')])"

definition slack_send_message_to_user :: "self \<Rightarrow> json dict \<Rightarrow> json act" where
  "slack_send_message_to_user s a =
     bnd (slack_json_of (http_post s ''/conversations.open'' (JsonBody (JObj [(''users'', jget a ''user'')]))))
       (\<lambda>open_data. bnd (lift (py_item open_data ''channel'')) (\<lambda>channel.
        bnd (lift (py_item channel ''id'')) (\<lambda>channel_id.
        slack_json_of (http_post s ''/chat.postMessage''
          (JsonBody (JObj [(''channel'', channel_id), (''text'', jget a ''text'')]))))))"

definition slack_list_users :: "self \<Rightarrow> json dict \<Rightarrow> json act" where
  "slack_list_users s a =
     slack_json_of (http_get s ''/users.list'' [(''limit'', jget a ''limit'')])"

definition slack_archive_channel :: "self \<Rightarrow> json dict \<Rightarrow> json act" where
  "slack_archive_channel s a =
     slack_json_of (http_post s ''/conversations.archive''
       (JsonBody (JObj [(''channel'', jget a ''channel'')])))"

definition slack_actions :: action_table where
  "slack_actions = [
     (''send_message'', spec [''channel'', ''text''] [(''thread_ts'', JNull)] slack_send_message),
     (''post_message_in_thread'', spec [''channel'', ''text'', ''thread_ts''] []
       slack_post_message_in_thread),
     (''list_channels'', spec [] [(''limit'', JInt 100), (''cursor'', JNull),
       (''exclude_archived'', JBool True)] slack_list_channels),
     (''create_channel'', spec [''name''] [(''is_private'', JBool False)] slack_create_channel),
     (''get_channel_info'', spec [''channel''] [] slack_get_channel_info),
     (''send_message_to_user'', spec [''user''] [(''text'', JStr [])] slack_send_message_to_user),
     (''list_users'', spec [] [(''limit'', JInt 100)] slack_list_users),
     (''archive_channel'', spec [''channel''] [] slack_archive_channel)]"

definition slack_probe :: "self \<Rightarrow> bool act" where
  "slack_probe s = bnd (json_of (send_call s ((api_call ''GET'' ''/auth.test'')\<lparr>call_retry := False\<rparr>))) (\<lambda>data.
     bnd (lift (py_get data ''ok'' JNull)) (\<lambda>ok. ret (truthy ok)))"

definition slack_health :: "self \<Rightarrow> provider_health act" where
  "slack_health = health_by slack_probe ''auth.test returned not ok''"

definition slack_code :: provider_code where
  "slack_code = \<lparr>attributes = slack_attributes, action_table = slack_actions,
     probe = slack_probe, probe_health = slack_health\<rparr>"

section \<open>Discord\<close>

definition discord_capabilities :: "capability list" where
  "discord_capabilities = [
     \<lparr>cap_name = ''send_message'',
       cap_description = ''Send a message to a Discord channel.'', cap_schema = [(''required'',
       JArr [JStr ''channel_id'', JStr ''content'']), (''properties'',
       JObj [(''channel_id'', JObj [(''type'', JStr ''string'')]),
       (''content'', JObj [(''type'', JStr ''string'')]),
       (''tts'', JObj [(''type'', JStr ''boolean'')])])], cap_examples = []\<rparr>,
     \<lparr>cap_name = ''read_channel'',
       cap_description = ''Read messages from a Discord channel.'',
       cap_schema = [(''required'', JArr [JStr ''channel_id'']), (''properties'',
       JObj [(''channel_id'', JObj [(''type'', JStr ''string'')]), (''limit'',
       JObj [(''type'', JStr ''integer''), (''default'', JInt 50)])])], cap_examples = []\<rparr>,
     \<lparr>cap_name = ''list_guilds'', cap_description = ''List guilds the bot/user is in.'',
       cap_schema = [(''properties'', JObj [(''limit'',
       JObj [(''type'', JStr ''integer''), (''default'', JInt 100)])])], cap_examples = []\<rparr>,
     \<lparr>cap_name = ''list_channels'', cap_description = ''List channels in a guild.'',
       cap_schema = [(''required'', JArr [JStr ''guild_id'']), (''properties'',
       JObj [(''guild_id'', JObj [(''type'', JStr ''string'')])])], cap_examples = []\<rparr>,
     \<lparr>cap_name = ''create_channel'', cap_description = ''Create a channel in a guild.'',
       cap_schema = [(''required'', JArr [JStr ''guild_id'', JStr ''name'']), (''properties'',
       JObj [(''guild_id'', JObj [(''type'', JStr ''string'')]),
       (''name'', JObj [(''type'', JStr ''string'')]), (''channel_type'',
       JObj [(''type'', JStr ''integer''), (''default'', JInt 0)])])], cap_examples = []\<rparr>,
     \<lparr>cap_name = ''send_typing'',
       cap_description = ''Show a typing indicator in a channel.'',
       cap_schema = [(''required'', JArr [JStr ''channel_id'']), (''properties'',
       JObj [(''channel_id'', JObj [(''type'', JStr ''string'')])])], cap_examples = []\<rparr>,
     \<lparr>cap_name = ''get_user'', cap_description = ''Get information about a Discord user.'',
       cap_schema = [(''required'', JArr [JStr ''user_id'']), (''properties'',
       JObj [(''user_id'', JObj [(''type'', JStr ''string'')])])], cap_examples = []\<rparr>]"

definition discord_auth_headers :: "env \<Rightarrow> provider_context option \<Rightarrow> string dict" where
  "discord_auth_headers E ctx = (case ctx of
      None \<Rightarrow> []
    | Some _ \<Rightarrow> (let bot_token = ctx_credential ctx ''bot_token'' (JStr []) in
        if truthy bot_token then [(''Authorization'', ''Bot '' @ py_str bot_token)]
        else [(''Authorization'', bearer ''access_token'' ctx)]))"

definition discord_attributes :: provider_class where
  "discord_attributes = base_class\<lparr>provider_key := ''discord'', provider_name := ''Discord'',
    description := ''Send messages, list guilds, and manage channels on Discord.'',
    auth_type := ''oauth2'', base_url := ''https://discord.com/api/v10'', timeout := 30,
    supports_webhooks := True, default_scopes := Given [''bot'', ''identify'', ''guilds''],
    oauth_authorize_url := ''https://discord.com/oauth2/authorize'',
    oauth_token_url := ''https://discord.com/api/v10/oauth2/token'', oauth_revoke_url := [],
    oauth_scopes := Given [''bot'', ''identify'', ''guilds''], oauth_pkce := False,
    oauth_token_header_auth := True, capabilities := discord_capabilities,
    verify := Some discord_verify, auth_headers := discord_auth_headers\<rparr>"

definition discord_send_message :: "self \<Rightarrow> json dict \<Rightarrow> json act" where
  "discord_send_message s a =
     json_of (http_post s (''/channels/'' @ text_of a ''channel_id'' @ ''/messages'') (JsonBody
       (JObj (put_given ''tts'' (jget a ''tts'') [(''content'', jget a ''content'')]))))"

definition discord_read_channel :: "self \<Rightarrow> json dict \<Rightarrow> json act" where
  "discord_read_channel s a =
     json_of (http_get s (''/channels/'' @ text_of a ''channel_id'' @ ''/messages'')
       [(''limit'', jget a ''limit'')])"

definition discord_list_guilds :: "self \<Rightarrow> json dict \<Rightarrow> json act" where
  "discord_list_guilds s a =
     json_of (http_get s ''/users/@me/guilds'' [(''limit'', jget a ''limit'')])"

definition discord_list_channels :: "self \<Rightarrow> json dict \<Rightarrow> json act" where
  "discord_list_channels s a =
     json_of (http_get s (''/guilds/'' @ text_of a ''guild_id'' @ ''/channels'') [])"

definition discord_create_channel :: "self \<Rightarrow> json dict \<Rightarrow> json act" where
  "discord_create_channel s a =
     json_of (http_post s (''/guilds/'' @ text_of a ''guild_id'' @ ''/channels'') (JsonBody
       (JObj [(''name'', jget a ''name''), (''type'', jget a ''channel_type'')])))"

definition discord_send_typing :: "self \<Rightarrow> json dict \<Rightarrow> json act" where
  "discord_send_typing s a =
     json_of (http_post s (''/channels/'' @ text_of a ''channel_id'' @ ''/typing'') NoBody)"

definition discord_get_user :: "self \<Rightarrow> json dict \<Rightarrow> json act" where
  "discord_get_user s a = json_of (http_get s (''/users/'' @ text_of a ''user_id'') [])"

definition discord_actions :: action_table where
  "discord_actions = [
     (''send_message'', spec [''channel_id'', ''content''] [(''tts'', JNull)] discord_send_message),
     (''read_channel'', spec [''channel_id''] [(''limit'', JInt 50)] discord_read_channel),
     (''list_guilds'', spec [] [(''limit'', JInt 100)] discord_list_guilds),
     (''list_channels'', spec [''guild_id''] [] discord_list_channels),
     (''create_channel'', spec [''guild_id'', ''name''] [(''channel_type'', JInt 0)]
       discord_create_channel),
     (''send_typing'', spec [''channel_id''] [] discord_send_typing),
     (''get_user'', spec [''user_id''] [] discord_get_user)]"

definition discord_probe :: "self \<Rightarrow> bool act" where
  "discord_probe s = bnd (http_get s ''/users/@me'' []) (\<lambda>resp. bnd (lift (http_json resp)) (\<lambda>data.
     if http_status resp = 200 then lift (py_in ''id'' data) else ret False))"

definition discord_health :: "self \<Rightarrow> provider_health act" where
  "discord_health = health_by discord_probe ''could not validate connection''"

definition discord_code :: provider_code where
  "discord_code = \<lparr>attributes = discord_attributes, action_table = discord_actions,
     probe = discord_probe, probe_health = discord_health\<rparr>"

section \<open>Twilio\<close>

definition twilio_sid :: "self \<Rightarrow> json" where
  "twilio_sid s = credential_of s ''account_sid'' (JStr [])"

definition twilio_capabilities :: "capability list" where
  "twilio_capabilities = [
     \<lparr>cap_name = ''send_sms'', cap_description = ''Send an SMS message.'',
       cap_schema = [(''required'', JArr [JStr ''to'', JStr ''body'']), (''properties'',
       JObj [(''to'', JObj [(''type'', JStr ''string'')]),
       (''body'', JObj [(''type'', JStr ''string'')]),
       (''from_'', JObj [(''type'', JStr ''string'')])])], cap_examples = []\<rparr>,
     \<lparr>cap_name = ''send_whatsapp'', cap_description = ''Send a WhatsApp message.'',
       cap_schema = [(''required'', JArr [JStr ''to'', JStr ''body'']), (''properties'',
       JObj [(''to'', JObj [(''type'', JStr ''string'')]),
       (''body'', JObj [(''type'', JStr ''string'')]),
       (''from_'', JObj [(''type'', JStr ''string'')])])], cap_examples = []\<rparr>,
     \<lparr>cap_name = ''list_messages'',
       cap_description = ''List recent messages for the account.'', cap_schema = [(''properties'',
       JObj [(''limit'', JObj [(''type'', JStr ''integer'')])])], cap_examples = []\<rparr>,
     \<lparr>cap_name = ''get_message'', cap_description = ''Fetch a message by SID.'',
       cap_schema = [(''required'', JArr [JStr ''message_sid'']), (''properties'',
       JObj [(''message_sid'', JObj [(''type'', JStr ''string'')])])], cap_examples = []\<rparr>,
     \<lparr>cap_name = ''send_otp'', cap_description = ''Send a one-time password via SMS.'',
       cap_schema = [(''required'', JArr [JStr ''to'']), (''properties'',
       JObj [(''to'', JObj [(''type'', JStr ''string'')]),
       (''channel'', JObj [(''type'', JStr ''string'')]), (''verify_service_sid'',
       JObj [(''type'', JStr ''string'')])])], cap_examples = []\<rparr>,
     \<lparr>cap_name = ''verify_otp'', cap_description = ''Verify a one-time password.'',
       cap_schema = [(''required'', JArr [JStr ''to'', JStr ''code'']), (''properties'',
       JObj [(''to'', JObj [(''type'', JStr ''string'')]),
       (''code'', JObj [(''type'', JStr ''string'')]), (''verify_service_sid'',
       JObj [(''type'', JStr ''string'')])])], cap_examples = []\<rparr>,
     \<lparr>cap_name = ''make_call'', cap_description = ''Make an outbound phone call.'',
       cap_schema = [(''required'', JArr [JStr ''to'']), (''properties'',
       JObj [(''to'', JObj [(''type'', JStr ''string'')]),
       (''from_'', JObj [(''type'', JStr ''string'')]),
       (''twiml'', JObj [(''type'', JStr ''string'')]),
       (''url'', JObj [(''type'', JStr ''string'')])])], cap_examples = []\<rparr>]"

definition twilio_auth_headers :: "env \<Rightarrow> provider_context option \<Rightarrow> string dict" where
  "twilio_auth_headers E ctx = [(''Authorization'', basic_scheme
     (ctx_credential ctx ''account_sid'' (JStr [])) (ctx_credential ctx ''auth_token'' (JStr [])))]"

definition twilio_attributes :: provider_class where
  "twilio_attributes = base_class\<lparr>provider_key := ''twilio'', provider_name := ''Twilio'',
    description := ''Send SMS, WhatsApp messages, make calls, and verify OTP codes.'',
    auth_type := ''api_key'', base_url := ''https://api.twilio.com/2010-04-01/Accounts'',
    timeout := 30, supports_webhooks := True, capabilities := twilio_capabilities,
    verify := Some twilio_verify, auth_headers := twilio_auth_headers\<rparr>"

definition twilio_send_sms :: "self \<Rightarrow> json dict \<Rightarrow> json act" where
  "twilio_send_sms s a =
     json_of (http_post s (''https://api.twilio.com/2010-04-01/Accounts/'' @ py_str (twilio_sid s) @
       ''/Messages.json'') (FormBody (put_truthy ''From'' (py_or (jget a ''from_'')
       (credential_of s ''phone_number'' (JStr [])))
       [(''To'', jget a ''to''), (''Body'', jget a ''body'')])))"

definition twilio_send_whatsapp :: "self \<Rightarrow> json dict \<Rightarrow> json act" where
  "twilio_send_whatsapp s a =
    (let sender = py_or (jget a ''from_'') (credential_of s ''phone_number'' (JStr []));
         data = [(''To'', JStr (''whatsapp:'' @ text_of a ''to'')), (''Body'', jget a ''body'')]
     in json_of (http_post s (''https://api.twilio.com/2010-04-01/Accounts/'' @ py_str (twilio_sid s) @
          ''/Messages.json'') (FormBody (if truthy sender
            then dset ''From'' (JStr (''whatsapp:'' @ py_str sender)) data else data))))"

definition twilio_list_messages :: "self \<Rightarrow> json dict \<Rightarrow> json act" where
  "twilio_list_messages s a =
     json_of (http_get s (''https://api.twilio.com/2010-04-01/Accounts/'' @ py_str (twilio_sid s) @
       ''/Messages.json'') [(''limit'', jget a ''limit'')])"

definition twilio_get_message :: "self \<Rightarrow> json dict \<Rightarrow> json act" where
  "twilio_get_message s a =
     json_of (http_get s (''https://api.twilio.com/2010-04-01/Accounts/'' @ py_str (twilio_sid s) @
       ''/Messages/'' @ text_of a ''message_sid'' @ ''.json'') [])"

definition twilio_send_otp :: "self \<Rightarrow> json dict \<Rightarrow> json act" where
  "twilio_send_otp s a =
     json_of (http_post s (''https://verify.twilio.com/v2'' @ ''/Services/'' @ py_str (py_or
       (jget a ''verify_service_sid'') (py_or (credential_of s ''verify_service_sid'' (JStr []))
       (JStr (twilio_verify_service_sid (twilio (settings_of (env_of s))))))) @ ''/Verifications'')
       (FormBody [(''To'', jget a ''to''), (''Channel'', jget a ''channel'')]))"

definition twilio_verify_otp :: "self \<Rightarrow> json dict \<Rightarrow> json act" where
  "twilio_verify_otp s a =
     bnd (json_of (http_post s (''https://verify.twilio.com/v2'' @ ''/Services/'' @ py_str (py_or
       (jget a ''verify_service_sid'') (py_or (credential_of s ''verify_service_sid'' (JStr []))
       (JStr (twilio_verify_service_sid (twilio (settings_of (env_of s))))))) @
       ''/VerificationCheck'') (FormBody [(''To'', jget a ''to''), (''Code'', jget a ''code'')])))
       (\<lambda>data. bnd (lift (py_get data ''status'' JNull)) (\<lambda>status. ret
       (JObj [(''valid'', JBool (status = JStr ''approved''))])))"

definition twilio_make_call :: "self \<Rightarrow> json dict \<Rightarrow> json act" where
  "twilio_make_call s a =
     json_of (http_post s (''https://api.twilio.com/2010-04-01/Accounts/'' @ py_str (twilio_sid s) @
       ''/Calls.json'') (FormBody (put_truthy ''Url'' (jget a ''url'') (put_truthy ''Twiml''
       (jget a ''twiml'') (put_truthy ''From'' (py_or (jget a ''from_'')
       (credential_of s ''phone_number'' (JStr []))) [(''To'', jget a ''to'')])))))"

definition twilio_actions :: action_table where
  "twilio_actions = [
     (''send_sms'', spec [''to'', ''body''] [(''from_'', JNull)] twilio_send_sms),
     (''send_whatsapp'', spec [''to'', ''body''] [(''from_'', JNull)] twilio_send_whatsapp),
     (''list_messages'', spec [] [(''limit'', JInt 20)] twilio_list_messages),
     (''get_message'', spec [''message_sid''] [] twilio_get_message),
     (''send_otp'', spec [''to''] [(''channel'', JStr ''sms''), (''verify_service_sid'', JNull)]
       twilio_send_otp),
     (''verify_otp'', spec [''to'', ''code''] [(''verify_service_sid'', JNull)] twilio_verify_otp),
     (''make_call'', spec [''to''] [(''from_'', JNull), (''twiml'', JNull), (''url'', JNull)]
       twilio_make_call)]"

definition twilio_probe :: "self \<Rightarrow> bool act" where
  "twilio_probe s =
     bnd (json_of (http_get s (''https://api.twilio.com/2010-04-01/Accounts/'' @ py_str (twilio_sid s)) [])) (\<lambda>data. lift (py_in ''status'' data))"

definition twilio_health :: "self \<Rightarrow> provider_health act" where
  "twilio_health s = or_down (
     bnd (json_of (http_get s (''https://api.twilio.com/2010-04-01/Accounts/'' @ py_str (twilio_sid s)) [])) (\<lambda>data.
     bnd (lift (py_get data ''status'' JNull)) (\<lambda>v. ret (healthy_with [(''status'', v)]))))"

definition twilio_code :: provider_code where
  "twilio_code = \<lparr>attributes = twilio_attributes, action_table = twilio_actions,
     probe = twilio_probe, probe_health = twilio_health\<rparr>"

section \<open>SendGrid\<close>

definition sendgrid_default_from_email :: "self \<Rightarrow> json" where
  "sendgrid_default_from_email s =
    (let from_email = credential_of s ''from_email'' (JStr []);
         configured = sendgrid_from_email (sendgrid (settings_of (env_of s)))
     in if truthy from_email then from_email
        else JStr (if configured \<noteq> [] then configured else ''noreply@agentforge.ai''))"

text \<open>The helper \<open>_require_api_key\<close>, which no action calls.\<close>

definition sendgrid_require_api_key :: "self \<Rightarrow> exn + json" where
  "sendgrid_require_api_key s =
    (let api_key = credential_of s ''api_key'' (JStr []);
         configured = sendgrid_api_key (sendgrid (settings_of (env_of s)))
     in if truthy api_key then Inr api_key
        else if configured \<noteq> [] then Inr (JStr configured)
        else Inl (error1 IntegrationError ''sendgrid api_key is not configured'' ''sendgrid''))"

text \<open>\<open>[to] if isinstance(to, str) else list(to)\<close>, and \<open>cc if isinstance(cc, list) else [cc]\<close>.\<close>

definition sendgrid_recipients :: "json \<Rightarrow> exn + json list" where
  "sendgrid_recipients v = (case v of JStr _ \<Rightarrow> Inr [v] | _ \<Rightarrow> py_iter v)"

definition sendgrid_copies :: "json \<Rightarrow> json list" where
  "sendgrid_copies v = (case v of JArr xs \<Rightarrow> xs | _ \<Rightarrow> [v])"

abbreviation sendgrid_emails :: "json list \<Rightarrow> json" where
  "sendgrid_emails rs \<equiv> JArr (map (\<lambda>r. JObj [(''email'', r)]) rs)"

definition sendgrid_personalization :: "json \<Rightarrow> json \<Rightarrow> json \<Rightarrow> exn + json dict" where
  "sendgrid_personalization to cc bcc = (case sendgrid_recipients to of
      Inl e \<Rightarrow> Inl e
    | Inr recipients \<Rightarrow> Inr ([(''to'', sendgrid_emails recipients)]
        @ (if truthy cc then [(''cc'', sendgrid_emails (sendgrid_copies cc))] else [])
        @ (if truthy bcc then [(''bcc'', sendgrid_emails (sendgrid_copies bcc))] else [])))"

definition sendgrid_content :: "json \<Rightarrow> json \<Rightarrow> json" where
  "sendgrid_content body html =
     (if truthy html then JArr [JObj [(''type'', JStr ''text/html''), (''value'', html)]]
      else JArr [JObj [(''type'', JStr ''text/plain''), (''value'', py_or body (JStr []))]])"

definition sendgrid_post_mail :: "self \<Rightarrow> json dict \<Rightarrow> json act" where
  "sendgrid_post_mail s payload = bnd (http_post s ''/mail/send'' (JsonBody (JObj payload))) (\<lambda>resp.
     ret (JObj [(''success'', JBool True),
       (''message_id'', jopt_str (dget (http_headers resp) ''x-message-id''))]))"

definition sendgrid_capabilities :: "capability list" where
  "sendgrid_capabilities = [
     \<lparr>cap_name = ''send_email'', cap_description = ''Send a plaintext or HTML email.'',
       cap_schema = [(''required'', JArr [JStr ''to'', JStr ''subject'']), (''properties'',
       JObj [(''to'', JObj [(''type'', JArr [JStr ''string'', JStr ''array''])]),
       (''subject'', JObj [(''type'', JStr ''string'')]),
       (''body'', JObj [(''type'', JStr ''string'')]),
       (''html'', JObj [(''type'', JStr ''string'')]),
       (''from_email'', JObj [(''type'', JStr ''string'')]),
       (''from_name'', JObj [(''type'', JStr ''string'')]), (''cc'',
       JObj [(''type'', JStr ''array''), (''items'', JObj [(''type'', JStr ''string'')])]),
       (''bcc'', JObj [(''type'', JStr ''array''),
       (''items'', JObj [(''type'', JStr ''string'')])])])], cap_examples = []\<rparr>,
     \<lparr>cap_name = ''list_templates'', cap_description = ''List transactional templates.'',
       cap_schema = [(''properties'', JObj [(''page_size'',
       JObj [(''type'', JStr ''integer''), (''default'', JInt 20)])])], cap_examples = []\<rparr>,
     \<lparr>cap_name = ''get_template'', cap_description = ''Fetch a single template by id.'',
       cap_schema = [(''required'', JArr [JStr ''template_id'']), (''properties'',
       JObj [(''template_id'', JObj [(''type'', JStr ''string'')])])], cap_examples = []\<rparr>,
     \<lparr>cap_name = ''send_template_email'',
       cap_description = ''Send an email using a dynamic transactional template.'',
       cap_schema = [(''required'', JArr [JStr ''to'', JStr ''template_id'']), (''properties'',
       JObj [(''to'', JObj [(''type'', JArr [JStr ''string'', JStr ''array''])]),
       (''template_id'', JObj [(''type'', JStr ''string'')]),
       (''dynamic_data'', JObj [(''type'', JStr ''object'')]),
       (''from_email'', JObj [(''type'', JStr ''string'')])])], cap_examples = []\<rparr>,
     \<lparr>cap_name = ''list_suppression_blocks'',
       cap_description = ''List emails currently blocked by SendGrid suppression.'',
       cap_schema = [(''properties'', JObj [(''limit'',
       JObj [(''type'', JStr ''integer''), (''default'', JInt 10)])])], cap_examples = []\<rparr>,
     \<lparr>cap_name = ''list_api_keys'', cap_description = ''List API keys in the account.'',
       cap_schema = [(''properties'', JObj [(''limit'',
       JObj [(''type'', JStr ''integer''), (''default'', JInt 10)])])], cap_examples = []\<rparr>]"

definition sendgrid_auth_headers :: "env \<Rightarrow> provider_context option \<Rightarrow> string dict" where
  "sendgrid_auth_headers E ctx =
    (let api_key = ctx_credential ctx ''api_key'' (JStr []) in
     [(''Authorization'', ''Bearer '' @ (if truthy api_key then py_str api_key
        else sendgrid_api_key (sendgrid (settings_of E))))])"

definition sendgrid_attributes :: provider_class where
  "sendgrid_attributes = base_class\<lparr>provider_key := ''sendgrid'',
    provider_name := ''SendGrid'',
    description := ''Send transactional email and manage templates via the SendGrid API.'',
    auth_type := ''api_key'', base_url := ''https://api.sendgrid.com/v3'', timeout := 30,
    supports_webhooks := True, capabilities := sendgrid_capabilities,
    verify := Some sendgrid_verify, auth_headers := sendgrid_auth_headers\<rparr>"

definition sendgrid_send_email :: "self \<Rightarrow> json dict \<Rightarrow> json act" where
  "sendgrid_send_email s a =
    (let sender_email = py_or (jget a ''from_email'') (sendgrid_default_from_email s);
         from_name = jget a ''from_name''
     in bnd (lift (sendgrid_personalization (jget a ''to'') (jget a ''cc'') (jget a ''bcc'')))
          (\<lambda>personalization. sendgrid_post_mail s
            [(''personalizations'', JArr [JObj personalization]),
             (''from'', if truthy from_name then JObj [(''email'', sender_email), (''name'', from_name)]
                        else JObj [(''email'', sender_email)]),
             (''subject'', jget a ''subject''),
             (''content'', sendgrid_content (jget a ''body'') (jget a ''html''))]))"

definition sendgrid_list_templates :: "self \<Rightarrow> json dict \<Rightarrow> json act" where
  "sendgrid_list_templates s a =
     json_of (http_get s ''/templates'' [(''page_size'', jget a ''page_size'')])"

definition sendgrid_get_template :: "self \<Rightarrow> json dict \<Rightarrow> json act" where
  "sendgrid_get_template s a =
     json_of (http_get s (''/templates/'' @ text_of a ''template_id'') [])"

definition sendgrid_send_template_email :: "self \<Rightarrow> json dict \<Rightarrow> json act" where
  "sendgrid_send_template_email s a =
    (let sender_email = py_or (jget a ''from_email'') (sendgrid_default_from_email s)
     in bnd (lift (sendgrid_recipients (jget a ''to''))) (\<lambda>recipients. sendgrid_post_mail s
          [(''personalizations'', JArr [JObj [(''to'', sendgrid_emails recipients),
              (''dynamic_template_data'', py_or (jget a ''dynamic_data'') (JObj []))]]),
           (''from'', JObj [(''email'', sender_email)]),
           (''template_id'', jget a ''template_id'')]))"

definition sendgrid_list_suppression_blocks :: "self \<Rightarrow> json dict \<Rightarrow> json act" where
  "sendgrid_list_suppression_blocks s a =
     json_of (http_get s ''/suppression/blocks'' [(''limit'', jget a ''limit'')])"

definition sendgrid_list_api_keys :: "self \<Rightarrow> json dict \<Rightarrow> json act" where
  "sendgrid_list_api_keys s a = json_of (http_get s ''/api_keys'' [(''limit'', jget a ''limit'')])"

definition sendgrid_actions :: action_table where
  "sendgrid_actions = [
     (''send_email'', spec [''to'', ''subject''] [(''body'', JNull), (''html'', JNull),
       (''from_email'', JNull), (''from_name'', JNull), (''cc'', JNull), (''bcc'', JNull)]
       sendgrid_send_email),
     (''list_templates'', spec [] [(''page_size'', JInt 20)] sendgrid_list_templates),
     (''get_template'', spec [''template_id''] [] sendgrid_get_template),
     (''send_template_email'', spec [''to'', ''template_id'']
       [(''dynamic_data'', JNull), (''from_email'', JNull)] sendgrid_send_template_email),
     (''list_suppression_blocks'', spec [] [(''limit'', JInt 10)] sendgrid_list_suppression_blocks),
     (''list_api_keys'', spec [] [(''limit'', JInt 10)] sendgrid_list_api_keys)]"

definition sendgrid_probe :: "self \<Rightarrow> bool act" where
  "sendgrid_probe s = bnd (send_call s ((api_call ''GET'' ''/user/profile'')\<lparr>call_retry := False\<rparr>)) (\<lambda>resp. ret (http_status resp = 200))"

definition sendgrid_health :: "self \<Rightarrow> provider_health act" where
  "sendgrid_health = health_by sendgrid_probe ''GET /user/profile did not return 200''"

definition sendgrid_code :: provider_code where
  "sendgrid_code = \<lparr>attributes = sendgrid_attributes, action_table = sendgrid_actions,
     probe = sendgrid_probe, probe_health = sendgrid_health\<rparr>"

section \<open>Gmail\<close>

definition gmail_profile :: "self \<Rightarrow> json act" where
  "gmail_profile s = json_of (http_get s ''/users/me/profile'' [])"

definition crlf :: string where
  "crlf = [CHR 0x0D, CHR 0x0A]"

abbreviation quoted :: "string \<Rightarrow> string" where
  "quoted s \<equiv> [CHR 0x22] @ s @ [CHR 0x22]"

text \<open>\<open>", ".join(v)\<close>.\<close>

definition join_items :: "json \<Rightarrow> exn + string" where
  "join_items v = (case py_iter v of
      Inl e \<Rightarrow> Inl e
    | Inr xs \<Rightarrow> if filter (\<lambda>x. py_type x \<noteq> ''str'') xs = [] then Inr (join '', '' (map py_str xs))
        else Inl (Builtin TypeError []))"

text \<open>\<open>lines.append(f"{name}: ..."}) if v\<close>.\<close>

definition mime_copies :: "string \<Rightarrow> json \<Rightarrow> exn + string list" where
  "mime_copies name v = (if truthy v then map_sum id (\<lambda>t. [name @ '': '' @ t]) (join_items v) else Inr [])"

text \<open>Content that is no text cannot be encoded, and is left out.\<close>

definition mime_attachment :: "json \<Rightarrow> exn + json list" where
  "mime_attachment attachment = (case as_dict attachment of
      None \<Rightarrow> Inl (attribute_error attachment ''get'')
    | Some d \<Rightarrow> (let filename = py_str (jget_or d ''filename'' (JStr ''attachment.bin''));
           ctype = py_str (jget_or d ''mime_type'' (JStr ''application/octet-stream''));
           encoded = (case jget_or d ''content'' (JStr []) of
             JStr content \<Rightarrow> b64_standard (utf8_bytes content) | _ \<Rightarrow> [])
         in Inr (map JStr [''--agentforge_mixed_boundary'',
              ''Content-Type: '' @ ctype @ ''; name='' @ quoted filename,
              ''Content-Transfer-Encoding: base64'', [], encoded])))"

fun collect_lines :: "(exn + 'a list) list \<Rightarrow> exn + 'a list" where
  "collect_lines [] = Inr []"
| "collect_lines (Inl e # rest) = Inl e"
| "collect_lines (Inr x # rest) = map_sum id ((@) x) (collect_lines rest)"

definition mime_body :: "json \<Rightarrow> json \<Rightarrow> json \<Rightarrow> exn + json list" where
  "mime_body body html attachments =
    (if truthy attachments then (case py_iter attachments of
        Inl e \<Rightarrow> Inl e
      | Inr items \<Rightarrow> map_sum id (\<lambda>parts. map JStr [
            ''Content-Type: multipart/mixed; boundary='' @ quoted ''agentforge_mixed_boundary'', [],
            ''--agentforge_mixed_boundary'', ''Content-Type: text/plain; charset=UTF-8'',
            ''Content-Transfer-Encoding: 7bit'', []]
          @ [body] @ parts @ [JStr ''--agentforge_mixed_boundary--''])
          (collect_lines (map mime_attachment items)))
     else Inr (map JStr [
            ''Content-Type: '' @ (if truthy html then ''text/html; charset=UTF-8'' else ''text/plain; charset=UTF-8''),
            ''Content-Transfer-Encoding: 7bit'', []] @ [body]))"

text \<open>\<open>"\r\n".join(line for line in lines if line is not None)\<close>: a body that is neither a text nor
  \<open>None\<close> is a \<open>TypeError\<close>.\<close>

definition join_lines :: "json list \<Rightarrow> exn + string" where
  "join_lines lines = (let kept = filter (\<lambda>l. l \<noteq> JNull) lines in
     if filter (\<lambda>l. py_type l \<noteq> ''str'') kept = [] then Inr (join crlf (map py_str kept))
     else Inl (Builtin TypeError []))"

definition build_mime_message ::
    "json \<Rightarrow> json \<Rightarrow> json \<Rightarrow> json \<Rightarrow> json \<Rightarrow> json \<Rightarrow> json \<Rightarrow> json \<Rightarrow> exn + string" where
  "build_mime_message to sender subject body html cc bcc attachments =
    (case collect_lines [map_sum id (map JStr) (mime_copies ''Cc'' cc), map_sum id (map JStr) (mime_copies ''Bcc'' bcc),
        mime_body body html attachments] of
       Inl e \<Rightarrow> Inl e
     | Inr rest \<Rightarrow> join_lines (map JStr [''From: '' @ py_str sender, ''To: '' @ py_str to,
           ''Subject: '' @ py_str subject, ''MIME-Version: 1.0''] @ rest))"

definition gmail_raw :: "string \<Rightarrow> json" where
  "gmail_raw raw = JStr (b64encode (utf8_bytes raw))"

definition gmail_capabilities :: "capability list" where
  "gmail_capabilities = [
     \<lparr>cap_name = ''send_email'', cap_description = ''Send a plaintext or HTML email.'',
       cap_schema = [(''required'', JArr [JStr ''to'']), (''properties'',
       JObj [(''to'', JObj [(''type'', JStr ''string'')]),
       (''subject'', JObj [(''type'', JStr ''string'')]),
       (''body'', JObj [(''type'', JStr ''string'')]),
       (''html'', JObj [(''type'', JStr ''boolean'')]), (''cc'', JObj [(''type'', JStr ''array''),
       (''items'', JObj [(''type'', JStr ''string'')])]), (''bcc'',
       JObj [(''type'', JStr ''array''), (''items'', JObj [(''type'', JStr ''string'')])]),
       (''attachments'', JObj [(''type'', JStr ''array'')])])],
       cap_examples = [''gmail.send_email to=user@example.com subject=Hello body=World'']\<rparr>,
     \<lparr>cap_name = ''draft_email'',
       cap_description = ''Create an email draft without sending.'',
       cap_schema = [(''required'', JArr [JStr ''to'']), (''properties'',
       JObj [(''to'', JObj [(''type'', JStr ''string'')]),
       (''subject'', JObj [(''type'', JStr ''string'')]),
       (''body'', JObj [(''type'', JStr ''string'')])])], cap_examples = []\<rparr>,
     \<lparr>cap_name = ''search_emails'',
       cap_description = ''Search the inbox with a Gmail query string.'',
       cap_schema = [(''required'', JArr [JStr ''query'']), (''properties'',
       JObj [(''query'', JObj [(''type'', JStr ''string'')]),
       (''max_results'', JObj [(''type'', JStr ''integer'')])])], cap_examples = []\<rparr>,
     \<lparr>cap_name = ''read_email'', cap_description = ''Fetch a single message by id.'',
       cap_schema = [(''required'', JArr [JStr ''email_id'']), (''properties'',
       JObj [(''email_id'', JObj [(''type'', JStr ''string'')])])], cap_examples = []\<rparr>,
     \<lparr>cap_name = ''list_messages'',
       cap_description = ''List recent messages from the inbox.'', cap_schema = [(''properties'',
       JObj [(''max_results'', JObj [(''type'', JStr ''integer'')]),
       (''label_ids'', JObj [(''type'', JStr ''array'')])])], cap_examples = []\<rparr>,
     \<lparr>cap_name = ''list_labels'', cap_description = ''List all mailbox labels.'',
       cap_schema = [], cap_examples = []\<rparr>,
     \<lparr>cap_name = ''mark_read'', cap_description = ''Mark a message as read.'',
       cap_schema = [(''required'', JArr [JStr ''email_id'']), (''properties'',
       JObj [(''email_id'', JObj [(''type'', JStr ''string'')])])], cap_examples = []\<rparr>,
     \<lparr>cap_name = ''get_thread'', cap_description = ''Fetch a full thread by id.'',
       cap_schema = [(''required'', JArr [JStr ''thread_id'']), (''properties'',
       JObj [(''thread_id'', JObj [(''type'', JStr ''string'')])])], cap_examples = []\<rparr>]"

definition gmail_auth_headers :: "env \<Rightarrow> provider_context option \<Rightarrow> string dict" where
  "gmail_auth_headers E ctx = [(''Authorization'', bearer ''access_token'' ctx)]"

definition gmail_attributes :: provider_class where
  "gmail_attributes = base_class\<lparr>provider_key := ''gmail'', provider_name := ''Gmail'',
    description := ''Read, send, draft, and search emails in a Gmail mailbox.'',
    auth_type := ''oauth2'', base_url := ''https://gmail.googleapis.com/gmail/v1'', timeout := 30,
    supports_webhooks := False,
    default_scopes := Given [''https://www.googleapis.com/auth/gmail.readonly'',
    ''https://www.googleapis.com/auth/gmail.send'',
    ''https://www.googleapis.com/auth/gmail.modify''],
    oauth_authorize_url := ''https://accounts.google.com/o/oauth2/v2/auth'',
    oauth_token_url := ''https://oauth2.googleapis.com/token'',
    oauth_revoke_url := ''https://oauth2.googleapis.com/revoke'',
    oauth_scopes := Given [''https://www.googleapis.com/auth/gmail.readonly'',
    ''https://www.googleapis.com/auth/gmail.send'',
    ''https://www.googleapis.com/auth/gmail.modify''], oauth_pkce := True,
    oauth_token_header_auth := False, capabilities := gmail_capabilities,
    auth_headers := gmail_auth_headers\<rparr>"

definition gmail_send_email :: "self \<Rightarrow> json dict \<Rightarrow> json act" where
  "gmail_send_email s a = bnd (gmail_profile s) (\<lambda>profile.
     bnd (lift (py_get profile ''emailAddress'' (JStr []))) (\<lambda>sender.
     bnd (lift (build_mime_message (jget a ''to'') sender (jget a ''subject'') (jget a ''body'')
       (jget a ''html'') (py_or (jget a ''cc'') (JArr [])) (py_or (jget a ''bcc'') (JArr []))
       (py_or (jget a ''attachments'') (JArr [])))) (\<lambda>raw.
     json_of (http_post s ''/users/me/messages/send'' (JsonBody (JObj [(''raw'', gmail_raw raw)]))))))"

definition gmail_draft_email :: "self \<Rightarrow> json dict \<Rightarrow> json act" where
  "gmail_draft_email s a = bnd (gmail_profile s) (\<lambda>profile.
     bnd (lift (py_get profile ''emailAddress'' (JStr []))) (\<lambda>sender.
     bnd (lift (build_mime_message (jget a ''to'') sender (jget a ''subject'') (jget a ''body'')
       (jget a ''html'') (py_or (jget a ''cc'') (JArr [])) (JArr []) (JArr []))) (\<lambda>raw.
     json_of (http_post s ''/users/me/drafts''
       (JsonBody (JObj [(''message'', JObj [(''raw'', gmail_raw raw)])]))))))"

definition gmail_search_emails :: "self \<Rightarrow> json dict \<Rightarrow> json act" where
  "gmail_search_emails s a =
     json_of (http_get s ''/users/me/messages'' [(''q'', jget a ''query''),
       (''maxResults'', jget a ''max_results'')])"

definition gmail_read_email :: "self \<Rightarrow> json dict \<Rightarrow> json act" where
  "gmail_read_email s a =
     json_of (http_get s (''/users/me/messages/'' @ text_of a ''email_id'')
       [(''format'', jget a ''format'')])"

definition gmail_list_messages :: "self \<Rightarrow> json dict \<Rightarrow> json act" where
  "gmail_list_messages s a =
     json_of (http_get s ''/users/me/messages'' (put_truthy ''labelIds'' (jget a ''label_ids'')
       [(''maxResults'', jget a ''max_results'')]))"

definition gmail_list_labels :: "self \<Rightarrow> json dict \<Rightarrow> json act" where
  "gmail_list_labels s a = json_of (http_get s ''/users/me/labels'' [])"

definition gmail_mark_read :: "self \<Rightarrow> json dict \<Rightarrow> json act" where
  "gmail_mark_read s a =
     json_of (http_patch s (''/users/me/messages/'' @ text_of a ''email_id'') (JsonBody
       (JObj [(''removeLabelIds'', JArr [JStr ''UNREAD''])])))"

definition gmail_get_thread :: "self \<Rightarrow> json dict \<Rightarrow> json act" where
  "gmail_get_thread s a =
     json_of (http_get s (''/users/me/threads/'' @ text_of a ''thread_id'') [])"

definition gmail_actions :: action_table where
  "gmail_actions = [
     (''send_email'', spec [''to''] [(''subject'', JStr []), (''body'', JStr []),
       (''html'', JBool False), (''cc'', JNull), (''bcc'', JNull), (''attachments'', JNull)]
       gmail_send_email),
     (''draft_email'', spec [''to''] [(''subject'', JStr []), (''body'', JStr []),
       (''html'', JBool False), (''cc'', JNull)] gmail_draft_email),
     (''search_emails'', spec [''query''] [(''max_results'', JInt 20)] gmail_search_emails),
     (''read_email'', spec [''email_id''] [(''format'', JStr ''full'')] gmail_read_email),
     (''list_messages'', spec [] [(''max_results'', JInt 20), (''label_ids'', JNull)]
       gmail_list_messages),
     (''list_labels'', spec [] [] gmail_list_labels),
     (''mark_read'', spec [''email_id''] [] gmail_mark_read),
     (''get_thread'', spec [''thread_id''] [] gmail_get_thread)]"

definition gmail_probe :: "self \<Rightarrow> bool act" where
  "gmail_probe s = bnd (gmail_profile s) (\<lambda>profile. lift (py_in ''emailAddress'' profile))"

definition gmail_health :: "self \<Rightarrow> provider_health act" where
  "gmail_health s = or_down (bnd (gmail_profile s) (\<lambda>profile.
     bnd (lift (py_get profile ''emailAddress'' JNull)) (\<lambda>v. ret (healthy_with [(''email'', v)]))))"

definition gmail_code :: provider_code where
  "gmail_code = \<lparr>attributes = gmail_attributes, action_table = gmail_actions,
     probe = gmail_probe, probe_health = gmail_health\<rparr>"

end
