(* ===== verification/Providers_Business.thy ===== *)
theory Providers_Business
  imports Provider_Actions
begin

text \<open>
  \<open>src/providers/*/__init__.py\<close> of the providers of business data: Stripe, HubSpot, Salesforce and Supabase:
  per provider the declared capabilities, the authorization headers, the class attributes, one
  definition per action, the table of the actions with their signatures, \<open>validate_connection\<close> and
  \<open>health\<close>.
\<close>

section \<open>Stripe\<close>

text \<open>\<open>for k, v in metadata.items(): data[f"metadata[{k}]"] = str(v)\<close>, when there is metadata.\<close>

definition stripe_metadata :: "json \<Rightarrow> json dict \<Rightarrow> exn + json dict" where
  "stripe_metadata metadata data = (if truthy metadata
     then map_sum id (\<lambda>m. fold (\<lambda>(k, v). dset (''metadata['' @ k @ '']'') (JStr (py_str v))) m data)
            (py_items metadata)
     else Inr data)"

definition stripe_capabilities :: "capability list" where
  "stripe_capabilities = [
     \<lparr>cap_name = ''list_customers'', cap_description = ''List Stripe customers.'',
       cap_schema = [(''properties'', JObj [(''limit'', JObj [(''type'', JStr ''integer'')])])],
       cap_examples = []\<rparr>,
     \<lparr>cap_name = ''create_customer'', cap_description = ''Create a new customer.'',
       cap_schema = [(''properties'', JObj [(''email'', JObj [(''type'', JStr ''string'')]),
       (''name'', JObj [(''type'', JStr ''string'')]),
       (''metadata'', JObj [(''type'', JStr ''object'')]),
       (''description'', JObj [(''type'', JStr ''string'')])])], cap_examples = []\<rparr>,
     \<lparr>cap_name = ''get_customer'', cap_description = ''Fetch a customer by id.'',
       cap_schema = [(''required'', JArr [JStr ''customer_id'']), (''properties'',
       JObj [(''customer_id'', JObj [(''type'', JStr ''string'')])])], cap_examples = []\<rparr>,
     \<lparr>cap_name = ''update_customer'', cap_description = ''Update a customer.'',
       cap_schema = [(''required'', JArr [JStr ''customer_id'']), (''properties'',
       JObj [(''customer_id'', JObj [(''type'', JStr ''string'')])])], cap_examples = []\<rparr>,
     \<lparr>cap_name = ''list_charges'', cap_description = ''List Stripe charges.'',
       cap_schema = [(''properties'', JObj [(''limit'', JObj [(''type'', JStr ''integer'')])])],
       cap_examples = []\<rparr>,
     \<lparr>cap_name = ''create_charge'', cap_description = ''Create a charge.'',
       cap_schema = [(''required'', JArr [JStr ''amount'']), (''properties'',
       JObj [(''amount'', JObj [(''type'', JStr ''integer'')]),
       (''currency'', JObj [(''type'', JStr ''string'')]),
       (''source'', JObj [(''type'', JStr ''string'')]),
       (''description'', JObj [(''type'', JStr ''string'')]),
       (''customer'', JObj [(''type'', JStr ''string'')])])], cap_examples = []\<rparr>,
     \<lparr>cap_name = ''create_payment_intent'', cap_description = ''Create a PaymentIntent.'',
       cap_schema = [(''required'', JArr [JStr ''amount'']), (''properties'',
       JObj [(''amount'', JObj [(''type'', JStr ''integer'')]),
       (''currency'', JObj [(''type'', JStr ''string'')]), (''payment_method_types'',
       JObj [(''type'', JStr ''array'')]), (''metadata'', JObj [(''type'', JStr ''object'')])])],
       cap_examples = []\<rparr>,
     \<lparr>cap_name = ''confirm_payment_intent'', cap_description = ''Confirm a PaymentIntent.'',
       cap_schema = [(''required'', JArr [JStr ''payment_intent_id'']), (''properties'',
       JObj [(''payment_intent_id'', JObj [(''type'', JStr ''string'')]),
       (''payment_method'', JObj [(''type'', JStr ''string'')])])], cap_examples = []\<rparr>,
     \<lparr>cap_name = ''create_refund'', cap_description = ''Create a refund for a charge.'',
       cap_schema = [(''required'', JArr [JStr ''charge_id'']), (''properties'',
       JObj [(''charge_id'', JObj [(''type'', JStr ''string'')]),
       (''amount'', JObj [(''type'', JStr ''integer'')])])], cap_examples = []\<rparr>,
     \<lparr>cap_name = ''list_events'', cap_description = ''List Stripe events.'',
       cap_schema = [(''properties'', JObj [(''limit'', JObj [(''type'', JStr ''integer'')])])],
       cap_examples = []\<rparr>,
     \<lparr>cap_name = ''get_event'', cap_description = ''Fetch a Stripe event by id.'',
       cap_schema = [(''required'', JArr [JStr ''event_id'']), (''properties'',
       JObj [(''event_id'', JObj [(''type'', JStr ''string'')])])], cap_examples = []\<rparr>]"

definition stripe_auth_headers :: "env \<Rightarrow> provider_context option \<Rightarrow> string dict" where
  "stripe_auth_headers E ctx = [(''Authorization'', bearer ''secret_key'' ctx),
     (''Content-Type'', ''application/x-www-form-urlencoded'')]"

definition stripe_attributes :: provider_class where
  "stripe_attributes = base_class\<lparr>provider_key := ''stripe'', provider_name := ''Stripe'',
    description := ''Manage Stripe customers, charges, payment intents, refunds, and events.'',
    auth_type := ''api_key'', base_url := ''https://api.stripe.com'', timeout := 30,
    supports_webhooks := True, capabilities := stripe_capabilities, verify := Some stripe_verify,
    auth_headers := stripe_auth_headers\<rparr>"

definition stripe_list_customers :: "self \<Rightarrow> json dict \<Rightarrow> json act" where
  "stripe_list_customers s a =
     json_of (http_get s ''/v1/customers'' [(''limit'', JStr (py_str (jget a ''limit'')))])"

definition stripe_create_customer :: "self \<Rightarrow> json dict \<Rightarrow> json act" where
  "stripe_create_customer s a = bnd (lift (stripe_metadata (jget a ''metadata'')
       (put_truthy ''description'' (jget a ''description'') (put_truthy ''name'' (jget a ''name'')
       (put_truthy ''email'' (jget a ''email'') [])))))
     (\<lambda>data. json_of (http_post s ''/v1/customers'' (FormBody data)))"

definition stripe_get_customer :: "self \<Rightarrow> json dict \<Rightarrow> json act" where
  "stripe_get_customer s a =
     json_of (http_get s (''/v1/customers/'' @ text_of a ''customer_id'') [])"

definition stripe_update_customer :: "self \<Rightarrow> json dict \<Rightarrow> json dict \<Rightarrow> json act" where
  "stripe_update_customer s a kw = json_of (http_post s (''/v1/customers/'' @ text_of a ''customer_id'')
     (FormBody (map (\<lambda>(k, v). (k, JStr (py_str v))) kw)))"

definition stripe_list_charges :: "self \<Rightarrow> json dict \<Rightarrow> json act" where
  "stripe_list_charges s a =
     json_of (http_get s ''/v1/charges'' [(''limit'', JStr (py_str (jget a ''limit'')))])"

definition stripe_create_charge :: "self \<Rightarrow> json dict \<Rightarrow> json act" where
  "stripe_create_charge s a =
     json_of (http_post s ''/v1/charges'' (FormBody (put_truthy ''customer'' (jget a ''customer'')
       (put_truthy ''description'' (jget a ''description'') (put_truthy ''source''
       (jget a ''source'') [(''amount'', JStr (py_str (jget a ''amount''))),
       (''currency'', jget a ''currency'')])))))"

definition stripe_create_payment_intent :: "self \<Rightarrow> json dict \<Rightarrow> json act" where
  "stripe_create_payment_intent s a =
    (let types = jget a ''payment_method_types'';
         data = [(''amount'', JStr (text_of a ''amount'')), (''currency'', jget a ''currency'')]
     in bnd (lift (if truthy types then py_iter types else Inr [])) (\<lambda>pmts.
        bnd (lift (stripe_metadata (jget a ''metadata'')
          (if pmts = [] then data else dset ''payment_method_types[]'' (JArr pmts) data))) (\<lambda>data.
        json_of (http_post s ''/v1/payment_intents'' (FormBody data)))))"

definition stripe_confirm_payment_intent :: "self \<Rightarrow> json dict \<Rightarrow> json act" where
  "stripe_confirm_payment_intent s a =
     json_of (http_post s (''/v1/payment_intents/'' @ text_of a ''payment_intent_id'' @
       ''/confirm'') (FormBody (put_truthy ''payment_method'' (jget a ''payment_method'') [])))"

definition stripe_create_refund :: "self \<Rightarrow> json dict \<Rightarrow> json act" where
  "stripe_create_refund s a =
     json_of (http_post s ''/v1/refunds'' (FormBody (if jget a ''amount'' \<noteq> JNull then dset
       ''amount'' (JStr (py_str (jget a ''amount''))) [(''charge'', jget a ''charge_id'')] else
       [(''charge'', jget a ''charge_id'')])))"

definition stripe_list_events :: "self \<Rightarrow> json dict \<Rightarrow> json act" where
  "stripe_list_events s a =
     json_of (http_get s ''/v1/events'' [(''limit'', JStr (py_str (jget a ''limit'')))])"

definition stripe_get_event :: "self \<Rightarrow> json dict \<Rightarrow> json act" where
  "stripe_get_event s a = json_of (http_get s (''/v1/events/'' @ text_of a ''event_id'') [])"

definition stripe_actions :: action_table where
  "stripe_actions = [
     (''list_customers'', spec [] [(''limit'', JInt 10)] stripe_list_customers),
     (''create_customer'', spec [] [(''email'', JNull), (''name'', JNull), (''metadata'', JNull),
       (''description'', JNull)] stripe_create_customer),
     (''get_customer'', spec [''customer_id''] [] stripe_get_customer),
     (''update_customer'', spec_kw [''customer_id''] [] stripe_update_customer),
     (''list_charges'', spec [] [(''limit'', JInt 10)] stripe_list_charges),
     (''create_charge'', spec [''amount''] [(''currency'', JStr ''usd''), (''source'', JNull),
       (''description'', JNull), (''customer'', JNull)] stripe_create_charge),
     (''create_payment_intent'', spec [''amount''] [(''currency'', JStr ''usd''),
       (''payment_method_types'', JNull), (''metadata'', JNull)] stripe_create_payment_intent),
     (''confirm_payment_intent'', spec [''payment_intent_id''] [(''payment_method'', JNull)]
       stripe_confirm_payment_intent),
     (''create_refund'', spec [''charge_id''] [(''amount'', JNull)] stripe_create_refund),
     (''list_events'', spec [] [(''limit'', JInt 10)] stripe_list_events),
     (''get_event'', spec [''event_id''] [] stripe_get_event)]"

definition stripe_probe :: "self \<Rightarrow> bool act" where
  "stripe_probe s = bnd (http_get s ''/v1/balance'' []) (\<lambda>resp. ret (http_status resp = 200))"

definition stripe_health :: "self \<Rightarrow> provider_health act" where
  "stripe_health s = or_down (bnd (http_get s ''/v1/balance'' []) (\<lambda>resp.
     ret (if http_status resp = 200 then healthy else down [(''reason'', JStr ''balance returned non-200'')])))"

definition stripe_code :: provider_code where
  "stripe_code = \<lparr>attributes = stripe_attributes, action_table = stripe_actions,
     probe = stripe_probe, probe_health = stripe_health\<rparr>"

section \<open>HubSpot\<close>

definition hubspot_capabilities :: "capability list" where
  "hubspot_capabilities = [
     \<lparr>cap_name = ''list_contacts'', cap_description = ''List CRM contacts.'',
       cap_schema = [(''properties'', JObj [(''limit'', JObj [(''type'', JStr ''integer'')]),
       (''after'', JObj [(''type'', JStr ''string'')])])], cap_examples = []\<rparr>,
     \<lparr>cap_name = ''create_contact'', cap_description = ''Create a new contact.'',
       cap_schema = [(''required'', JArr [JStr ''properties'']), (''properties'',
       JObj [(''properties'', JObj [(''type'', JStr ''object'')])])], cap_examples = []\<rparr>,
     \<lparr>cap_name = ''get_contact'', cap_description = ''Fetch a contact by id.'',
       cap_schema = [(''required'', JArr [JStr ''contact_id'']), (''properties'',
       JObj [(''contact_id'', JObj [(''type'', JStr ''string'')])])], cap_examples = []\<rparr>,
     \<lparr>cap_name = ''update_contact'', cap_description = ''Update a contact.'',
       cap_schema = [(''required'', JArr [JStr ''contact_id'', JStr ''properties'']),
       (''properties'', JObj [(''contact_id'', JObj [(''type'', JStr ''string'')]),
       (''properties'', JObj [(''type'', JStr ''object'')])])], cap_examples = []\<rparr>,
     \<lparr>cap_name = ''list_deals'', cap_description = ''List CRM deals.'',
       cap_schema = [(''properties'', JObj [(''limit'', JObj [(''type'', JStr ''integer'')])])],
       cap_examples = []\<rparr>,
     \<lparr>cap_name = ''create_deal'', cap_description = ''Create a new deal.'',
       cap_schema = [(''required'', JArr [JStr ''properties'']), (''properties'',
       JObj [(''properties'', JObj [(''type'', JStr ''object'')])])], cap_examples = []\<rparr>,
     \<lparr>cap_name = ''update_deal'', cap_description = ''Update a deal.'',
       cap_schema = [(''required'', JArr [JStr ''deal_id'', JStr ''properties'']), (''properties'',
       JObj [(''deal_id'', JObj [(''type'', JStr ''string'')]),
       (''properties'', JObj [(''type'', JStr ''object'')])])], cap_examples = []\<rparr>,
     \<lparr>cap_name = ''list_companies'', cap_description = ''List CRM companies.'',
       cap_schema = [(''properties'', JObj [(''limit'', JObj [(''type'', JStr ''integer'')])])],
       cap_examples = []\<rparr>,
     \<lparr>cap_name = ''create_company'', cap_description = ''Create a new company.'',
       cap_schema = [(''required'', JArr [JStr ''properties'']), (''properties'',
       JObj [(''properties'', JObj [(''type'', JStr ''object'')])])], cap_examples = []\<rparr>,
     \<lparr>cap_name = ''create_note'', cap_description = ''Create a note on an object.'',
       cap_schema = [(''required'', JArr [JStr ''properties'']), (''properties'',
       JObj [(''properties'', JObj [(''type'', JStr ''object'')]),
       (''associations'', JObj [(''type'', JStr ''array'')])])], cap_examples = []\<rparr>,
     \<lparr>cap_name = ''search_objects'',
       cap_description = ''Search a CRM object type by query.'',
       cap_schema = [(''required'', JArr [JStr ''object_type'', JStr ''query'']), (''properties'',
       JObj [(''object_type'', JObj [(''type'', JStr ''string'')]),
       (''query'', JObj [(''type'', JStr ''string'')]),
       (''limit'', JObj [(''type'', JStr ''integer'')])])], cap_examples = []\<rparr>]"

definition hubspot_auth_headers :: "env \<Rightarrow> provider_context option \<Rightarrow> string dict" where
  "hubspot_auth_headers E ctx = [(''Authorization'', bearer ''access_token'' ctx)]"

definition hubspot_attributes :: provider_class where
  "hubspot_attributes = base_class\<lparr>provider_key := ''hubspot'', provider_name := ''HubSpot'',
    description := ''Manage HubSpot CRM contacts, deals, companies, and notes.'',
    auth_type := ''oauth2'', base_url := ''https://api.hubapi.com'', timeout := 30,
    supports_webhooks := True, default_scopes := Given [''crm.objects.contacts.read'',
    ''crm.objects.deals.read'', ''crm.objects.companies.read'', ''oauth''],
    oauth_authorize_url := ''https://app.hubspot.com/oauth/authorize'',
    oauth_token_url := ''https://api.hubapi.com/oauth/v1/token'', oauth_revoke_url := [],
    oauth_scopes := Given [''crm.objects.contacts.read'', ''crm.objects.deals.read'',
    ''crm.objects.companies.read'', ''oauth''], oauth_pkce := False,
    oauth_token_header_auth := False, capabilities := hubspot_capabilities,
    verify := Some hubspot_verify, auth_headers := hubspot_auth_headers\<rparr>"

definition hubspot_list_contacts :: "self \<Rightarrow> json dict \<Rightarrow> json act" where
  "hubspot_list_contacts s a =
     json_of (http_get s ''/crm/v3/objects/contacts'' (put_truthy ''after'' (jget a ''after'')
       [(''limit'', jget a ''limit'')]))"

definition hubspot_create_contact :: "self \<Rightarrow> json dict \<Rightarrow> json act" where
  "hubspot_create_contact s a =
     json_of (http_post s ''/crm/v3/objects/contacts''
       (JsonBody (JObj [(''properties'', jget a ''properties'')])))"

definition hubspot_get_contact :: "self \<Rightarrow> json dict \<Rightarrow> json act" where
  "hubspot_get_contact s a =
     json_of (http_get s (''/crm/v3/objects/contacts/'' @ text_of a ''contact_id'') [])"

definition hubspot_update_contact :: "self \<Rightarrow> json dict \<Rightarrow> json act" where
  "hubspot_update_contact s a =
     json_of (http_patch s (''/crm/v3/objects/contacts/'' @ text_of a ''contact_id'')
       (JsonBody (JObj [(''properties'', jget a ''properties'')])))"

definition hubspot_list_deals :: "self \<Rightarrow> json dict \<Rightarrow> json act" where
  "hubspot_list_deals s a =
     json_of (http_get s ''/crm/v3/objects/deals'' [(''limit'', jget a ''limit'')])"

definition hubspot_create_deal :: "self \<Rightarrow> json dict \<Rightarrow> json act" where
  "hubspot_create_deal s a =
     json_of (http_post s ''/crm/v3/objects/deals''
       (JsonBody (JObj [(''properties'', jget a ''properties'')])))"

definition hubspot_update_deal :: "self \<Rightarrow> json dict \<Rightarrow> json act" where
  "hubspot_update_deal s a =
     json_of (http_patch s (''/crm/v3/objects/deals/'' @ text_of a ''deal_id'')
       (JsonBody (JObj [(''properties'', jget a ''properties'')])))"

definition hubspot_list_companies :: "self \<Rightarrow> json dict \<Rightarrow> json act" where
  "hubspot_list_companies s a =
     json_of (http_get s ''/crm/v3/objects/companies'' [(''limit'', jget a ''limit'')])"

definition hubspot_create_company :: "self \<Rightarrow> json dict \<Rightarrow> json act" where
  "hubspot_create_company s a =
     json_of (http_post s ''/crm/v3/objects/companies''
       (JsonBody (JObj [(''properties'', jget a ''properties'')])))"

definition hubspot_create_note :: "self \<Rightarrow> json dict \<Rightarrow> json act" where
  "hubspot_create_note s a =
     json_of (http_post s ''/crm/v3/objects/notes'' (JsonBody (JObj (put_truthy ''associations''
       (jget a ''associations'') [(''properties'', jget a ''properties'')]))))"

definition hubspot_search_objects :: "self \<Rightarrow> json dict \<Rightarrow> json act" where
  "hubspot_search_objects s a =
     json_of (http_post s (''/crm/v3/objects/'' @ text_of a ''object_type'' @ ''/search'') (JsonBody
       (JObj [(''query'', jget a ''query''), (''limit'', jget a ''limit'')])))"

definition hubspot_actions :: action_table where
  "hubspot_actions = [
     (''list_contacts'', spec [] [(''limit'', JInt 50), (''after'', JNull)] hubspot_list_contacts),
     (''create_contact'', spec [''properties''] [] hubspot_create_contact),
     (''get_contact'', spec [''contact_id''] [] hubspot_get_contact),
     (''update_contact'', spec [''contact_id'', ''properties''] [] hubspot_update_contact),
     (''list_deals'', spec [] [(''limit'', JInt 50)] hubspot_list_deals),
     (''create_deal'', spec [''properties''] [] hubspot_create_deal),
     (''update_deal'', spec [''deal_id'', ''properties''] [] hubspot_update_deal),
     (''list_companies'', spec [] [(''limit'', JInt 50)] hubspot_list_companies),
     (''create_company'', spec [''properties''] [] hubspot_create_company),
     (''create_note'', spec [''properties''] [(''associations'', JNull)] hubspot_create_note),
     (''search_objects'', spec [''object_type'', ''query''] [(''limit'', JInt 20)]
       hubspot_search_objects)]"

definition hubspot_probe :: "self \<Rightarrow> bool act" where
  "hubspot_probe s = bnd (json_of (http_get s ''/crm/v3/objects/contacts'' [(''limit'', JInt 1)])) (\<lambda>data.
     bnd (lift (py_in ''results'' data)) (\<lambda>r. if r then ret True else lift (py_in ''total'' data)))"

definition hubspot_health :: "self \<Rightarrow> provider_health act" where
  "hubspot_health s = or_down (
     bnd (json_of (http_get s ''/crm/v3/objects/contacts'' [(''limit'', JInt 1)])) (\<lambda>data.
     bnd (lift (py_get data ''total'' JNull)) (\<lambda>v. ret (healthy_with [(''total'', v)]))))"

definition hubspot_code :: provider_code where
  "hubspot_code = \<lparr>attributes = hubspot_attributes, action_table = hubspot_actions,
     probe = hubspot_probe, probe_health = hubspot_health\<rparr>"

section \<open>Salesforce\<close>

definition salesforce_instance :: "self \<Rightarrow> exn + string" where
  "salesforce_instance s =
    (let inst = credential_of s ''instance_url'' JNull;
         configured = salesforce_instance_url (salesforce (settings_of (env_of s)))
     in if truthy inst then map_sum id rstrip_slash (py_string ''rstrip'' inst)
        else Inr (if configured \<noteq> [] then rstrip_slash configured else ''https://login.salesforce.com''))"

definition salesforce_url :: "self \<Rightarrow> string \<Rightarrow> exn + string" where
  "salesforce_url s path = map_sum id (\<lambda>inst. inst @ ''/services/data/''
     @ salesforce_api_version (salesforce (settings_of (env_of s))) @ path) (salesforce_instance s)"

definition salesforce_capabilities :: "capability list" where
  "salesforce_capabilities = [
     \<lparr>cap_name = ''whoami'',
       cap_description = ''Get the current Salesforce user and instance info.'', cap_schema = [],
       cap_examples = []\<rparr>,
     \<lparr>cap_name = ''list_objects'',
       cap_description = ''List available Salesforce standard and custom objects.'',
       cap_schema = [], cap_examples = []\<rparr>,
     \<lparr>cap_name = ''describe_object'', cap_description = ''Describe a Salesforce object.'',
       cap_schema = [(''required'', JArr [JStr ''sobject'']), (''properties'',
       JObj [(''sobject'', JObj [(''type'', JStr ''string'')])])], cap_examples = []\<rparr>,
     \<lparr>cap_name = ''create_record'', cap_description = ''Create a Salesforce record.'',
       cap_schema = [(''required'', JArr [JStr ''sobject'', JStr ''fields'']), (''properties'',
       JObj [(''sobject'', JObj [(''type'', JStr ''string'')]),
       (''fields'', JObj [(''type'', JStr ''object'')])])], cap_examples = []\<rparr>,
     \<lparr>cap_name = ''get_record'', cap_description = ''Fetch a Salesforce record by id.'',
       cap_schema = [(''required'', JArr [JStr ''sobject'', JStr ''record_id'']), (''properties'',
       JObj [(''sobject'', JObj [(''type'', JStr ''string'')]),
       (''record_id'', JObj [(''type'', JStr ''string'')])])], cap_examples = []\<rparr>,
     \<lparr>cap_name = ''update_record'', cap_description = ''Update a Salesforce record.'',
       cap_schema = [(''required'', JArr [JStr ''sobject'', JStr ''record_id'', JStr ''fields'']),
       (''properties'', JObj [(''sobject'', JObj [(''type'', JStr ''string'')]),
       (''record_id'', JObj [(''type'', JStr ''string'')]),
       (''fields'', JObj [(''type'', JStr ''object'')])])], cap_examples = []\<rparr>,
     \<lparr>cap_name = ''delete_record'', cap_description = ''Delete a Salesforce record.'',
       cap_schema = [(''required'', JArr [JStr ''sobject'', JStr ''record_id'']), (''properties'',
       JObj [(''sobject'', JObj [(''type'', JStr ''string'')]),
       (''record_id'', JObj [(''type'', JStr ''string'')])])], cap_examples = []\<rparr>,
     \<lparr>cap_name = ''query'', cap_description = ''Run a SOQL query.'',
       cap_schema = [(''required'', JArr [JStr ''soql'']), (''properties'',
       JObj [(''soql'', JObj [(''type'', JStr ''string'')])])], cap_examples = []\<rparr>,
     \<lparr>cap_name = ''search'', cap_description = ''Run a Salesforce SOSL search.'',
       cap_schema = [(''required'', JArr [JStr ''q'']), (''properties'',
       JObj [(''q'', JObj [(''type'', JStr ''string'')])])], cap_examples = []\<rparr>,
     \<lparr>cap_name = ''list_accounts'', cap_description = ''List Account records.'',
       cap_schema = [(''properties'', JObj [(''limit'', JObj [(''type'', JStr ''integer'')])])],
       cap_examples = []\<rparr>,
     \<lparr>cap_name = ''list_contacts'', cap_description = ''List Contact records.'',
       cap_schema = [(''properties'', JObj [(''limit'', JObj [(''type'', JStr ''integer'')])])],
       cap_examples = []\<rparr>,
     \<lparr>cap_name = ''list_opportunities'', cap_description = ''List Opportunity records.'',
       cap_schema = [(''properties'', JObj [(''limit'', JObj [(''type'', JStr ''integer'')])])],
       cap_examples = []\<rparr>]"

definition salesforce_auth_headers :: "env \<Rightarrow> provider_context option \<Rightarrow> string dict" where
  "salesforce_auth_headers E ctx = [(''Authorization'', bearer ''access_token'' ctx),
     (''Content-Type'', ''application/json'')]"

definition salesforce_attributes :: provider_class where
  "salesforce_attributes = base_class\<lparr>provider_key := ''salesforce'',
    provider_name := ''Salesforce'',
    description := ''Query and manage Salesforce objects, accounts, contacts, and opportunities.'',
    auth_type := ''oauth2'', base_url := ''https://login.salesforce.com'', timeout := 30,
    supports_webhooks := False, default_scopes := Given [''api'', ''refresh_token''],
    oauth_authorize_url := ''https://login.salesforce.com/services/oauth2/authorize'',
    oauth_token_url := ''https://login.salesforce.com/services/oauth2/token'',
    oauth_revoke_url := [], oauth_scopes := Given [''api'', ''refresh_token''], oauth_pkce := True,
    oauth_token_header_auth := False, capabilities := salesforce_capabilities,
    auth_headers := salesforce_auth_headers\<rparr>"

definition salesforce_whoami :: "self \<Rightarrow> json dict \<Rightarrow> json act" where
  "salesforce_whoami s a =
     bnd (lift (salesforce_url s ''/sobjects'')) (\<lambda>url. bnd (json_of (http_get s url []))
       (\<lambda>data. bnd (lift (py_get data ''sobjects'' (JArr [])))
       (\<lambda>sobjects. ret (JObj [(''sobjects'', sobjects)]))))"

definition salesforce_list_objects :: "self \<Rightarrow> json dict \<Rightarrow> json act" where
  "salesforce_list_objects s a =
     bnd (lift (salesforce_url s ''/sobjects'')) (\<lambda>url. json_of (http_get s url []))"

definition salesforce_describe_object :: "self \<Rightarrow> json dict \<Rightarrow> json act" where
  "salesforce_describe_object s a =
     bnd (lift (salesforce_url s (''/sobjects/'' @ text_of a ''sobject'' @ ''/describe'')))
       (\<lambda>url. json_of (http_get s url []))"

definition salesforce_create_record :: "self \<Rightarrow> json dict \<Rightarrow> json act" where
  "salesforce_create_record s a =
     bnd (lift (salesforce_url s (''/sobjects/'' @ text_of a ''sobject''))) (\<lambda>url. bnd
       (json_of (send_call s ((api_call ''POST'' url)\<lparr>call_body := JsonBody
       (jget a ''fields''), call_allowed := [201]\<rparr>))) (\<lambda>data. bnd
       (lift (py_get data ''id'' JNull)) (\<lambda>id. ret (JObj [(''id'', id)]))))"

definition salesforce_get_record :: "self \<Rightarrow> json dict \<Rightarrow> json act" where
  "salesforce_get_record s a =
     bnd (lift (salesforce_url s (''/sobjects/'' @ text_of a ''sobject'' @ ''/'' @
       text_of a ''record_id''))) (\<lambda>url. json_of (http_get s url []))"

definition salesforce_update_record :: "self \<Rightarrow> json dict \<Rightarrow> json act" where
  "salesforce_update_record s a =
     bnd (lift (salesforce_url s (''/sobjects/'' @ text_of a ''sobject'' @ ''/'' @
       text_of a ''record_id''))) (\<lambda>url. json_of
       (http_patch s url (JsonBody (jget a ''fields''))))"

definition salesforce_delete_record :: "self \<Rightarrow> json dict \<Rightarrow> json act" where
  "salesforce_delete_record s a =
     bnd (lift (salesforce_url s (''/sobjects/'' @ text_of a ''sobject'' @ ''/'' @
       text_of a ''record_id''))) (\<lambda>url. bnd (http_delete s url [])
       (\<lambda>_. ret (JObj [(''deleted'', JBool True)])))"

definition salesforce_query :: "self \<Rightarrow> json dict \<Rightarrow> json act" where
  "salesforce_query s a =
     bnd (lift (salesforce_url s ''/query'')) (\<lambda>url. bnd
       (lift (quote_url (jget a ''soql''))) (\<lambda>quoted. json_of
       (http_get s (url @ ''?q='' @ quoted) [])))"

definition salesforce_search :: "self \<Rightarrow> json dict \<Rightarrow> json act" where
  "salesforce_search s a =
     bnd (lift (salesforce_url s ''/search'')) (\<lambda>url. bnd (lift (quote_url (jget a ''q'')))
       (\<lambda>quoted. json_of (http_get s (url @ ''?q='' @ quoted) [])))"

definition salesforce_list_accounts :: "self \<Rightarrow> json dict \<Rightarrow> json act" where
  "salesforce_list_accounts s a = bnd (lift (py_int (jget a ''limit''))) (\<lambda>n.
     salesforce_query s [(''soql'', JStr (''SELECT Id, Name FROM Account LIMIT '' @ show_int n))])"

definition salesforce_list_contacts :: "self \<Rightarrow> json dict \<Rightarrow> json act" where
  "salesforce_list_contacts s a = bnd (lift (py_int (jget a ''limit''))) (\<lambda>n.
     salesforce_query s [(''soql'', JStr (''SELECT Id, FirstName, LastName, Email FROM Contact LIMIT '' @ show_int n))])"

definition salesforce_list_opportunities :: "self \<Rightarrow> json dict \<Rightarrow> json act" where
  "salesforce_list_opportunities s a = bnd (lift (py_int (jget a ''limit''))) (\<lambda>n.
     salesforce_query s [(''soql'', JStr (''SELECT Id, Name, StageName, Amount FROM Opportunity LIMIT '' @ show_int n))])"

definition salesforce_actions :: action_table where
  "salesforce_actions = [
     (''whoami'', spec [] [] salesforce_whoami),
     (''list_objects'', spec [] [] salesforce_list_objects),
     (''describe_object'', spec [''sobject''] [] salesforce_describe_object),
     (''create_record'', spec [''sobject'', ''fields''] [] salesforce_create_record),
     (''get_record'', spec [''sobject'', ''record_id''] [] salesforce_get_record),
     (''update_record'', spec [''sobject'', ''record_id'', ''fields''] [] salesforce_update_record),
     (''delete_record'', spec [''sobject'', ''record_id''] [] salesforce_delete_record),
     (''query'', spec [''soql''] [] salesforce_query),
     (''search'', spec [''q''] [] salesforce_search),
     (''list_accounts'', spec [] [(''limit'', JInt 100)] salesforce_list_accounts),
     (''list_contacts'', spec [] [(''limit'', JInt 100)] salesforce_list_contacts),
     (''list_opportunities'', spec [] [(''limit'', JInt 100)] salesforce_list_opportunities)]"

definition salesforce_probe :: "self \<Rightarrow> bool act" where
  "salesforce_probe s = bnd (lift (salesforce_url s ''/sobjects'')) (\<lambda>url.
     bnd (json_of (http_get s url [])) (\<lambda>data. lift (py_in ''sobjects'' data)))"

definition salesforce_health :: "self \<Rightarrow> provider_health act" where
  "salesforce_health s = or_down (bnd (lift (salesforce_url s ''/sobjects'')) (\<lambda>url.
     bnd (json_of (http_get s url [])) (\<lambda>data. bnd (lift (py_get data ''sobjects'' (JArr []))) (\<lambda>v.
     bnd (lift (py_len v)) (\<lambda>n. ret (healthy_with [(''object_count'', JInt n)]))))))"

definition salesforce_code :: provider_code where
  "salesforce_code = \<lparr>attributes = salesforce_attributes, action_table = salesforce_actions,
     probe = salesforce_probe, probe_health = salesforce_health\<rparr>"

section \<open>Supabase\<close>

definition supabase_api_key :: "env \<Rightarrow> provider_context option \<Rightarrow> json" where
  "supabase_api_key E ctx =
    (let key = py_or (ctx_credential ctx ''service_role_key'' JNull) (ctx_credential ctx ''anon_key'' JNull)
     in if truthy key then key else JStr (supabase_service_role_key (cloud (settings_of E))))"

definition supabase_base :: "self \<Rightarrow> exn + string" where
  "supabase_base s = (let url = credential_of s ''url'' JNull in
     map_sum id rstrip_slash (py_string ''rstrip''
       (if truthy url then url else JStr (supabase_url (cloud (settings_of (env_of s)))))))"

definition supabase_rest :: "self \<Rightarrow> string \<Rightarrow> exn + string" where
  "supabase_rest s path = map_sum id (\<lambda>url. url @ ''/rest/v1'' @ path) (supabase_base s)"

text \<open>A filter is part of the name of a parameter without a value.\<close>

definition supabase_filter :: "string \<times> json \<Rightarrow> string" where
  "supabase_filter = (\<lambda>(column, value). case value of
      JObj d \<Rightarrow> column @ ''='' @ py_str (jget_or d ''op'' (JStr ''eq'')) @ ''.'' @ py_str (jget d ''value'')
    | _ \<Rightarrow> column @ ''=eq.'' @ py_str value)"

definition supabase_filters :: "json \<Rightarrow> exn + json dict" where
  "supabase_filters filters = (if \<not> truthy filters then Inr []
     else map_sum id (\<lambda>fs. fold (\<lambda>f. dset (supabase_filter f) (JStr [])) fs []) (py_items filters))"

definition supabase_capabilities :: "capability list" where
  "supabase_capabilities = [
     \<lparr>cap_name = ''query_table'',
       cap_description = ''Select rows from a table with filters.'',
       cap_schema = [(''required'', JArr [JStr ''table'']), (''properties'',
       JObj [(''table'', JObj [(''type'', JStr ''string'')]),
       (''select'', JObj [(''type'', JStr ''string'')]),
       (''filters'', JObj [(''type'', JStr ''object'')]), (''limit'',
       JObj [(''type'', JStr ''integer''), (''default'', JInt 100)]),
       (''order'', JObj [(''type'', JStr ''string'')])])], cap_examples = []\<rparr>,
     \<lparr>cap_name = ''insert_row'', cap_description = ''Insert a row into a table.'',
       cap_schema = [(''required'', JArr [JStr ''table'', JStr ''row'']), (''properties'',
       JObj [(''table'', JObj [(''type'', JStr ''string'')]),
       (''row'', JObj [(''type'', JStr ''object'')])])], cap_examples = []\<rparr>,
     \<lparr>cap_name = ''update_row'', cap_description = ''Update rows matching a filter.'',
       cap_schema = [(''required'', JArr [JStr ''table'', JStr ''updates'', JStr ''match'']),
       (''properties'', JObj [(''table'', JObj [(''type'', JStr ''string'')]),
       (''updates'', JObj [(''type'', JStr ''object'')]),
       (''match'', JObj [(''type'', JStr ''object'')])])], cap_examples = []\<rparr>,
     \<lparr>cap_name = ''delete_row'', cap_description = ''Delete rows matching a filter.'',
       cap_schema = [(''required'', JArr [JStr ''table'', JStr ''match'']), (''properties'',
       JObj [(''table'', JObj [(''type'', JStr ''string'')]),
       (''match'', JObj [(''type'', JStr ''object'')])])], cap_examples = []\<rparr>,
     \<lparr>cap_name = ''rpc'', cap_description = ''Call a Postgres RPC function.'',
       cap_schema = [(''required'', JArr [JStr ''fn_name'']), (''properties'',
       JObj [(''fn_name'', JObj [(''type'', JStr ''string'')]),
       (''args'', JObj [(''type'', JStr ''object'')])])], cap_examples = []\<rparr>,
     \<lparr>cap_name = ''list_tables'', cap_description = ''List tables exposed by PostgREST.'',
       cap_schema = [], cap_examples = []\<rparr>,
     \<lparr>cap_name = ''get_row'', cap_description = ''Get a single row by primary key.'',
       cap_schema = [(''required'', JArr [JStr ''table'', JStr ''primary_key'', JStr ''value'']),
       (''properties'', JObj [(''table'', JObj [(''type'', JStr ''string'')]),
       (''primary_key'', JObj [(''type'', JStr ''string'')]),
       (''value'', JObj [(''type'', JStr ''string'')])])], cap_examples = []\<rparr>]"

definition supabase_auth_headers :: "env \<Rightarrow> provider_context option \<Rightarrow> string dict" where
  "supabase_auth_headers E ctx = (let key = py_str (supabase_api_key E ctx) in
     [(''Authorization'', ''Bearer '' @ key), (''apikey'', key)])"

definition supabase_attributes :: provider_class where
  "supabase_attributes = base_class\<lparr>provider_key := ''supabase'',
    provider_name := ''Supabase'',
    description := ''Query, insert, update, delete rows and call RPCs via the Supabase PostgREST API.'',
    auth_type := ''api_key'', base_url := ''https://supabase.co'', timeout := 30,
    supports_webhooks := False, capabilities := supabase_capabilities,
    auth_headers := supabase_auth_headers\<rparr>"

definition supabase_query_table :: "self \<Rightarrow> json dict \<Rightarrow> json act" where
  "supabase_query_table s a = bnd (lift (supabase_filters (jget a ''filters''))) (\<lambda>filters.
     let params = put_truthy ''order'' (jget a ''order'') (put_given ''limit'' (jget a ''limit'')
           (dupdate [(''select'', jget a ''select'')] filters))
     in bnd (lift (supabase_rest s (''/'' @ text_of a ''table''))) (\<lambda>url.
        json_of (http_get s url params)))"

definition supabase_insert_row :: "self \<Rightarrow> json dict \<Rightarrow> json act" where
  "supabase_insert_row s a =
     bnd (lift (supabase_rest s (''/'' @ text_of a ''table''))) (\<lambda>url. json_of (send_call s
       ((api_call ''POST'' url)\<lparr>call_body := JsonBody (jget a ''row''),
       call_headers := [(''Prefer'', ''return=representation'')]\<rparr>)))"

definition supabase_update_row :: "self \<Rightarrow> json dict \<Rightarrow> json act" where
  "supabase_update_row s a =
     bnd (lift (supabase_filters (jget a ''match''))) (\<lambda>params. bnd
       (lift (supabase_rest s (''/'' @ text_of a ''table''))) (\<lambda>url. json_of (send_call s
       ((api_call ''PATCH'' url)\<lparr>call_params := params, call_body := JsonBody
       (jget a ''updates'')\<rparr>))))"

definition supabase_delete_row :: "self \<Rightarrow> json dict \<Rightarrow> json act" where
  "supabase_delete_row s a =
     bnd (lift (supabase_filters (jget a ''match''))) (\<lambda>params. bnd
       (lift (supabase_rest s (''/'' @ text_of a ''table'')))
       (\<lambda>url. json_of (http_delete s url params)))"

definition supabase_rpc :: "self \<Rightarrow> json dict \<Rightarrow> json act" where
  "supabase_rpc s a =
     bnd (lift (supabase_rest s (''/rpc/'' @ text_of a ''fn_name''))) (\<lambda>url. json_of
       (http_post s url (JsonBody (py_or (jget a ''args'') (JObj [])))))"

definition supabase_list_tables :: "self \<Rightarrow> json dict \<Rightarrow> json act" where
  "supabase_list_tables s a = catch
     (bnd (lift (supabase_rest s ''/'')) (\<lambda>url. json_of (http_get s url [])))
     (\<lambda>e. if is_a e IntegrationError
           then ret (JObj [(''tables'', JArr []), (''relation'', JStr ''postgrest_disabled'')])
           else raise e)"

definition supabase_get_row :: "self \<Rightarrow> json dict \<Rightarrow> json act" where
  "supabase_get_row s a =
     bnd (lift (supabase_rest s (''/'' @ text_of a ''table''))) (\<lambda>url. json_of (http_get s
       url [(''select'', jget a ''select''), (text_of a ''primary_key'' @ ''=eq.'' @
       text_of a ''value'', JStr [])]))"

definition supabase_actions :: action_table where
  "supabase_actions = [
     (''query_table'', spec [''table''] [(''select'', JStr ''*''), (''filters'', JNull),
       (''limit'', JInt 100), (''order'', JNull)] supabase_query_table),
     (''insert_row'', spec [''table'', ''row''] [] supabase_insert_row),
     (''update_row'', spec [''table'', ''updates'', ''match''] [] supabase_update_row),
     (''delete_row'', spec [''table'', ''match''] [] supabase_delete_row),
     (''rpc'', spec [''fn_name''] [(''args'', JNull)] supabase_rpc),
     (''list_tables'', spec [] [] supabase_list_tables),
     (''get_row'', spec [''table'', ''primary_key'', ''value''] [(''select'', JStr ''*'')]
       supabase_get_row)]"

definition supabase_probe :: "self \<Rightarrow> bool act" where
  "supabase_probe s = catch
     (bnd (lift (supabase_rest s ''/'')) (\<lambda>url.
        bnd (send_call s ((api_call ''GET'' url)\<lparr>call_retry := False\<rparr>)) (\<lambda>_. ret True)))
     (\<lambda>e. ret (is_a e IntegrationError))"

definition supabase_health :: "self \<Rightarrow> provider_health act" where
  "supabase_health s = or_down (bnd (supabase_probe s) (\<lambda>_. ret healthy))"

definition supabase_code :: provider_code where
  "supabase_code = \<lparr>attributes = supabase_attributes, action_table = supabase_actions,
     probe = supabase_probe, probe_health = supabase_health\<rparr>"

end
