(* ===== verification/Providers_Files.thy ===== *)
theory Providers_Files
  imports Provider_Actions
begin

text \<open>
  \<open>src/providers/*/__init__.py\<close> of Google Calendar, Google Drive, Dropbox, OneDrive and the generic outbound webhook:
  per provider the declared capabilities, the authorization headers, the class attributes, one
  definition per action, the table of the actions with their signatures, \<open>validate_connection\<close> and
  \<open>health\<close>.
\<close>

section \<open>Google Calendar\<close>

definition google_calendar_capabilities :: "capability list" where
  "google_calendar_capabilities = [
     \<lparr>cap_name = ''list_calendars'',
       cap_description = ''List all calendars for the authenticated user.'', cap_schema = [],
       cap_examples = []\<rparr>,
     \<lparr>cap_name = ''create_event'', cap_description = ''Create a new calendar event.'',
       cap_schema = [(''required'', JArr [JStr ''summary'', JStr ''start'', JStr ''end'']),
       (''properties'', JObj [(''summary'', JObj [(''type'', JStr ''string'')]),
       (''start'', JObj [(''type'', JStr ''string'')]),
       (''end'', JObj [(''type'', JStr ''string'')]),
       (''description'', JObj [(''type'', JStr ''string'')]),
       (''location'', JObj [(''type'', JStr ''string'')]), (''attendees'',
       JObj [(''type'', JStr ''array''), (''items'', JObj [(''type'', JStr ''string'')])]),
       (''calendar_id'', JObj [(''type'', JStr ''string''), (''default'', JStr ''primary'')])])],
       cap_examples = []\<rparr>,
     \<lparr>cap_name = ''update_event'', cap_description = ''Update fields on an existing event.'',
       cap_schema = [(''required'', JArr [JStr ''event_id'']), (''properties'',
       JObj [(''event_id'', JObj [(''type'', JStr ''string'')]), (''calendar_id'',
       JObj [(''type'', JStr ''string''), (''default'', JStr ''primary'')])])],
       cap_examples = []\<rparr>,
     \<lparr>cap_name = ''delete_event'', cap_description = ''Delete an event by id.'',
       cap_schema = [(''required'', JArr [JStr ''event_id'']), (''properties'',
       JObj [(''event_id'', JObj [(''type'', JStr ''string'')]), (''calendar_id'',
       JObj [(''type'', JStr ''string''), (''default'', JStr ''primary'')])])],
       cap_examples = []\<rparr>,
     \<lparr>cap_name = ''list_events'',
       cap_description = ''List upcoming events from a calendar.'', cap_schema = [(''properties'',
       JObj [(''calendar_id'', JObj [(''type'', JStr ''string''), (''default'', JStr ''primary'')]),
       (''time_min'', JObj [(''type'', JStr ''string'')]),
       (''time_max'', JObj [(''type'', JStr ''string'')]), (''max_results'',
       JObj [(''type'', JStr ''integer''), (''default'', JInt 50)])])], cap_examples = []\<rparr>,
     \<lparr>cap_name = ''get_event'', cap_description = ''Get a single event by id.'',
       cap_schema = [(''required'', JArr [JStr ''event_id'']), (''properties'',
       JObj [(''event_id'', JObj [(''type'', JStr ''string'')]), (''calendar_id'',
       JObj [(''type'', JStr ''string''), (''default'', JStr ''primary'')])])],
       cap_examples = []\<rparr>]"

definition google_calendar_auth_headers :: "env \<Rightarrow> provider_context option \<Rightarrow> string dict" where
  "google_calendar_auth_headers E ctx = [(''Authorization'', bearer ''access_token'' ctx)]"

definition google_calendar_attributes :: provider_class where
  "google_calendar_attributes = base_class\<lparr>provider_key := ''google_calendar'',
    provider_name := ''Google Calendar'',
    description := ''List calendars, create, update, and delete events in Google Calendar.'',
    auth_type := ''oauth2'', base_url := ''https://www.googleapis.com/calendar/v3'', timeout := 30,
    supports_webhooks := False,
    default_scopes := Given [''https://www.googleapis.com/auth/calendar'',
    ''https://www.googleapis.com/auth/calendar.events''],
    oauth_authorize_url := ''https://accounts.google.com/o/oauth2/v2/auth'',
    oauth_token_url := ''https://oauth2.googleapis.com/token'',
    oauth_revoke_url := ''https://oauth2.googleapis.com/revoke'',
    oauth_scopes := Given [''https://www.googleapis.com/auth/calendar'',
    ''https://www.googleapis.com/auth/calendar.events''], oauth_pkce := True,
    oauth_token_header_auth := False, capabilities := google_calendar_capabilities,
    auth_headers := google_calendar_auth_headers\<rparr>"

definition google_calendar_list_calendars :: "self \<Rightarrow> json dict \<Rightarrow> json act" where
  "google_calendar_list_calendars s a = json_of (http_get s ''/users/me/calendarList'' [])"

definition google_calendar_create_event :: "self \<Rightarrow> json dict \<Rightarrow> json act" where
  "google_calendar_create_event s a =
    (let attendees = jget a ''attendees'';
         body = put_truthy ''location'' (jget a ''location'') (put_truthy ''description'' (jget a ''description'')
           [(''summary'', jget a ''summary''), (''start'', JObj [(''dateTime'', jget a ''start'')]),
            (''end'', JObj [(''dateTime'', jget a ''end'')])])
     in bnd (lift (if truthy attendees then py_iter attendees else Inr [])) (\<lambda>items.
        json_of (http_post s (''/calendars/'' @ text_of a ''calendar_id'' @ ''/events'') (JsonBody (JObj
          (if truthy attendees
           then dset ''attendees'' (JArr (map (\<lambda>x. JObj [(''email'', x)]) items)) body else body))))))"

definition google_calendar_update_event :: "self \<Rightarrow> json dict \<Rightarrow> json dict \<Rightarrow> json act" where
  "google_calendar_update_event s a kw =
     json_of (http_patch s (''/calendars/'' @ text_of a ''calendar_id'' @ ''/events/'' @
       text_of a ''event_id'') (JsonBody (JObj kw)))"

definition google_calendar_delete_event :: "self \<Rightarrow> json dict \<Rightarrow> json act" where
  "google_calendar_delete_event s a =
     bnd (http_delete s (''/calendars/'' @ text_of a ''calendar_id'' @ ''/events/'' @
       text_of a ''event_id'') []) (\<lambda>_. ret (JObj [(''deleted'', JBool True)]))"

definition google_calendar_list_events :: "self \<Rightarrow> json dict \<Rightarrow> json act" where
  "google_calendar_list_events s a =
     json_of (http_get s (''/calendars/'' @ text_of a ''calendar_id'' @ ''/events'') (put_truthy
       ''timeMax'' (jget a ''time_max'') (put_truthy ''timeMin'' (jget a ''time_min'')
       [(''maxResults'', jget a ''max_results'')])))"

definition google_calendar_get_event :: "self \<Rightarrow> json dict \<Rightarrow> json act" where
  "google_calendar_get_event s a =
     json_of (http_get s (''/calendars/'' @ text_of a ''calendar_id'' @ ''/events/'' @
       text_of a ''event_id'') [])"

definition google_calendar_actions :: action_table where
  "google_calendar_actions = [
     (''list_calendars'', spec [] [] google_calendar_list_calendars),
     (''create_event'', spec [''summary'', ''start'', ''end''] [(''description'', JNull),
       (''location'', JNull), (''attendees'', JNull), (''calendar_id'', JStr ''primary'')]
       google_calendar_create_event),
     (''update_event'', spec_kw [''event_id''] [(''calendar_id'', JStr ''primary'')]
       google_calendar_update_event),
     (''delete_event'', spec [''event_id''] [(''calendar_id'', JStr ''primary'')]
       google_calendar_delete_event),
     (''list_events'', spec [] [(''calendar_id'', JStr ''primary''), (''time_min'', JNull),
       (''time_max'', JNull), (''max_results'', JInt 50)] google_calendar_list_events),
     (''get_event'', spec [''event_id''] [(''calendar_id'', JStr ''primary'')]
       google_calendar_get_event)]"

definition google_calendar_probe :: "self \<Rightarrow> bool act" where
  "google_calendar_probe s = bnd (json_of (http_get s ''/users/me/calendarList'' [])) (\<lambda>data. ret (truthy data))"

definition google_calendar_health :: "self \<Rightarrow> provider_health act" where
  "google_calendar_health s = or_down (bnd (http_get s ''/users/me/calendarList'' []) (\<lambda>_. ret healthy))"

definition google_calendar_code :: provider_code where
  "google_calendar_code = \<lparr>attributes = google_calendar_attributes, action_table = google_calendar_actions,
     probe = google_calendar_probe, probe_health = google_calendar_health\<rparr>"

section \<open>Google Drive\<close>

definition google_drive_capabilities :: "capability list" where
  "google_drive_capabilities = [
     \<lparr>cap_name = ''list_files'',
       cap_description = ''List files in Google Drive with optional query filter.'',
       cap_schema = [(''properties'', JObj [(''page_size'',
       JObj [(''type'', JStr ''integer''), (''default'', JInt 20)]),
       (''q'', JObj [(''type'', JStr ''string'')]),
       (''page_token'', JObj [(''type'', JStr ''string'')])])],
       cap_examples = [''google_drive.list_files page_size=10'']\<rparr>,
     \<lparr>cap_name = ''get_file'', cap_description = ''Get metadata for a single file.'',
       cap_schema = [(''required'', JArr [JStr ''file_id'']), (''properties'',
       JObj [(''file_id'', JObj [(''type'', JStr ''string'')])])], cap_examples = []\<rparr>,
     \<lparr>cap_name = ''upload_file'', cap_description = ''Upload a file to Google Drive.'',
       cap_schema = [(''required'', JArr [JStr ''name'', JStr ''content'']), (''properties'',
       JObj [(''name'', JObj [(''type'', JStr ''string'')]),
       (''content'', JObj [(''type'', JStr ''string'')]), (''mime_type'',
       JObj [(''type'', JStr ''string''), (''default'', JStr ''application/octet-stream'')]),
       (''parent_id'', JObj [(''type'', JStr ''string'')])])], cap_examples = []\<rparr>,
     \<lparr>cap_name = ''download_file'', cap_description = ''Download file content by id.'',
       cap_schema = [(''required'', JArr [JStr ''file_id'']), (''properties'',
       JObj [(''file_id'', JObj [(''type'', JStr ''string'')])])], cap_examples = []\<rparr>,
     \<lparr>cap_name = ''delete_file'', cap_description = ''Delete a file by id.'',
       cap_schema = [(''required'', JArr [JStr ''file_id'']), (''properties'',
       JObj [(''file_id'', JObj [(''type'', JStr ''string'')])])], cap_examples = []\<rparr>,
     \<lparr>cap_name = ''list_folders'', cap_description = ''List all folders in Google Drive.'',
       cap_schema = [(''properties'', JObj [(''page_size'',
       JObj [(''type'', JStr ''integer''), (''default'', JInt 50)])])], cap_examples = []\<rparr>,
     \<lparr>cap_name = ''create_folder'',
       cap_description = ''Create a new folder in Google Drive.'',
       cap_schema = [(''required'', JArr [JStr ''name'']), (''properties'',
       JObj [(''name'', JObj [(''type'', JStr ''string'')]),
       (''parent_id'', JObj [(''type'', JStr ''string'')])])], cap_examples = []\<rparr>]"

definition google_drive_auth_headers :: "env \<Rightarrow> provider_context option \<Rightarrow> string dict" where
  "google_drive_auth_headers E ctx = [(''Authorization'', bearer ''access_token'' ctx)]"

definition google_drive_attributes :: provider_class where
  "google_drive_attributes = base_class\<lparr>provider_key := ''google_drive'',
    provider_name := ''Google Drive'',
    description := ''List, upload, download, and manage files and folders in Google Drive.'',
    auth_type := ''oauth2'', base_url := ''https://www.googleapis.com/drive/v3'', timeout := 30,
    supports_webhooks := False, default_scopes := Given [''https://www.googleapis.com/auth/drive'',
    ''https://www.googleapis.com/auth/drive.file''],
    oauth_authorize_url := ''https://accounts.google.com/o/oauth2/v2/auth'',
    oauth_token_url := ''https://oauth2.googleapis.com/token'',
    oauth_revoke_url := ''https://oauth2.googleapis.com/revoke'',
    oauth_scopes := Given [''https://www.googleapis.com/auth/drive'',
    ''https://www.googleapis.com/auth/drive.file''], oauth_pkce := True,
    oauth_token_header_auth := False, capabilities := google_drive_capabilities,
    auth_headers := google_drive_auth_headers\<rparr>"

definition google_drive_list_files :: "self \<Rightarrow> json dict \<Rightarrow> json act" where
  "google_drive_list_files s a =
     json_of (http_get s ''/files'' (put_truthy ''pageToken'' (jget a ''page_token'') (put_truthy
       ''q'' (jget a ''q'') [(''pageSize'', jget a ''page_size'')])))"

definition google_drive_get_file :: "self \<Rightarrow> json dict \<Rightarrow> json act" where
  "google_drive_get_file s a =
     json_of (http_get s (''/files/'' @ text_of a ''file_id'')
       [(''fields'', JStr ''id,name,mimeType,size,modifiedTime'')])"

definition google_drive_upload_file :: "self \<Rightarrow> json dict \<Rightarrow> json act" where
  "google_drive_upload_file s a =
    (let parent = jget a ''parent_id'';
         metadata = [(''name'', jget a ''name''), (''mimeType'', jget a ''mime_type'')]
           @ (if truthy parent then [(''parents'', JArr [parent])] else [])
     in bnd (lift (py_string ''encode'' (jget a ''content''))) (\<lambda>content.
        json_of (send_call s ((api_call ''POST'' ''/files'')\<lparr>
          call_params := [(''uploadType'', JStr ''multipart'')],
          call_body := Multipart metadata [(''file'', text_of a ''name'', content)]\<rparr>))))"

definition google_drive_download_file :: "self \<Rightarrow> json dict \<Rightarrow> json act" where
  "google_drive_download_file s a =
     bnd (send_call s
       ((api_call ''GET'' (''/files/'' @ text_of a ''file_id''))\<lparr>call_params := [(''alt'', JStr ''media'')],
       call_retry := True\<rparr>)) (\<lambda>resp. ret (JObj [(''file_id'', jget a ''file_id''),
       (''content'', JStr (http_text resp))]))"

definition google_drive_delete_file :: "self \<Rightarrow> json dict \<Rightarrow> json act" where
  "google_drive_delete_file s a =
     bnd (http_delete s (''/files/'' @ text_of a ''file_id'') []) (\<lambda>_. ret
       (JObj [(''deleted'', JBool True), (''file_id'', jget a ''file_id'')]))"

definition google_drive_list_folders :: "self \<Rightarrow> json dict \<Rightarrow> json act" where
  "google_drive_list_folders s a =
     json_of (http_get s ''/files'' [(''pageSize'', jget a ''page_size''), (''q'',
       JStr (''mimeType='' @ [CHR 0x27] @ ''application/vnd.google-apps.folder'' @ [CHR 0x27]))])"

definition google_drive_create_folder :: "self \<Rightarrow> json dict \<Rightarrow> json act" where
  "google_drive_create_folder s a =
     json_of (http_post s ''/files'' (JsonBody (JObj (if truthy (jget a ''parent_id'') then dset
       ''parents'' (JArr [jget a ''parent_id'']) [(''name'', jget a ''name''),
       (''mimeType'', JStr ''application/vnd.google-apps.folder'')] else
       [(''name'', jget a ''name''),
       (''mimeType'', JStr ''application/vnd.google-apps.folder'')]))))"

definition google_drive_actions :: action_table where
  "google_drive_actions = [
     (''list_files'', spec [] [(''page_size'', JInt 20), (''q'', JNull), (''page_token'', JNull)]
       google_drive_list_files),
     (''get_file'', spec [''file_id''] [] google_drive_get_file),
     (''upload_file'', spec [''name'', ''content'']
       [(''mime_type'', JStr ''application/octet-stream''), (''parent_id'', JNull)]
       google_drive_upload_file),
     (''download_file'', spec [''file_id''] [] google_drive_download_file),
     (''delete_file'', spec [''file_id''] [] google_drive_delete_file),
     (''list_folders'', spec [] [(''page_size'', JInt 50)] google_drive_list_folders),
     (''create_folder'', spec [''name''] [(''parent_id'', JNull)] google_drive_create_folder)]"

definition google_drive_probe :: "self \<Rightarrow> bool act" where
  "google_drive_probe s = bnd (json_of (http_get s ''/about'' [])) (\<lambda>data. ret (truthy data))"

definition google_drive_health :: "self \<Rightarrow> provider_health act" where
  "google_drive_health s = or_down (bnd (http_get s ''/about'' []) (\<lambda>_. ret healthy))"

definition google_drive_code :: provider_code where
  "google_drive_code = \<lparr>attributes = google_drive_attributes, action_table = google_drive_actions,
     probe = google_drive_probe, probe_health = google_drive_health\<rparr>"

section \<open>Dropbox\<close>

definition dropbox_capabilities :: "capability list" where
  "dropbox_capabilities = [
     \<lparr>cap_name = ''upload_file'',
       cap_description = ''Upload a string of content to a Dropbox path.'',
       cap_schema = [(''required'', JArr [JStr ''path'', JStr ''content'']), (''properties'',
       JObj [(''path'', JObj [(''type'', JStr ''string'')]),
       (''content'', JObj [(''type'', JStr ''string'')]), (''mode'',
       JObj [(''type'', JStr ''string''), (''default'', JStr ''add'')]), (''autorename'',
       JObj [(''type'', JStr ''boolean''), (''default'', JBool True)])])], cap_examples = []\<rparr>,
     \<lparr>cap_name = ''download_file'',
       cap_description = ''Download the contents of a Dropbox file.'',
       cap_schema = [(''required'', JArr [JStr ''path'']), (''properties'',
       JObj [(''path'', JObj [(''type'', JStr ''string'')])])], cap_examples = []\<rparr>,
     \<lparr>cap_name = ''list_folder'',
       cap_description = ''List the contents of a Dropbox folder.'', cap_schema = [(''properties'',
       JObj [(''path'', JObj [(''type'', JStr ''string'')]),
       (''recursive'', JObj [(''type'', JStr ''boolean'')])])], cap_examples = []\<rparr>,
     \<lparr>cap_name = ''get_metadata'', cap_description = ''Get metadata for a path.'',
       cap_schema = [(''required'', JArr [JStr ''path'']), (''properties'',
       JObj [(''path'', JObj [(''type'', JStr ''string'')])])], cap_examples = []\<rparr>,
     \<lparr>cap_name = ''create_folder'', cap_description = ''Create a folder at a path.'',
       cap_schema = [(''required'', JArr [JStr ''path'']), (''properties'',
       JObj [(''path'', JObj [(''type'', JStr ''string'')])])], cap_examples = []\<rparr>,
     \<lparr>cap_name = ''create_shared_link'',
       cap_description = ''Create a shared link for a path.'',
       cap_schema = [(''required'', JArr [JStr ''path'']), (''properties'',
       JObj [(''path'', JObj [(''type'', JStr ''string'')])])], cap_examples = []\<rparr>,
     \<lparr>cap_name = ''delete'', cap_description = ''Delete a file or folder at a path.'',
       cap_schema = [(''required'', JArr [JStr ''path'']), (''properties'',
       JObj [(''path'', JObj [(''type'', JStr ''string'')])])], cap_examples = []\<rparr>,
     \<lparr>cap_name = ''search'', cap_description = ''Search files within a path.'',
       cap_schema = [(''required'', JArr [JStr ''query'']), (''properties'',
       JObj [(''query'', JObj [(''type'', JStr ''string'')]),
       (''path'', JObj [(''type'', JStr ''string'')])])], cap_examples = []\<rparr>]"

definition dropbox_auth_headers :: "env \<Rightarrow> provider_context option \<Rightarrow> string dict" where
  "dropbox_auth_headers E ctx = [(''Authorization'', ''Bearer '' @ (case ctx of
      None \<Rightarrow> dropbox_refresh_token (storage (settings_of E))
    | Some _ \<Rightarrow> py_str (ctx_credential ctx ''access_token'' (JStr []))))]"

definition dropbox_attributes :: provider_class where
  "dropbox_attributes = base_class\<lparr>provider_key := ''dropbox'', provider_name := ''Dropbox'',
    description := ''Upload, download, list, search, and share files with the Dropbox API.'',
    auth_type := ''oauth2'', base_url := ''https://api.dropboxapi.com/2'', timeout := 30,
    supports_webhooks := False, default_scopes := Given [''files.content.write'',
    ''files.content.read'', ''sharing.write'', ''sharing.read''],
    oauth_authorize_url := ''https://www.dropbox.com/oauth2/authorize'',
    oauth_token_url := ''https://api.dropboxapi.com/oauth2/token'', oauth_revoke_url := [],
    oauth_scopes := Given [''files.content.write'', ''files.content.read'', ''sharing.write'',
    ''sharing.read''], oauth_pkce := True, oauth_token_header_auth := False,
    capabilities := dropbox_capabilities, auth_headers := dropbox_auth_headers\<rparr>"

definition dropbox_upload_file :: "self \<Rightarrow> json dict \<Rightarrow> json act" where
  "dropbox_upload_file s a =
     bnd (lift (py_string ''encode'' (jget a ''content''))) (\<lambda>content. json_of (send_call s
       ((api_call ''POST'' ''/files/upload'')\<lparr>call_body := Content content,
       call_headers := [(''Dropbox-API-Arg'', dumps (JObj [(''path'', jget a ''path''),
       (''mode'', jget a ''mode''), (''autorename'', jget a ''autorename'')]))]\<rparr>)))"

definition dropbox_download_file :: "self \<Rightarrow> json dict \<Rightarrow> json act" where
  "dropbox_download_file s a =
     bnd (send_call s ((api_call ''POST'' ''/files/download'')\<lparr>call_body := Content [],
       call_headers := [(''Dropbox-API-Arg'', dumps (JObj [(''path'', jget a ''path'')]))]\<rparr>))
       (\<lambda>resp. ret (JObj [(''path'', jget a ''path''),
       (''content'', JStr (http_text resp))]))"

definition dropbox_list_folder :: "self \<Rightarrow> json dict \<Rightarrow> json act" where
  "dropbox_list_folder s a =
     json_of (http_post s ''/files/list_folder'' (JsonBody (JObj [(''path'', jget a ''path''),
       (''recursive'', jget a ''recursive'')])))"

definition dropbox_get_metadata :: "self \<Rightarrow> json dict \<Rightarrow> json act" where
  "dropbox_get_metadata s a =
     json_of (http_post s ''/files/get_metadata'' (JsonBody (JObj [(''path'', jget a ''path'')])))"

definition dropbox_create_folder :: "self \<Rightarrow> json dict \<Rightarrow> json act" where
  "dropbox_create_folder s a =
     json_of (http_post s ''/files/create_folder_v2''
       (JsonBody (JObj [(''path'', jget a ''path'')])))"

definition dropbox_create_shared_link :: "self \<Rightarrow> json dict \<Rightarrow> json act" where
  "dropbox_create_shared_link s a =
     json_of (http_post s ''/sharing/create_shared_link_with_settings''
       (JsonBody (JObj [(''path'', jget a ''path'')])))"

definition dropbox_delete :: "self \<Rightarrow> json dict \<Rightarrow> json act" where
  "dropbox_delete s a =
     json_of (http_post s ''/files/delete_v2'' (JsonBody (JObj [(''path'', jget a ''path'')])))"

definition dropbox_search :: "self \<Rightarrow> json dict \<Rightarrow> json act" where
  "dropbox_search s a =
     json_of (http_post s ''/files/search_v2'' (JsonBody (JObj [(''query'', jget a ''query''),
       (''path'', jget a ''path'')])))"

definition dropbox_actions :: action_table where
  "dropbox_actions = [
     (''upload_file'', spec [''path'', ''content'']
       [(''mode'', JStr ''add''), (''autorename'', JBool True)] dropbox_upload_file),
     (''download_file'', spec [''path''] [] dropbox_download_file),
     (''list_folder'', spec [] [(''path'', JStr []), (''recursive'', JBool False)]
       dropbox_list_folder),
     (''get_metadata'', spec [''path''] [] dropbox_get_metadata),
     (''create_folder'', spec [''path''] [] dropbox_create_folder),
     (''create_shared_link'', spec [''path''] [] dropbox_create_shared_link),
     (''delete'', spec [''path''] [] dropbox_delete),
     (''search'', spec [''query''] [(''path'', JStr [])] dropbox_search)]"

definition dropbox_probe :: "self \<Rightarrow> bool act" where
  "dropbox_probe s =
     bnd (send_call s ((api_call ''POST'' ''/users/get_current_account'')\<lparr>call_body := JsonBody (JObj []), call_retry := False\<rparr>))
     (\<lambda>resp. ret (http_status resp = 200))"

definition dropbox_health :: "self \<Rightarrow> provider_health act" where
  "dropbox_health = health_by dropbox_probe ''get_current_account failed''"

definition dropbox_code :: provider_code where
  "dropbox_code = \<lparr>attributes = dropbox_attributes, action_table = dropbox_actions,
     probe = dropbox_probe, probe_health = dropbox_health\<rparr>"

section \<open>OneDrive\<close>

definition onedrive_capabilities :: "capability list" where
  "onedrive_capabilities = [
     \<lparr>cap_name = ''list_drive_root'',
       cap_description = ''List the root children of the drive.'', cap_schema = [],
       cap_examples = []\<rparr>,
     \<lparr>cap_name = ''list_folder'', cap_description = ''List the children of a folder path.'',
       cap_schema = [(''properties'',
       JObj [(''folder_path'', JObj [(''type'', JStr ''string'')])])], cap_examples = []\<rparr>,
     \<lparr>cap_name = ''upload_file'',
       cap_description = ''Upload a string of content as a file.'',
       cap_schema = [(''required'', JArr [JStr ''name'', JStr ''content'']), (''properties'',
       JObj [(''name'', JObj [(''type'', JStr ''string'')]),
       (''content'', JObj [(''type'', JStr ''string'')]),
       (''folder_path'', JObj [(''type'', JStr ''string'')])])], cap_examples = []\<rparr>,
     \<lparr>cap_name = ''download_file'',
       cap_description = ''Download the contents of a file by path.'',
       cap_schema = [(''required'', JArr [JStr ''path'']), (''properties'',
       JObj [(''path'', JObj [(''type'', JStr ''string'')])])], cap_examples = []\<rparr>,
     \<lparr>cap_name = ''delete_file'', cap_description = ''Delete a drive item by id.'',
       cap_schema = [(''required'', JArr [JStr ''item_id'']), (''properties'',
       JObj [(''item_id'', JObj [(''type'', JStr ''string'')])])], cap_examples = []\<rparr>,
     \<lparr>cap_name = ''search_files'', cap_description = ''Search files in the drive.'',
       cap_schema = [(''required'', JArr [JStr ''query'']), (''properties'',
       JObj [(''query'', JObj [(''type'', JStr ''string'')])])], cap_examples = []\<rparr>,
     \<lparr>cap_name = ''get_metadata'',
       cap_description = ''Get metadata for a drive item by id.'',
       cap_schema = [(''required'', JArr [JStr ''item_id'']), (''properties'',
       JObj [(''item_id'', JObj [(''type'', JStr ''string'')])])], cap_examples = []\<rparr>,
     \<lparr>cap_name = ''create_folder'',
       cap_description = ''Create a folder under a parent path.'',
       cap_schema = [(''required'', JArr [JStr ''name'']), (''properties'',
       JObj [(''name'', JObj [(''type'', JStr ''string'')]),
       (''parent_path'', JObj [(''type'', JStr ''string'')])])], cap_examples = []\<rparr>]"

definition onedrive_auth_headers :: "env \<Rightarrow> provider_context option \<Rightarrow> string dict" where
  "onedrive_auth_headers E ctx = [(''Authorization'', bearer ''access_token'' ctx)]"

definition onedrive_attributes :: provider_class where
  "onedrive_attributes = base_class\<lparr>provider_key := ''onedrive'',
    provider_name := ''OneDrive'',
    description := ''List, upload, download, delete, and search files in OneDrive via Microsoft Graph.'',
    auth_type := ''oauth2'', base_url := ''https://graph.microsoft.com/v1.0'', timeout := 30,
    supports_webhooks := False, default_scopes := Given [''files.readwrite.all''],
    oauth_authorize_url := ''https://login.microsoftonline.com/common/oauth2/v2.0/authorize'',
    oauth_token_url := ''https://login.microsoftonline.com/common/oauth2/v2.0/token'',
    oauth_revoke_url := [], oauth_scopes := Given [''files.readwrite.all''], oauth_pkce := True,
    oauth_token_header_auth := False, capabilities := onedrive_capabilities,
    auth_headers := onedrive_auth_headers\<rparr>"

definition onedrive_list_drive_root :: "self \<Rightarrow> json dict \<Rightarrow> json act" where
  "onedrive_list_drive_root s a = json_of (http_get s ''/me/drive/root/children'' [])"

definition onedrive_list_folder :: "self \<Rightarrow> json dict \<Rightarrow> json act" where
  "onedrive_list_folder s a =
     json_of (http_get s (''/me/drive/root:/'' @ text_of a ''folder_path'' @ '':/children'') [])"

definition onedrive_upload_file :: "self \<Rightarrow> json dict \<Rightarrow> json act" where
  "onedrive_upload_file s a =
     bnd (lift (py_string ''rstrip'' (jget a ''folder_path''))) (\<lambda>folder. bnd
       (lift (py_string ''encode'' (jget a ''content''))) (\<lambda>content. json_of (send_call s
       ((api_call ''PUT'' (''/me/drive/root:'' @ (if \<not> ((rstrip_slash folder) \<noteq> []) then
       ''/'' @ text_of a ''name'' else ''/'' @ rstrip_slash folder @ ''/'' @ text_of a ''name'') @
       '':/content''))\<lparr>call_body := Content content,
       call_headers := [(''Content-Type'', ''text/plain'')]\<rparr>))))"

definition onedrive_download_file :: "self \<Rightarrow> json dict \<Rightarrow> json act" where
  "onedrive_download_file s a =
     bnd (http_get s (''/me/drive/root:/'' @ text_of a ''path'' @ '':/content'') []) (\<lambda>resp.
       ret (JObj [(''path'', jget a ''path''), (''content'', JStr (http_text resp))]))"

definition onedrive_delete_file :: "self \<Rightarrow> json dict \<Rightarrow> json act" where
  "onedrive_delete_file s a =
     bnd (http_delete s (''/me/drive/items/'' @ text_of a ''item_id'') [])
       (\<lambda>_. ret (JObj [(''deleted'', JBool True)]))"

definition onedrive_search_files :: "self \<Rightarrow> json dict \<Rightarrow> json act" where
  "onedrive_search_files s a =
     json_of (http_get s (''/me/drive/root/search(q='' @ [CHR 0x27] @ text_of a ''query'' @
       [CHR 0x27] @ '')'') [])"

definition onedrive_get_metadata :: "self \<Rightarrow> json dict \<Rightarrow> json act" where
  "onedrive_get_metadata s a =
     json_of (http_get s (''/me/drive/items/'' @ text_of a ''item_id'') [])"

definition onedrive_create_folder :: "self \<Rightarrow> json dict \<Rightarrow> json act" where
  "onedrive_create_folder s a =
     bnd (lift (py_string ''rstrip'' (jget a ''parent_path''))) (\<lambda>folder. json_of (http_post
       s (''/me/drive/root'' @ (if (rstrip_slash folder) \<noteq> [] then '':/'' @ rstrip_slash
       folder else []) @ '':/children'') (JsonBody (JObj [(''name'', jget a ''name''),
       (''folder'', JObj []), (''@microsoft.graph.conflictBehavior'', JStr ''rename'')]))))"

definition onedrive_actions :: action_table where
  "onedrive_actions = [
     (''list_drive_root'', spec [] [] onedrive_list_drive_root),
     (''list_folder'', spec [] [(''folder_path'', JStr ''/'')] onedrive_list_folder),
     (''upload_file'', spec [''name'', ''content''] [(''folder_path'', JStr [])]
       onedrive_upload_file),
     (''download_file'', spec [''path''] [] onedrive_download_file),
     (''delete_file'', spec [''item_id''] [] onedrive_delete_file),
     (''search_files'', spec [''query''] [] onedrive_search_files),
     (''get_metadata'', spec [''item_id''] [] onedrive_get_metadata),
     (''create_folder'', spec [''name''] [(''parent_path'', JStr [])] onedrive_create_folder)]"

definition onedrive_probe :: "self \<Rightarrow> bool act" where
  "onedrive_probe s = bnd (send_call s ((api_call ''GET'' ''/me/drive'')\<lparr>call_retry := False\<rparr>)) (\<lambda>resp. ret (http_status resp = 200))"

definition onedrive_health :: "self \<Rightarrow> provider_health act" where
  "onedrive_health = health_by onedrive_probe ''GET /me/drive failed''"

definition onedrive_code :: provider_code where
  "onedrive_code = \<lparr>attributes = onedrive_attributes, action_table = onedrive_actions,
     probe = onedrive_probe, probe_health = onedrive_health\<rparr>"

section \<open>Webhook\<close>

definition webhook_allowed :: "int list" where
  "webhook_allowed = [401, 403, 404, 409, 422]"

text \<open>\<open>_sign\<close>: a text is signed as it is, any other payload as its JSON text.\<close>

definition webhook_sign :: "self \<Rightarrow> json \<Rightarrow> string \<Rightarrow> string" where
  "webhook_sign s payload secret = hmac_hex (crypto_of (env_of s)) secret
     (case payload of JStr t \<Rightarrow> t | _ \<Rightarrow> dumps payload)"

definition webhook_target :: "self \<Rightarrow> json \<Rightarrow> exn + string" where
  "webhook_target s url = (case url of JStr u \<Rightarrow> validate_target_url (env_of s) u
     | _ \<Rightarrow> if truthy url then Inl (attribute_error url ''decode'')
         else Inl (Builtin ValueError (''unsupported URL scheme: b'' @ repr_str [])))"

text \<open>The request of a delivery and the report on its response.\<close>

definition webhook_deliver :: "self \<Rightarrow> json \<Rightarrow> string \<Rightarrow> json \<Rightarrow> string dict \<Rightarrow> json act" where
  "webhook_deliver s meth url payload headers = bnd (lift (py_string ''upper'' meth)) (\<lambda>m.
     bnd (send_call s ((api_call (upper m) url)\<lparr>call_body := JsonBody payload, call_headers := headers,
       call_allowed := webhook_allowed\<rparr>)) (\<lambda>resp.
     if 400 \<le> http_status resp
     then raise (error2 IntegrationError (''webhook delivery failed: HTTP '' @ show_int (http_status resp))
       ''webhook'' [(''status_code'', JInt (http_status resp)), (''body'', JStr (take 200 (http_text resp)))])
     else ret (JObj [(''delivered'', JBool True), (''status_code'', JInt (http_status resp)),
       (''response'', JStr (take 2000 (http_text resp)))])))"

text \<open>\<open>dict(headers or {})\<close>, of an object, as the schema declares it; its values go into the request as
  texts.\<close>

definition webhook_headers :: "json \<Rightarrow> exn + string dict" where
  "webhook_headers v = (if truthy v then map_sum id (map (\<lambda>(k, x). (k, py_str x))) (py_items v) else Inr [])"

definition webhook_capabilities :: "capability list" where
  "webhook_capabilities = [
     \<lparr>cap_name = ''send_webhook'',
       cap_description = ''Send an outbound webhook payload to a URL.'',
       cap_schema = [(''required'', JArr [JStr ''url'', JStr ''payload'']), (''properties'',
       JObj [(''url'', JObj [(''type'', JStr ''string'')]),
       (''payload'', JObj [(''type'', JStr ''object'')]),
       (''headers'', JObj [(''type'', JStr ''object'')]),
       (''method'', JObj [(''type'', JStr ''string'')]),
       (''secret'', JObj [(''type'', JStr ''string'')])])], cap_examples = []\<rparr>,
     \<lparr>cap_name = ''send_signed_webhook'',
       cap_description = ''Send a webhook signed with a provided secret.'',
       cap_schema = [(''required'', JArr [JStr ''url'', JStr ''payload'', JStr ''secret'']),
       (''properties'', JObj [(''url'', JObj [(''type'', JStr ''string'')]),
       (''payload'', JObj [(''type'', JStr ''object'')]),
       (''secret'', JObj [(''type'', JStr ''string'')]),
       (''method'', JObj [(''type'', JStr ''string'')])])], cap_examples = []\<rparr>,
     \<lparr>cap_name = ''ping'', cap_description = ''Probe a URL to check it is reachable.'',
       cap_schema = [(''required'', JArr [JStr ''url'']), (''properties'',
       JObj [(''url'', JObj [(''type'', JStr ''string'')])])], cap_examples = []\<rparr>]"

definition webhook_attributes :: provider_class where
  "webhook_attributes = base_class\<lparr>provider_key := ''webhook'', provider_name := ''Webhook'',
    description := ''Send signed webhook deliveries and probe endpoint availability.'',
    auth_type := ''none'', base_url := [], timeout := 15, supports_webhooks := True,
    capabilities := webhook_capabilities, verify := Some webhook_verify\<rparr>"

definition webhook_send_webhook :: "self \<Rightarrow> json dict \<Rightarrow> json act" where
  "webhook_send_webhook s a = bnd (lift (webhook_target s (jget a ''url''))) (\<lambda>url.
     bnd (lift (case jget a ''secret'' of JNull \<Rightarrow> Inr (webhook_default_secret (settings_of (env_of s)))
       | JStr t \<Rightarrow> Inr t
       | v \<Rightarrow> if truthy v then Inl (attribute_error v ''encode'') else Inr [])) (\<lambda>secret.
     bnd (lift (webhook_headers (jget a ''headers''))) (\<lambda>headers.
     webhook_deliver s (jget a ''method'') url (jget a ''payload'')
       (if secret = [] then headers else dset ''X-AgentForge-Signature''
          (''sha256='' @ hmac_hex (crypto_of (env_of s)) secret (dumps (jget a ''payload''))) headers))))"

definition webhook_send_signed_webhook :: "self \<Rightarrow> json dict \<Rightarrow> json act" where
  "webhook_send_signed_webhook s a = bnd (lift (webhook_target s (jget a ''url''))) (\<lambda>url.
     bnd (lift (py_string ''encode'' (jget a ''secret''))) (\<lambda>secret.
     webhook_deliver s (jget a ''method'') url (jget a ''payload'')
       [(''X-Webhook-Signature'', ''sha256='' @ webhook_sign s (jget a ''payload'') secret)]))"

definition webhook_ping :: "self \<Rightarrow> json dict \<Rightarrow> json act" where
  "webhook_ping s a = bnd (lift (webhook_target s (jget a ''url''))) (\<lambda>url. catch
     (bnd (send_call s ((api_call ''GET'' url)\<lparr>call_allowed := webhook_allowed, call_retry := False\<rparr>)) (\<lambda>resp.
       ret (JObj [(''alive'', JBool (http_status resp < 400)), (''status_code'', JInt (http_status resp))])))
     (\<lambda>e. ret (JObj [(''alive'', JBool False), (''status_code'', JNull)])))"

definition webhook_actions :: action_table where
  "webhook_actions = [
     (''send_webhook'', spec [''url'', ''payload''] [(''headers'', JNull),
       (''method'', JStr ''POST''), (''secret'', JNull)] webhook_send_webhook),
     (''send_signed_webhook'', spec [''url'', ''payload'', ''secret''] [(''method'', JStr ''POST'')]
       webhook_send_signed_webhook),
     (''ping'', spec [''url''] [] webhook_ping)]"

definition webhook_probe :: "self \<Rightarrow> bool act" where
  "webhook_probe s = ret True"

definition webhook_health :: "self \<Rightarrow> provider_health act" where
  "webhook_health s = ret healthy"

definition webhook_code :: provider_code where
  "webhook_code = \<lparr>attributes = webhook_attributes, action_table = webhook_actions,
     probe = webhook_probe, probe_health = webhook_health\<rparr>"

end
