(* ===== verification/Provider_Catalog.thy ===== *)
theory Provider_Catalog
  imports Provider_Shapes Providers_Development Providers_Messaging Providers_Business Providers_Files
begin

text \<open>
  The HTTP providers together: what their declared capabilities promise of their actions, where the
  requests of their actions go, and what becomes of an action with the retry policy the classes have.
  \<open>requests_only\<close> and \<open>requests_first\<close> are the shape of an action: all it does to the world goes through
  requests whose URLs satisfy a predicate, and it returns nothing before it has made one.
\<close>

section \<open>The catalog\<close>

definition http_providers :: "provider_code list" where
  "http_providers = [airtable_code, discord_code, dropbox_code, github_code, gmail_code,
     google_calendar_code, google_drive_code, hubspot_code, jira_code, notion_code, onedrive_code,
     salesforce_code, sendgrid_code, slack_code, stripe_code, supabase_code, trello_code, twilio_code,
     webhook_code]"

definition http_registry :: "retrying \<Rightarrow> registry" where
  "http_registry retrying = registry_load
     (map (\<lambda>code. (provider_key (attributes code), Inr (Some (provider_of retrying code)))) http_providers) []"

section \<open>Declared capabilities\<close>

fun json_texts :: "json \<Rightarrow> string list" where
  "json_texts (JArr xs) = map py_str xs"
| "json_texts _ = []"

definition schema_required :: "capability \<Rightarrow> string list" where
  "schema_required cap = json_texts (jget_or (cap_schema cap) ''required'' (JArr []))"

definition schema_properties :: "capability \<Rightarrow> string list" where
  "schema_properties cap = (case jget (cap_schema cap) ''properties'' of JObj d \<Rightarrow> dkeys d | _ \<Rightarrow> [])"

text \<open>A payload with every required and no undeclared property.\<close>

definition conforms :: "capability \<Rightarrow> json dict \<Rightarrow> bool" where
  "conforms cap payload \<longleftrightarrow> set (schema_required cap) \<subseteq> set (dkeys payload)
     \<and> set (dkeys payload) \<subseteq> set (schema_properties cap)"

definition honours :: "capability \<Rightarrow> action_spec \<Rightarrow> bool" where
  "honours cap sp \<longleftrightarrow> list_all (\<lambda>k. k \<in> set (schema_required cap)) (required sp)
     \<and> (takes_keywords (run_method sp) \<or> list_all (\<lambda>k. k \<in> set (parameters sp)) (schema_properties cap))
     \<and> ''self'' \<notin> set (schema_properties cap)"

definition honest :: "provider_code \<Rightarrow> bool" where
  "honest code \<longleftrightarrow> list_all2 (\<lambda>cap (name, sp). cap_name cap = name \<and> honours cap sp)
     (capabilities (attributes code)) (action_table code)"

section \<open>Facts on capabilities\<close>

lemma list_all2_lookup:
  assumes "list_all2 (\<lambda>x (name, y). f x = name \<and> R x y) xs table" and "distinct (dkeys table)" and "x \<in> set xs"
  shows "\<exists>y. dget table (f x) = Some y \<and> R x y"
proof -
  obtain i where i: "i < length xs" "xs ! i = x"
    using assms(3) by (auto simp: in_set_conv_nth)
  with assms(1) have "i < length table" "f x = fst (table ! i)" "R x (snd (table ! i))"
    by (auto simp: list_all2_conv_all_nth case_prod_beta)
  with assms(2) show ?thesis
    by (metis map_of_eq_Some_iff nth_mem prod.collapse)
qed

lemma honours_binds:
  assumes "honours cap sp" and "conforms cap payload"
  shows "\<exists>a kw. bind_args sp payload = Inr (a, kw) \<and> dkeys a = parameters sp
    \<and> (\<forall>k \<in> set (dkeys payload). k \<in> set (parameters sp) \<or> has_key kw k)"
proof -
  let ?extra = "filter (\<lambda>(k, _). k \<notin> set (parameters sp)) payload"
  have self: "\<not> has_key payload ''self''"
    using assms by (auto simp: honours_def conforms_def has_key_def)
  have req: "filter (\<lambda>k. \<not> has_key payload k) (required sp) = []"
    using assms by (auto simp: honours_def conforms_def has_key_def filter_empty_conv list_all_iff)
  have "takes_keywords (run_method sp) \<or> ?extra = []"
    using assms by (auto simp: honours_def conforms_def filter_empty_conv list_all_iff image_iff subset_iff)
  with self req have "bind_args sp payload = Inr (map (\<lambda>k. (k, jget payload k)) (required sp)
      @ map (\<lambda>(k, d). (k, jget_or payload k d)) (optional sp), ?extra)"
    unfolding bind_args_def bind_named_def Let_def parameters_def by presburger
  moreover have "has_key ?extra k" if "k \<in> set (dkeys payload)" "k \<notin> set (parameters sp)" for k
    using that by (auto simp: has_key_def image_iff)
  ultimately show ?thesis
    by (intro exI conjI) (assumption, auto simp: parameters_def comp_def case_prod_beta)
qed

lemma providers_honest: "list_all (\<lambda>code. honest code \<and> distinct (dkeys (action_table code))) http_providers"
  by code_simp

section \<open>The shapes of the actions\<close>

text \<open>Calls to the service of the provider itself: paths, which httpx resolves against \<open>base_url\<close>, and
  URLs with a fixed beginning; without an \<open>Authorization\<close> header of their own.\<close>

definition home_call :: "string list \<Rightarrow> call \<Rightarrow> bool" where
  "home_call homes c \<longleftrightarrow> list_ex (startswith (call_url c)) homes \<and> \<not> has_key (call_headers c) ''Authorization''"

abbreviation any_call :: "call \<Rightarrow> bool" where
  "any_call \<equiv> \<lambda>_. True"

lemma rows_simps: "list_all P [] \<longleftrightarrow> True" "list_all P (x # xs) \<longleftrightarrow> P x \<and> list_all P xs"
  by simp_all

lemmas call_simps = home_call_def api_call_def has_key_def

lemma airtable_home [simp]:
  "startswith (airtable_table_url s t b) ''https://api.airtable.com/v0/''"
  "startswith (airtable_table_url s t b @ x) ''https://api.airtable.com/v0/''"
  by (simp_all add: airtable_table_url_def)

lemma slack_json_of_shape [only_rules]: "requests_only C s m \<Longrightarrow> requests_only C s (slack_json_of m)"
  unfolding slack_json_of_def by (intro only_rules)

lemma slack_json_of_first [first_rules]: "requests_first C s m \<Longrightarrow> requests_first C s (slack_json_of m)"
  unfolding slack_json_of_def by (intro first_bnd first_rules only_rules)

lemma gmail_profile_shape [only_rules]: "requests_only (home_call [''/'']) s (gmail_profile s)"
  and gmail_profile_first [first_rules]: "requests_first (home_call [''/'']) s (gmail_profile s)"
  unfolding gmail_profile_def by ((rule only_rules first_rules)+, simp add: call_simps)+

lemma sendgrid_post_mail_first [first_rules]: "requests_first (home_call [''/'']) s (sendgrid_post_mail s payload)"
  unfolding sendgrid_post_mail_def by (rule first_rules only_rules | simp add: call_simps)+

lemma webhook_deliver_first [first_rules]: "requests_first any_call s (webhook_deliver s meth url payload headers)"
  unfolding webhook_deliver_def by (rule first_rules only_rules | simp add: api_call_def)+

lemmas github_methods =
  github_list_repositories_def github_get_repository_def github_create_issue_def
  github_list_issues_def github_get_issue_def github_update_issue_def
  github_create_pull_request_def github_list_pull_requests_def github_list_commits_def
  github_list_branches_def github_create_branch_def github_get_file_content_def
  github_create_comment_def

lemma github_shape: "list_all (\<lambda>(name, sp).
    (\<forall>s payload. requests_first (home_call [''/'']) s (run_action_spec sp s payload))) github_actions"
  unfolding github_actions_def rows_simps prod.case
  by (intro conjI allI TrueI impI first_run first_run_kw; (simp only: github_methods)?;
      (rule first_rules only_rules | simp add: call_simps)+)

lemmas jira_methods =
  jira_create_issue_def jira_get_issue_def jira_update_issue_def jira_search_issues_def
  jira_get_sprint_def jira_list_projects_def jira_add_comment_def jira_get_user_def

lemma jira_shape: "list_all (\<lambda>(name, sp).
    (\<forall>s payload. requests_first any_call s (run_action_spec sp s payload))) jira_actions"
  unfolding jira_actions_def rows_simps prod.case
  by (intro conjI allI TrueI impI first_run first_run_kw; (simp only: jira_methods)?;
      (rule first_rules only_rules | simp add: call_simps)+)

lemmas trello_methods =
  trello_params_def trello_list_boards_def trello_create_board_def trello_list_lists_def
  trello_create_list_def trello_list_cards_def trello_create_card_def trello_get_card_def
  trello_update_card_def trello_add_comment_def trello_create_label_def trello_move_card_def
  trello_delete_card_def

lemma trello_shape: "list_all (\<lambda>(name, sp).
    (\<forall>s payload. requests_first (home_call [''/'']) s (run_action_spec sp s payload))) trello_actions"
  unfolding trello_actions_def rows_simps prod.case
  by (intro conjI allI TrueI impI first_run first_run_kw; (simp only: trello_methods)?;
      (rule first_rules only_rules | simp add: call_simps)+)

lemmas notion_methods =
  notion_search_def notion_get_page_def notion_get_block_children_def notion_create_page_def
  notion_update_page_def notion_append_block_children_def notion_create_database_def
  notion_query_database_def

lemma notion_shape: "list_all (\<lambda>(name, sp).
    (\<forall>s payload. requests_first (home_call [''/'']) s (run_action_spec sp s payload))) notion_actions"
  unfolding notion_actions_def rows_simps prod.case
  by (intro conjI allI TrueI impI first_run first_run_kw; (simp only: notion_methods)?;
      (rule first_rules only_rules | simp add: call_simps)+)

lemmas airtable_methods =
  airtable_list_bases_def airtable_list_tables_def airtable_list_records_def
  airtable_create_record_def airtable_get_record_def airtable_update_record_def
  airtable_delete_record_def airtable_batch_create_records_def

lemma airtable_shape: "list_all (\<lambda>(name, sp).
    (\<forall>s payload. requests_first (home_call [''https://api.airtable.com/v0/'']) s (run_action_spec sp s payload))) airtable_actions"
  unfolding airtable_actions_def rows_simps prod.case
  by (intro conjI allI TrueI impI first_run first_run_kw; (simp only: airtable_methods)?;
      (rule first_rules only_rules | simp add: call_simps)+)

lemmas slack_methods =
  slack_send_message_def slack_post_message_in_thread_def slack_list_channels_def
  slack_create_channel_def slack_get_channel_info_def slack_send_message_to_user_def
  slack_list_users_def slack_archive_channel_def

lemma slack_shape: "list_all (\<lambda>(name, sp).
    (\<forall>s payload. requests_first (home_call [''/'']) s (run_action_spec sp s payload))) slack_actions"
  unfolding slack_actions_def rows_simps prod.case
  by (intro conjI allI TrueI impI first_run first_run_kw; (simp only: slack_methods)?;
      (rule first_rules only_rules | simp add: call_simps)+)

lemmas discord_methods =
  discord_send_message_def discord_read_channel_def discord_list_guilds_def
  discord_list_channels_def discord_create_channel_def discord_send_typing_def
  discord_get_user_def

lemma discord_shape: "list_all (\<lambda>(name, sp).
    (\<forall>s payload. requests_first (home_call [''/'']) s (run_action_spec sp s payload))) discord_actions"
  unfolding discord_actions_def rows_simps prod.case
  by (intro conjI allI TrueI impI first_run first_run_kw; (simp only: discord_methods)?;
      (rule first_rules only_rules | simp add: call_simps)+)

lemmas twilio_methods =
  twilio_send_sms_def twilio_send_whatsapp_def twilio_list_messages_def twilio_get_message_def
  twilio_send_otp_def twilio_verify_otp_def twilio_make_call_def

lemma twilio_shape: "list_all (\<lambda>(name, sp).
    (\<forall>s payload. requests_first (home_call [''https://api.twilio.com/2010-04-01/'', ''https://verify.twilio.com/v2/'']) s (run_action_spec sp s payload))) twilio_actions"
  unfolding twilio_actions_def rows_simps prod.case
  by (intro conjI allI TrueI impI first_run first_run_kw; (simp only: twilio_methods)?;
      (rule first_rules only_rules | simp add: call_simps)+)

lemmas sendgrid_methods =
  sendgrid_post_mail_def sendgrid_send_email_def sendgrid_list_templates_def
  sendgrid_get_template_def sendgrid_send_template_email_def
  sendgrid_list_suppression_blocks_def sendgrid_list_api_keys_def

lemma sendgrid_shape: "list_all (\<lambda>(name, sp).
    (\<forall>s payload. requests_first (home_call [''/'']) s (run_action_spec sp s payload))) sendgrid_actions"
  unfolding sendgrid_actions_def rows_simps prod.case
  by (intro conjI allI TrueI impI first_run first_run_kw; (simp only: sendgrid_methods)?;
      (rule first_rules only_rules | simp add: call_simps)+)

lemmas gmail_methods =
  gmail_send_email_def gmail_draft_email_def gmail_search_emails_def gmail_read_email_def
  gmail_list_messages_def gmail_list_labels_def gmail_mark_read_def gmail_get_thread_def

lemma gmail_shape: "list_all (\<lambda>(name, sp).
    (\<forall>s payload. requests_first (home_call [''/'']) s (run_action_spec sp s payload))) gmail_actions"
  unfolding gmail_actions_def rows_simps prod.case
  by (intro conjI allI TrueI impI first_run first_run_kw; (simp only: gmail_methods)?;
      (rule first_rules only_rules | simp add: call_simps)+)

lemmas stripe_methods =
  stripe_list_customers_def stripe_create_customer_def stripe_get_customer_def
  stripe_update_customer_def stripe_list_charges_def stripe_create_charge_def
  stripe_create_payment_intent_def stripe_confirm_payment_intent_def stripe_create_refund_def
  stripe_list_events_def stripe_get_event_def

lemma stripe_shape: "list_all (\<lambda>(name, sp).
    (\<forall>s payload. requests_first (home_call [''/'']) s (run_action_spec sp s payload))) stripe_actions"
  unfolding stripe_actions_def rows_simps prod.case
  by (intro conjI allI TrueI impI first_run first_run_kw; (simp only: stripe_methods)?;
      (rule first_rules only_rules | simp add: call_simps)+)

lemmas hubspot_methods =
  hubspot_list_contacts_def hubspot_create_contact_def hubspot_get_contact_def
  hubspot_update_contact_def hubspot_list_deals_def hubspot_create_deal_def
  hubspot_update_deal_def hubspot_list_companies_def hubspot_create_company_def
  hubspot_create_note_def hubspot_search_objects_def

lemma hubspot_shape: "list_all (\<lambda>(name, sp).
    (\<forall>s payload. requests_first (home_call [''/'']) s (run_action_spec sp s payload))) hubspot_actions"
  unfolding hubspot_actions_def rows_simps prod.case
  by (intro conjI allI TrueI impI first_run first_run_kw; (simp only: hubspot_methods)?;
      (rule first_rules only_rules | simp add: call_simps)+)

lemmas salesforce_methods =
  salesforce_whoami_def salesforce_list_objects_def salesforce_describe_object_def
  salesforce_create_record_def salesforce_get_record_def salesforce_update_record_def
  salesforce_delete_record_def salesforce_query_def salesforce_search_def
  salesforce_list_accounts_def salesforce_list_contacts_def salesforce_list_opportunities_def

lemma salesforce_shape: "list_all (\<lambda>(name, sp).
    (\<forall>s payload. requests_first any_call s (run_action_spec sp s payload))) salesforce_actions"
  unfolding salesforce_actions_def rows_simps prod.case
  by (intro conjI allI TrueI impI first_run first_run_kw; (simp only: salesforce_methods)?;
      (rule first_rules only_rules | simp add: call_simps)+)

lemmas supabase_methods =
  supabase_query_table_def supabase_insert_row_def supabase_update_row_def
  supabase_delete_row_def supabase_rpc_def supabase_list_tables_def supabase_get_row_def

lemma supabase_shape: "list_all (\<lambda>(name, sp). name \<noteq> ''list_tables'' \<longrightarrow>
    (\<forall>s payload. requests_first any_call s (run_action_spec sp s payload))) supabase_actions"
  unfolding supabase_actions_def rows_simps prod.case
  by (intro conjI allI TrueI impI first_run first_run_kw; (simp only: supabase_methods)?;
      (rule first_rules only_rules | simp add: call_simps)+)

lemmas google_calendar_methods =
  google_calendar_list_calendars_def google_calendar_create_event_def
  google_calendar_update_event_def google_calendar_delete_event_def
  google_calendar_list_events_def google_calendar_get_event_def

lemma google_calendar_shape: "list_all (\<lambda>(name, sp).
    (\<forall>s payload. requests_first (home_call [''/'']) s (run_action_spec sp s payload))) google_calendar_actions"
  unfolding google_calendar_actions_def rows_simps prod.case
  by (intro conjI allI TrueI impI first_run first_run_kw; (simp only: google_calendar_methods)?;
      (rule first_rules only_rules | simp add: call_simps)+)

lemmas google_drive_methods =
  google_drive_list_files_def google_drive_get_file_def google_drive_upload_file_def
  google_drive_download_file_def google_drive_delete_file_def google_drive_list_folders_def
  google_drive_create_folder_def

lemma google_drive_shape: "list_all (\<lambda>(name, sp).
    (\<forall>s payload. requests_first (home_call [''/'']) s (run_action_spec sp s payload))) google_drive_actions"
  unfolding google_drive_actions_def rows_simps prod.case
  by (intro conjI allI TrueI impI first_run first_run_kw; (simp only: google_drive_methods)?;
      (rule first_rules only_rules | simp add: call_simps)+)

lemmas dropbox_methods =
  dropbox_upload_file_def dropbox_download_file_def dropbox_list_folder_def
  dropbox_get_metadata_def dropbox_create_folder_def dropbox_create_shared_link_def
  dropbox_delete_def dropbox_search_def

lemma dropbox_shape: "list_all (\<lambda>(name, sp).
    (\<forall>s payload. requests_first (home_call [''/'']) s (run_action_spec sp s payload))) dropbox_actions"
  unfolding dropbox_actions_def rows_simps prod.case
  by (intro conjI allI TrueI impI first_run first_run_kw; (simp only: dropbox_methods)?;
      (rule first_rules only_rules | simp add: call_simps)+)

lemmas onedrive_methods =
  onedrive_list_drive_root_def onedrive_list_folder_def onedrive_upload_file_def
  onedrive_download_file_def onedrive_delete_file_def onedrive_search_files_def
  onedrive_get_metadata_def onedrive_create_folder_def

lemma onedrive_shape: "list_all (\<lambda>(name, sp).
    (\<forall>s payload. requests_first (home_call [''/'']) s (run_action_spec sp s payload))) onedrive_actions"
  unfolding onedrive_actions_def rows_simps prod.case
  by (intro conjI allI TrueI impI first_run first_run_kw; (simp only: onedrive_methods)?;
      (rule first_rules only_rules | simp add: call_simps)+)

lemmas webhook_methods =
  webhook_send_webhook_def webhook_send_signed_webhook_def webhook_ping_def

lemma webhook_shape: "list_all (\<lambda>(name, sp). name \<noteq> ''ping'' \<longrightarrow>
    (\<forall>s payload. requests_first any_call s (run_action_spec sp s payload))) webhook_actions"
  unfolding webhook_actions_def rows_simps prod.case
  by (intro conjI allI TrueI impI first_run first_run_kw; (simp only: webhook_methods)?;
      (rule first_rules only_rules | simp add: call_simps)+)

section \<open>All providers\<close>

text \<open>The two actions that may return although nothing can be sent: \<open>ping\<close> asks for no retries, and
  \<open>list_tables\<close> turns an open circuit breaker into an empty list.\<close>

definition lenient :: "provider_code \<Rightarrow> string \<Rightarrow> bool" where
  "lenient code name \<longleftrightarrow> (provider_key (attributes code), name)
     \<in> {(''webhook'', ''ping''), (''supabase'', ''list_tables'')}"

definition well_shaped :: "provider_code \<Rightarrow> bool" where
  "well_shaped code \<longleftrightarrow> list_all (\<lambda>(name, sp). \<not> lenient code name \<longrightarrow>
     (\<forall>s payload. \<exists>C. requests_first C s (run_action_spec sp s payload))) (action_table code)"

lemma well_shapedI:
  assumes "list_all (\<lambda>(name, sp). \<forall>s payload. requests_first C s (run_action_spec sp s payload)) table"
    and "action_table code = table"
  shows "well_shaped code"
  using assms unfolding well_shaped_def list_all_iff by fast

lemma well_shaped_but:
  assumes "list_all (\<lambda>(name, sp). name \<noteq> skipped \<longrightarrow>
      (\<forall>s payload. requests_first C s (run_action_spec sp s payload))) table"
    and "action_table code = table" and "lenient code skipped"
  shows "well_shaped code"
  using assms unfolding well_shaped_def list_all_iff by fast

lemma providers_shaped: "list_all well_shaped http_providers"
proof -
  have "well_shaped airtable_code"
    by (rule well_shapedI[OF airtable_shape]) (simp add: airtable_code_def)
  moreover have "well_shaped discord_code"
    by (rule well_shapedI[OF discord_shape]) (simp add: discord_code_def)
  moreover have "well_shaped dropbox_code"
    by (rule well_shapedI[OF dropbox_shape]) (simp add: dropbox_code_def)
  moreover have "well_shaped github_code"
    by (rule well_shapedI[OF github_shape]) (simp add: github_code_def)
  moreover have "well_shaped gmail_code"
    by (rule well_shapedI[OF gmail_shape]) (simp add: gmail_code_def)
  moreover have "well_shaped google_calendar_code"
    by (rule well_shapedI[OF google_calendar_shape]) (simp add: google_calendar_code_def)
  moreover have "well_shaped google_drive_code"
    by (rule well_shapedI[OF google_drive_shape]) (simp add: google_drive_code_def)
  moreover have "well_shaped hubspot_code"
    by (rule well_shapedI[OF hubspot_shape]) (simp add: hubspot_code_def)
  moreover have "well_shaped jira_code"
    by (rule well_shapedI[OF jira_shape]) (simp add: jira_code_def)
  moreover have "well_shaped notion_code"
    by (rule well_shapedI[OF notion_shape]) (simp add: notion_code_def)
  moreover have "well_shaped onedrive_code"
    by (rule well_shapedI[OF onedrive_shape]) (simp add: onedrive_code_def)
  moreover have "well_shaped salesforce_code"
    by (rule well_shapedI[OF salesforce_shape]) (simp add: salesforce_code_def)
  moreover have "well_shaped sendgrid_code"
    by (rule well_shapedI[OF sendgrid_shape]) (simp add: sendgrid_code_def)
  moreover have "well_shaped slack_code"
    by (rule well_shapedI[OF slack_shape]) (simp add: slack_code_def)
  moreover have "well_shaped stripe_code"
    by (rule well_shapedI[OF stripe_shape]) (simp add: stripe_code_def)
  moreover have "well_shaped supabase_code"
    by (rule well_shaped_but[OF supabase_shape]) (simp_all add: supabase_code_def lenient_def supabase_attributes_def)
  moreover have "well_shaped trello_code"
    by (rule well_shapedI[OF trello_shape]) (simp add: trello_code_def)
  moreover have "well_shaped twilio_code"
    by (rule well_shapedI[OF twilio_shape]) (simp add: twilio_code_def)
  moreover have "well_shaped webhook_code"
    by (rule well_shaped_but[OF webhook_shape]) (simp_all add: webhook_code_def lenient_def webhook_attributes_def)
  ultimately show ?thesis
    unfolding http_providers_def rows_simps by blast
qed

lemma dget_actions:
  "dget (actions (provider_of retrying code)) name = map_option
     (\<lambda>sp E ctx. run_action_spec sp (self_of retrying (attributes code) E ctx)) (dget (action_table code) name)"
proof -
  have "dget (map (\<lambda>(name, sp). (name, h sp)) t) name = map_option h (dget t name)" for h and t :: action_table
    by (induction t) auto
  then show ?thesis
    by (simp add: provider_of_def Let_def)
qed

lemma provider_of_key [simp]: "provider_key (provider_of retrying code) = provider_key (attributes code)"
  by (simp add: provider_of_def Let_def)

lemma barren_execute:
  assumes "dget (actions cls) name = Some h" and "barren (h E ctx payload)"
  shows "barren (provider_execute E cls ctx name payload)"
  unfolding barren_def
proof
  fix w
  obtain e w' where "h E ctx payload w = (Inl e, w')" "sent w' = sent w"
    using assms(2) unfolding barren_def by blast
  with assms(1) show "\<exists>e w'. provider_execute E cls ctx name payload w = (Inl e, w') \<and> sent w' = sent w"
    by (simp add: provider_execute_def bnd_def catch_def thn_def emit_def modify_def raise_def)
qed

lemmas code_defs =
  airtable_code_def discord_code_def dropbox_code_def github_code_def gmail_code_def
  google_calendar_code_def google_drive_code_def hubspot_code_def jira_code_def notion_code_def
  onedrive_code_def salesforce_code_def sendgrid_code_def slack_code_def stripe_code_def
  supabase_code_def trello_code_def twilio_code_def webhook_code_def

lemmas attribute_defs =
  airtable_attributes_def discord_attributes_def dropbox_attributes_def github_attributes_def
  gmail_attributes_def google_calendar_attributes_def google_drive_attributes_def
  hubspot_attributes_def jira_attributes_def notion_attributes_def onedrive_attributes_def
  salesforce_attributes_def sendgrid_attributes_def slack_attributes_def stripe_attributes_def
  supabase_attributes_def trello_attributes_def twilio_attributes_def webhook_attributes_def

lemmas header_defs =
  airtable_auth_headers_def discord_auth_headers_def dropbox_auth_headers_def
  github_auth_headers_def gmail_auth_headers_def google_calendar_auth_headers_def
  google_drive_auth_headers_def hubspot_auth_headers_def jira_auth_headers_def
  notion_auth_headers_def onedrive_auth_headers_def salesforce_auth_headers_def
  sendgrid_auth_headers_def slack_auth_headers_def stripe_auth_headers_def
  supabase_auth_headers_def trello_auth_headers_def twilio_auth_headers_def


text \<open>The providers whose service has a fixed address, and the beginnings of the URLs there; the others
  take their address from the credentials or from the payload.\<close>

definition home_providers :: "provider_code list" where
  "home_providers = [airtable_code, discord_code, dropbox_code, github_code, gmail_code,
     google_calendar_code, google_drive_code, hubspot_code, notion_code, onedrive_code, sendgrid_code,
     slack_code, stripe_code, trello_code, twilio_code]"

definition homes :: "provider_code \<Rightarrow> string list" where
  "homes code =
    (if provider_key (attributes code) = ''airtable'' then [''https://api.airtable.com/v0/'']
     else if provider_key (attributes code) = ''twilio''
     then [''https://api.twilio.com/2010-04-01/'', ''https://verify.twilio.com/v2/'']
     else [''/''])"

text \<open>A provider whose class does assign \<open>retry_policy\<close>.\<close>

definition with_policy :: "retry_policy attr \<Rightarrow> provider_code \<Rightarrow> provider_code" where
  "with_policy p code = code\<lparr>attributes := (attributes code)\<lparr>retry_policy_attr := p\<rparr>\<rparr>"

definition stays_home :: "provider_code \<Rightarrow> bool" where
  "stays_home code \<longleftrightarrow> list_all (\<lambda>(name, sp). \<forall>s payload.
     requests_only (home_call (homes code)) s (run_action_spec sp s payload)) (action_table code)"

lemma stays_homeI:
  assumes "list_all (\<lambda>(name, sp). \<forall>s payload. requests_first (home_call hs) s (run_action_spec sp s payload)) table"
    and "action_table code = table" and "homes code = hs"
  shows "stays_home code"
  using assms unfolding stays_home_def list_all_iff by (fast intro: first_only)

lemma home_providers_shaped: "list_all stays_home home_providers"
proof -
  have "stays_home airtable_code"
    by (rule stays_homeI[OF airtable_shape]) (simp_all add: airtable_code_def airtable_attributes_def homes_def)
  moreover have "stays_home discord_code"
    by (rule stays_homeI[OF discord_shape]) (simp_all add: discord_code_def discord_attributes_def homes_def)
  moreover have "stays_home dropbox_code"
    by (rule stays_homeI[OF dropbox_shape]) (simp_all add: dropbox_code_def dropbox_attributes_def homes_def)
  moreover have "stays_home github_code"
    by (rule stays_homeI[OF github_shape]) (simp_all add: github_code_def github_attributes_def homes_def)
  moreover have "stays_home gmail_code"
    by (rule stays_homeI[OF gmail_shape]) (simp_all add: gmail_code_def gmail_attributes_def homes_def)
  moreover have "stays_home google_calendar_code"
    by (rule stays_homeI[OF google_calendar_shape]) (simp_all add: google_calendar_code_def google_calendar_attributes_def homes_def)
  moreover have "stays_home google_drive_code"
    by (rule stays_homeI[OF google_drive_shape]) (simp_all add: google_drive_code_def google_drive_attributes_def homes_def)
  moreover have "stays_home hubspot_code"
    by (rule stays_homeI[OF hubspot_shape]) (simp_all add: hubspot_code_def hubspot_attributes_def homes_def)
  moreover have "stays_home notion_code"
    by (rule stays_homeI[OF notion_shape]) (simp_all add: notion_code_def notion_attributes_def homes_def)
  moreover have "stays_home onedrive_code"
    by (rule stays_homeI[OF onedrive_shape]) (simp_all add: onedrive_code_def onedrive_attributes_def homes_def)
  moreover have "stays_home sendgrid_code"
    by (rule stays_homeI[OF sendgrid_shape]) (simp_all add: sendgrid_code_def sendgrid_attributes_def homes_def)
  moreover have "stays_home slack_code"
    by (rule stays_homeI[OF slack_shape]) (simp_all add: slack_code_def slack_attributes_def homes_def)
  moreover have "stays_home stripe_code"
    by (rule stays_homeI[OF stripe_shape]) (simp_all add: stripe_code_def stripe_attributes_def homes_def)
  moreover have "stays_home trello_code"
    by (rule stays_homeI[OF trello_shape]) (simp_all add: trello_code_def trello_attributes_def homes_def)
  moreover have "stays_home twilio_code"
    by (rule stays_homeI[OF twilio_shape]) (simp_all add: twilio_code_def twilio_attributes_def homes_def)
  ultimately show ?thesis
    unfolding home_providers_def rows_simps by blast
qed

lemma home_headers_distinct:
  "list_all (\<lambda>code. \<forall>E ctx. distinct (dkeys (auth_headers (attributes code) E ctx))) home_providers"
  unfolding home_providers_def rows_simps
  by (simp add: code_defs attribute_defs header_defs base_class_def Let_def split: option.splits)

lemma providers_without_policy: "list_all (\<lambda>code. retry_policy_attr (attributes code) = FieldSpec) http_providers"
  unfolding http_providers_def rows_simps by (simp add: code_defs attribute_defs base_class_def)

lemma only_execute:
  assumes "\<And>h. dget (actions cls) name = Some h \<Longrightarrow> requests_only C s (h E ctx payload)"
  shows "requests_only C s (provider_execute E cls ctx name payload)"
proof -
  have emit: "requests_only C s (emit m)" for m
    unfolding requests_only_def
    by (intro impI allI keeps_calls_frame) (auto simp: emit_def modify_def)
  show ?thesis
  proof (cases "dget (actions cls) name")
    case None
    then show ?thesis
      by (simp add: provider_execute_def only_plain)
  next
    case (Some h)
    with assms show ?thesis
      unfolding provider_execute_def thn_def by (auto intro!: only_rules emit)
  qed
qed

text \<open>The headers of a call that brings no \<open>Authorization\<close> of its own.\<close>

lemma request_authorization:
  assumes "\<not> has_key (call_headers c) ''Authorization''" and "distinct (dkeys (auth_headers cls E ctx))"
  shows "dget (req_headers (request_of E cls ctx c)) ''Authorization'' = dget (auth_headers cls E ctx) ''Authorization''"
proof -
  have "dget (req_headers (request_of E cls ctx c)) ''Authorization''
      = dget (dupdate (base_headers E) (auth_headers cls E ctx)) ''Authorization''"
    using assms(1) by (simp add: request_of_def has_key_def dget_dupdate_notin)
  also have "\<dots> = dget (auth_headers cls E ctx) ''Authorization''"
  proof (cases "dget (auth_headers cls E ctx) ''Authorization''")
    case None
    then have "''Authorization'' \<notin> set (dkeys (auth_headers cls E ctx))"
      by (simp add: map_of_eq_None_iff)
    then have "dget (dupdate (base_headers E) (auth_headers cls E ctx)) ''Authorization''
        = dget (base_headers E) ''Authorization''"
      by (rule dget_dupdate_notin)
    with None show ?thesis
      by (simp add: base_headers_def)
  next
    case (Some v)
    then show ?thesis
      using dget_dupdate_in[OF assms(2)] by simp
  qed
  finally show ?thesis .
qed

lemma with_policy_simps [simp]:
  "action_table (with_policy p code) = action_table code"
  "provider_key (attributes (with_policy p code)) = provider_key (attributes code)"
  "auth_headers (attributes (with_policy p code)) = auth_headers (attributes code)"
  "retry_policy_attr (attributes (with_policy p code)) = p"
  "homes (with_policy p code) = homes code"
  by (simp_all add: with_policy_def homes_def)

text \<open>What the methods of Slack return.\<close>

definition returns_ok :: "json act \<Rightarrow> bool" where
  "returns_ok m \<longleftrightarrow> (\<forall>w v w'. m w = (Inr v, w') \<longrightarrow> (\<exists>d. v = JObj d \<and> truthy (jget d ''ok'')))"

lemma slack_check_ok: "slack_check j = Inr v \<Longrightarrow> \<exists>d. v = JObj d \<and> truthy (jget d ''ok'')"
  by (cases j) (auto simp: slack_check_def py_get_def jget_def jget_or_def split: if_splits)

lemma returns_ok_slack: "returns_ok (slack_json_of m)"
  unfolding returns_ok_def slack_json_of_def
  by (auto simp: lift_def dest: slack_check_ok elim!: bnd_InrE)

lemma returns_ok_bnd: "(\<And>x. returns_ok (f x)) \<Longrightarrow> returns_ok (bnd m f)"
  unfolding returns_ok_def by (blast elim: bnd_InrE)

lemma returns_ok_prod: "(\<And>a b. returns_ok (f a b)) \<Longrightarrow> returns_ok (case x of (a, b) \<Rightarrow> f a b)"
  by (simp split: prod.splits)

lemma slack_returns_ok:
  "list_all (\<lambda>(name, sp). \<forall>s payload. returns_ok (run_action_spec sp s payload)) slack_actions"
  unfolding slack_actions_def rows_simps prod.case run_action_spec_def
  by (simp add: slack_methods; intro conjI allI returns_ok_bnd returns_ok_slack returns_ok_prod)

section \<open>Properties\<close>

text \<open>C15: A payload that has what the declared schema of an action requires and nothing the schema does not
  name is accepted by the signature of the method the action runs: every parameter gets a value and
  no entry is lost. So it is for every action of every HTTP provider.\<close>

theorem declared_payloads_accepted:
  assumes "code \<in> set http_providers" and "cap \<in> set (capabilities (attributes code))"
    and "conforms cap payload"
  shows "\<exists>sp a kw. dget (action_table code) (cap_name cap) = Some sp
    \<and> bind_args sp payload = Inr (a, kw) \<and> dkeys a = parameters sp
    \<and> (\<forall>k \<in> set (dkeys payload). k \<in> set (parameters sp) \<or> has_key kw k)"
proof -
  have "honest code" "distinct (dkeys (action_table code))"
    using providers_honest assms(1) unfolding list_all_iff by blast+
  from list_all2_lookup[OF this(1)[unfolded honest_def] this(2) assms(2)]
  obtain sp where "dget (action_table code) (cap_name cap) = Some sp" "honours cap sp"
    by blast
  with honours_binds[OF _ assms(3)] show ?thesis
    by blast
qed

text \<open>C36: With the classes as they are, no action of an HTTP provider works: whatever the payload, the
  context and the retry driver, executing it raises an exception and sends no request. The two
  exceptions are the \<open>ping\<close> of the generic webhook and \<open>list_tables\<close> of Supabase.\<close>

theorem provider_actions_fail:
  assumes "code \<in> set http_providers" and "\<not> lenient code name"
  shows "\<exists>e w'. provider_execute E (provider_of retrying code) ctx name payload w = (Inl e, w')
    \<and> sent w' = sent w"
proof (cases "dget (action_table code) name")
  case None
  then show ?thesis
    by (simp add: provider_execute_def dget_actions raise_def)
next
  case (Some sp)
  let ?s = "self_of retrying (attributes code) E ctx"
  have "well_shaped code" "retry_policy_attr (attributes code) = FieldSpec"
    using providers_shaped providers_without_policy assms(1) by (simp_all add: list_all_iff)
  moreover have "(name, sp) \<in> set (action_table code)"
    using Some by (rule map_of_SomeD)
  ultimately obtain C where "requests_first C ?s (run_action_spec sp ?s payload)"
    using assms(2) unfolding well_shaped_def list_all_iff by fast
  then have "barren (run_action_spec sp ?s payload)"
    using \<open>retry_policy_attr (attributes code) = FieldSpec\<close> by (simp add: requests_first_def self_of_def)
  then have "barren (provider_execute E (provider_of retrying code) ctx name payload)"
    by (intro barren_execute) (simp_all add: dget_actions Some)
  then show ?thesis
    unfolding barren_def by blast
qed

text \<open>C16: With any retry policy, a provider whose service has a fixed address sends its credentials nowhere
  else: every request of an action goes to a path of that service, and carries the \<open>Authorization\<close>
  header the class makes from the context, which no payload can replace.\<close>

theorem requests_stay_home:
  assumes "code \<in> set home_providers" and "runs_only retrying"
    and "provider_execute E (provider_of retrying (with_policy p code)) ctx name payload w = (r, w')"
  shows "\<exists>rs. sent w' = sent w @ rs
    \<and> list_all (\<lambda>q. list_ex (startswith (req_url q)) (homes code)
        \<and> dget (req_headers q) ''Authorization'' = dget (auth_headers (attributes code) E ctx) ''Authorization'') rs"
proof -
  let ?cls = "attributes (with_policy p code)"
  let ?s = "self_of retrying ?cls E ctx"
  have home: "stays_home code" and dist: "distinct (dkeys (auth_headers ?cls E ctx))"
    using home_providers_shaped home_headers_distinct assms(1) by (simp_all add: list_all_iff)
  have "requests_only (home_call (homes code)) ?s
      (provider_execute E (provider_of retrying (with_policy p code)) ctx name payload)"
  proof (rule only_execute)
    fix h
    assume "dget (actions (provider_of retrying (with_policy p code))) name = Some h"
    then obtain sp where sp: "dget (action_table code) name = Some sp"
      "h = (\<lambda>E ctx. run_action_spec sp (self_of retrying ?cls E ctx))"
      by (auto simp: dget_actions)
    then have "(name, sp) \<in> set (action_table code)"
      by (auto dest: map_of_SomeD)
    with home have "requests_only (home_call (homes code)) ?s (run_action_spec sp ?s payload)"
      unfolding stays_home_def list_all_iff by fast
    with sp show "requests_only (home_call (homes code)) ?s (h E ctx payload)"
      by simp
  qed
  then have "keeps (calls_after (home_call (homes code)) ?s (sent w))
      (provider_execute E (provider_of retrying (with_policy p code)) ctx name payload)"
    using assms(2) by (simp add: requests_only_def self_of_def)
  moreover have "calls_after (home_call (homes code)) ?s (sent w) w"
    by (auto simp: calls_after_def intro: exI[of _ "[]"])
  ultimately have "calls_after (home_call (homes code)) ?s (sent w) w'"
    using assms(3) by (rule keepsD)
  then obtain cs where cs: "list_all (home_call (homes code)) cs"
    "sent w' = sent w @ map (request_of E ?cls ctx) cs"
    by (auto simp: calls_after_def self_of_def)
  have "list_all (\<lambda>q. list_ex (startswith (req_url q)) (homes code)
        \<and> dget (req_headers q) ''Authorization'' = dget (auth_headers (attributes code) E ctx) ''Authorization'')
      (map (request_of E ?cls ctx) cs)"
    unfolding list.pred_map comp_def
  proof (rule list.pred_mono_strong[OF cs(1)])
    fix c
    assume "home_call (homes code) c"
    then show "list_ex (startswith (req_url (request_of E ?cls ctx c))) (homes code)
        \<and> dget (req_headers (request_of E ?cls ctx c)) ''Authorization''
          = dget (auth_headers (attributes code) E ctx) ''Authorization''"
      using request_authorization[OF _ dist, of c] unfolding home_call_def with_policy_simps
      by (simp add: request_of_def)
  qed
  with cs(2) show ?thesis
    by blast
qed

text \<open>An action of Slack returns the answer of the API only if the API calls it \<open>ok\<close>; an answer with
  status 200 that is not is an exception, whatever the retry policy.\<close>

theorem slack_results_ok:
  assumes "provider_execute E (provider_of retrying (with_policy p slack_code)) ctx name payload w = (Inr v, w')"
  shows "\<exists>d. v = JObj d \<and> truthy (jget d ''ok'')"
proof (cases "dget (action_table slack_code) name")
  case None
  with assms show ?thesis
    by (simp add: provider_execute_def dget_actions raise_def)
next
  case (Some sp)
  let ?s = "self_of retrying (attributes (with_policy p slack_code)) E ctx"
  have "(name, sp) \<in> set slack_actions"
    using map_of_SomeD[OF Some] by (simp add: slack_code_def)
  then have "returns_ok (run_action_spec sp ?s payload)"
    using slack_returns_ok unfolding list_all_iff by fast
  moreover have "\<exists>w''. run_action_spec sp ?s payload w = (Inr v, w'')"
    using assms by (auto simp: provider_execute_def dget_actions Some thn_def emit_def modify_def ret_def
        raise_def elim!: catch_InrE bnd_InrE)
  ultimately show ?thesis
    unfolding returns_ok_def by blast
qed

section \<open>Witnesses\<close>

theorem declared_payloads_accepted_witness:
  "\<exists>sp a kw. dget (action_table slack_code) ''send_message'' = Some sp
    \<and> bind_args sp [(''channel'', JStr ''C1''), (''text'', JStr ''hello'')] = Inr (a, kw)"
proof -
  let ?cap = "hd slack_capabilities"
  have "slack_code \<in> set http_providers"
    by (simp add: http_providers_def)
  moreover have "?cap \<in> set (capabilities (attributes slack_code))" "cap_name ?cap = ''send_message''"
    by (simp_all add: slack_code_def slack_attributes_def slack_capabilities_def)
  moreover have "conforms ?cap [(''channel'', JStr ''C1''), (''text'', JStr ''hello'')]"
    by (simp add: conforms_def schema_required_def schema_properties_def slack_capabilities_def
        jget_def jget_or_def)
  ultimately show ?thesis
    using declared_payloads_accepted[of slack_code ?cap "[(''channel'', JStr ''C1''), (''text'', JStr ''hello'')]"]
    by force
qed

theorem provider_actions_fail_witness:
  "\<exists>e w'. provider_execute sample_env (provider_of (\<lambda>_ f. f) github_code) None ''create_issue''
      [(''owner'', JStr ''octo''), (''repo'', JStr ''hello''), (''title'', JStr ''Bug'')] sample_world = (Inl e, w')
    \<and> sent w' = []"
proof -
  have "github_code \<in> set http_providers"
    by (simp add: http_providers_def)
  moreover have "\<not> lenient github_code ''create_issue''"
    by (simp add: lenient_def)
  ultimately show ?thesis
    using provider_actions_fail[of github_code "''create_issue''" sample_env "\<lambda>_ f. f" None
        "[(''owner'', JStr ''octo''), (''repo'', JStr ''hello''), (''title'', JStr ''Bug'')]" sample_world]
    by (simp add: sample_world_def empty_world_def)
qed

definition sample_context :: provider_context where
  "sample_context = \<lparr>ctx_provider = ''github'', ctx_workspace = ''ws-1'',
     ctx_credentials = [(''access_token'', JStr ''at-1'')], ctx_metadata = []\<rparr>"

theorem requests_stay_home_witness:
  "\<exists>rs. sent (snd (provider_execute sample_env
        (provider_of (\<lambda>_ f. f) (with_policy (Given default_retry_policy) github_code))
        (Some sample_context) ''list_repositories'' [] sample_world)) = rs
    \<and> filter (\<lambda>q. dget (req_headers q) ''Authorization'' \<noteq> Some ''Bearer at-1'') rs = []"
proof -
  have "github_code \<in> set home_providers" "runs_only (\<lambda>_ f. f)"
    by (simp_all add: home_providers_def runs_only_def)
  from requests_stay_home[OF this prod.collapse[symmetric]]
  obtain rs where rs: "sent (snd (provider_execute sample_env
        (provider_of (\<lambda>_ f. f) (with_policy (Given default_retry_policy) github_code))
        (Some sample_context) ''list_repositories'' [] sample_world)) = sent sample_world @ rs"
    "list_all (\<lambda>q. list_ex (startswith (req_url q)) (homes github_code)
        \<and> dget (req_headers q) ''Authorization''
          = dget (auth_headers (attributes github_code) sample_env (Some sample_context)) ''Authorization'') rs"
    by blast
  have "dget (auth_headers (attributes github_code) sample_env (Some sample_context)) ''Authorization''
      = Some ''Bearer at-1''"
    by (simp add: github_code_def github_attributes_def github_auth_headers_def bearer_def ctx_credential_def
        sample_context_def jget_or_def)
  with rs show ?thesis
    by (auto simp: sample_world_def empty_world_def list_all_iff filter_empty_conv)
qed


definition slack_answer :: http_response where
  "slack_answer = \<lparr>http_status = 200, http_text = [], http_json = Inr (JObj [(''ok'', JBool True)]),
     http_headers = []\<rparr>"

theorem slack_results_ok_witness:
  "\<exists>v w' d. provider_execute (sample_env\<lparr>http := \<lambda>_ _. Inr slack_answer\<rparr>)
      (provider_of (\<lambda>_ f. f) (with_policy (Given default_retry_policy) slack_code)) None ''list_users'' [] sample_world
      = (Inr v, w') \<and> v = JObj d \<and> truthy (jget d ''ok'')"
proof -
  let ?E = "sample_env\<lparr>http := \<lambda>_ _. Inr slack_answer\<rparr>"
  let ?cls = "attributes (with_policy (Given default_retry_policy) slack_code)"
  let ?s = "self_of (\<lambda>_ f. f) ?cls ?E None"
  have key: "provider_key (attributes slack_code) = ''slack''"
    by (simp add: slack_code_def slack_attributes_def)
  have allow: "fst (allow_request t default_breaker) = Inr True" for t
    by (simp add: allow_request_def read_state_def default_breaker_def new_breaker_def)
  have answer: "check_response k a slack_answer = Inr slack_answer" for k a
    by (simp add: check_response_def slack_answer_def)
  have "\<exists>w1. provider_request ?E (\<lambda>_ f. f) ?cls None c sample_world = (Inr slack_answer, w1)"
    if c: "call_retry c" for c
  proof -
    obtain w1 where w1: "breaker_allow ?E ''slack'' sample_world = (Inr True, w1)"
      using breaker_allow_spec[of ?E "''slack''" sample_world] allow by (auto simp: sample_breaker)
    obtain w2 where "breaker_succeeded ''slack'' (w1\<lparr>sent := sent w1 @ [request_of ?E ?cls None c]\<rparr>) = (Inr (), w2)"
      using breaker_succeeded_spec by blast
    with w1 c show ?thesis
      by (simp add: provider_request_def key with_retry_def do_request_eq bnd_def catch_def thn_def ret_def
          Let_def answer)
  qed
  then obtain w1 where "send_call ?s ((api_call ''GET'' ''/users.list'')\<lparr>call_params := [(''limit'', JInt 100)]\<rparr>)
      sample_world = (Inr slack_answer, w1)"
    unfolding send_call_def self_of_def self.select_convs by (fastforce simp: api_call_def)
  then have "\<exists>v w'. provider_execute ?E (provider_of (\<lambda>_ f. f) (with_policy (Given default_retry_policy) slack_code))
      None ''list_users'' [] sample_world = (Inr v, w')"
    by (simp add: provider_execute_def dget_actions slack_code_def slack_actions_def run_action_spec_def
        bind_args_def bind_named_def has_key_def jget_or_def slack_list_users_def slack_json_of_def json_of_def
        http_get_def slack_check_def py_get_def slack_answer_def jget_def bnd_def lift_def ret_def catch_def
        thn_def emit_def modify_def)
  then obtain v w' where run: "provider_execute ?E
      (provider_of (\<lambda>_ f. f) (with_policy (Given default_retry_policy) slack_code)) None ''list_users'' [] sample_world
      = (Inr v, w')"
    by blast
  with slack_results_ok[OF run] show ?thesis
    by blast
qed

end
