(* ===== verification/Providers_Storage.thy ===== *)
theory Providers_Storage
  imports Provider_Actions
begin

text \<open>
  The declared capabilities and the class attributes of the providers that call a driver instead of an
  HTTP API: \<open>src/providers/postgres\<close>, \<open>mysql\<close>, \<open>mongodb\<close> and \<open>aws_s3\<close>. Their actions are in
  \<open>Provider_Sql\<close> and \<open>Provider_Stores\<close>.
\<close>

section \<open>PostgreSQL\<close>

definition postgres_capabilities :: "capability list" where
  "postgres_capabilities = [
     \<lparr>cap_name = ''execute_query'',
       cap_description = ''Execute a read or write SQL query (blocking destructive DDL unless forced).'',
       cap_schema = [(''required'', JArr [JStr ''query'']), (''properties'',
       JObj [(''query'', JObj [(''type'', JStr ''string'')]),
       (''params'', JObj [(''type'', JStr ''object'')]),
       (''limit'', JObj [(''type'', JStr ''integer'')]),
       (''force'', JObj [(''type'', JStr ''boolean'')])])], cap_examples = []\<rparr>,
     \<lparr>cap_name = ''list_tables'', cap_description = ''List tables in a schema.'',
       cap_schema = [(''properties'', JObj [(''schema'', JObj [(''type'', JStr ''string'')])])],
       cap_examples = []\<rparr>,
     \<lparr>cap_name = ''get_table_schema'',
       cap_description = ''Describe the columns of a table.'',
       cap_schema = [(''required'', JArr [JStr ''table'']), (''properties'',
       JObj [(''table'', JObj [(''type'', JStr ''string'')])])], cap_examples = []\<rparr>,
     \<lparr>cap_name = ''insert_row'',
       cap_description = ''Insert a row into a table and return it.'',
       cap_schema = [(''required'', JArr [JStr ''table'', JStr ''row'']), (''properties'',
       JObj [(''table'', JObj [(''type'', JStr ''string'')]),
       (''row'', JObj [(''type'', JStr ''object'')])])], cap_examples = []\<rparr>,
     \<lparr>cap_name = ''update_row'',
       cap_description = ''Update rows matching a where clause and return them.'',
       cap_schema = [(''required'', JArr [JStr ''table'', JStr ''updates'', JStr ''where'']),
       (''properties'', JObj [(''table'', JObj [(''type'', JStr ''string'')]),
       (''updates'', JObj [(''type'', JStr ''object'')]),
       (''where'', JObj [(''type'', JStr ''object'')])])], cap_examples = []\<rparr>,
     \<lparr>cap_name = ''delete_row'', cap_description = ''Delete rows matching a where clause.'',
       cap_schema = [(''required'', JArr [JStr ''table'', JStr ''where'']), (''properties'',
       JObj [(''table'', JObj [(''type'', JStr ''string'')]),
       (''where'', JObj [(''type'', JStr ''object'')])])], cap_examples = []\<rparr>,
     \<lparr>cap_name = ''count_rows'',
       cap_description = ''Count rows in a table, optionally filtered.'',
       cap_schema = [(''required'', JArr [JStr ''table'']), (''properties'',
       JObj [(''table'', JObj [(''type'', JStr ''string'')]),
       (''where'', JObj [(''type'', JStr ''object'')])])], cap_examples = []\<rparr>]"

definition postgres_attributes :: provider_class where
  "postgres_attributes = base_class\<lparr>provider_key := ''postgres'',
    provider_name := ''PostgreSQL'',
    description := ''Run SQL queries and manage tables on a PostgreSQL database.'',
    auth_type := ''token'', base_url := [], timeout := 30, supports_webhooks := False,
    capabilities := postgres_capabilities\<rparr>"

section \<open>MySQL\<close>

definition mysql_capabilities :: "capability list" where
  "mysql_capabilities = [
     \<lparr>cap_name = ''execute_query'',
       cap_description = ''Execute a read or write SQL query (blocking destructive DDL unless forced).'',
       cap_schema = [(''required'', JArr [JStr ''query'']), (''properties'',
       JObj [(''query'', JObj [(''type'', JStr ''string'')]),
       (''params'', JObj [(''type'', JStr ''object'')]),
       (''limit'', JObj [(''type'', JStr ''integer'')]),
       (''force'', JObj [(''type'', JStr ''boolean'')])])], cap_examples = []\<rparr>,
     \<lparr>cap_name = ''list_tables'', cap_description = ''List tables in a database.'',
       cap_schema = [], cap_examples = []\<rparr>,
     \<lparr>cap_name = ''get_table_schema'',
       cap_description = ''Describe the columns of a table.'',
       cap_schema = [(''required'', JArr [JStr ''table'']), (''properties'',
       JObj [(''table'', JObj [(''type'', JStr ''string'')])])], cap_examples = []\<rparr>,
     \<lparr>cap_name = ''insert_row'', cap_description = ''Insert a row into a table.'',
       cap_schema = [(''required'', JArr [JStr ''table'', JStr ''row'']), (''properties'',
       JObj [(''table'', JObj [(''type'', JStr ''string'')]),
       (''row'', JObj [(''type'', JStr ''object'')])])], cap_examples = []\<rparr>,
     \<lparr>cap_name = ''update_row'', cap_description = ''Update rows matching a where clause.'',
       cap_schema = [(''required'', JArr [JStr ''table'', JStr ''updates'', JStr ''where'']),
       (''properties'', JObj [(''table'', JObj [(''type'', JStr ''string'')]),
       (''updates'', JObj [(''type'', JStr ''object'')]),
       (''where'', JObj [(''type'', JStr ''object'')])])], cap_examples = []\<rparr>,
     \<lparr>cap_name = ''delete_row'', cap_description = ''Delete rows matching a where clause.'',
       cap_schema = [(''required'', JArr [JStr ''table'', JStr ''where'']), (''properties'',
       JObj [(''table'', JObj [(''type'', JStr ''string'')]),
       (''where'', JObj [(''type'', JStr ''object'')])])], cap_examples = []\<rparr>,
     \<lparr>cap_name = ''count_rows'',
       cap_description = ''Count rows in a table, optionally filtered.'',
       cap_schema = [(''required'', JArr [JStr ''table'']), (''properties'',
       JObj [(''table'', JObj [(''type'', JStr ''string'')]),
       (''where'', JObj [(''type'', JStr ''object'')])])], cap_examples = []\<rparr>]"

definition mysql_attributes :: provider_class where
  "mysql_attributes = base_class\<lparr>provider_key := ''mysql'', provider_name := ''MySQL'',
    description := ''Run SQL queries and manage tables on a MySQL database.'',
    auth_type := ''token'', base_url := [], timeout := 30, supports_webhooks := False,
    capabilities := mysql_capabilities\<rparr>"

section \<open>MongoDB\<close>

definition mongo_capabilities :: "capability list" where
  "mongo_capabilities = [
     \<lparr>cap_name = ''list_collections'',
       cap_description = ''List collection names in the database.'', cap_schema = [],
       cap_examples = []\<rparr>,
     \<lparr>cap_name = ''insert_one'', cap_description = ''Insert a single document.'',
       cap_schema = [(''required'', JArr [JStr ''collection'', JStr ''document'']), (''properties'',
       JObj [(''collection'', JObj [(''type'', JStr ''string'')]),
       (''document'', JObj [(''type'', JStr ''object'')])])], cap_examples = []\<rparr>,
     \<lparr>cap_name = ''insert_many'', cap_description = ''Insert multiple documents.'',
       cap_schema = [(''required'', JArr [JStr ''collection'', JStr ''documents'']),
       (''properties'', JObj [(''collection'', JObj [(''type'', JStr ''string'')]),
       (''documents'', JObj [(''type'', JStr ''array'')])])], cap_examples = []\<rparr>,
     \<lparr>cap_name = ''find'', cap_description = ''Find documents matching a filter.'',
       cap_schema = [(''required'', JArr [JStr ''collection'']), (''properties'',
       JObj [(''collection'', JObj [(''type'', JStr ''string'')]),
       (''filter'', JObj [(''type'', JStr ''object'')]),
       (''limit'', JObj [(''type'', JStr ''integer'')]),
       (''sort'', JObj [(''type'', JStr ''object'')])])], cap_examples = []\<rparr>,
     \<lparr>cap_name = ''find_one'',
       cap_description = ''Find a single document matching a filter.'',
       cap_schema = [(''required'', JArr [JStr ''collection'']), (''properties'',
       JObj [(''collection'', JObj [(''type'', JStr ''string'')]),
       (''filter'', JObj [(''type'', JStr ''object'')])])], cap_examples = []\<rparr>,
     \<lparr>cap_name = ''update_one'',
       cap_description = ''Update a single document matching a filter.'',
       cap_schema = [(''required'', JArr [JStr ''collection'', JStr ''filter'', JStr ''update'']),
       (''properties'', JObj [(''collection'', JObj [(''type'', JStr ''string'')]),
       (''filter'', JObj [(''type'', JStr ''object'')]),
       (''update'', JObj [(''type'', JStr ''object'')]),
       (''upsert'', JObj [(''type'', JStr ''boolean'')])])], cap_examples = []\<rparr>,
     \<lparr>cap_name = ''delete_one'',
       cap_description = ''Delete a single document matching a filter.'',
       cap_schema = [(''required'', JArr [JStr ''collection'', JStr ''filter'']), (''properties'',
       JObj [(''collection'', JObj [(''type'', JStr ''string'')]),
       (''filter'', JObj [(''type'', JStr ''object'')])])], cap_examples = []\<rparr>,
     \<lparr>cap_name = ''delete_many'',
       cap_description = ''Delete all documents matching a filter.'',
       cap_schema = [(''required'', JArr [JStr ''collection'', JStr ''filter'']), (''properties'',
       JObj [(''collection'', JObj [(''type'', JStr ''string'')]),
       (''filter'', JObj [(''type'', JStr ''object'')])])], cap_examples = []\<rparr>,
     \<lparr>cap_name = ''aggregate'', cap_description = ''Run an aggregation pipeline.'',
       cap_schema = [(''required'', JArr [JStr ''collection'', JStr ''pipeline'']), (''properties'',
       JObj [(''collection'', JObj [(''type'', JStr ''string'')]),
       (''pipeline'', JObj [(''type'', JStr ''array'')])])], cap_examples = []\<rparr>,
     \<lparr>cap_name = ''count_documents'',
       cap_description = ''Count documents matching a filter.'',
       cap_schema = [(''required'', JArr [JStr ''collection'']), (''properties'',
       JObj [(''collection'', JObj [(''type'', JStr ''string'')]),
       (''filter'', JObj [(''type'', JStr ''object'')])])], cap_examples = []\<rparr>]"

definition mongo_attributes :: provider_class where
  "mongo_attributes = base_class\<lparr>provider_key := ''mongodb'', provider_name := ''MongoDB'',
    description := ''Query and mutate MongoDB collections and run aggregations.'',
    auth_type := ''token'', base_url := [], timeout := 30, supports_webhooks := False,
    capabilities := mongo_capabilities\<rparr>"

section \<open>AWS S3\<close>

definition s3_capabilities :: "capability list" where
  "s3_capabilities = [
     \<lparr>cap_name = ''upload_file'',
       cap_description = ''Upload a string of content to an S3 object.'',
       cap_schema = [(''required'', JArr [JStr ''key'', JStr ''content'']), (''properties'',
       JObj [(''key'', JObj [(''type'', JStr ''string'')]),
       (''content'', JObj [(''type'', JStr ''string'')]),
       (''bucket'', JObj [(''type'', JStr ''string'')]),
       (''content_type'', JObj [(''type'', JStr ''string'')])])], cap_examples = []\<rparr>,
     \<lparr>cap_name = ''download_file'', cap_description =
       (''Download an S3 object'' @ [CHR 0x27] @ ''s contents.''),
       cap_schema = [(''required'', JArr [JStr ''key'']), (''properties'',
       JObj [(''key'', JObj [(''type'', JStr ''string'')]),
       (''bucket'', JObj [(''type'', JStr ''string'')])])], cap_examples = []\<rparr>,
     \<lparr>cap_name = ''delete_file'', cap_description = ''Delete an S3 object.'',
       cap_schema = [(''required'', JArr [JStr ''key'']), (''properties'',
       JObj [(''key'', JObj [(''type'', JStr ''string'')]),
       (''bucket'', JObj [(''type'', JStr ''string'')])])], cap_examples = []\<rparr>,
     \<lparr>cap_name = ''list_files'', cap_description = ''List objects in an S3 bucket.'',
       cap_schema = [(''properties'', JObj [(''prefix'', JObj [(''type'', JStr ''string'')]),
       (''bucket'', JObj [(''type'', JStr ''string'')]), (''max_keys'',
       JObj [(''type'', JStr ''integer''), (''default'', JInt 1000)])])], cap_examples = []\<rparr>,
     \<lparr>cap_name = ''presigned_upload_url'',
       cap_description = ''Generate a presigned PUT URL for an object.'',
       cap_schema = [(''required'', JArr [JStr ''key'']), (''properties'',
       JObj [(''key'', JObj [(''type'', JStr ''string'')]),
       (''expires_in'', JObj [(''type'', JStr ''integer'')]),
       (''bucket'', JObj [(''type'', JStr ''string'')])])], cap_examples = []\<rparr>,
     \<lparr>cap_name = ''presigned_download_url'',
       cap_description = ''Generate a presigned GET URL for an object.'',
       cap_schema = [(''required'', JArr [JStr ''key'']), (''properties'',
       JObj [(''key'', JObj [(''type'', JStr ''string'')]),
       (''expires_in'', JObj [(''type'', JStr ''integer'')])])], cap_examples = []\<rparr>,
     \<lparr>cap_name = ''file_exists'',
       cap_description = ''Check whether an object exists and its size.'',
       cap_schema = [(''required'', JArr [JStr ''key'']), (''properties'',
       JObj [(''key'', JObj [(''type'', JStr ''string'')]),
       (''bucket'', JObj [(''type'', JStr ''string'')])])], cap_examples = []\<rparr>,
     \<lparr>cap_name = ''create_folder'',
       cap_description = ''Create a folder placeholder (zero-byte object ending in a slash).'',
       cap_schema = [(''required'', JArr [JStr ''prefix'']), (''properties'',
       JObj [(''prefix'', JObj [(''type'', JStr ''string'')]),
       (''bucket'', JObj [(''type'', JStr ''string'')])])], cap_examples = []\<rparr>]"

definition s3_auth_headers :: "env \<Rightarrow> provider_context option \<Rightarrow> string dict" where
  "s3_auth_headers E ctx = []"

definition s3_attributes :: provider_class where
  "s3_attributes = base_class\<lparr>provider_key := ''aws_s3'', provider_name := ''AWS S3'',
    description := ''Upload, download, delete, and list objects in an S3 bucket.'',
    auth_type := ''api_key'', base_url := [], timeout := 30, supports_webhooks := False,
    capabilities := s3_capabilities, auth_headers := s3_auth_headers\<rparr>"

end
