(* ===== verification/Provider_Sql.thy ===== *)
theory Provider_Sql
  imports Providers_Storage
begin

text \<open>
  \<open>src/providers/postgres/__init__.py\<close> and \<open>src/providers/mysql/__init__.py\<close>: the providers that run
  SQL. The drivers and SQLAlchemy are not under \<open>src/\<close>: what a statement does to a database of type
  \<open>'d\<close> is the field \<open>run_sql\<close> of \<open>sql_driver\<close>, a parameter of every definition, and \<open>engine_error\<close> is the
  exception of \<open>create_async_engine\<close> on a URL it refuses. What the code relies on of
  \<open>AsyncSession\<close> is written out: a session starts from the stored database, its statements change
  what the session sees, \<open>commit\<close> stores it, and the end of the session drops what is not committed.
  Statements that commit on their own (the DDL of MySQL) are outside.

  The state of an instance is the engine it has made, the stored database, the one its session sees,
  and the statements sent with their parameters.
\<close>

section \<open>The session\<close>

record sql_result =
  returns_rows :: bool
  result_rows :: "json dict list"
  rowcount :: int
  lastrowid :: json

record 'd sql_driver =
  engine_error :: "string \<Rightarrow> json dict \<Rightarrow> exn option"
  run_sql :: "string \<Rightarrow> json \<Rightarrow> 'd \<Rightarrow> exn + (sql_result \<times> 'd)"

record 'd sql_state =
  engine :: "string option"
  stored :: 'd
  seen :: 'd
  statements :: "(string \<times> json) list"

type_synonym ('d, 'a) sql = "('d sql_state, exn, 'a) proc"

definition drop_uncommitted :: "('d, unit) sql" where
  "drop_uncommitted = modify (\<lambda>s. s\<lparr>seen := stored s\<rparr>)"

definition sql_session :: "('d, 'a) sql \<Rightarrow> ('d, 'a) sql" where
  "sql_session m = thn drop_uncommitted (ensure m drop_uncommitted)"

definition session_execute :: "'d sql_driver \<Rightarrow> string \<Rightarrow> json \<Rightarrow> ('d, sql_result) sql" where
  "session_execute D sql params = (\<lambda>s. let s' = s\<lparr>statements := statements s @ [(sql, params)]\<rparr> in
     case run_sql D sql params (seen s) of
       Inl e \<Rightarrow> (Inl e, s')
     | Inr (r, d) \<Rightarrow> (Inr r, s'\<lparr>seen := d\<rparr>))"

definition session_commit :: "('d, unit) sql" where
  "session_commit = modify (\<lambda>s. s\<lparr>stored := seen s\<rparr>)"

section \<open>Shared by both providers\<close>

text \<open>The two classes differ in their key, the URL of the engine and its default port.\<close>

record sql_kind =
  kind_key :: string
  kind_scheme :: string
  kind_port :: int
  kind_sslmode :: bool

definition postgres_kind :: sql_kind where
  "postgres_kind = \<lparr>kind_key = ''postgres'', kind_scheme = ''postgresql+asyncpg'', kind_port = 5432,
     kind_sslmode = True\<rparr>"

definition mysql_kind :: sql_kind where
  "mysql_kind = \<lparr>kind_key = ''mysql'', kind_scheme = ''mysql+aiomysql'', kind_port = 3306,
     kind_sslmode = False\<rparr>"

definition sql_creds :: "sql_kind \<Rightarrow> provider_context option \<Rightarrow> exn + json dict" where
  "sql_creds K ctx = (case ctx of
      None \<Rightarrow> Inl (error1 IntegrationError ''no connection context'' (kind_key K))
    | Some c \<Rightarrow> Inr (ctx_credentials c))"

text \<open>The credentials go into the URL as they are.\<close>

definition engine_url :: "sql_kind \<Rightarrow> json dict \<Rightarrow> exn + string" where
  "engine_url K creds = map_sum id (\<lambda>port.
     kind_scheme K @ ''://'' @ py_str (jget_or creds ''user'' (JStr [])) @ '':'' @
     py_str (jget_or creds ''password'' (JStr [])) @ ''@'' @ py_str (jget_or creds ''host'' (JStr ''localhost'')) @
     '':'' @ show_int port @ ''/'' @ py_str (jget_or creds ''database'' (JStr [])))
     (py_int (jget_or creds ''port'' (JInt (kind_port K))))"

definition connect_args :: "sql_kind \<Rightarrow> json dict \<Rightarrow> json dict" where
  "connect_args K creds = (if kind_sslmode K then put_truthy ''sslmode'' (jget creds ''sslmode'') [] else [])"

definition get_engine :: "'d sql_driver \<Rightarrow> sql_kind \<Rightarrow> provider_context option \<Rightarrow> ('d, unit) sql" where
  "get_engine D K ctx = bnd (gets engine) (\<lambda>known. case known of
      Some _ \<Rightarrow> ret ()
    | None \<Rightarrow>
        bnd (lift (sql_creds K ctx)) (\<lambda>creds.
        bnd (lift (engine_url K creds)) (\<lambda>url.
        case engine_error D url (connect_args K creds) of
          Some e \<Rightarrow> raise e
        | None \<Rightarrow> modify (\<lambda>s. s\<lparr>engine := Some url\<rparr>))))"

definition dispose_engine :: "('d, unit) sql" where
  "dispose_engine = modify (\<lambda>s. s\<lparr>engine := None\<rparr>)"

text \<open>One statement in a session of its own; \<open>commits\<close> says whether the method commits.\<close>

definition in_session ::
    "'d sql_driver \<Rightarrow> sql_kind \<Rightarrow> provider_context option \<Rightarrow> bool \<Rightarrow> string \<Rightarrow> json \<Rightarrow> ('d, sql_result) sql" where
  "in_session D K ctx commits sql params = thn (get_engine D K ctx)
     (sql_session (bnd (session_execute D sql params) (\<lambda>r.
        thn (whenever commits session_commit) (ret r))))"

definition rows_json :: "sql_result \<Rightarrow> json" where
  "rows_json r = JArr (map JObj (result_rows r))"

definition sql_execute ::
    "'d sql_driver \<Rightarrow> sql_kind \<Rightarrow> provider_context option \<Rightarrow> string \<Rightarrow> json \<Rightarrow> ('d, json) sql" where
  "sql_execute D K ctx sql params = bnd (in_session D K ctx False sql (py_or params (JObj []))) (\<lambda>r.
     ret (if returns_rows r then rows_json r else JObj [(''rowcount'', JInt (rowcount r))]))"

definition destructive_words :: "string list" where
  "destructive_words = [''drop'', ''alter'', ''truncate'', ''grant'', ''revoke'', ''create'']"

definition sql_guard :: "sql_kind \<Rightarrow> json \<Rightarrow> json \<Rightarrow> exn + string" where
  "sql_guard K query force = (case query of
      JStr q \<Rightarrow>
        if strip q = []
        then Inl (error1 IntegrationError ''query must be a non-empty string'' (kind_key K))
        else if list_ex (startswith (lower (strip q))) destructive_words \<and> \<not> truthy force
        then Inl (error1 IntegrationError ''destructive statement blocked; pass force=True to allow'' (kind_key K))
        else Inr q
    | _ \<Rightarrow> Inl (error1 IntegrationError ''query must be a non-empty string'' (kind_key K)))"

text \<open>\<open>rows[:limit]\<close>, from the end when negative.\<close>

definition slice_to :: "int \<Rightarrow> 'a list \<Rightarrow> 'a list" where
  "slice_to n xs = (if 0 \<le> n then take (nat n) xs else take (length xs - nat (- n)) xs)"

definition limit_rows :: "json \<Rightarrow> json dict list \<Rightarrow> exn + json dict list" where
  "limit_rows limit rows = (case limit of
      JNull \<Rightarrow> Inr rows
    | JInt n \<Rightarrow> Inr (slice_to n rows)
    | JBool b \<Rightarrow> Inr (slice_to (if b then 1 else 0) rows)
    | _ \<Rightarrow> Inl (Builtin TypeError []))"

definition execute_query ::
    "'d sql_driver \<Rightarrow> sql_kind \<Rightarrow> provider_context option \<Rightarrow> json dict \<Rightarrow> ('d, json) sql" where
  "execute_query D K ctx a =
     bnd (lift (sql_guard K (jget a ''query'') (jget a ''force''))) (\<lambda>sql.
     bnd (in_session D K ctx False sql (py_or (jget a ''params'') (JObj []))) (\<lambda>r.
     if returns_rows r
     then bnd (lift (limit_rows (jget a ''limit'') (result_rows r))) (\<lambda>rows.
       ret (JObj [(''rows'', JArr (map JObj rows)), (''rowcount'', JInt (int (length rows)))]))
     else ret (JObj [(''rows'', JArr []), (''rowcount'', JInt (rowcount r))])))"

section \<open>Statements built from names\<close>

text \<open>\<open>v.keys()\<close>; and an object that is first iterated over and then asked for its items.\<close>

definition py_keys :: "json \<Rightarrow> exn + json dict" where
  "py_keys v = (case v of JObj d \<Rightarrow> Inr d | _ \<Rightarrow> Inl (attribute_error v ''keys''))"

definition columns_clause :: "string list \<Rightarrow> string" where
  "columns_clause ks = join '', '' ks"

definition placeholders :: "string list \<Rightarrow> string" where
  "placeholders ks = join '', '' (map (\<lambda>k. '':'' @ k) ks)"

definition insert_sql :: "string \<Rightarrow> string list \<Rightarrow> string" where
  "insert_sql table ks =
     ''INSERT INTO '' @ table @ '' ('' @ columns_clause ks @ '') VALUES ('' @ placeholders ks @ '')''"

definition set_clause :: "string list \<Rightarrow> string" where
  "set_clause ks = join '', '' (map (\<lambda>k. k @ '' = :upd_'' @ k) ks)"

definition where_clause :: "string list \<Rightarrow> string" where
  "where_clause ks = join '' AND '' (map (\<lambda>k. k @ '' = :whr_'' @ k) ks)"

definition update_sql :: "string \<Rightarrow> string list \<Rightarrow> string list \<Rightarrow> string" where
  "update_sql table us ws =
     ''UPDATE '' @ table @ '' SET '' @ set_clause us @ '' WHERE '' @ where_clause ws"

definition delete_sql :: "string \<Rightarrow> string list \<Rightarrow> string" where
  "delete_sql table ws = ''DELETE FROM '' @ table @ '' WHERE '' @ where_clause ws"

definition count_sql :: "string \<Rightarrow> string list \<Rightarrow> string" where
  "count_sql table ws = ''SELECT COUNT(*) AS count FROM '' @ table @
     (if ws = [] then [] else '' WHERE '' @ where_clause ws)"

definition prefixed :: "string \<Rightarrow> json dict \<Rightarrow> json dict" where
  "prefixed p d = map (\<lambda>(k, v). (p @ k, v)) d"

definition update_params :: "json dict \<Rightarrow> json dict \<Rightarrow> json dict" where
  "update_params updates wher = dupdate (prefixed ''upd_'' updates) (prefixed ''whr_'' wher)"

text \<open>\<open>int(rows[0]["count"]) if rows else 0\<close>.\<close>

definition first_count :: "json \<Rightarrow> exn + int" where
  "first_count rows = (if \<not> truthy rows then Inr 0 else (case rows of
      JArr (r # _) \<Rightarrow> (case py_item r ''count'' of Inl e \<Rightarrow> Inl e | Inr v \<Rightarrow> py_int v)
    | _ \<Rightarrow> Inl (Builtin KeyError ''0'')))"

definition count_rows ::
    "'d sql_driver \<Rightarrow> sql_kind \<Rightarrow> provider_context option \<Rightarrow> json dict \<Rightarrow> ('d, json) sql" where
  "count_rows D K ctx a =
     bnd (lift (if truthy (jget a ''where'') then py_keys (jget a ''where'') else Inr [])) (\<lambda>wher.
     bnd (sql_execute D K ctx (count_sql (text_of a ''table'') (dkeys wher)) (JObj (prefixed ''whr_'' wher))) (\<lambda>rows.
     bnd (lift (first_count rows)) (\<lambda>n. ret (JObj [(''count'', JInt n)]))))"

definition schema_sql :: string where
  "schema_sql = ''SELECT column_name, data_type, is_nullable, column_default '' @
     ''FROM information_schema.columns WHERE table_name = :table ORDER BY ordinal_position''"

definition get_table_schema ::
    "'d sql_driver \<Rightarrow> sql_kind \<Rightarrow> provider_context option \<Rightarrow> json dict \<Rightarrow> ('d, json) sql" where
  "get_table_schema D K ctx a = bnd (sql_execute D K ctx schema_sql (JObj [(''table'', jget a ''table'')])) (\<lambda>rows.
     ret (JObj [(''table'', jget a ''table''), (''columns'', rows)]))"

definition tables_sql :: string where
  "tables_sql = ''SELECT table_name FROM information_schema.tables '' @
     ''WHERE table_schema = :schema ORDER BY table_name''"

text \<open>\<open>[r.get("table_name") for r in rows if r.get("table_name")]\<close>.\<close>

fun table_names :: "json list \<Rightarrow> exn + json list" where
  "table_names [] = Inr []"
| "table_names (r # rs) = (case py_get r ''table_name'' JNull of
      Inl e \<Rightarrow> Inl e
    | Inr v \<Rightarrow> map_sum id (\<lambda>ns. if truthy v then v # ns else ns) (table_names rs))"

definition tables_json :: "json \<Rightarrow> exn + json" where
  "tables_json rows = (case py_iter rows of
      Inl e \<Rightarrow> Inl e
    | Inr rs \<Rightarrow> map_sum id (\<lambda>ns. JObj [(''tables'', JArr ns)]) (table_names rs))"

definition sql_health :: "'d sql_driver \<Rightarrow> sql_kind \<Rightarrow> provider_context option \<Rightarrow> ('d, provider_health) sql" where
  "sql_health D K ctx = catch
     (bnd (sql_execute D K ctx ''SELECT 1'' (JObj [])) (\<lambda>_. ret (healthy_with [(''database'', JStr ''ok'')])))
     (\<lambda>e. ret (down [(''error'', JStr (exn_text e))]))"

section \<open>Actions\<close>

type_synonym 'd sql_method = "'d sql_driver \<Rightarrow> provider_context option \<Rightarrow> json dict \<Rightarrow> ('d, json) sql"

text \<open>\<open>execute_action\<close>, without its metrics: a method, its required and its optional parameters.\<close>

type_synonym 'd sql_table = "(string list \<times> json dict \<times> 'd sql_method) dict"

definition sql_execute_action ::
    "sql_kind \<Rightarrow> 'd sql_table \<Rightarrow> 'd sql_driver \<Rightarrow> provider_context option \<Rightarrow> string \<Rightarrow> json dict \<Rightarrow> ('d, json) sql" where
  "sql_execute_action K table D ctx name payload = (case dget table name of
      None \<Rightarrow> raise (error1 ActionNotFound
        (''action '' @ repr_str name @ '' not supported by provider '' @ kind_key K) (kind_key K))
    | Some (req, opt, f) \<Rightarrow> bnd (lift (bind_named req opt False payload)) (\<lambda>(a, _). f D ctx a))"

section \<open>PostgreSQL\<close>

definition postgres_probe :: "'d sql_driver \<Rightarrow> provider_context option \<Rightarrow> ('d, bool) sql" where
  "postgres_probe D ctx = bnd (sql_execute D postgres_kind ctx ''SELECT 1'' (JObj [])) (\<lambda>res.
     case res of
       JArr (r # _) \<Rightarrow> (case py_keys r of
           Inl e \<Rightarrow> raise e | Inr [] \<Rightarrow> raise (Builtin OtherException ''list index out of range'') | Inr _ \<Rightarrow> ret True)
     | _ \<Rightarrow> ret False)"

definition postgres_list_tables :: "'d sql_method" where
  "postgres_list_tables D ctx a =
     bnd (sql_execute D postgres_kind ctx tables_sql (JObj [(''schema'', jget a ''schema'')])) (\<lambda>rows.
     lift (tables_json rows))"

definition counted_rows :: "json \<Rightarrow> exn + json" where
  "counted_rows rows = map_sum id (\<lambda>n. JObj [(''rows'', rows), (''rowcount'', JInt n)]) (py_len rows)"

definition postgres_insert_row :: "'d sql_method" where
  "postgres_insert_row D ctx a = bnd (lift (py_keys (jget a ''row''))) (\<lambda>row.
     bnd (sql_execute D postgres_kind ctx (insert_sql (text_of a ''table'') (dkeys row) @ '' RETURNING *'')
       (JObj row)) (\<lambda>rows. lift (counted_rows rows)))"

definition postgres_update_row :: "'d sql_method" where
  "postgres_update_row D ctx a =
     bnd (lift (py_iter (jget a ''updates''))) (\<lambda>_. bnd (lift (py_iter (jget a ''where''))) (\<lambda>_.
     bnd (lift (py_items (jget a ''updates''))) (\<lambda>updates. bnd (lift (py_items (jget a ''where''))) (\<lambda>wher.
     bnd (sql_execute D postgres_kind ctx
       (update_sql (text_of a ''table'') (dkeys updates) (dkeys wher) @ '' RETURNING *'')
       (JObj (update_params updates wher))) (\<lambda>rows. lift (counted_rows rows))))))"

definition postgres_delete_row :: "'d sql_method" where
  "postgres_delete_row D ctx a =
     bnd (lift (py_iter (jget a ''where''))) (\<lambda>_. bnd (lift (py_items (jget a ''where''))) (\<lambda>wher.
     bnd (in_session D postgres_kind ctx False (delete_sql (text_of a ''table'') (dkeys wher))
       (JObj (prefixed ''whr_'' wher))) (\<lambda>r. ret (JObj [(''deleted'', JInt (rowcount r))]))))"

definition postgres_actions :: "'d sql_table" where
  "postgres_actions = [
     (''execute_query'', [''query''], [(''params'', JNull), (''limit'', JNull), (''force'', JBool False)],
       \<lambda>D. execute_query D postgres_kind),
     (''list_tables'', [], [(''schema'', JStr ''public'')], postgres_list_tables),
     (''get_table_schema'', [''table''], [], \<lambda>D. get_table_schema D postgres_kind),
     (''insert_row'', [''table'', ''row''], [], postgres_insert_row),
     (''update_row'', [''table'', ''updates'', ''where''], [], postgres_update_row),
     (''delete_row'', [''table'', ''where''], [], postgres_delete_row),
     (''count_rows'', [''table''], [(''where'', JNull)], \<lambda>D. count_rows D postgres_kind)]"

definition postgres_execute ::
    "'d sql_driver \<Rightarrow> provider_context option \<Rightarrow> string \<Rightarrow> json dict \<Rightarrow> ('d, json) sql" where
  "postgres_execute = sql_execute_action postgres_kind postgres_actions"

section \<open>MySQL\<close>

definition mysql_probe :: "'d sql_driver \<Rightarrow> provider_context option \<Rightarrow> ('d, bool) sql" where
  "mysql_probe D ctx = bnd (sql_execute D mysql_kind ctx ''SELECT 1'' (JObj [])) (\<lambda>_. ret True)"

text \<open>\<open>[{"table_name": list(r.values())[0]} for r in rows]\<close>.\<close>

fun first_values :: "json list \<Rightarrow> exn + json list" where
  "first_values [] = Inr []"
| "first_values (r # rs) = (case r of
      JObj ((_, v) # _) \<Rightarrow> map_sum id ((#) (JObj [(''table_name'', v)])) (first_values rs)
    | JObj [] \<Rightarrow> Inl (Builtin OtherException ''list index out of range'')
    | _ \<Rightarrow> Inl (attribute_error r ''values''))"

definition mysql_list_tables :: "'d sql_method" where
  "mysql_list_tables D ctx a = bnd (lift (sql_creds mysql_kind ctx)) (\<lambda>creds.
     let schema = jget creds ''database'' in
     if truthy schema
     then bnd (sql_execute D mysql_kind ctx tables_sql (JObj [(''schema'', schema)])) (\<lambda>rows.
       lift (tables_json rows))
     else bnd (sql_execute D mysql_kind ctx ''SHOW TABLES'' (JObj [])) (\<lambda>rows.
       bnd (lift (py_iter rows)) (\<lambda>rs. bnd (lift (first_values rs)) (\<lambda>named.
       lift (tables_json (JArr named))))))"

definition mysql_insert_row :: "'d sql_method" where
  "mysql_insert_row D ctx a = bnd (lift (py_keys (jget a ''row''))) (\<lambda>row.
     bnd (in_session D mysql_kind ctx True (insert_sql (text_of a ''table'') (dkeys row)) (JObj row)) (\<lambda>r.
     ret (JObj [(''affected'', JInt (rowcount r)), (''lastrowid'', lastrowid r)])))"

definition mysql_update_row :: "'d sql_method" where
  "mysql_update_row D ctx a =
     bnd (lift (py_iter (jget a ''updates''))) (\<lambda>_. bnd (lift (py_iter (jget a ''where''))) (\<lambda>_.
     bnd (lift (py_items (jget a ''updates''))) (\<lambda>updates. bnd (lift (py_items (jget a ''where''))) (\<lambda>wher.
     bnd (in_session D mysql_kind ctx True
       (update_sql (text_of a ''table'') (dkeys updates) (dkeys wher)) (JObj (update_params updates wher)))
       (\<lambda>r. ret (JObj [(''affected'', JInt (rowcount r))]))))))"

definition mysql_delete_row :: "'d sql_method" where
  "mysql_delete_row D ctx a =
     bnd (lift (py_iter (jget a ''where''))) (\<lambda>_. bnd (lift (py_items (jget a ''where''))) (\<lambda>wher.
     bnd (in_session D mysql_kind ctx True (delete_sql (text_of a ''table'') (dkeys wher))
       (JObj (prefixed ''whr_'' wher))) (\<lambda>r. ret (JObj [(''deleted'', JInt (rowcount r))]))))"

definition mysql_actions :: "'d sql_table" where
  "mysql_actions = [
     (''execute_query'', [''query''], [(''params'', JNull), (''limit'', JNull), (''force'', JBool False)],
       \<lambda>D. execute_query D mysql_kind),
     (''list_tables'', [], [], mysql_list_tables),
     (''get_table_schema'', [''table''], [], \<lambda>D. get_table_schema D mysql_kind),
     (''insert_row'', [''table'', ''row''], [], mysql_insert_row),
     (''update_row'', [''table'', ''updates'', ''where''], [], mysql_update_row),
     (''delete_row'', [''table'', ''where''], [], mysql_delete_row),
     (''count_rows'', [''table''], [(''where'', JNull)], \<lambda>D. count_rows D mysql_kind)]"

definition mysql_execute ::
    "'d sql_driver \<Rightarrow> provider_context option \<Rightarrow> string \<Rightarrow> json dict \<Rightarrow> ('d, json) sql" where
  "mysql_execute = sql_execute_action mysql_kind mysql_actions"

section \<open>Facts\<close>

lemma py_or_object [simp]: "py_or (JObj d) (JObj []) = JObj d"
  by (simp add: py_or_def)

text \<open>Where the engine exists, a session is one step of the database, stored if the method commits.\<close>

lemma in_session_known:
  assumes "engine st = Some url"
  shows "in_session D K ctx commits sql params st =
    (let st' = st\<lparr>seen := stored st, statements := statements st @ [(sql, params)]\<rparr> in
     case run_sql D sql params (stored st) of
       Inl e \<Rightarrow> (Inl e, st')
     | Inr (r, d) \<Rightarrow> (Inr r, if commits then st'\<lparr>stored := d, seen := d\<rparr> else st'))"
  using assms
  by (simp add: in_session_def get_engine_def sql_session_def session_execute_def session_commit_def
      drop_uncommitted_def thn_def bnd_def gets_def ret_def ensure_def modify_def whenever_def Let_def
      split: sum.splits)

lemma keeps_get_engine: "keeps (\<lambda>s. stored s = d) (get_engine D K ctx)"
  unfolding get_engine_def by (intro keeps_rules) simp_all

lemma keeps_session_execute: "keeps (\<lambda>s. stored s = d) (session_execute D sql params)"
  by (auto simp: keeps_def session_execute_def Let_def split: sum.splits)

lemma keeps_sql_session: "keeps (\<lambda>s. stored s = d) m \<Longrightarrow> keeps (\<lambda>s. stored s = d) (sql_session m)"
  unfolding sql_session_def drop_uncommitted_def by (intro keeps_rules) simp_all

text \<open>A session that does not commit changes nothing of the database.\<close>

named_theorems unsaved \<open>procedures that leave the stored database as it is\<close>

lemma unsaved_in_session [unsaved]: "keeps (\<lambda>s. stored s = d) (in_session D K ctx False sql params)"
  unfolding in_session_def
  by (intro keeps_rules keeps_get_engine keeps_sql_session keeps_session_execute) simp_all

lemma unsaved_sql_execute [unsaved]: "keeps (\<lambda>s. stored s = d) (sql_execute D K ctx sql params)"
  unfolding sql_execute_def by (intro keeps_rules unsaved)

lemma unsaved_shared [unsaved]:
  "keeps (\<lambda>s. stored s = d) (execute_query D K ctx a)"
  "keeps (\<lambda>s. stored s = d) (count_rows D K ctx a)"
  "keeps (\<lambda>s. stored s = d) (get_table_schema D K ctx a)"
  unfolding execute_query_def count_rows_def get_table_schema_def by (intro keeps_rules unsaved)+

lemma unsaved_postgres [unsaved]:
  "keeps (\<lambda>s. stored s = d) (postgres_list_tables D ctx a)"
  "keeps (\<lambda>s. stored s = d) (postgres_insert_row D ctx a)"
  "keeps (\<lambda>s. stored s = d) (postgres_update_row D ctx a)"
  "keeps (\<lambda>s. stored s = d) (postgres_delete_row D ctx a)"
  unfolding postgres_list_tables_def postgres_insert_row_def postgres_update_row_def postgres_delete_row_def
  by (intro keeps_rules unsaved)+

lemma keeps_sql_action:
  assumes "\<And>f a. f \<in> (snd \<circ> snd \<circ> snd) ` set table \<Longrightarrow> keeps I (f D ctx a)"
  shows "keeps I (sql_execute_action K table D ctx name payload)"
proof (cases "dget table name")
  case None
  then show ?thesis
    by (simp add: sql_execute_action_def keeps_raise)
next
  case (Some m)
  obtain req opt f where m: "m = (req, opt, f)"
    by (cases m) auto
  with Some have "f \<in> (snd \<circ> snd \<circ> snd) ` set table"
    by (force dest: map_of_SomeD)
  with assms have "keeps I (f D ctx a)" for a
    by blast
  then show ?thesis
    unfolding sql_execute_action_def Some m by (auto intro!: keeps_rules)
qed

lemma unsaved_postgres_execute: "keeps (\<lambda>s. stored s = d) (postgres_execute D ctx name payload)"
  unfolding postgres_execute_def postgres_actions_def
  by (rule keeps_sql_action) (auto intro: unsaved)

lemma postgres_insert_known:
  assumes "engine st = Some url"
  shows "postgres_execute D ctx ''insert_row'' [(''table'', JStr table), (''row'', JObj row)] st =
    (let sql = insert_sql table (dkeys row) @ '' RETURNING *'';
         st' = st\<lparr>seen := stored st, statements := statements st @ [(sql, JObj row)]\<rparr>
     in case run_sql D sql (JObj row) (stored st) of
          Inl e \<Rightarrow> (Inl e, st')
        | Inr (r, d) \<Rightarrow> (counted_rows (if returns_rows r then rows_json r
            else JObj [(''rowcount'', JInt (rowcount r))]), st'))"
  using assms
  by (simp add: postgres_execute_def postgres_actions_def sql_execute_action_def postgres_insert_row_def
      bind_named_def has_key_def jget_def py_keys_def sql_execute_def in_session_known bnd_def lift_def
      ret_def Let_def split: sum.splits prod.splits)

lemma dget_prefixed: "dget (prefixed p d) (p @ k) = dget d k"
  by (induction d) (auto simp: prefixed_def)

lemma prefixed_key: "k \<in> set (dkeys (prefixed p d)) \<longleftrightarrow> (\<exists>j \<in> set (dkeys d). k = p @ j)"
  by (auto simp: prefixed_def image_iff split_beta)

lemma update_params_bound:
  assumes "distinct (dkeys wher)"
  shows "dget (update_params updates wher) (''upd_'' @ k) = dget updates k"
    and "dget (update_params updates wher) (''whr_'' @ k) = dget wher k"
proof -
  have "''upd_'' @ k \<notin> set (dkeys (prefixed ''whr_'' wher))"
    unfolding prefixed_key by simp
  then show "dget (update_params updates wher) (''upd_'' @ k) = dget updates k"
    unfolding update_params_def by (rule trans[OF dget_dupdate_notin dget_prefixed])
  have "dkeys (prefixed ''whr_'' wher) = map ((@) ''whr_'') (dkeys wher)"
    by (simp add: prefixed_def split_beta comp_def)
  then have "distinct (dkeys (prefixed ''whr_'' wher))"
    using assms by (simp only: distinct_map inj_on_def) simp
  moreover have "set (dkeys (prefixed ''upd_'' updates)) \<inter> set (dkeys (prefixed ''whr_'' wher)) = {}"
    unfolding disjoint_iff prefixed_key by auto
  ultimately have "update_params updates wher = prefixed ''upd_'' updates @ prefixed ''whr_'' wher"
    unfolding update_params_def by (rule dupdate_distinct)
  moreover have "dget (prefixed ''upd_'' updates) (''whr_'' @ k) = None"
    unfolding map_of_eq_None_iff using prefixed_key[of "''whr_'' @ k" "''upd_''" updates] by auto
  ultimately have "dget (update_params updates wher) (''whr_'' @ k) = dget (prefixed ''whr_'' wher) (''whr_'' @ k)"
    by (simp only: map_of_append map_add_def option.case_eq_if) (simp split: option.splits)
  then show "dget (update_params updates wher) (''whr_'' @ k) = dget wher k"
    by (rule trans[OF _ dget_prefixed])
qed

lemma guard_query:
  "sql_guard K query force = Inr q \<longleftrightarrow> query = JStr q \<and> strip q \<noteq> []
     \<and> (list_ex (startswith (lower (strip q))) destructive_words \<longrightarrow> truthy force)"
  by (auto simp: sql_guard_def split: json.splits)

lemma mysql_update_known:
  assumes "engine st = Some url"
  shows "mysql_execute D ctx ''update_row''
      [(''table'', JStr table), (''updates'', JObj updates), (''where'', JObj wher)] st =
    (let sql = update_sql table (dkeys updates) (dkeys wher); params = JObj (update_params updates wher);
         st' = st\<lparr>seen := stored st, statements := statements st @ [(sql, params)]\<rparr>
     in case run_sql D sql params (stored st) of
          Inl e \<Rightarrow> (Inl e, st')
        | Inr (r, d) \<Rightarrow> (Inr (JObj [(''affected'', JInt (rowcount r))]), st'\<lparr>stored := d, seen := d\<rparr>))"
  using assms
  by (simp add: mysql_execute_def mysql_actions_def sql_execute_action_def mysql_update_row_def
      bind_named_def has_key_def jget_def py_iter_def py_items_def in_session_known bnd_def lift_def
      ret_def Let_def split: sum.splits prod.splits)

lemma execute_query_statements:
  "statements (snd (execute_query D K ctx a st)) = statements st
   \<or> (\<exists>q p. statements (snd (execute_query D K ctx a st)) = statements st @ [(q, p)]
        \<and> sql_guard K (jget a ''query'') (jget a ''force'') = Inr q)"
proof -
  have eng: "statements (snd (get_engine D K ctx st)) = statements st" for st
  proof -
    have "keeps (\<lambda>s. statements s = statements st) (get_engine D K ctx)"
      unfolding get_engine_def by (intro keeps_rules) simp_all
    then show ?thesis
      by (simp add: keeps_def)
  qed
  have sess: "statements (snd (in_session D K ctx False sql p st)) \<in> {statements st, statements st @ [(sql, p)]}"
    for sql p
    using eng[of st]
    by (cases "get_engine D K ctx st")
      (auto simp: in_session_def sql_session_def session_execute_def drop_uncommitted_def thn_def bnd_def
        ret_def ensure_def modify_def whenever_def Let_def split: sum.splits)
  show ?thesis
  proof (cases "sql_guard K (jget a ''query'') (jget a ''force'')")
    case (Inl e)
    then show ?thesis
      by (simp add: execute_query_def bnd_def lift_def)
  next
    case (Inr q)
    let ?m = "in_session D K ctx False q (py_or (jget a ''params'') (JObj []))"
    have "snd (execute_query D K ctx a st) = snd (?m st)"
      unfolding execute_query_def Inr
      by (auto simp: bnd_def lift_def ret_def split: sum.splits prod.splits)
    then show ?thesis
      using sess[of q "py_or (jget a ''params'') (JObj [])"] Inr by auto
  qed
qed

section \<open>Properties\<close>

text \<open>The PostgreSQL provider never stores anything: whatever action is executed, the database is
  what it was, since its sessions end without a commit. An insert the database accepts is reported
  with the rows it returned all the same.\<close>

theorem postgres_writes_lost:
  assumes "engine st = Some url"
    and "run_sql D (insert_sql table (dkeys row) @ '' RETURNING *'') (JObj row) (stored st) = Inr (r, d)"
    and "returns_rows r"
  shows "stored (snd (postgres_execute D ctx name payload st0)) = stored st0
    \<and> postgres_execute D ctx ''insert_row'' [(''table'', JStr table), (''row'', JObj row)] st =
      (Inr (JObj [(''rows'', rows_json r), (''rowcount'', JInt (int (length (result_rows r))))]),
       st\<lparr>seen := stored st,
          statements := statements st @ [(insert_sql table (dkeys row) @ '' RETURNING *'', JObj row)]\<rparr>)"
proof (rule conjI)
  show "stored (snd (postgres_execute D ctx name payload st0)) = stored st0"
    using unsaved_postgres_execute[of "stored st0" D ctx name payload] by (simp add: keeps_def)
  show "postgres_execute D ctx ''insert_row'' [(''table'', JStr table), (''row'', JObj row)] st =
      (Inr (JObj [(''rows'', rows_json r), (''rowcount'', JInt (int (length (result_rows r))))]),
       st\<lparr>seen := stored st,
          statements := statements st @ [(insert_sql table (dkeys row) @ '' RETURNING *'', JObj row)]\<rparr>)"
    using assms(2,3) unfolding postgres_insert_known[OF assms(1)] Let_def
    by (simp add: counted_rows_def rows_json_def py_len_def)
qed

text \<open>C24: The statement of an update holds names only: every value travels as a parameter, the new
  value of a column under \<open>upd_\<close> and the value a row is chosen by under \<open>whr_\<close>, so that a column may
  occur in both. What the database makes of the statement is stored, or nothing on an error.\<close>

theorem mysql_update_binds_values:
  assumes "engine st = Some url" and "distinct (dkeys wher)"
  shows "\<exists>params. mysql_execute D ctx ''update_row''
        [(''table'', JStr table), (''updates'', JObj updates), (''where'', JObj wher)] st =
      (let sql = update_sql table (dkeys updates) (dkeys wher);
           st' = st\<lparr>seen := stored st, statements := statements st @ [(sql, JObj params)]\<rparr>
       in case run_sql D sql (JObj params) (stored st) of
            Inl e \<Rightarrow> (Inl e, st')
          | Inr (r, d) \<Rightarrow> (Inr (JObj [(''affected'', JInt (rowcount r))]), st'\<lparr>stored := d, seen := d\<rparr>))
    \<and> (\<forall>k. dget params (''upd_'' @ k) = dget updates k \<and> dget params (''whr_'' @ k) = dget wher k)"
proof (rule exI, rule conjI)
  show "mysql_execute D ctx ''update_row''
        [(''table'', JStr table), (''updates'', JObj updates), (''where'', JObj wher)] st =
      (let sql = update_sql table (dkeys updates) (dkeys wher);
           st' = st\<lparr>seen := stored st, statements := statements st @ [(sql, JObj (update_params updates wher))]\<rparr>
       in case run_sql D sql (JObj (update_params updates wher)) (stored st) of
            Inl e \<Rightarrow> (Inl e, st')
          | Inr (r, d) \<Rightarrow> (Inr (JObj [(''affected'', JInt (rowcount r))]), st'\<lparr>stored := d, seen := d\<rparr>))"
    unfolding mysql_update_known[OF assms(1)] Let_def ..
  show "\<forall>k. dget (update_params updates wher) (''upd_'' @ k) = dget updates k
      \<and> dget (update_params updates wher) (''whr_'' @ k) = dget wher k"
    using update_params_bound[OF assms(2)] by blast
qed

text \<open>\<open>execute_query\<close> sends at most one statement, the query itself, and never one that begins with a
  destructive keyword unless \<open>force\<close> is set. The keyword is looked for at the beginning only: the
  same statement after a comment passes.\<close>

theorem execute_query_guarded:
  "statements (snd (execute_query D K ctx a st)) = statements st
   \<or> (\<exists>q p. statements (snd (execute_query D K ctx a st)) = statements st @ [(q, p)]
        \<and> jget a ''query'' = JStr q \<and> strip q \<noteq> []
        \<and> \<not> (list_ex (startswith (lower (strip q))) destructive_words \<and> \<not> truthy (jget a ''force'')))"
  using execute_query_statements[of D K ctx a st] unfolding guard_query by blast

lemma guard_bypassed:
  "sql_guard K (JStr ''DROP TABLE users'') (JBool False) \<noteq> Inr ''DROP TABLE users''"
  "sql_guard K (JStr ''/**/DROP TABLE users'') (JBool False) = Inr ''/**/DROP TABLE users''"
proof -
  have "list_ex (startswith (lower (strip ''DROP TABLE users''))) destructive_words"
    "\<not> list_ex (startswith (lower (strip ''/**/DROP TABLE users''))) destructive_words"
    "strip ''/**/DROP TABLE users'' \<noteq> []"
    by code_simp+
  then show "sql_guard K (JStr ''DROP TABLE users'') (JBool False) \<noteq> Inr ''DROP TABLE users''"
    and "sql_guard K (JStr ''/**/DROP TABLE users'') (JBool False) = Inr ''/**/DROP TABLE users''"
    unfolding guard_query by simp_all
qed

section \<open>Witnesses\<close>

text \<open>A database that remembers the statements it has run.\<close>

definition sample_driver :: "string list sql_driver" where
  "sample_driver = \<lparr>engine_error = (\<lambda>_ _. None), run_sql = (\<lambda>sql _ d. Inr (\<lparr>returns_rows = True,
     result_rows = [[(''id'', JInt 1)]], rowcount = 1, lastrowid = JInt 1\<rparr>, d @ [sql]))\<rparr>"

definition sample_sql :: "string list sql_state" where
  "sample_sql = \<lparr>engine = Some ''mysql+aiomysql://u:p@db:3306/app'', stored = [], seen = [], statements = []\<rparr>"

theorem postgres_writes_lost_witness:
  "stored (snd (postgres_execute sample_driver None ''insert_row''
     [(''table'', JStr ''users''), (''row'', JObj [(''name'', JStr ''Ada'')])] sample_sql)) = []"
  using postgres_writes_lost[of sample_sql _ sample_driver "''users''" "[(''name'', JStr ''Ada'')]" _ _ None
      "''insert_row''" "[(''table'', JStr ''users''), (''row'', JObj [(''name'', JStr ''Ada'')])]" sample_sql]
  by (simp add: sample_driver_def sample_sql_def)

theorem mysql_update_binds_values_witness:
  "stored (snd (mysql_execute sample_driver None ''update_row'' [(''table'', JStr ''users''),
     (''updates'', JObj [(''name'', JStr ''Ada'')]), (''where'', JObj [(''name'', JStr ''Eve'')])] sample_sql))
   = [''UPDATE users SET name = :upd_name WHERE name = :whr_name'']"
proof -
  have sql: "update_sql ''users'' [''name''] [''name''] = ''UPDATE users SET name = :upd_name WHERE name = :whr_name''"
    by code_simp
  have "engine sample_sql = Some ''mysql+aiomysql://u:p@db:3306/app''"
    by (simp add: sample_sql_def)
  from mysql_update_binds_values[OF this, of "[(''name'', JStr ''Eve'')]" sample_driver None "''users''"
      "[(''name'', JStr ''Ada'')]"]
  show ?thesis
    by (auto simp: sample_driver_def sample_sql_def Let_def sql)
qed

end
