(* ===== verification/Provider_Stores.thy ===== *)
theory Provider_Stores
  imports Providers_Storage Sample
begin

text \<open>
  \<open>src/providers/mongodb/__init__.py\<close> and \<open>src/providers/aws_s3/__init__.py\<close>: the providers that call
  the drivers motor and aioboto3, which are not under \<open>src/\<close>. What a call of a driver does to a store
  of type \<open>'d\<close> is a parameter, \<open>mongo_call\<close> and \<open>s3_call\<close>; the actions are written over it. A state
  holds the client an instance has made, the store, and the calls in their order.
\<close>

section \<open>MongoDB: values and the driver\<close>

text \<open>The values of a document: those of JSON, dates (by their \<open>isoformat\<close>), object identifiers (by
  their \<open>str\<close>) and the other BSON types.\<close>

datatype bson =
    BNull
  | BBool bool
  | BInt int
  | BStr string
  | BDate string
  | BId string
  | BOther string
  | BArr "bson list"
  | BObj "(string \<times> bson) list"

fun bson_of :: "json \<Rightarrow> bson" where
  "bson_of JNull = BNull"
| "bson_of (JBool b) = BBool b"
| "bson_of (JInt n) = BInt n"
| "bson_of (JStr s) = BStr s"
| "bson_of (JArr xs) = BArr (map bson_of xs)"
| "bson_of (JObj d) = BObj (map (\<lambda>(k, v). (k, bson_of v)) d)"

fun bson_truthy :: "bson \<Rightarrow> bool" where
  "bson_truthy BNull = False"
| "bson_truthy (BBool b) = b"
| "bson_truthy (BInt n) = (n \<noteq> 0)"
| "bson_truthy (BStr s) = (s \<noteq> [])"
| "bson_truthy (BArr xs) = (xs \<noteq> [])"
| "bson_truthy (BObj d) = (d \<noteq> [])"
| "bson_truthy _ = True"

text \<open>\<open>_jsonable\<close>.\<close>

fun jsonable :: "bson \<Rightarrow> bson" where
  "jsonable (BObj d) = BObj (map (\<lambda>(k, v). (k, jsonable v)) d)"
| "jsonable (BArr xs) = BArr (map jsonable xs)"
| "jsonable (BDate t) = BStr t"
| "jsonable (BId i) = BStr i"
| "jsonable v = v"

text \<open>A call of the driver names the database and the collection; its reply has what the code reads.
  An identifier of a reply is its \<open>str\<close> and its truth value.\<close>

record mongo_target =
  in_database :: json
  in_collection :: json

datatype mongo_request =
    Ping
  | List_Collection_Names json
  | Insert_One mongo_target json
  | Insert_Many mongo_target json
  | Find mongo_target json "json dict option" json
  | Find_One mongo_target json
  | Update_One mongo_target json json json
  | Delete_One mongo_target json
  | Delete_Many mongo_target json
  | Aggregate mongo_target json
  | Count_Documents mongo_target json

record mongo_reply =
  reply_ids :: "(string \<times> bool) list"
  reply_documents :: "bson list"
  reply_names :: "string list"
  modified_count :: int
  matched_count :: int
  deleted_count :: int
  document_count :: int

record 'd mongo_driver =
  client_error :: "json \<Rightarrow> exn option"
  mongo_call :: "mongo_request \<Rightarrow> 'd \<Rightarrow> exn + (mongo_reply \<times> 'd)"

record 'd mongo_state =
  motor :: "json option"
  mongo_store :: 'd
  mongo_calls :: "mongo_request list"

type_synonym ('d, 'a) mongo = "('d mongo_state, exn, 'a) proc"

record 'd mongo_self =
  mongo_driver_of :: "'d mongo_driver"
  mongo_env :: env
  mongo_context :: "provider_context option"

definition mongo_request :: "'d mongo_self \<Rightarrow> mongo_request \<Rightarrow> ('d, mongo_reply) mongo" where
  "mongo_request self r = (\<lambda>s. let s' = s\<lparr>mongo_calls := mongo_calls s @ [r]\<rparr> in
     case mongo_call (mongo_driver_of self) r (mongo_store s) of
       Inl e \<Rightarrow> (Inl e, s')
     | Inr (reply, d) \<Rightarrow> (Inr reply, s'\<lparr>mongo_store := d\<rparr>))"

section \<open>MongoDB: connection\<close>

definition mongo_creds :: "'d mongo_self \<Rightarrow> json dict" where
  "mongo_creds self = (case mongo_context self of None \<Rightarrow> [] | Some c \<Rightarrow> ctx_credentials c)"

text \<open>The client is made at the first use, with the URI of that moment.\<close>

definition mongo_connect :: "'d mongo_self \<Rightarrow> ('d, unit) mongo" where
  "mongo_connect self = bnd (gets motor) (\<lambda>known. case known of
      Some _ \<Rightarrow> ret ()
    | None \<Rightarrow> let uri = py_or (jget (mongo_creds self) ''uri'') (JStr []) in
        (case client_error (mongo_driver_of self) uri of
           Some e \<Rightarrow> raise e
         | None \<Rightarrow> modify (\<lambda>s. s\<lparr>motor := Some uri\<rparr>)))"

definition db_name :: "'d mongo_self \<Rightarrow> json" where
  "db_name self = py_or (jget (mongo_creds self) ''database'')
     (py_or (JStr (mongodb_db_name (storage (settings_of (mongo_env self))))) (JStr ''agentforge''))"

definition mongo_collection :: "'d mongo_self \<Rightarrow> json \<Rightarrow> mongo_target" where
  "mongo_collection self name = \<lparr>in_database = db_name self, in_collection = name\<rparr>"

definition mongo_do ::
    "'d mongo_self \<Rightarrow> (mongo_target \<Rightarrow> mongo_request) \<Rightarrow> json \<Rightarrow> ('d, mongo_reply) mongo" where
  "mongo_do self r name =
     thn (mongo_connect self) (mongo_request self (r (mongo_collection self name)))"

text \<open>The reply of \<open>ping\<close> is its \<open>ok\<close>, the only document.\<close>

definition mongo_probe :: "'d mongo_self \<Rightarrow> ('d, bool) mongo" where
  "mongo_probe self = thn (mongo_connect self) (bnd (mongo_request self Ping) (\<lambda>reply.
     ret (case reply_documents reply of BObj d # _ \<Rightarrow>
       (case map_of d ''ok'' of Some v \<Rightarrow> bson_truthy v | None \<Rightarrow> False) | _ \<Rightarrow> False)))"

definition mongo_health :: "'d mongo_self \<Rightarrow> ('d, provider_health) mongo" where
  "mongo_health self = catch (bnd (mongo_probe self) (\<lambda>ok.
       ret (if ok then healthy_with [(''database'', db_name self)]
            else down [(''reason'', JStr ''ping failed'')])))
     (\<lambda>e. ret (down [(''error'', JStr (exn_text e))]))"

definition mongo_disconnect :: "('d, unit) mongo" where
  "mongo_disconnect = modify (\<lambda>s. s\<lparr>motor := None\<rparr>)"

section \<open>MongoDB: actions\<close>

type_synonym 'd mongo_method = "'d mongo_self \<Rightarrow> json dict \<Rightarrow> ('d, bson) mongo"

definition filter_of :: "json dict \<Rightarrow> json" where
  "filter_of a = py_or (jget a ''filter'') (JObj [])"

definition documents_of :: "mongo_reply \<Rightarrow> bson" where
  "documents_of reply = BArr (map jsonable (reply_documents reply))"

definition mongo_list_collections :: "'d mongo_method" where
  "mongo_list_collections self a = thn (mongo_connect self)
     (bnd (mongo_request self (List_Collection_Names (db_name self))) (\<lambda>reply.
       ret (BObj [(''collections'', BArr (map BStr (reply_names reply)))])))"

definition id_texts :: "mongo_reply \<Rightarrow> bson list" where
  "id_texts reply = map (\<lambda>(t, _). BStr t) (reply_ids reply)"

definition first_or :: "'a \<Rightarrow> 'a list \<Rightarrow> 'a" where
  "first_or d xs = (case xs of [] \<Rightarrow> d | x # _ \<Rightarrow> x)"

definition mongo_insert_one :: "'d mongo_method" where
  "mongo_insert_one self a =
     bnd (mongo_do self (\<lambda>c. Insert_One c (jget a ''document'')) (jget a ''collection'')) (\<lambda>reply.
     ret (BObj [(''inserted_id'', first_or (BStr ''None'') (id_texts reply))]))"

definition mongo_insert_many :: "'d mongo_method" where
  "mongo_insert_many self a =
     bnd (mongo_do self (\<lambda>c. Insert_Many c (jget a ''documents'')) (jget a ''collection'')) (\<lambda>reply.
     ret (BObj [(''inserted_ids'', BArr (id_texts reply))]))"

definition sort_of :: "json \<Rightarrow> exn + json dict option" where
  "sort_of v = (if truthy v then map_sum id Some (py_items v) else Inr None)"

text \<open>The collection, and with it the client, comes before the sort order is read.\<close>

definition mongo_find :: "'d mongo_method" where
  "mongo_find self a = thn (mongo_connect self) (bnd (lift (sort_of (jget a ''sort''))) (\<lambda>order.
     bnd (mongo_do self (\<lambda>c. Find c (filter_of a) order (jget a ''limit'')) (jget a ''collection'')) (\<lambda>reply.
     ret (BObj [(''documents'', documents_of reply),
       (''count'', BInt (int (length (reply_documents reply))))]))))"

definition mongo_find_one :: "'d mongo_method" where
  "mongo_find_one self a =
     bnd (mongo_do self (\<lambda>c. Find_One c (filter_of a)) (jget a ''collection'')) (\<lambda>reply.
     ret (case reply_documents reply of
         doc # _ \<Rightarrow> if bson_truthy doc then jsonable doc else BNull
       | [] \<Rightarrow> BNull))"

definition upserted_id :: "mongo_reply \<Rightarrow> bson" where
  "upserted_id reply = (case reply_ids reply of (t, True) # _ \<Rightarrow> BStr t | _ \<Rightarrow> BNull)"

definition mongo_update_one :: "'d mongo_method" where
  "mongo_update_one self a =
     bnd (mongo_do self (\<lambda>c. Update_One c (jget a ''filter'') (JObj [(''$set'', jget a ''update'')])
       (jget a ''upsert'')) (jget a ''collection'')) (\<lambda>reply.
     ret (BObj [(''modified_count'', BInt (modified_count reply)),
       (''matched_count'', BInt (matched_count reply)), (''upserted_id'', upserted_id reply)]))"

definition mongo_delete_one :: "'d mongo_method" where
  "mongo_delete_one self a =
     bnd (mongo_do self (\<lambda>c. Delete_One c (jget a ''filter'')) (jget a ''collection'')) (\<lambda>reply.
     ret (BObj [(''deleted_count'', BInt (deleted_count reply))]))"

definition mongo_delete_many :: "'d mongo_method" where
  "mongo_delete_many self a =
     bnd (mongo_do self (\<lambda>c. Delete_Many c (jget a ''filter'')) (jget a ''collection'')) (\<lambda>reply.
     ret (BObj [(''deleted_count'', BInt (deleted_count reply))]))"

definition mongo_aggregate :: "'d mongo_method" where
  "mongo_aggregate self a =
     bnd (mongo_do self (\<lambda>c. Aggregate c (jget a ''pipeline'')) (jget a ''collection'')) (\<lambda>reply.
     ret (BObj [(''documents'', documents_of reply)]))"

definition mongo_count_documents :: "'d mongo_method" where
  "mongo_count_documents self a =
     bnd (mongo_do self (\<lambda>c. Count_Documents c (filter_of a)) (jget a ''collection'')) (\<lambda>reply.
     ret (BObj [(''count'', BInt (document_count reply))]))"

type_synonym 'd mongo_table = "(string list \<times> json dict \<times> 'd mongo_method) dict"

definition mongo_actions :: "'d mongo_table" where
  "mongo_actions = [
     (''list_collections'', [], [], mongo_list_collections),
     (''insert_one'', [''collection'', ''document''], [], mongo_insert_one),
     (''insert_many'', [''collection'', ''documents''], [], mongo_insert_many),
     (''find'', [''collection''], [(''filter'', JNull), (''limit'', JInt 100), (''sort'', JNull)], mongo_find),
     (''find_one'', [''collection''], [(''filter'', JNull)], mongo_find_one),
     (''update_one'', [''collection'', ''filter'', ''update''], [(''upsert'', JBool False)], mongo_update_one),
     (''delete_one'', [''collection'', ''filter''], [], mongo_delete_one),
     (''delete_many'', [''collection'', ''filter''], [], mongo_delete_many),
     (''aggregate'', [''collection'', ''pipeline''], [], mongo_aggregate),
     (''count_documents'', [''collection''], [(''filter'', JNull)], mongo_count_documents)]"

definition mongo_execute :: "'d mongo_self \<Rightarrow> string \<Rightarrow> json dict \<Rightarrow> ('d, bson) mongo" where
  "mongo_execute self name payload = (case dget mongo_actions name of
      None \<Rightarrow> raise (error1 ActionNotFound
        (''action '' @ repr_str name @ '' not supported by provider mongodb'') ''mongodb'')
    | Some (req, opt, f) \<Rightarrow> bnd (lift (bind_named req opt False payload)) (\<lambda>(a, _). f self a))"

section \<open>S3: requests and the driver\<close>

record s3_keys =
  access_key_id :: json
  secret_key :: json
  s3_region :: json

datatype s3_request =
    Head_Bucket json
  | Put_Object json json string "json option"
  | Get_Object json json
  | Delete_Object json json
  | List_Objects "json dict"
  | Presign string json json json
  | Head_Object json json

text \<open>A reply has its entries and, for an object and a signed URL, its text of bytes. \<open>decode_bytes\<close> is
  \<open>bytes.decode("utf-8", errors="replace")\<close>, whose results need not be characters of this model.\<close>

record s3_reply =
  reply_entries :: "json dict"
  reply_bytes :: string

record 'd s3_driver =
  session_error :: "s3_keys \<Rightarrow> exn option"
  s3_call :: "s3_keys \<Rightarrow> s3_request \<Rightarrow> 'd \<Rightarrow> exn + (s3_reply \<times> 'd)"
  decode_bytes :: "string \<Rightarrow> string"

record 'd s3_state =
  s3_store :: 'd
  s3_calls :: "s3_request list"

type_synonym ('d, 'a) s3 = "('d s3_state, exn, 'a) proc"

record 'd s3_self =
  s3_driver_of :: "'d s3_driver"
  s3_env :: env
  s3_context :: "provider_context option"

section \<open>S3: credentials and bucket\<close>

definition s3_creds :: "'d s3_self \<Rightarrow> s3_keys" where
  "s3_creds self =
    (let k = cloud (settings_of (s3_env self));
         default = \<lparr>access_key_id = JStr (aws_access_key_id k), secret_key = JStr (aws_secret_access_key k),
           s3_region = JStr (aws_region k)\<rparr>
     in case s3_context self of
         None \<Rightarrow> default
       | Some c \<Rightarrow>
           let creds = ctx_credentials c in
           if truthy (jget creds ''access_key_id'') \<and> truthy (jget creds ''secret_key'')
           then \<lparr>access_key_id = jget creds ''access_key_id'', secret_key = jget creds ''secret_key'',
             s3_region = py_or (jget creds ''region'') (JStr ''us-east-1'')\<rparr>
           else default)"

definition resolve_bucket :: "'d s3_self \<Rightarrow> json \<Rightarrow> json" where
  "resolve_bucket self bucket =
     py_or bucket (py_or (ctx_credential (s3_context self) ''bucket'' JNull)
       (JStr (aws_s3_bucket (cloud (settings_of (s3_env self))))))"

definition s3_client :: "'d s3_self \<Rightarrow> ('d, unit) s3" where
  "s3_client self = (case session_error (s3_driver_of self) (s3_creds self) of
      Some e \<Rightarrow> raise e | None \<Rightarrow> ret ())"

definition s3_request :: "'d s3_self \<Rightarrow> s3_request \<Rightarrow> ('d, s3_reply) s3" where
  "s3_request self r = (\<lambda>s. let s' = s\<lparr>s3_calls := s3_calls s @ [r]\<rparr> in
     case s3_call (s3_driver_of self) (s3_creds self) r (s3_store s) of
       Inl e \<Rightarrow> (Inl e, s')
     | Inr (reply, d) \<Rightarrow> (Inr reply, s'\<lparr>s3_store := d\<rparr>))"

definition s3_do :: "'d s3_self \<Rightarrow> s3_request \<Rightarrow> ('d, s3_reply) s3" where
  "s3_do self r = thn (s3_client self) (s3_request self r)"

definition s3_probe :: "'d s3_self \<Rightarrow> ('d, bool) s3" where
  "s3_probe self = catch (thn (s3_do self (Head_Bucket (resolve_bucket self JNull))) (ret True)) (\<lambda>_. ret False)"

definition s3_health :: "'d s3_self \<Rightarrow> ('d, provider_health) s3" where
  "s3_health self = catch (bnd (s3_probe self) (\<lambda>valid.
       ret (if valid then healthy else down [(''reason'', JStr ''head_bucket failed'')])))
     (\<lambda>e. ret (down [(''error'', JStr (exn_text e))]))"

section \<open>S3: actions\<close>

type_synonym 'd s3_method = "'d s3_self \<Rightarrow> json dict \<Rightarrow> ('d, json) s3"

text \<open>The bytes of the content, and its length in characters.\<close>

definition s3_upload_file :: "'d s3_method" where
  "s3_upload_file self a =
    (let bucket = resolve_bucket self (jget a ''bucket'') in thn (s3_client self)
     (bnd (lift (py_string ''encode'' (jget a ''content''))) (\<lambda>content.
      thn (s3_request self (Put_Object bucket (jget a ''key'') (utf8_bytes content)
        (if truthy (jget a ''content_type'') then Some (jget a ''content_type'') else None)))
      (ret (JObj [(''key'', jget a ''key''), (''bucket'', bucket), (''size'', JInt (int (length content)))])))))"

definition s3_download_file :: "'d s3_method" where
  "s3_download_file self a =
     bnd (s3_do self (Get_Object (resolve_bucket self (jget a ''bucket'')) (jget a ''key''))) (\<lambda>resp.
     ret (JObj [(''key'', jget a ''key''),
       (''body'', JStr (decode_bytes (s3_driver_of self) (reply_bytes resp))),
       (''content_type'', jget_or (reply_entries resp) ''ContentType'' (JStr []))]))"

definition s3_delete_file :: "'d s3_method" where
  "s3_delete_file self a =
     thn (s3_do self (Delete_Object (resolve_bucket self (jget a ''bucket'')) (jget a ''key'')))
     (ret (JObj [(''deleted'', JBool True), (''key'', jget a ''key'')]))"

text \<open>One entry of the listing; a modification time is its \<open>str\<close>.\<close>

definition s3_file :: "json \<Rightarrow> exn + json" where
  "s3_file v = (case v of
      JObj o1 \<Rightarrow> Inr (JObj [(''key'', jget o1 ''Key''), (''size'', jget o1 ''Size''),
        (''last_modified'', if truthy (jget o1 ''LastModified'') then JStr (text_of o1 ''LastModified'') else JNull)])
    | _ \<Rightarrow> Inl (attribute_error v ''get''))"

fun s3_files :: "json list \<Rightarrow> exn + json list" where
  "s3_files [] = Inr []"
| "s3_files (v # vs) = (case s3_file v of
      Inl e \<Rightarrow> Inl e
    | Inr f \<Rightarrow> map_sum id ((#) f) (s3_files vs))"

definition s3_list_files :: "'d s3_method" where
  "s3_list_files self a =
     bnd (s3_do self (List_Objects (put_truthy ''Prefix'' (jget a ''prefix'')
       [(''Bucket'', resolve_bucket self (jget a ''bucket'')), (''MaxKeys'', jget a ''max_keys'')]))) (\<lambda>resp.
     bnd (lift (py_iter (py_or (jget_or (reply_entries resp) ''Contents'' (JArr [])) (JArr [])))) (\<lambda>contents.
     bnd (lift (s3_files contents)) (\<lambda>files. ret (JObj [(''files'', JArr files)]))))"

definition s3_presigned_upload_url :: "'d s3_method" where
  "s3_presigned_upload_url self a =
     bnd (s3_do self (Presign ''put_object'' (resolve_bucket self (jget a ''bucket'')) (jget a ''key'')
       (jget a ''expires_in''))) (\<lambda>url.
     ret (JObj [(''url'', JStr (reply_bytes url)), (''method'', JStr ''PUT'')]))"

definition s3_presigned_download_url :: "'d s3_method" where
  "s3_presigned_download_url self a =
     bnd (s3_do self (Presign ''get_object'' (resolve_bucket self JNull) (jget a ''key'')
       (jget a ''expires_in''))) (\<lambda>url.
     ret (JObj [(''url'', JStr (reply_bytes url)), (''method'', JStr ''GET'')]))"

definition s3_file_exists :: "'d s3_method" where
  "s3_file_exists self a = catch
     (bnd (s3_do self (Head_Object (resolve_bucket self (jget a ''bucket'')) (jget a ''key''))) (\<lambda>resp.
      ret (JObj [(''exists'', JBool True), (''size'', jget (reply_entries resp) ''ContentLength'')])))
     (\<lambda>_. ret (JObj [(''exists'', JBool False), (''size'', JNull)]))"

definition s3_create_folder :: "'d s3_method" where
  "s3_create_folder self a = bnd (lift (py_string ''rstrip'' (jget a ''prefix''))) (\<lambda>prefix.
     thn (s3_do self (Put_Object (resolve_bucket self (jget a ''bucket'')) (JStr (rstrip_slash prefix @ ''/'')) [] None))
     (ret (JObj [(''created'', JBool True)])))"

type_synonym 'd s3_table = "(string list \<times> json dict \<times> 'd s3_method) dict"

definition s3_actions :: "'d s3_table" where
  "s3_actions = [
     (''upload_file'', [''key'', ''content''], [(''bucket'', JNull), (''content_type'', JNull)], s3_upload_file),
     (''download_file'', [''key''], [(''bucket'', JNull)], s3_download_file),
     (''delete_file'', [''key''], [(''bucket'', JNull)], s3_delete_file),
     (''list_files'', [], [(''prefix'', JNull), (''bucket'', JNull), (''max_keys'', JInt 1000)], s3_list_files),
     (''presigned_upload_url'', [''key''], [(''expires_in'', JInt 3600), (''bucket'', JNull)], s3_presigned_upload_url),
     (''presigned_download_url'', [''key''], [(''expires_in'', JInt 3600)], s3_presigned_download_url),
     (''file_exists'', [''key''], [(''bucket'', JNull)], s3_file_exists),
     (''create_folder'', [''prefix''], [(''bucket'', JNull)], s3_create_folder)]"

definition s3_execute :: "'d s3_self \<Rightarrow> string \<Rightarrow> json dict \<Rightarrow> ('d, json) s3" where
  "s3_execute self name payload = (case dget s3_actions name of
      None \<Rightarrow> raise (error1 ActionNotFound
        (''action '' @ repr_str name @ '' not supported by provider aws_s3'') ''aws_s3'')
    | Some (req, opt, f) \<Rightarrow> bnd (lift (bind_named req opt False payload)) (\<lambda>(a, _). f self a))"

section \<open>Facts\<close>

text \<open>Without dates and object identifiers, at any depth.\<close>

fun plain :: "bson \<Rightarrow> bool" where
  "plain (BDate _) = False"
| "plain (BId _) = False"
| "plain (BArr xs) = (\<forall>x \<in> set xs. plain x)"
| "plain (BObj d) = (\<forall>(k, v) \<in> set d. plain v)"
| "plain _ = True"

lemma plain_jsonable [simp]: "plain (jsonable v)"
  by (induction v rule: jsonable.induct) (auto split: prod.splits)

lemma jsonable_plain: "plain v \<Longrightarrow> jsonable v = v"
proof (induction v rule: jsonable.induct)
  case (1 d)
  then show ?case
    by (auto intro!: map_idI split: prod.splits)
qed (auto intro: map_idI)

lemma plain_bson_of [simp]: "plain (bson_of v)"
  by (induction v rule: bson_of.induct) (auto split: prod.splits)

definition yields_plain :: "('d, bson) mongo \<Rightarrow> bool" where
  "yields_plain m \<longleftrightarrow> (\<forall>s r. result m s = Inr r \<longrightarrow> plain r)"

lemma yields_plain_bnd: "(\<And>x. yields_plain (f x)) \<Longrightarrow> yields_plain (bnd m f)"
  by (auto simp: yields_plain_def result_def bnd_def split: sum.splits prod.splits)

lemma yields_plain_thn: "yields_plain n \<Longrightarrow> yields_plain (thn m n)"
  unfolding thn_def by (rule yields_plain_bnd)

lemma yields_plain_ret: "plain r \<Longrightarrow> yields_plain (ret r)"
  by (simp add: yields_plain_def result_def ret_def)

lemma yields_plain_raise: "yields_plain (raise e)"
  by (simp add: yields_plain_def result_def raise_def)

lemmas yields_plain_rules = yields_plain_bnd yields_plain_thn yields_plain_ret yields_plain_raise

lemma plain_parts [simp]:
  "plain (documents_of reply)" "plain (upserted_id reply)" "x \<in> set (id_texts reply) \<Longrightarrow> plain x"
  by (auto simp: documents_of_def upserted_id_def id_texts_def split: list.splits bool.splits)

lemma plain_first [simp]: "plain (first_or (BStr t) (id_texts reply))"
  by (auto simp: first_or_def id_texts_def split: list.splits)

lemma mongo_methods_plain:
  "yields_plain (mongo_list_collections self a)" "yields_plain (mongo_insert_one self a)"
  "yields_plain (mongo_insert_many self a)" "yields_plain (mongo_find self a)"
  "yields_plain (mongo_find_one self a)" "yields_plain (mongo_update_one self a)"
  "yields_plain (mongo_delete_one self a)" "yields_plain (mongo_delete_many self a)"
  "yields_plain (mongo_aggregate self a)" "yields_plain (mongo_count_documents self a)"
  unfolding mongo_list_collections_def mongo_insert_one_def mongo_insert_many_def mongo_find_def
    mongo_find_one_def mongo_update_one_def mongo_delete_one_def mongo_delete_many_def
    mongo_aggregate_def mongo_count_documents_def
  by (intro yields_plain_rules; auto split: list.split)+

lemma mongo_table_plain: "dget mongo_actions name = Some (req, opt, f) \<Longrightarrow> yields_plain (f self a)"
  by (drule map_of_SomeD) (auto simp: mongo_actions_def mongo_methods_plain)

lemma mongo_execute_plain:
  fixes self :: "'d mongo_self"
  shows "yields_plain (mongo_execute self name payload)"
proof (cases "dget (mongo_actions :: 'd mongo_table) name")
  case None
  show ?thesis
    unfolding mongo_execute_def None option.case by (rule yields_plain_raise)
next
  case (Some m)
  obtain req opt f where m: "m = (req, opt, f)"
    by (cases m) auto
  show ?thesis
    unfolding mongo_execute_def Some m option.case prod.case
    by (rule yields_plain_bnd) (auto intro: mongo_table_plain[OF Some[unfolded m]])
qed

text \<open>The actions of S3 whose calls succeed.\<close>

lemma s3_upload_answer:
  assumes "session_error (s3_driver_of self) (s3_creds self) = None"
    and "s3_call (s3_driver_of self) (s3_creds self) (Put_Object (resolve_bucket self b) key (utf8_bytes content) None)
      (s3_store st) = Inr (reply, d)"
  shows "s3_execute self ''upload_file'' [(''key'', key), (''content'', JStr content), (''bucket'', b)] st =
    (Inr (JObj [(''key'', key), (''bucket'', resolve_bucket self b), (''size'', JInt (int (length content)))]),
     st\<lparr>s3_store := d, s3_calls := s3_calls st @ [Put_Object (resolve_bucket self b) key (utf8_bytes content) None]\<rparr>)"
  using assms
  by (simp add: s3_execute_def s3_actions_def s3_upload_file_def bind_named_def has_key_def jget_def
      s3_client_def s3_request_def py_string_def jget_or_def bnd_def thn_def lift_def ret_def Let_def)

lemma s3_download_answer:
  assumes "session_error (s3_driver_of self) (s3_creds self) = None"
    and "s3_call (s3_driver_of self) (s3_creds self) (Get_Object (resolve_bucket self b) key) (s3_store st)
      = Inr (reply, d)"
  shows "s3_execute self ''download_file'' [(''key'', key), (''bucket'', b)] st =
    (Inr (JObj [(''key'', key), (''body'', JStr (decode_bytes (s3_driver_of self) (reply_bytes reply))),
      (''content_type'', jget_or (reply_entries reply) ''ContentType'' (JStr []))]),
     st\<lparr>s3_store := d, s3_calls := s3_calls st @ [Get_Object (resolve_bucket self b) key]\<rparr>)"
  using assms
  by (simp add: s3_execute_def s3_actions_def s3_download_file_def bind_named_def has_key_def jget_def jget_or_def
      s3_client_def s3_do_def s3_request_def bnd_def thn_def lift_def ret_def Let_def)

section \<open>Properties\<close>

text \<open>No MongoDB action hands out a value JSON cannot carry: whatever the driver replies, dates and
  object identifiers are turned into texts at every depth of the documents, and a document that was
  built from JSON comes back as it is.\<close>

theorem mongo_results_plain:
  assumes "result (mongo_execute self name payload) st = Inr r"
  shows "plain r \<and> jsonable (bson_of v) = bson_of v"
  using mongo_execute_plain[of self name payload] assms by (simp add: yields_plain_def jsonable_plain)

text \<open>What \<open>upload_file\<close> stores \<open>download_file\<close> reads: with a driver that returns the bytes last put
  under a key, and a decoding that inverts the encoding of this text, the downloaded body is the
  uploaded text, from the bucket both actions choose.\<close>

theorem s3_upload_download:
  assumes session: "session_error (s3_driver_of self) (s3_creds self) = None"
    and put: "s3_call (s3_driver_of self) (s3_creds self)
      (Put_Object (resolve_bucket self b) key (utf8_bytes content) None) (s3_store st) = Inr (stored, d)"
    and get: "s3_call (s3_driver_of self) (s3_creds self) (Get_Object (resolve_bucket self b) key) d
      = Inr (reply, d')" "reply_bytes reply = utf8_bytes content"
    and decode: "decode_bytes (s3_driver_of self) (utf8_bytes content) = content"
  shows "\<exists>ct. result (bnd (s3_execute self ''upload_file''
        [(''key'', key), (''content'', JStr content), (''bucket'', b)])
      (\<lambda>_. s3_execute self ''download_file'' [(''key'', key), (''bucket'', b)])) st
    = Inr (JObj [(''key'', key), (''body'', JStr content), (''content_type'', ct)])"
proof -
  let ?st = "st\<lparr>s3_store := d,
    s3_calls := s3_calls st @ [Put_Object (resolve_bucket self b) key (utf8_bytes content) None]\<rparr>"
  have "s3_call (s3_driver_of self) (s3_creds self) (Get_Object (resolve_bucket self b) key) (s3_store ?st)
      = Inr (reply, d')"
    using get(1) by simp
  from s3_download_answer[OF session this] show ?thesis
    unfolding result_def bnd_def s3_upload_answer[OF session put] by (simp add: get(2) decode)
qed

section \<open>Witnesses\<close>

text \<open>A bucket as a list of keys and their bytes, and a collection with one document.\<close>

fun sample_s3_call :: "s3_keys \<Rightarrow> s3_request \<Rightarrow> (json \<times> string) list \<Rightarrow> exn + (s3_reply \<times> (json \<times> string) list)" where
  "sample_s3_call keys (Put_Object b k body ct) d =
     Inr (\<lparr>reply_entries = [], reply_bytes = []\<rparr>, (k, body) # d)"
| "sample_s3_call keys (Get_Object b k) d = (case map_of d k of
      Some body \<Rightarrow> Inr (\<lparr>reply_entries = [], reply_bytes = body\<rparr>, d)
    | None \<Rightarrow> Inl (Builtin OtherException ''NoSuchKey''))"
| "sample_s3_call keys _ d = Inr (\<lparr>reply_entries = [], reply_bytes = []\<rparr>, d)"

definition sample_s3 :: "(json \<times> string) list s3_self" where
  "sample_s3 = \<lparr>s3_driver_of = \<lparr>session_error = (\<lambda>_. None), s3_call = sample_s3_call, decode_bytes = id\<rparr>,
     s3_env = sample_env, s3_context = None\<rparr>"

definition sample_mongo :: "nat mongo_self" where
  "sample_mongo = \<lparr>mongo_driver_of = \<lparr>client_error = (\<lambda>_. None),
       mongo_call = (\<lambda>_ n. Inr (\<lparr>reply_ids = [], reply_documents = [BObj [(''_id'', BId ''64b0'')]],
         reply_names = [], modified_count = 0, matched_count = 0, deleted_count = 0, document_count = 0\<rparr>, n))\<rparr>,
     mongo_env = sample_env, mongo_context = None\<rparr>"

theorem s3_upload_download_witness:
  "\<exists>ct. result (bnd (s3_execute sample_s3 ''upload_file''
        [(''key'', JStr ''a.txt''), (''content'', JStr ''hello''), (''bucket'', JStr ''files'')])
      (\<lambda>_. s3_execute sample_s3 ''download_file'' [(''key'', JStr ''a.txt''), (''bucket'', JStr ''files'')]))
      \<lparr>s3_store = [], s3_calls = []\<rparr>
    = Inr (JObj [(''key'', JStr ''a.txt''), (''body'', JStr ''hello''), (''content_type'', ct)])"
proof -
  have ascii: "utf8_bytes ''hello'' = ''hello''"
    by code_simp
  show ?thesis
    by (rule s3_upload_download[where d = "[(JStr ''a.txt'', ''hello'')]" and d' = "[(JStr ''a.txt'', ''hello'')]"
          and reply = "\<lparr>reply_entries = [], reply_bytes = ''hello''\<rparr>"])
      (simp_all add: sample_s3_def ascii)
qed

theorem mongo_results_plain_witness:
  "mongo_execute sample_mongo ''find_one'' [(''collection'', JStr ''users'')]
      \<lparr>motor = None, mongo_store = 0, mongo_calls = []\<rparr> =
    (Inr (BObj [(''_id'', BStr ''64b0'')]), \<lparr>motor = Some (JStr []), mongo_store = 0,
       mongo_calls = [Find_One (mongo_collection sample_mongo (JStr ''users'')) (JObj [])]\<rparr>)
   \<and> plain (BObj [(''_id'', BStr ''64b0'')])"
proof -
  have run: "mongo_execute sample_mongo ''find_one'' [(''collection'', JStr ''users'')]
      \<lparr>motor = None, mongo_store = 0, mongo_calls = []\<rparr> =
    (Inr (BObj [(''_id'', BStr ''64b0'')]), \<lparr>motor = Some (JStr []), mongo_store = 0,
       mongo_calls = [Find_One (mongo_collection sample_mongo (JStr ''users'')) (JObj [])]\<rparr>)"
    by (simp add: mongo_execute_def mongo_actions_def mongo_find_one_def mongo_do_def mongo_connect_def
        mongo_request_def bind_named_def has_key_def jget_def jget_or_def filter_of_def py_or_def
        mongo_creds_def sample_mongo_def bnd_def thn_def lift_def ret_def gets_def modify_def Let_def)
  then have "result (mongo_execute sample_mongo ''find_one'' [(''collection'', JStr ''users'')])
      \<lparr>motor = None, mongo_store = 0, mongo_calls = []\<rparr> = Inr (BObj [(''_id'', BStr ''64b0'')])"
    by (simp add: result_def)
  from mongo_results_plain[OF this] run show ?thesis
    by simp
qed

end
