(* ===== verification/Client_Core.thy ===== *)
theory Client_Core
  imports Provider_Actions Encryption_Service
begin

text \<open>
  The package \<open>agentforge_integrations\<close>, a client library beside the service, starts here. This theory
  has its exceptions (\<open>core/exceptions.py\<close>), its settings (\<open>core/config.py\<close>), \<open>SecretManager\<close>
  (\<open>security/secret_manager.py\<close>), \<open>CredentialManager\<close> (\<open>auth/credentials.py\<close>), \<open>TokenProtection\<close>
  (\<open>security/token_protection.py\<close>), \<open>APIKeyAuth\<close> (\<open>auth/apikey.py\<close>), and the network its clients
  act on: the requests sent, and a clock in seconds that sleeping and waiting for an answer advance.
\<close>

section \<open>Exceptions\<close>

datatype package_error =
    Base_Error | Configuration_Error | Authentication_Error | Rate_Limit_Error | Webhook_Error
  | Package_Timeout | Not_Found_Error

text \<open>
  \<open>Package\<close> is a class of \<open>core/exceptions.py\<close>, of which \<open>IntegrationError\<close> is the base; \<open>Status_Error\<close> is
  what \<open>raise_for_status\<close> raises and \<open>Transport_Error\<close> another exception of httpx, neither of which is a
  \<open>ConnectionError\<close> or an \<open>asyncio.TimeoutError\<close> of the language; \<open>Python\<close> is any other one.
\<close>

datatype fault =
    Package package_error string
  | Status_Error int
  | Transport_Error string
  | Connection_Error string
  | Asyncio_Timeout string
  | Python builtin string

fun fault_text :: "fault \<Rightarrow> string" where
  "fault_text (Package _ t) = t"
| "fault_text (Status_Error n) = ''HTTP '' @ show_int n"
| "fault_text (Transport_Error t) = t"
| "fault_text (Connection_Error t) = t"
| "fault_text (Asyncio_Timeout t) = t"
| "fault_text (Python _ t) = t"

fun is_integration_error :: "fault \<Rightarrow> bool" where
  "is_integration_error (Package _ _) = True"
| "is_integration_error _ = False"

text \<open>The exceptions of the operations on values.\<close>

definition fault_of :: "exn \<Rightarrow> fault" where
  "fault_of e = (case e of Builtin b t \<Rightarrow> Python b t | Integration _ \<Rightarrow> Python OtherException (exn_text e))"

definition value_of :: "exn + 'a \<Rightarrow> ('s, fault, 'a) proc" where
  "value_of r = lift (map_sum fault_of id r)"

section \<open>Settings and environment\<close>

record client_settings =
  cs_log_level :: string
  cs_encryption_key :: "string option"
  cs_github_api_token :: "string option"
  cs_github_webhook_secret :: "string option"
  cs_jira_base_url :: "string option"
  cs_jira_api_token :: "string option"
  cs_jira_email :: "string option"
  cs_jira_webhook_secret :: "string option"
  cs_slack_bot_token :: "string option"
  cs_slack_signing_secret :: "string option"
  cs_teams_webhook_url :: "string option"
  cs_teams_client_id :: "string option"
  cs_teams_client_secret :: "string option"
  cs_documentation_repo_url :: "string option"
  cs_documentation_api_token :: "string option"

definition default_client_settings :: client_settings where
  "default_client_settings = \<lparr>cs_log_level = ''INFO'', cs_encryption_key = None,
     cs_github_api_token = None, cs_github_webhook_secret = None, cs_jira_base_url = None,
     cs_jira_api_token = None, cs_jira_email = None, cs_jira_webhook_secret = None,
     cs_slack_bot_token = None, cs_slack_signing_secret = None, cs_teams_webhook_url = None,
     cs_teams_client_id = None, cs_teams_client_secret = None, cs_documentation_repo_url = None,
     cs_documentation_api_token = None\<rparr>"

text \<open>
  \<open>transport\<close> is the network, whose answer may depend on the requests before it, and \<open>latency\<close> how long
  it takes; \<open>kdf\<close> is PBKDF2 with SHA-256, 100000 iterations and 32 bytes; \<open>hash_text\<close> is \<open>hash(str)\<close>;
  \<open>pyjwt_encode\<close> and \<open>pyjwt_decode\<close> are \<open>jwt.encode\<close> and \<open>jwt.decode\<close>, whose failures are an expired or an
  otherwise invalid token.
\<close>

datatype jwt_failure = Jwt_Expired | Jwt_Invalid string

record client_env =
  client_settings_of :: client_settings
  environ :: "string dict"
  client_crypto :: crypto
  kdf :: "string \<Rightarrow> string \<Rightarrow> string"
  transport :: "request list \<Rightarrow> request \<Rightarrow> fault + http_response"
  latency :: "request list \<Rightarrow> request \<Rightarrow> rat"
  hash_text :: "string \<Rightarrow> int"
  pyjwt_encode :: "json dict \<Rightarrow> string \<Rightarrow> string \<Rightarrow> string"
  pyjwt_decode :: "rat \<Rightarrow> string \<Rightarrow> string \<Rightarrow> string \<Rightarrow> jwt_failure + json dict"

text \<open>\<open>x or d\<close> of an optional text.\<close>

definition given_or :: "string option \<Rightarrow> string \<Rightarrow> string" where
  "given_or v d = (case v of Some s \<Rightarrow> if s = [] then d else s | None \<Rightarrow> d)"

definition is_given :: "string option \<Rightarrow> bool" where
  "is_given v \<longleftrightarrow> v \<noteq> None \<and> v \<noteq> Some []"

section \<open>SecretManager\<close>

text \<open>\<open>Fernet(key)\<close> takes 32 bytes in the URL-safe alphabet.\<close>

definition new_secret_manager :: "client_env \<Rightarrow> string option \<Rightarrow> string option \<Rightarrow> fault + string" where
  "new_secret_manager E given salt =
    (let key = (if is_given given then the given
          else b64encode (kdf E (case dget (environ E) ''ENCRYPTION_PASSWORD'' of
              Some p \<Rightarrow> p | None \<Rightarrow> ''default-insecure'') (given_or salt ''agentforge-salt'')))
     in case b64decode key of
          Some raw \<Rightarrow> if length raw = 32 then Inr key
            else Inl (Python ValueError ''Fernet key must be 32 url-safe base64-encoded bytes.'')
        | None \<Rightarrow> Inl (Python ValueError ''Fernet key must be 32 url-safe base64-encoded bytes.''))"

definition sm_encrypt :: "crypto \<Rightarrow> string \<Rightarrow> nat \<Rightarrow> string \<Rightarrow> fault + string" where
  "sm_encrypt c key n plaintext = map_sum fault_of id (fernet_encrypt c key n plaintext)"

definition sm_decrypt :: "crypto \<Rightarrow> string \<Rightarrow> string \<Rightarrow> fault + string" where
  "sm_decrypt c key token = map_sum fault_of id (fernet_decrypt c key token)"

definition encrypted_mark :: string where
  "encrypted_mark = ''encrypted::''"

text \<open>The \<open>n\<close>-th encryption draws the \<open>n\<close>-th randomness.\<close>

fun sm_encrypt_credentials :: "crypto \<Rightarrow> string \<Rightarrow> nat \<Rightarrow> json dict \<Rightarrow> fault + json dict" where
  "sm_encrypt_credentials c key n [] = Inr []"
| "sm_encrypt_credentials c key n ((k, v) # d) = (case
     (case v of
        JStr s \<Rightarrow> if startswith s encrypted_mark then Inr (v, n)
          else map_sum id (\<lambda>t. (JStr (encrypted_mark @ t), n + 1)) (sm_encrypt c key n s)
      | _ \<Rightarrow> Inr (v, n)) of
     Inl e \<Rightarrow> Inl e
   | Inr (w, m) \<Rightarrow> map_sum id ((#) (k, w)) (sm_encrypt_credentials c key m d))"

text \<open>\<open>except (ValueError, ConfigurationError)\<close>: the \<open>InvalidToken\<close> of Fernet is neither.\<close>

definition decrypt_failure :: "string \<Rightarrow> fault \<Rightarrow> fault" where
  "decrypt_failure k e = (case e of
      Python ValueError t \<Rightarrow> Package Configuration_Error (''Failed to decrypt credential '' @ k @ '': '' @ t)
    | Package Configuration_Error t \<Rightarrow> Package Configuration_Error (''Failed to decrypt credential '' @ k @ '': '' @ t)
    | _ \<Rightarrow> e)"

fun sm_decrypt_credentials :: "crypto \<Rightarrow> string \<Rightarrow> json dict \<Rightarrow> fault + json dict" where
  "sm_decrypt_credentials c key [] = Inr []"
| "sm_decrypt_credentials c key ((k, v) # d) = (case
     (case v of
        JStr s \<Rightarrow> if startswith s encrypted_mark
          then map_sum (decrypt_failure k) JStr (sm_decrypt c key (drop (length encrypted_mark) s))
          else Inr v
      | _ \<Rightarrow> Inr v) of
     Inl e \<Rightarrow> Inl e
   | Inr w \<Rightarrow> map_sum id ((#) (k, w)) (sm_decrypt_credentials c key d))"

section \<open>CredentialManager\<close>

definition credential_prefix :: "string \<Rightarrow> string" where
  "credential_prefix name = ''integration_'' @ lower name @ ''_''"

definition environment_credentials :: "string dict \<Rightarrow> string \<Rightarrow> json dict" where
  "environment_credentials vars name = fold (\<lambda>(key, v) creds.
     if startswith (lower key) (credential_prefix name)
     then dset (lower (drop (length (credential_prefix name)) key)) (JStr v) creds
     else creds) vars []"

text \<open>A manager is its \<open>SecretManager\<close>, that is its key.\<close>

definition new_credential_manager :: "client_env \<Rightarrow> string option \<Rightarrow> fault + string" where
  "new_credential_manager E secret_manager = (case secret_manager of
      Some key \<Rightarrow> Inr key
    | None \<Rightarrow> new_secret_manager E (cs_encryption_key (client_settings_of E)) None)"

definition get_credentials :: "client_env \<Rightarrow> string \<Rightarrow> string \<Rightarrow> fault + json dict" where
  "get_credentials E key name =
     sm_decrypt_credentials (client_crypto E) key (environment_credentials (environ E) name)"

section \<open>TokenProtection\<close>

record token_protection =
  tp_secret :: string
  tp_algorithm :: string
  tp_expiry_seconds :: rat

text \<open>\<open>expiry\<close> is the moment the token ends, not a duration; 0 counts as not given.\<close>

definition tp_create_token :: "client_env \<Rightarrow> token_protection \<Rightarrow> rat \<Rightarrow> json dict \<Rightarrow> rat option \<Rightarrow> string" where
  "tp_create_token E p now payload expiry =
    (let end_at = (case expiry of Some e \<Rightarrow> if e = 0 then now + tp_expiry_seconds p else e
         | None \<Rightarrow> now + tp_expiry_seconds p)
     in pyjwt_encode E (dset ''exp'' (JInt (if 0 \<le> end_at then \<lfloor>end_at\<rfloor> else \<lceil>end_at\<rceil>)) payload)
          (tp_secret p) (tp_algorithm p))"

definition tp_validate_token :: "client_env \<Rightarrow> token_protection \<Rightarrow> rat \<Rightarrow> string \<Rightarrow> fault + json dict" where
  "tp_validate_token E p now token = (case pyjwt_decode E now token (tp_secret p) (tp_algorithm p) of
      Inr claims \<Rightarrow> Inr claims
    | Inl Jwt_Expired \<Rightarrow> Inl (Package Authentication_Error ''Token expired'')
    | Inl (Jwt_Invalid t) \<Rightarrow> Inl (Package Authentication_Error (''Invalid token: '' @ t)))"

section \<open>The network\<close>

record net =
  net_sent :: "request list"
  net_now :: rat

text \<open>\<open>APIKeyAuth.apply\<close> on the headers of a request.\<close>

record api_key =
  api_key_value :: string
  api_key_header :: string
  api_key_prefix :: string

definition api_key_apply :: "api_key \<Rightarrow> string dict \<Rightarrow> string dict" where
  "api_key_apply a headers = dset (api_key_header a)
     (if api_key_prefix a \<noteq> [] then api_key_prefix a @ '' '' @ api_key_value a else api_key_value a) headers"

section \<open>Facts\<close>

lemma fault_of_builtin [simp]: "fault_of (Builtin b t) = Python b t"
  by (simp add: fault_of_def)

lemma mark_prefix [simp]:
  "startswith (encrypted_mark @ s) encrypted_mark" "drop (length encrypted_mark) (encrypted_mark @ s) = s"
  by (simp_all add: startswith_iff)

text \<open>The credentials a manager can store: ASCII texts that do not look encrypted, and other values.\<close>

definition storable :: "json dict \<Rightarrow> bool" where
  "storable creds \<longleftrightarrow> list_all (\<lambda>(k, v). case v of
     JStr s \<Rightarrow> is_ascii s \<and> \<not> startswith s encrypted_mark | _ \<Rightarrow> True) creds"

definition all_marked :: "json dict \<Rightarrow> bool" where
  "all_marked creds \<longleftrightarrow> list_all (\<lambda>(k, v). case v of JStr s \<Rightarrow> startswith s encrypted_mark | _ \<Rightarrow> True) creds"

lemma encrypt_marked: "all_marked creds \<Longrightarrow> sm_encrypt_credentials c key n creds = Inr creds"
  by (induction creds arbitrary: n) (auto simp: all_marked_def split: json.splits)

lemma sm_encrypt_reads_back:
  assumes "fernet_ok c" and "valid_key key" and "is_ascii s"
  obtains tok where "sm_encrypt c key n s = Inr tok" and "sm_decrypt c key tok = Inr s"
proof -
  obtain tok where "fernet_encrypt c key n s = Inr tok" "is_ascii tok"
      "\<And>k'. valid_key k' \<Longrightarrow>
         fernet_decrypt c k' tok = (if k' = key then Inr s else Inl (Builtin InvalidToken []))"
    using assms by (rule fernet_encryptE[where n = n]) blast
  then show thesis
    using that[of tok] assms(2) by (simp add: sm_encrypt_def sm_decrypt_def)
qed

lemma sm_credentials_read_back:
  assumes "fernet_ok c" and "valid_key key" and "storable creds"
  shows "\<exists>locked. sm_encrypt_credentials c key n creds = Inr locked \<and> all_marked locked
    \<and> dkeys locked = dkeys creds \<and> sm_decrypt_credentials c key locked = Inr creds"
  using assms(3)
proof (induction creds arbitrary: n)
  case Nil
  then show ?case
    by (simp add: all_marked_def)
next
  case (Cons kv creds)
  obtain k v where kv: "kv = (k, v)"
    by (cases kv)
  from Cons.prems have rest: "storable creds"
    by (simp add: storable_def kv)
  show ?case
  proof (cases "\<exists>s. v = JStr s")
    case True
    then obtain s where s: "v = JStr s" "is_ascii s" "\<not> startswith s encrypted_mark"
      using Cons.prems by (auto simp: storable_def kv)
    obtain tok where tok: "sm_encrypt c key n s = Inr tok" "sm_decrypt c key tok = Inr s"
      using sm_encrypt_reads_back[OF assms(1,2) s(2)] .
    from Cons.IH[OF rest, of "n + 1"] show ?thesis
      using tok s by (auto simp: kv all_marked_def)
  next
    case False
    with Cons.IH[OF rest, of n] show ?thesis
      by (cases v) (auto simp: kv all_marked_def)
  qed
qed

text \<open>A credential that only looks encrypted is stored as it is and cannot be read: the error of Fernet
  passes the \<open>except\<close>.\<close>

lemma marked_secret_unreadable:
  assumes "fernet_decrypt c key t = Inl (Builtin InvalidToken [])"
  shows "sm_encrypt_credentials c key n [(k, JStr (encrypted_mark @ t))] = Inr [(k, JStr (encrypted_mark @ t))]"
    and "sm_decrypt_credentials c key [(k, JStr (encrypted_mark @ t))] = Inl (Python InvalidToken [])"
  by (simp_all add: assms sm_decrypt_def decrypt_failure_def)

text \<open>What \<open>get_credentials\<close> finds: the last variable with the prefix and the name, in any case.\<close>

lemma dget_environment_fold:
  "dget (fold (\<lambda>(key, v) creds. if startswith (lower key) p then dset (lower (drop (length p) key)) (JStr v) creds
      else creds) vars acc) k
   = (case filter (\<lambda>(key, v). lower key = p @ k) vars of [] \<Rightarrow> dget acc k | ms \<Rightarrow> Some (JStr (snd (last ms))))"
proof (induction vars arbitrary: acc)
  case (Cons kv vars)
  obtain key v where kv: "kv = (key, v)"
    by (cases kv)
  have drop: "lower (drop (length p) key) = drop (length p) (lower key)"
    by (simp add: lower_def drop_map)
  have "lower key = p @ k \<longleftrightarrow> startswith (lower key) p \<and> drop (length p) (lower key) = k"
    by (auto simp: startswith_iff)
  then show ?case
    unfolding kv by (auto simp: Cons.IH drop split: list.splits)
qed simp

section \<open>Properties\<close>

text \<open>\<open>SecretManager\<close> reads back the credentials it has encrypted: every text is stored behind the
  mark \<open>encrypted::\<close> and no longer as it was, keys and other values stay, a second encryption changes
  nothing, and decryption under the same key returns the credentials.\<close>

theorem client_secrets_round_trip:
  assumes "fernet_ok c" and "valid_key key" and "storable creds"
  shows "\<exists>locked. sm_encrypt_credentials c key n creds = Inr locked \<and> all_marked locked
    \<and> dkeys locked = dkeys creds \<and> sm_encrypt_credentials c key m locked = Inr locked
    \<and> sm_decrypt_credentials c key locked = Inr creds"
  using sm_credentials_read_back[OF assms] encrypt_marked by blast

theorem client_secrets_round_trip_witness:
  "\<exists>locked. sm_encrypt_credentials sample_crypto (b64encode (replicate 32 (CHR ''K''))) 0
      [(''api_token'', JStr ''t0ken''), (''port'', JInt 443)] = Inr locked
    \<and> sm_decrypt_credentials sample_crypto (b64encode (replicate 32 (CHR ''K''))) locked
      = Inr [(''api_token'', JStr ''t0ken''), (''port'', JInt 443)]"
proof -
  have "storable [(''api_token'', JStr ''t0ken''), (''port'', JInt 443)]"
    by code_simp
  moreover have "valid_key (b64encode (replicate 32 (CHR ''K'')))"
    by (rule valid_key_b64) simp
  ultimately show ?thesis
    using client_secrets_round_trip[OF sample_fernet_ok, of "b64encode (replicate 32 (CHR ''K''))"
        "[(''api_token'', JStr ''t0ken''), (''port'', JInt 443)]" 0] by blast
qed

section \<open>A concrete environment\<close>

text \<open>For the witnesses: a network that answers every request with the same response, a second later.\<close>

definition sample_client_env :: "http_response \<Rightarrow> string dict \<Rightarrow> client_env" where
  "sample_client_env resp vars = \<lparr>client_settings_of = default_client_settings, environ = vars,
     client_crypto = sample_crypto, kdf = (\<lambda>p s. take 32 (p @ s @ replicate 32 (CHR ''K''))),
     transport = (\<lambda>_ _. Inr resp), latency = (\<lambda>_ _. 1), hash_text = (\<lambda>s. int (length s)),
     pyjwt_encode = (\<lambda>claims secret alg. dumps (JObj claims)), pyjwt_decode = (\<lambda>_ _ _ _. Inl Jwt_Expired)\<rparr>"

definition json_answer :: "int \<Rightarrow> json \<Rightarrow> http_response" where
  "json_answer status v = \<lparr>http_status = status, http_text = dumps v, http_json = Inr v, http_headers = []\<rparr>"

lemma sample_client_simps [simp]:
  "transport (sample_client_env resp vars) h r = Inr resp" "latency (sample_client_env resp vars) h r = 1"
  "environ (sample_client_env resp vars) = vars" "client_crypto (sample_client_env resp vars) = sample_crypto"
  "http_status (json_answer n v) = n" "http_json (json_answer n v) = Inr v"
  by (simp_all add: sample_client_env_def json_answer_def)

end
