(* ===== verification/Client_Retry.thy ===== *)
theory Client_Retry
  imports Client_Core
begin

text \<open>
  \<open>utils/retry.py\<close> of the client package: the decorator \<open>retry\<close>, its default exceptions and
  \<open>retry_on_rate_limit\<close>. The decorated coroutine is a procedure on any state; \<open>pause\<close> is
  \<open>asyncio.sleep\<close> on it. Waits are rational numbers of seconds, exact where Python rounds to a float.
  \<open>hash(str(e))\<close>, the source of the jitter, is the argument \<open>hash\<close>.
\<close>

section \<open>The decorator\<close>

definition default_retryable :: "fault \<Rightarrow> bool" where
  "default_retryable e = (case e of
      Package c _ \<Rightarrow> c = Package_Timeout \<or> c = Rate_Limit_Error
    | Connection_Error _ \<Rightarrow> True
    | Asyncio_Timeout _ \<Rightarrow> True
    | _ \<Rightarrow> False)"

record 's retry_spec =
  retry_attempts :: int
  retry_backoff :: rat
  retry_max_backoff :: rat
  retried :: "fault \<Rightarrow> bool"
  on_retry :: "(fault \<Rightarrow> int \<Rightarrow> ('s, fault, unit) proc) option"

definition retry_spec :: "'s retry_spec" where
  "retry_spec = \<lparr>retry_attempts = 3, retry_backoff = 1, retry_max_backoff = 30, retried = default_retryable,
     on_retry = None\<rparr>"

definition retry_on_rate_limit :: "int \<Rightarrow> 's retry_spec" where
  "retry_on_rate_limit attempts = retry_spec\<lparr>retry_attempts := attempts, retry_backoff := 2,
     retried := (\<lambda>e. case e of Package c _ \<Rightarrow> c = Rate_Limit_Error | _ \<Rightarrow> False)\<rparr>"

text \<open>The wait before the next attempt, and its jitter.\<close>

definition base_wait :: "'s retry_spec \<Rightarrow> int \<Rightarrow> rat" where
  "base_wait R attempt = min (retry_backoff R * 2 ^ nat (attempt - 1)) (retry_max_backoff R)"

definition retry_wait :: "(string \<Rightarrow> int) \<Rightarrow> 's retry_spec \<Rightarrow> fault \<Rightarrow> int \<Rightarrow> rat" where
  "retry_wait hash R e attempt =
     base_wait R attempt * (4 / 5 + 2 / 5 * of_int (hash (fault_text e) mod 100) / 100)"

definition notify :: "'s retry_spec \<Rightarrow> fault \<Rightarrow> int \<Rightarrow> ('s, fault, unit) proc" where
  "notify R e attempt = (case on_retry R of None \<Rightarrow> ret () | Some f \<Rightarrow> f e attempt)"

function retry_from ::
    "(string \<Rightarrow> int) \<Rightarrow> (rat \<Rightarrow> ('s, fault, unit) proc) \<Rightarrow> 's retry_spec \<Rightarrow> ('s, fault, 'a) proc \<Rightarrow> int
      \<Rightarrow> ('s, fault, 'a) proc" where
  "retry_from hash pause R m attempt = catch m (\<lambda>e.
     if \<not> retried R e then raise e
     else if retry_attempts R \<le> attempt then raise e
     else thn (notify R e attempt) (thn (pause (retry_wait hash R e attempt))
       (retry_from hash pause R m (attempt + 1))))"
  by auto

termination
  by (relation "measure (\<lambda>(_, _, R, _, attempt). nat (retry_attempts R - attempt))") auto

declare retry_from.simps [simp del]

definition retry ::
    "(string \<Rightarrow> int) \<Rightarrow> (rat \<Rightarrow> ('s, fault, unit) proc) \<Rightarrow> 's retry_spec \<Rightarrow> ('s, fault, 'a) proc
      \<Rightarrow> ('s, fault, 'a) proc" where
  "retry hash pause R m = retry_from hash pause R m 1"

section \<open>Facts\<close>

lemma jitter_bounds:
  fixes n :: int
  shows "4 / 5 \<le> 4 / 5 + 2 / 5 * of_int (n mod 100) / (100 :: rat)"
    and "4 / 5 + 2 / 5 * of_int (n mod 100) / (100 :: rat) \<le> 6 / 5"
proof -
  have "(of_int (n mod 100) :: rat) \<le> 100"
    by (simp add: less_imp_le)
  moreover have "(0 :: rat) \<le> of_int (n mod 100)"
    by simp
  ultimately show "4 / 5 \<le> 4 / 5 + 2 / 5 * of_int (n mod 100) / (100 :: rat)"
    and "4 / 5 + 2 / 5 * of_int (n mod 100) / (100 :: rat) \<le> 6 / 5"
    by simp_all
qed

lemma retry_wait_bounds:
  assumes "0 \<le> retry_backoff R" and "0 \<le> retry_max_backoff R"
  shows "0 \<le> retry_wait hash R e attempt" and "retry_wait hash R e attempt \<le> 6 / 5 * retry_max_backoff R"
proof -
  let ?j = "4 / 5 + 2 / 5 * of_int (hash (fault_text e) mod 100) / (100 :: rat)"
  have b: "0 \<le> base_wait R attempt" "base_wait R attempt \<le> retry_max_backoff R"
    using assms by (simp_all add: base_wait_def)
  have j: "0 \<le> ?j" "?j \<le> 6 / 5"
    using jitter_bounds[of "hash (fault_text e)"] by linarith+
  show "0 \<le> retry_wait hash R e attempt"
    unfolding retry_wait_def using b(1) j(1) by (rule mult_nonneg_nonneg)
  have "base_wait R attempt * ?j \<le> retry_max_backoff R * (6 / 5)"
    using b j assms(2) by (intro mult_mono) simp_all
  then show "retry_wait hash R e attempt \<le> 6 / 5 * retry_max_backoff R"
    by (simp add: retry_wait_def mult.commute)
qed

text \<open>A procedure that never raises what is retried runs once.\<close>

definition raises_only :: "(fault \<Rightarrow> bool) \<Rightarrow> ('s, fault, 'a) proc \<Rightarrow> bool" where
  "raises_only P m \<longleftrightarrow> (\<forall>s e. fst (m s) = Inl e \<longrightarrow> P e)"

lemma retry_once:
  assumes "raises_only (\<lambda>e. \<not> retried R e) m"
  shows "retry hash pause R m = m"
proof
  fix s
  show "retry hash pause R m s = m s"
  proof (cases "m s")
    case (Pair r t)
    then have "\<not> retried R e" if "r = Inl e" for e
      using assms that unfolding raises_only_def by (metis fst_conv)
    with Pair show ?thesis
      by (cases r) (simp_all add: retry_def retry_from.simps[of _ _ _ _ 1] catch_def raise_def)
  qed
qed

text \<open>
  The attempts of a run: \<open>calls\<close> counts the calls of \<open>m\<close> and \<open>slept\<close> the seconds slept, both parts of the
  state. The outcome is that of the last call.
\<close>

definition run_within ::
    "('s \<Rightarrow> nat) \<Rightarrow> ('s \<Rightarrow> rat) \<Rightarrow> 's retry_spec \<Rightarrow> ('s, fault, 'a) proc \<Rightarrow> nat \<Rightarrow> 's \<Rightarrow> fault + 'a \<Rightarrow> 's \<Rightarrow> bool" where
  "run_within calls slept R m limit s r t \<longleftrightarrow>
     (let k = calls t - calls s in
        calls s < calls t \<and> k \<le> limit
      \<and> slept s \<le> slept t \<and> slept t \<le> slept s + of_nat (k - 1) * (6 / 5 * retry_max_backoff R)
      \<and> (\<exists>s'. m s' = (r, t))
      \<and> (case r of Inl e \<Rightarrow> retried R e \<longrightarrow> k = limit | Inr _ \<Rightarrow> True))"

lemma retry_from_within:
  assumes wait: "0 \<le> retry_backoff R" "0 \<le> retry_max_backoff R" and silent: "on_retry R = None"
    and m: "\<And>s. calls (snd (m s)) = calls s + 1" "\<And>s. slept (snd (m s)) = slept s"
    and bump: "\<And>w s. calls (bump w s) = calls s" "\<And>w s. slept (bump w s) = slept s + w"
    and run: "retry_from hash (\<lambda>w. modify (bump w)) R m attempt s = (r, t)"
  shows "run_within calls slept R m (nat (max 1 (retry_attempts R - attempt + 1))) s r t"
  using run
proof (induction "nat (retry_attempts R - attempt)" arbitrary: attempt s)
  case (0 attempt s)
  then have "retry_attempts R \<le> attempt"
    by simp
  then have "m s = (r, t)"
    using "0.prems" by (cases "m s"; cases "fst (m s)")
      (auto simp: retry_from.simps[of _ _ _ _ attempt] catch_def raise_def split: if_splits)
  moreover from this have "calls t = calls s + 1" "slept t = slept s"
    using m[of s] by simp_all
  ultimately show ?case
    using \<open>retry_attempts R \<le> attempt\<close> by (auto simp: run_within_def split: sum.splits)
next
  case (Suc n attempt s)
  then have more: "attempt < retry_attempts R"
    by simp
  obtain q u where q: "m s = (q, u)"
    by (cases "m s")
  have u: "calls u = calls s + 1" "slept u = slept s"
    using m[of s] q by simp_all
  show ?case
  proof (cases "\<exists>e. q = Inl e \<and> retried R e")
    case False
    then have "(r, t) = (q, u)"
      using Suc.prems q by (cases q) (auto simp: retry_from.simps[of _ _ _ _ attempt] catch_def raise_def)
    then show ?thesis
      using False u q more by (auto simp: run_within_def split: sum.splits)
  next
    case True
    then obtain e where e: "q = Inl e" "retried R e"
      by blast
    define w where "w = retry_wait hash R e attempt"
    have w: "0 \<le> w" "w \<le> 6 / 5 * retry_max_backoff R"
      unfolding w_def using wait by (rule retry_wait_bounds)+
    have step: "retry_from hash (\<lambda>w. modify (bump w)) R m (attempt + 1) (bump w u) = (r, t)"
      using Suc.prems q e more silent
      by (simp add: retry_from.simps[of _ _ _ _ attempt] catch_def notify_def thn_def modify_def
          bnd_def ret_def w_def)
    have "n = nat (retry_attempts R - (attempt + 1))"
      using Suc.hyps(2) by simp
    from Suc.hyps(1)[OF this step]
    have "run_within calls slept R m (nat (max 1 (retry_attempts R - attempt))) (bump w u) r t"
      by simp
    then have IH: "calls u < calls t" "calls t - calls u \<le> nat (max 1 (retry_attempts R - attempt))"
      "slept s + w \<le> slept t"
      "slept t \<le> slept s + w + of_nat (calls t - calls u - 1) * (6 / 5 * retry_max_backoff R)"
      "\<exists>s'. m s' = (r, t)"
      "case r of Inl e \<Rightarrow> retried R e \<longrightarrow> calls t - calls u = nat (max 1 (retry_attempts R - attempt)) | Inr _ \<Rightarrow> True"
      unfolding run_within_def Let_def bump u(2) by blast+
    have k: "calls t - calls s = calls t - calls u + 1" "calls t - calls u + 1 - 1 = Suc (calls t - calls u - 1)"
      using IH(1) u(1) by simp_all
    have limit: "nat (max 1 (retry_attempts R - attempt + 1)) = nat (max 1 (retry_attempts R - attempt)) + 1"
      using more by simp
    have upper: "slept t \<le> slept s + of_nat (Suc (calls t - calls u - 1)) * (6 / 5 * retry_max_backoff R)"
      using IH(4) w(2) by (simp only: of_nat_Suc distrib_right mult_1)
    have lower: "slept s \<le> slept t" "calls s < calls t"
      using IH(1,3) u(1) w(1) by linarith+
    have count: "calls t - calls u + 1 \<le> nat (max 1 (retry_attempts R - attempt)) + 1"
      using IH(2) by simp
    have last: "case r of Inl e \<Rightarrow> retried R e \<longrightarrow>
        calls t - calls u + 1 = nat (max 1 (retry_attempts R - attempt)) + 1 | Inr _ \<Rightarrow> True"
      using IH(6) by (simp split: sum.splits)
    show ?thesis
      unfolding run_within_def Let_def k limit using lower count upper IH(5) last by blast
  qed
qed

section \<open>Properties\<close>

text \<open>C30: A decorated coroutine is called at least once and at most \<open>max_attempts\<close> times, between the
  calls it sleeps at most six fifths of \<open>max_backoff\<close> each time, its outcome is that of the last call, and
  an exception it would have retried leaves it only after the last attempt.\<close>

theorem retry_bounded:
  assumes "0 \<le> retry_backoff R" and "0 \<le> retry_max_backoff R" and "on_retry R = None"
    and "\<And>s. calls (snd (m s)) = calls s + 1" and "\<And>s. slept (snd (m s)) = slept s"
    and "\<And>w s. calls (bump w s) = calls s" and "\<And>w s. slept (bump w s) = slept s + w"
    and "retry hash (\<lambda>w. modify (bump w)) R m s = (r, t)"
  shows "run_within calls slept R m (nat (max 1 (retry_attempts R))) s r t"
  using retry_from_within[OF assms(1-7), of hash 1 s r t] assms(8) by (simp add: retry_def)

text \<open>The state of the witness: the calls made and the seconds slept; the third call succeeds.\<close>

definition flaky :: "(nat \<times> rat, fault, string) proc" where
  "flaky = (\<lambda>(n, w). (if n < 2 then Inl (Connection_Error ''reset'') else Inr ''done'', (n + 1, w)))"

theorem retry_bounded_witness:
  "retry (\<lambda>_. 50) (\<lambda>w. modify (map_prod id ((+) w))) retry_spec flaky (0, 0) = (Inr ''done'', (3, 3))
   \<and> run_within fst snd retry_spec flaky 3 (0, 0) (Inr ''done'') (3, 3)"
proof -
  have run: "retry (\<lambda>_. 50) (\<lambda>w. modify (map_prod id ((+) w))) retry_spec flaky (0, 0) = (Inr ''done'', (3, 3))"
    by code_simp
  have "run_within fst snd retry_spec flaky (nat (max 1 (retry_attempts (retry_spec :: (nat \<times> rat) retry_spec))))
      (0, 0) (Inr ''done'') (3, 3)"
    by (rule retry_bounded[OF _ _ _ _ _ _ _ run]) (auto simp: retry_spec_def flaky_def)
  then show ?thesis
    using run by (simp add: retry_spec_def)
qed

end
