(* ===== verification/Client_Http.thy ===== *)
theory Client_Http
  imports Client_Retry
begin

text \<open>
  What the integrations of the client package stand on: the class \<open>Integration\<close> (\<open>core/base.py\<close>) with the
  attributes its five subclasses give an instance, the \<open>httpx.AsyncClient\<close> an instance holds, and
  \<open>OAuth2Auth\<close> (\<open>auth/oauth2.py\<close>). A method of an integration is a procedure on the network and the
  instance. httpx is outside: a request goes to \<open>transport\<close>, with the URL merged with the base URL and
  the header of the authentication of the client.
\<close>

section \<open>Instances\<close>

datatype integration_class = GitHub | Jira | Slack | Teams | Documentation

text \<open>The name in the messages of a class.\<close>

fun class_title :: "integration_class \<Rightarrow> string" where
  "class_title GitHub = ''GitHub''"
| "class_title Jira = ''Jira''"
| "class_title Slack = ''Slack''"
| "class_title Teams = ''Teams''"
| "class_title Documentation = ''Documentation''"

datatype http_auth = No_Auth | Key_Auth api_key | Basic_Auth string string | OAuth2_Auth

record http_client =
  hc_base :: string
  hc_headers :: "string dict"
  hc_auth :: http_auth
  hc_timeout :: nat
  hc_redirects :: bool
  hc_closed :: bool

record oauth2 =
  oa_token_url :: string
  oa_client_id :: string
  oa_client_secret :: string
  oa_scope :: "string option"
  oa_refresh_buffer :: rat
  oa_access_token :: json
  oa_expires_at :: rat

record integration =
  in_class :: integration_class
  in_credentials :: "json dict"
  in_client :: "http_client option"
  in_oauth :: "oauth2 option"
  in_repository_url :: "string option"
  in_initialized :: bool

definition new_integration :: "integration_class \<Rightarrow> json dict \<Rightarrow> integration" where
  "new_integration cls creds = \<lparr>in_class = cls, in_credentials = creds, in_client = None, in_oauth = None,
     in_repository_url = None, in_initialized = False\<rparr>"

record live = net +
  itself :: integration

type_synonym 'a meth = "(live, fault, 'a) proc"

definition on_self :: "(integration \<Rightarrow> integration) \<Rightarrow> unit meth" where
  "on_self f = modify (\<lambda>s. s\<lparr>itself := f (itself s)\<rparr>)"

text \<open>A sleep, and the exchange of a request for an answer.\<close>

definition pause :: "rat \<Rightarrow> unit meth" where
  "pause w = modify (\<lambda>s. s\<lparr>net_now := net_now s + max 0 w\<rparr>)"

definition exchange :: "client_env \<Rightarrow> request \<Rightarrow> http_response meth" where
  "exchange E r = (\<lambda>s. (transport E (net_sent s) r,
     s\<lparr>net_sent := net_sent s @ [r], net_now := net_now s + max 0 (latency E (net_sent s) r)\<rparr>))"

section \<open>OAuth2Auth\<close>

definition new_oauth2 :: "string \<Rightarrow> string \<Rightarrow> string \<Rightarrow> string option \<Rightarrow> oauth2" where
  "new_oauth2 token_url client_id client_secret scope = \<lparr>oa_token_url = token_url, oa_client_id = client_id,
     oa_client_secret = client_secret, oa_scope = scope, oa_refresh_buffer = 60, oa_access_token = JNull,
     oa_expires_at = 0\<rparr>"

definition on_oauth :: "(oauth2 \<Rightarrow> oauth2) \<Rightarrow> unit meth" where
  "on_oauth f = on_self (\<lambda>i. i\<lparr>in_oauth := map_option f (in_oauth i)\<rparr>)"

definition token_fresh :: "oauth2 \<Rightarrow> rat \<Rightarrow> bool" where
  "token_fresh o1 now \<longleftrightarrow> truthy (oa_access_token o1) \<and> now < oa_expires_at o1 - oa_refresh_buffer o1"

definition client_token_request :: "oauth2 \<Rightarrow> request" where
  "client_token_request o1 = \<lparr>req_method = ''POST'', req_url = oa_token_url o1, req_params = [],
     req_body = FormBody ([(''grant_type'', JStr ''client_credentials''), (''client_id'', JStr (oa_client_id o1)),
       (''client_secret'', JStr (oa_client_secret o1))]
       @ (if is_given (oa_scope o1) then [(''scope'', JStr (given_or (oa_scope o1) []))] else [])),
     req_headers = [], req_auth = None\<rparr>"

text \<open>The number a lifetime adds to the time.\<close>

definition seconds :: "json \<Rightarrow> fault + rat" where
  "seconds v = (case v of
      JInt n \<Rightarrow> Inr (of_int n)
    | JBool b \<Rightarrow> Inr (if b then 1 else 0)
    | _ \<Rightarrow> Inl (Python TypeError ''unsupported operand type(s) for +''))"

definition refresh_oauth :: "client_env \<Rightarrow> oauth2 \<Rightarrow> unit meth" where
  "refresh_oauth E o1 = bnd (exchange E (client_token_request o1)) (\<lambda>resp.
     if http_status resp \<noteq> 200
     then raise (Package Authentication_Error (''OAuth2 failed: '' @ show_int (http_status resp)))
     else bnd (value_of (http_json resp)) (\<lambda>payload.
       bnd (value_of (py_item payload ''access_token'')) (\<lambda>token.
       thn (on_oauth (\<lambda>o1. o1\<lparr>oa_access_token := token\<rparr>))
       (bnd (value_of (py_get payload ''expires_in'' (JInt 3600))) (\<lambda>expires_in.
        bnd (lift (seconds expires_in)) (\<lambda>n. bnd (gets net_now) (\<lambda>now.
        on_oauth (\<lambda>o1. o1\<lparr>oa_expires_at := now + n\<rparr>))))))))"

definition the_oauth :: "oauth2 meth" where
  "the_oauth = bnd (gets (\<lambda>s. in_oauth (itself s))) (\<lambda>o1. case o1 of
      Some a \<Rightarrow> ret a
    | None \<Rightarrow> raise (Python AttributeError ''get_access_token''))"

text \<open>The part of \<open>get_access_token\<close> under the lock, which looks at the token once more.\<close>

definition locked_token :: "client_env \<Rightarrow> json meth" where
  "locked_token E = bnd the_oauth (\<lambda>o1. bnd (gets net_now) (\<lambda>now.
     if token_fresh o1 now then ret (oa_access_token o1)
     else thn (refresh_oauth E o1) (bnd the_oauth (\<lambda>o2.
       if oa_access_token o2 = JNull then raise (Package Authentication_Error ''OAuth2 access token unavailable'')
       else ret (oa_access_token o2)))))"

definition get_access_token :: "client_env \<Rightarrow> json meth" where
  "get_access_token E = bnd the_oauth (\<lambda>o1. bnd (gets net_now) (\<lambda>now.
     if token_fresh o1 now then ret (oa_access_token o1) else locked_token E))"

section \<open>Requests of an instance\<close>

text \<open>A path against the base URL; without one the URL is complete.\<close>

definition lstrip_slash :: "string \<Rightarrow> string" where
  "lstrip_slash = dropWhile (\<lambda>c. c = CHR ''/'')"

definition merge_url :: "string \<Rightarrow> string \<Rightarrow> string" where
  "merge_url base url = (if base = [] then url else rstrip_slash base @ ''/'' @ lstrip_slash url)"

text \<open>The headers \<open>headers\<close> with those of the authentication.\<close>

definition authorize :: "client_env \<Rightarrow> http_auth \<Rightarrow> string dict \<Rightarrow> string dict meth" where
  "authorize E a headers = (case a of
      No_Auth \<Rightarrow> ret headers
    | Key_Auth key \<Rightarrow> ret (api_key_apply key headers)
    | Basic_Auth user password \<Rightarrow> ret (dset ''Authorization'' (basic_scheme (JStr user) (JStr password)) headers)
    | OAuth2_Auth \<Rightarrow> bnd (get_access_token E) (\<lambda>token.
        ret (dset ''Authorization'' (''Bearer '' @ py_str token) headers)))"

definition the_client :: "http_client meth" where
  "the_client = bnd (gets itself) (\<lambda>i. case in_client i of
      Some c \<Rightarrow> ret c
    | None \<Rightarrow> raise (Python RuntimeError (class_title (in_class i) @ '' integration is not initialized'')))"

definition client_send ::
    "client_env \<Rightarrow> string \<Rightarrow> string \<Rightarrow> json dict \<Rightarrow> body \<Rightarrow> http_response meth" where
  "client_send E meth url params b = bnd the_client (\<lambda>c.
     if hc_closed c then raise (Python RuntimeError ''Cannot send a request, as the client has been closed.'')
     else bnd (authorize E (hc_auth c) (hc_headers c)) (\<lambda>headers.
       exchange E \<lparr>req_method = meth, req_url = merge_url (hc_base c) url, req_params = params, req_body = b,
         req_headers = headers, req_auth = None\<rparr>))"

definition close_integration :: "unit meth" where
  "close_integration = on_self (\<lambda>i. i\<lparr>in_client := map_option (\<lambda>c. c\<lparr>hc_closed := True\<rparr>) (in_client i)\<rparr>)"

text \<open>\<open>if resp.status_code >= 400: resp.raise_for_status()\<close>, after a 404 of its own.\<close>

definition check_status :: "http_response \<Rightarrow> unit meth" where
  "check_status resp = (if 400 \<le> http_status resp then raise (Status_Error (http_status resp)) else ret ())"

definition checked ::
    "client_env \<Rightarrow> string \<Rightarrow> string \<Rightarrow> json dict \<Rightarrow> body \<Rightarrow> string option \<Rightarrow> http_response meth" where
  "checked E meth url params b missing = bnd (client_send E meth url params b) (\<lambda>resp.
     case missing of
       None \<Rightarrow> thn (check_status resp) (ret resp)
     | Some text \<Rightarrow> if http_status resp = 404 then raise (Package Not_Found_Error text)
         else thn (check_status resp) (ret resp))"

definition call_json ::
    "client_env \<Rightarrow> string \<Rightarrow> string \<Rightarrow> json dict \<Rightarrow> body \<Rightarrow> string option \<Rightarrow> json meth" where
  "call_json E meth url params b missing =
     bnd (checked E meth url params b missing) (\<lambda>resp. value_of (http_json resp))"

section \<open>Actions\<close>

type_synonym client_method = "client_env \<Rightarrow> json dict \<Rightarrow> json dict \<Rightarrow> json meth"

record client_action =
  ca_retry :: "live retry_spec"
  ca_required :: "string list"
  ca_optional :: "json dict"
  ca_keywords :: bool
  ca_run :: client_method

text \<open>A decorated method called with keyword arguments, once and with the decorator.\<close>

definition run_once :: "client_env \<Rightarrow> client_action \<Rightarrow> json dict \<Rightarrow> json meth" where
  "run_once E a kwargs = bnd (value_of (bind_named (ca_required a) (ca_optional a) (ca_keywords a) kwargs))
     (\<lambda>(args, extra). ca_run a E args extra)"

definition run_client_action :: "client_env \<Rightarrow> client_action \<Rightarrow> json dict \<Rightarrow> json meth" where
  "run_client_action E a kwargs = retry (hash_text E) pause (ca_retry a) (run_once E a kwargs)"

abbreviation retried_action :: "string list \<Rightarrow> json dict \<Rightarrow> client_method \<Rightarrow> client_action" where
  "retried_action req opt f \<equiv>
     \<lparr>ca_retry = retry_spec, ca_required = req, ca_optional = opt, ca_keywords = False, ca_run = f\<rparr>"

section \<open>Facts on the token\<close>

lemma locked_token_cached:
  assumes "in_oauth (itself s) = Some o1" and "token_fresh o1 (net_now s)"
  shows "locked_token E s = (Inr (oa_access_token o1), s)"
    and "get_access_token E s = (Inr (oa_access_token o1), s)"
  using assms by (simp_all add: locked_token_def get_access_token_def the_oauth_def bnd_def gets_def ret_def)

lemma locked_tokens_cached:
  assumes "in_oauth (itself s) = Some o1" and "token_fresh o1 (net_now s)"
  shows "for_each xs (\<lambda>_. locked_token E) s = (Inr (map (\<lambda>_. oa_access_token o1) xs), s)"
  by (induction xs) (simp_all add: ret_def locked_token_cached[OF assms])

text \<open>The state after a token was fetched.\<close>

definition renewed :: "oauth2 \<Rightarrow> json \<Rightarrow> rat \<Rightarrow> oauth2" where
  "renewed o1 token expires_at = o1\<lparr>oa_access_token := token, oa_expires_at := expires_at\<rparr>"

definition fetched :: "client_env \<Rightarrow> oauth2 \<Rightarrow> json \<Rightarrow> int \<Rightarrow> live \<Rightarrow> live" where
  "fetched E o1 token n s =
    (let now = net_now s + max 0 (latency E (net_sent s) (client_token_request o1)) in
     s\<lparr>net_sent := net_sent s @ [client_token_request o1], net_now := now,
       itself := (itself s)\<lparr>in_oauth := Some (renewed o1 token (now + of_int n))\<rparr>\<rparr>)"

lemma locked_token_fetches:
  assumes "in_oauth (itself s) = Some o1" and "\<not> token_fresh o1 (net_now s)"
    and "transport E (net_sent s) (client_token_request o1) = Inr resp" and "http_status resp = 200"
    and "http_json resp = Inr (JObj payload)" and "dget payload ''access_token'' = Some token"
    and "token \<noteq> JNull" and "jget_or payload ''expires_in'' (JInt 3600) = JInt n"
  shows "locked_token E s = (Inr token, fetched E o1 token n s)"
  using assms
  by (simp add: locked_token_def the_oauth_def refresh_oauth_def exchange_def on_oauth_def on_self_def
      value_of_def py_item_def py_get_def seconds_def fetched_def renewed_def Let_def
      bnd_def thn_def gets_def ret_def modify_def lift_def)

section \<open>Properties\<close>

text \<open>C17: However many tasks wait for the lock when the token has run out, the first one fetches a token
  and the others use it: one request is sent, every task gets that token, and until its lifetime less
  the buffer is over no further request is sent for it.\<close>

theorem token_fetched_once:
  assumes "in_oauth (itself s) = Some o1" and "\<not> token_fresh o1 (net_now s)"
    and "transport E (net_sent s) (client_token_request o1) = Inr resp" and "http_status resp = 200"
    and "http_json resp = Inr (JObj payload)" and "dget payload ''access_token'' = Some token"
    and "truthy token" and "jget_or payload ''expires_in'' (JInt 3600) = JInt n"
    and "oa_refresh_buffer o1 < of_int n"
  defines "s1 \<equiv> fetched E o1 token n s"
  shows "for_each (x # xs) (\<lambda>_. locked_token E) s = (Inr (map (\<lambda>_. token) (x # xs)), s1)
    \<and> net_sent s1 = net_sent s @ [client_token_request o1]
    \<and> (\<forall>t. net_now s1 \<le> t \<and> t < net_now s1 + of_int n - oa_refresh_buffer o1 \<longrightarrow>
         get_access_token E (s1\<lparr>net_now := t\<rparr>) = (Inr token, s1\<lparr>net_now := t\<rparr>))"
proof -
  have first: "locked_token E s = (Inr token, s1)"
    unfolding s1_def using assms(1-8) by (intro locked_token_fetches) auto
  have kept: "in_oauth (itself s1) = Some (renewed o1 token (net_now s1 + of_int n))"
    "net_sent s1 = net_sent s @ [client_token_request o1]"
    by (simp_all add: s1_def fetched_def Let_def)
  have fresh: "token_fresh (renewed o1 token (net_now s1 + of_int n)) t"
    if "t < net_now s1 + of_int n - oa_refresh_buffer o1" for t
    using that assms(7) by (simp add: token_fresh_def renewed_def)
  have "for_each xs (\<lambda>_. locked_token E) s1 = (Inr (map (\<lambda>_. token) xs), s1)"
    using locked_tokens_cached[OF kept(1) fresh, of xs E] assms(9) by (simp add: renewed_def)
  then have "for_each (x # xs) (\<lambda>_. locked_token E) s = (Inr (map (\<lambda>_. token) (x # xs)), s1)"
    by (simp add: first ret_def)
  moreover have "get_access_token E (s1\<lparr>net_now := t\<rparr>) = (Inr token, s1\<lparr>net_now := t\<rparr>)"
    if "t < net_now s1 + of_int n - oa_refresh_buffer o1" for t
    using locked_token_cached(2)[of "s1\<lparr>net_now := t\<rparr>", OF _ fresh, of E] kept(1) that
    by (simp add: renewed_def)
  ultimately show ?thesis
    using kept(2) by blast
qed

definition sample_teams :: live where
  "sample_teams = \<lparr>net_sent = [], net_now = 1000, itself = (new_integration Teams [])
     \<lparr>in_oauth := Some (new_oauth2 ''https://login.test/token'' ''id'' ''secret'' None)\<rparr>\<rparr>"

theorem token_fetched_once_witness:
  "\<exists>t. for_each [1, 2, 3 :: nat] (\<lambda>_. locked_token (sample_client_env (json_answer 200
      (JObj [(''access_token'', JStr ''at''), (''expires_in'', JInt 3600)])) [])) sample_teams
    = (Inr [JStr ''at'', JStr ''at'', JStr ''at''], t) \<and> length (net_sent t) = 1"
proof -
  have "in_oauth (itself sample_teams) = Some (new_oauth2 ''https://login.test/token'' ''id'' ''secret'' None)"
    "\<not> token_fresh (new_oauth2 ''https://login.test/token'' ''id'' ''secret'' None) (net_now sample_teams)"
    by (simp_all add: sample_teams_def token_fresh_def new_oauth2_def)
  from token_fetched_once[OF this, of "sample_client_env (json_answer 200
      (JObj [(''access_token'', JStr ''at''), (''expires_in'', JInt 3600)])) []" _
      "[(''access_token'', JStr ''at''), (''expires_in'', JInt 3600)]" "JStr ''at''" 3600 "1 :: nat" "[2, 3]"]
  show ?thesis
    by (simp add: jget_or_def new_oauth2_def sample_teams_def)
qed

end
