(* ===== verification/Client_Integrations.thy ===== *)
theory Client_Integrations
  imports Client_Http
begin

text \<open>
  The integrations of the client package, \<open>integrations/*/client.py\<close>: for GitHub, Jira, Slack, Teams and
  the documentation repositories \<open>initialize\<close>, \<open>health_check\<close>, every action with its signature and its
  decorator, and the table \<open>execute\<close> looks an action up in. \<open>call_json\<close> is the request of a method with
  the checks of its answer. The pydantic models of \<open>models.py\<close> are not used by this code.
\<close>

section \<open>Setting up\<close>

text \<open>A credential that is given; the values are the texts of environment variables.\<close>

definition cred_text :: "json dict \<Rightarrow> string \<Rightarrow> string option" where
  "cred_text creds k = (case dget creds k of Some (JStr s) \<Rightarrow> if s = [] then None else Some s | _ \<Rightarrow> None)"

definition plain_client :: "string \<Rightarrow> http_auth \<Rightarrow> http_client" where
  "plain_client base a = \<lparr>hc_base = base, hc_headers = [], hc_auth = a, hc_timeout = 30,
     hc_redirects = False, hc_closed = False\<rparr>"

definition set_up :: "http_client \<Rightarrow> unit meth" where
  "set_up c = on_self (\<lambda>i. i\<lparr>in_client := Some c, in_initialized := True\<rparr>)"

abbreviation unauthenticated :: "string \<Rightarrow> unit meth" where
  "unauthenticated t \<equiv> raise (Package Authentication_Error t)"

definition initialize_github :: "json dict \<Rightarrow> unit meth" where
  "initialize_github creds = (case cred_text creds ''api_token'' of
      None \<Rightarrow> unauthenticated ''GitHub API token missing.''
    | Some token \<Rightarrow> set_up ((plain_client ''https://api.github.com''
        (Key_Auth \<lparr>api_key_value = token, api_key_header = ''Authorization'', api_key_prefix = ''token''\<rparr>))
        \<lparr>hc_redirects := True\<rparr>))"

definition initialize_jira :: "json dict \<Rightarrow> unit meth" where
  "initialize_jira creds = (case cred_text creds ''base_url'' of
      None \<Rightarrow> unauthenticated ''Jira base URL missing''
    | Some base \<Rightarrow> (case (cred_text creds ''email'', cred_text creds ''api_token'') of
        (Some email, Some api_token) \<Rightarrow> set_up (plain_client (rstrip_slash base) (Basic_Auth email api_token))
      | _ \<Rightarrow> unauthenticated ''Jira API token or email missing''))"

definition initialize_slack :: "json dict \<Rightarrow> unit meth" where
  "initialize_slack creds = (case cred_text creds ''bot_token'' of
      None \<Rightarrow> unauthenticated ''Slack bot token missing.''
    | Some token \<Rightarrow> set_up ((plain_client ''https://slack.com/api'' No_Auth)
        \<lparr>hc_headers := [(''Authorization'', ''Bearer '' @ token)]\<rparr>))"

definition initialize_teams :: "json dict \<Rightarrow> unit meth" where
  "initialize_teams creds = (case (cred_text creds ''client_id'', cred_text creds ''client_secret'') of
      (Some i, Some s) \<Rightarrow>
        thn (on_self (\<lambda>inst. inst\<lparr>in_oauth := Some (new_oauth2
               ''https://login.microsoftonline.com/common/oauth2/v2.0/token'' i s
               (Some ''https://graph.microsoft.com/.default''))\<rparr>))
            (set_up (plain_client ''https://graph.microsoft.com/v1.0'' OAuth2_Auth))
    | _ \<Rightarrow> unauthenticated ''Teams client_id and client_secret required.'')"

definition initialize_documentation :: "json dict \<Rightarrow> unit meth" where
  "initialize_documentation creds = (case cred_text creds ''repo_url'' of
      None \<Rightarrow> unauthenticated ''Documentation repo URL missing.''
    | Some url \<Rightarrow>
        thn (on_self (\<lambda>inst. inst\<lparr>in_repository_url := Some url\<rparr>))
            (set_up ((plain_client [] No_Auth)\<lparr>hc_headers := (case cred_text creds ''api_token'' of
               None \<Rightarrow> [] | Some token \<Rightarrow> [(''Authorization'', ''token '' @ token)])\<rparr>)))"

definition initialize :: "unit meth" where
  "initialize = bnd (gets itself) (\<lambda>i. let creds = in_credentials i in (case in_class i of
      GitHub \<Rightarrow> initialize_github creds
    | Jira \<Rightarrow> initialize_jira creds
    | Slack \<Rightarrow> initialize_slack creds
    | Teams \<Rightarrow> initialize_teams creds
    | Documentation \<Rightarrow> initialize_documentation creds))"

section \<open>GitHub\<close>

definition repo_url :: "json dict \<Rightarrow> string" where
  "repo_url a = ''/repos/'' @ text_of a ''owner'' @ ''/'' @ text_of a ''repo''"

definition gh_get_repository :: client_method where
  "gh_get_repository E a kw = call_json E ''GET'' (repo_url a) [] NoBody
     (Some (''Repository '' @ text_of a ''owner'' @ ''/'' @ text_of a ''repo'' @ '' not found''))"

definition gh_get_file :: client_method where
  "gh_get_file E a kw = call_json E ''GET'' (repo_url a @ ''/contents/'' @ text_of a ''path'')
     (put_truthy ''ref'' (jget a ''ref'') []) NoBody (Some (''File '' @ text_of a ''path'' @ '' not found''))"

definition gh_create_branch :: client_method where
  "gh_create_branch E a kw = call_json E ''POST'' (repo_url a @ ''/git/refs'') []
     (JsonBody (JObj [(''ref'', JStr (''refs/heads/'' @ text_of a ''branch_name'')), (''sha'', jget a ''source_sha'')]))
     None"

definition gh_create_issue :: client_method where
  "gh_create_issue E a kw = call_json E ''POST'' (repo_url a @ ''/issues'') []
     (JsonBody (JObj [(''title'', jget a ''title''), (''body'', jget a ''body''),
       (''labels'', py_or (jget a ''labels'') (JArr []))])) None"

definition gh_update_issue :: client_method where
  "gh_update_issue E a kw = call_json E ''PATCH'' (repo_url a @ ''/issues/'' @ text_of a ''issue_number'') []
     (JsonBody (JObj kw)) None"

definition gh_create_pull_request :: client_method where
  "gh_create_pull_request E a kw = call_json E ''POST'' (repo_url a @ ''/pulls'') []
     (JsonBody (JObj [(''title'', jget a ''title''), (''body'', jget a ''body''), (''head'', jget a ''head''),
       (''base'', jget a ''base'')])) None"

definition gh_get_pull_request :: client_method where
  "gh_get_pull_request E a kw = call_json E ''GET'' (repo_url a @ ''/pulls/'' @ text_of a ''pull_number'') [] NoBody
     (Some (''PR #'' @ text_of a ''pull_number'' @ '' not found''))"

definition gh_list_issues :: client_method where
  "gh_list_issues E a kw = call_json E ''GET'' (repo_url a @ ''/issues'') [(''state'', jget a ''state'')] NoBody None"

definition github_client_actions :: "client_action dict" where
  "github_client_actions = [
     (''get_repository'', retried_action [''owner'', ''repo''] [] gh_get_repository),
     (''get_file'', retried_action [''owner'', ''repo'', ''path''] [(''ref'', JNull)] gh_get_file),
     (''create_branch'', retried_action [''owner'', ''repo'', ''branch_name'', ''source_sha''] [] gh_create_branch),
     (''create_issue'', retried_action [''owner'', ''repo'', ''title'', ''body''] [(''labels'', JNull)] gh_create_issue),
     (''create_pull_request'',
       retried_action [''owner'', ''repo'', ''title'', ''body'', ''head'', ''base''] [] gh_create_pull_request),
     (''get_pull_request'', retried_action [''owner'', ''repo'', ''pull_number''] [] gh_get_pull_request),
     (''list_issues'', (retried_action [''owner'', ''repo''] [(''state'', JStr ''open'')] gh_list_issues)
       \<lparr>ca_retry := retry_on_rate_limit 5\<rparr>),
     (''update_issue'', (retried_action [''owner'', ''repo'', ''issue_number''] [] gh_update_issue)
       \<lparr>ca_keywords := True\<rparr>)]"

section \<open>Jira\<close>

definition jira_issue_url :: "json dict \<Rightarrow> string" where
  "jira_issue_url a = ''/rest/api/3/issue/'' @ text_of a ''issue_key''"

definition jr_get_issue :: client_method where
  "jr_get_issue E a kw = call_json E ''GET'' (jira_issue_url a) [] NoBody
     (Some (''Issue '' @ text_of a ''issue_key'' @ '' not found''))"

definition jr_create_issue :: client_method where
  "jr_create_issue E a kw = call_json E ''POST'' ''/rest/api/3/issue'' []
     (JsonBody (JObj [(''fields'', JObj (dupdate
       [(''project'', JObj [(''key'', jget a ''project_key'')]), (''summary'', jget a ''summary''),
        (''description'', jget a ''description''), (''issuetype'', JObj [(''name'', jget a ''issue_type'')])] kw))]))
     None"

definition jr_update_issue :: client_method where
  "jr_update_issue E a kw = call_json E ''PUT'' (jira_issue_url a) [] (JsonBody (JObj [(''fields'', JObj kw)])) None"

definition jr_add_comment :: client_method where
  "jr_add_comment E a kw = call_json E ''POST'' (jira_issue_url a @ ''/comment'') []
     (JsonBody (JObj [(''body'', jget a ''comment'')])) None"

definition jr_transition_issue :: client_method where
  "jr_transition_issue E a kw = thn (checked E ''POST'' (jira_issue_url a @ ''/transitions'') []
     (JsonBody (JObj [(''transition'', JObj [(''id'', jget a ''transition_id'')])])) None) (ret JNull)"

definition jr_search_issues :: client_method where
  "jr_search_issues E a kw = bnd (call_json E ''GET'' ''/rest/api/3/search''
     [(''jql'', jget a ''jql''), (''maxResults'', jget a ''max_results'')] NoBody None) (\<lambda>data.
     value_of (py_get data ''issues'' (JArr [])))"

definition jr_get_project :: client_method where
  "jr_get_project E a kw =
     call_json E ''GET'' (''/rest/api/3/project/'' @ text_of a ''project_key'') [] NoBody None"

definition jira_client_actions :: "client_action dict" where
  "jira_client_actions = [
     (''get_issue'', retried_action [''issue_key''] [] jr_get_issue),
     (''create_issue'', (retried_action [''project_key'', ''summary'', ''description'']
       [(''issue_type'', JStr ''Task'')] jr_create_issue)\<lparr>ca_keywords := True\<rparr>),
     (''update_issue'', (retried_action [''issue_key''] [] jr_update_issue)\<lparr>ca_keywords := True\<rparr>),
     (''add_comment'', retried_action [''issue_key'', ''comment''] [] jr_add_comment),
     (''transition_issue'', retried_action [''issue_key'', ''transition_id''] [] jr_transition_issue),
     (''search_issues'', retried_action [''jql''] [(''max_results'', JInt 50)] jr_search_issues),
     (''get_project'', retried_action [''project_key''] [] jr_get_project)]"

section \<open>Slack\<close>

text \<open>\<open>result = resp.json(); if not result.get("ok"): raise ...\<close>.\<close>

definition slack_ok :: "string \<Rightarrow> json meth \<Rightarrow> json meth" where
  "slack_ok label m = bnd m (\<lambda>v. bnd (value_of (py_get v ''ok'' JNull)) (\<lambda>ok1.
     if truthy ok1 then ret v
     else bnd (value_of (py_get v ''error'' JNull)) (\<lambda>err.
       raise (Package Base_Error (label @ '' error: '' @ py_str err)))))"

definition slack_post :: "client_env \<Rightarrow> string \<Rightarrow> string \<Rightarrow> json dict \<Rightarrow> json meth" where
  "slack_post E label url data = slack_ok label (call_json E ''POST'' url [] (FormBody data) None)"

definition slack_get :: "client_env \<Rightarrow> string \<Rightarrow> string \<Rightarrow> json dict \<Rightarrow> string \<Rightarrow> json meth" where
  "slack_get E label url params key = bnd (slack_ok label (call_json E ''GET'' url params NoBody None)) (\<lambda>v.
     value_of (py_get v key (JArr [])))"

definition named :: "json dict \<Rightarrow> string list \<Rightarrow> json dict" where
  "named a ks = map (\<lambda>k. (k, jget a k)) ks"

definition sl_send_message :: client_method where
  "sl_send_message E a kw = slack_post E ''Slack'' ''/chat.postMessage''
     (put_truthy ''thread_ts'' (jget a ''thread_ts'') (named a [''channel'', ''text'']))"

definition sl_send_ephemeral :: client_method where
  "sl_send_ephemeral E a kw =
     slack_post E ''Slack ephemeral'' ''/chat.postEphemeral'' (named a [''channel'', ''user'', ''text''])"

definition sl_update_message :: client_method where
  "sl_update_message E a kw =
     slack_post E ''Slack update'' ''/chat.update'' (named a [''channel'', ''ts'', ''text''])"

definition sl_delete_message :: client_method where
  "sl_delete_message E a kw = slack_post E ''Slack delete'' ''/chat.delete'' (named a [''channel'', ''ts''])"

definition sl_get_channel_history :: client_method where
  "sl_get_channel_history E a kw =
     slack_get E ''Slack history'' ''/conversations.history'' (named a [''channel'', ''limit'']) ''messages''"

definition sl_list_channels :: client_method where
  "sl_list_channels E a kw =
     slack_get E ''Slack list channels'' ''/conversations.list'' (named a [''exclude_archived'']) ''channels''"

definition sl_list_users :: client_method where
  "sl_list_users E a kw = slack_get E ''Slack list users'' ''/users.list'' [] ''members''"

definition sl_add_reaction :: client_method where
  "sl_add_reaction E a kw =
     slack_post E ''Slack reaction'' ''/reactions.add'' (named a [''channel'', ''name'', ''timestamp''])"

definition slack_client_actions :: "client_action dict" where
  "slack_client_actions = [
     (''send_message'', retried_action [''channel'', ''text''] [(''thread_ts'', JNull)] sl_send_message),
     (''send_ephemeral'', retried_action [''channel'', ''user'', ''text''] [] sl_send_ephemeral),
     (''update_message'', retried_action [''channel'', ''ts'', ''text''] [] sl_update_message),
     (''delete_message'', retried_action [''channel'', ''ts''] [] sl_delete_message),
     (''get_channel_history'', retried_action [''channel''] [(''limit'', JInt 100)] sl_get_channel_history),
     (''list_channels'', retried_action [] [(''exclude_archived'', JBool True)] sl_list_channels),
     (''list_users'', retried_action [] [] sl_list_users),
     (''add_reaction'', retried_action [''channel'', ''name'', ''timestamp''] [] sl_add_reaction)]"

section \<open>Teams\<close>

definition teams_message :: "json dict \<Rightarrow> body" where
  "teams_message a = JsonBody (JObj [(''body'', JObj [(''content'', jget a ''message'')])])"

definition teams_values :: "client_env \<Rightarrow> string \<Rightarrow> json meth" where
  "teams_values E url = bnd (call_json E ''GET'' url [] NoBody None) (\<lambda>v.
     value_of (py_get v ''value'' (JArr [])))"

definition channel_url :: "json dict \<Rightarrow> string" where
  "channel_url a = ''/teams/'' @ text_of a ''team_id'' @ ''/channels/'' @ text_of a ''channel_id'' @ ''/messages''"

definition tm_send_message_to_channel :: client_method where
  "tm_send_message_to_channel E a kw = call_json E ''POST'' (channel_url a) [] (teams_message a) None"

definition tm_send_message_to_chat :: client_method where
  "tm_send_message_to_chat E a kw =
     call_json E ''POST'' (''/chats/'' @ text_of a ''chat_id'' @ ''/messages'') [] (teams_message a) None"

definition tm_list_teams :: client_method where
  "tm_list_teams E a kw = teams_values E ''/me/joinedTeams''"

definition tm_list_channels :: client_method where
  "tm_list_channels E a kw = teams_values E (''/teams/'' @ text_of a ''team_id'' @ ''/channels'')"

definition tm_get_message :: client_method where
  "tm_get_message E a kw =
     call_json E ''GET'' (channel_url a @ ''/'' @ text_of a ''message_id'') [] NoBody None"

definition teams_client_actions :: "client_action dict" where
  "teams_client_actions = [
     (''send_message_to_channel'',
       retried_action [''team_id'', ''channel_id'', ''message''] [] tm_send_message_to_channel),
     (''send_message_to_chat'', retried_action [''chat_id'', ''message''] [] tm_send_message_to_chat),
     (''list_teams'', retried_action [] [] tm_list_teams),
     (''list_channels'', retried_action [''team_id''] [] tm_list_channels),
     (''get_message'', retried_action [''team_id'', ''channel_id'', ''message_id''] [] tm_get_message)]"

section \<open>Documentation\<close>

text \<open>\<open>s.replace(old, new)\<close>, of a text that is not empty.\<close>

fun replace_text :: "string \<Rightarrow> string \<Rightarrow> string \<Rightarrow> string" where
  "replace_text old new [] = []"
| "replace_text old new (c # s) = (if old \<noteq> [] \<and> startswith (c # s) old
     then new @ replace_text old new (drop (length old - 1) s) else c # replace_text old new s)"

definition the_repository :: "string meth" where
  "the_repository = bnd (gets (\<lambda>s. in_repository_url (itself s))) (\<lambda>u. case u of
      Some url \<Rightarrow> ret url
    | None \<Rightarrow> raise (Python RuntimeError ''Documentation integration is not initialized''))"

definition api_url_of :: "string \<Rightarrow> string \<Rightarrow> string" where
  "api_url_of repository path =
    (if contains repository ''github.com''
     then let base = replace_text ''https://github.com/'' ''https://api.github.com/repos/'' repository;
              base2 = (if contains base ''/blob/'' then replace_text ''/blob/'' ''/contents/'' base
                else if contains base ''/tree/'' then replace_text ''/tree/'' ''/contents/'' base else base)
          in base2 @ ''/'' @ lstrip_slash path
     else rstrip_slash repository @ ''/'' @ lstrip_slash path)"

definition build_api_url :: "json \<Rightarrow> string meth" where
  "build_api_url path = bnd the_repository (\<lambda>repository.
     bnd (value_of (py_string ''lstrip'' path)) (\<lambda>p. ret (api_url_of repository p)))"

definition get_file_sha :: "client_env \<Rightarrow> json \<Rightarrow> json meth" where
  "get_file_sha E path = bnd (build_api_url path) (\<lambda>url. bnd (client_send E ''GET'' url [] NoBody) (\<lambda>resp.
     if http_status resp = 404 then ret JNull
     else thn (check_status resp) (bnd (value_of (http_json resp)) (\<lambda>data. value_of (py_get data ''sha'' JNull)))))"

definition doc_read_document :: client_method where
  "doc_read_document E a kw = bnd the_repository (\<lambda>repository.
     bnd (value_of (py_string ''lstrip'' (jget a ''path''))) (\<lambda>path.
     bnd (checked E ''GET'' (rstrip_slash repository @ ''/'' @ lstrip_slash path) [] NoBody
       (Some (''Document '' @ path @ '' not found''))) (\<lambda>resp.
     ret (JObj [(''path'', JStr path), (''content'', JStr (http_text resp)), (''raw'', JStr (http_text resp))]))))"

definition doc_write_document :: client_method where
  "doc_write_document E a kw = bnd (build_api_url (jget a ''path'')) (\<lambda>url.
     bnd (get_file_sha E (jget a ''path'')) (\<lambda>sha.
     bnd (value_of (py_string ''encode'' (jget a ''content''))) (\<lambda>content.
     call_json E ''PUT'' url [] (JsonBody (JObj (put_truthy ''sha'' sha
       [(''message'', jget a ''commit_message''), (''content'', JStr (b64_standard (utf8_bytes content)))]))) None)))"

definition doc_list_documents :: client_method where
  "doc_list_documents E a kw = bnd (build_api_url (jget a ''path'')) (\<lambda>url.
     bnd (client_send E ''GET'' url [] NoBody) (\<lambda>resp.
     if http_status resp = 404 then ret (JArr [])
     else thn (check_status resp) (bnd (value_of (http_json resp)) (\<lambda>data.
       ret (case data of JArr xs \<Rightarrow> data | _ \<Rightarrow> JArr [data])))))"

definition list_documents_action :: client_action where
  "list_documents_action = retried_action [] [(''path'', JStr [])] doc_list_documents"

text \<open>\<open>query.lower() in doc.get("name", "").lower()\<close> for each document, and \<open>results[:max_results]\<close>.\<close>

definition doc_matches :: "json \<Rightarrow> json \<Rightarrow> exn + bool" where
  "doc_matches query doc = (case py_string ''lower'' query of
      Inl e \<Rightarrow> Inl e
    | Inr q \<Rightarrow> (case py_get doc ''name'' (JStr []) of
        Inl e \<Rightarrow> Inl e
      | Inr name \<Rightarrow> map_sum id (\<lambda>n. contains (lower n) (lower q)) (py_string ''lower'' name)))"

fun doc_filter :: "json \<Rightarrow> json list \<Rightarrow> exn + json list" where
  "doc_filter query [] = Inr []"
| "doc_filter query (doc # docs) = (case doc_matches query doc of
      Inl e \<Rightarrow> Inl e
    | Inr hit \<Rightarrow> map_sum id (\<lambda>rest. if hit then doc # rest else rest) (doc_filter query docs))"

definition head_slice :: "json \<Rightarrow> 'a list \<Rightarrow> exn + 'a list" where
  "head_slice limit xs = (case limit of
      JNull \<Rightarrow> Inr xs
    | JInt n \<Rightarrow> Inr (if 0 \<le> n then take (nat n) xs else take (length xs - nat (- n)) xs)
    | JBool b \<Rightarrow> Inr (if b then take 1 xs else [])
    | _ \<Rightarrow> Inl (Builtin TypeError ''slice indices must be integers or None''))"

definition doc_search_documents :: client_method where
  "doc_search_documents E a kw = bnd (run_client_action E list_documents_action []) (\<lambda>all.
     bnd (value_of (py_iter all)) (\<lambda>docs. bnd (value_of (doc_filter (jget a ''query'') docs)) (\<lambda>results.
     bnd (value_of (head_slice (jget a ''max_results'') results)) (\<lambda>xs. ret (JArr xs)))))"

definition doc_delete_document :: client_method where
  "doc_delete_document E a kw = bnd (build_api_url (jget a ''path'')) (\<lambda>url.
     bnd (get_file_sha E (jget a ''path'')) (\<lambda>sha.
     if \<not> truthy sha then raise (Package Not_Found_Error (''File '' @ text_of a ''path'' @ '' not found''))
     else call_json E ''DELETE'' url [] (JsonBody (JObj [(''message'', jget a ''commit_message''), (''sha'', sha)]))
       None))"

definition documentation_client_actions :: "client_action dict" where
  "documentation_client_actions = [
     (''read_document'', retried_action [''path''] [] doc_read_document),
     (''write_document'', retried_action [''path'', ''content'']
       [(''commit_message'', JStr ''Update docs'')] doc_write_document),
     (''list_documents'', list_documents_action),
     (''search_documents'', retried_action [''query''] [(''max_results'', JInt 10)] doc_search_documents),
     (''delete_document'', retried_action [''path''] [(''commit_message'', JStr ''Delete doc'')] doc_delete_document)]"

section \<open>Actions and health of an instance\<close>

fun client_actions :: "integration_class \<Rightarrow> client_action dict" where
  "client_actions GitHub = github_client_actions"
| "client_actions Jira = jira_client_actions"
| "client_actions Slack = slack_client_actions"
| "client_actions Teams = teams_client_actions"
| "client_actions Documentation = documentation_client_actions"

text \<open>\<open>execute\<close>; \<open>run\<close> says how the method it finds is called.\<close>

definition dispatch_action ::
    "(client_env \<Rightarrow> client_action \<Rightarrow> json dict \<Rightarrow> json meth) \<Rightarrow> client_env \<Rightarrow> string \<Rightarrow> json dict \<Rightarrow> json meth" where
  "dispatch_action run E name kwargs = bnd (gets itself) (\<lambda>i. case dget (client_actions (in_class i)) name of
      None \<Rightarrow> raise (Python ValueError (''Unknown action for '' @ class_title (in_class i) @ '': '' @ name))
    | Some a \<Rightarrow> run E a kwargs)"

definition execute_integration :: "client_env \<Rightarrow> string \<Rightarrow> json dict \<Rightarrow> json meth" where
  "execute_integration E name kwargs = dispatch_action run_client_action E name kwargs"

text \<open>The \<open>try\<close> block of \<open>health_check\<close>, per class.\<close>

definition probe_ok :: "client_env \<Rightarrow> string \<Rightarrow> bool meth" where
  "probe_ok E url = bnd (client_send E ''GET'' url [] NoBody) (\<lambda>resp. ret (http_status resp = 200))"

definition github_probe :: "client_env \<Rightarrow> bool meth" where
  "github_probe E = probe_ok E ''/user''"

definition jira_probe :: "client_env \<Rightarrow> bool meth" where
  "jira_probe E = probe_ok E ''/rest/api/3/myself''"

definition slack_probe :: "client_env \<Rightarrow> bool meth" where
  "slack_probe E = bnd (client_send E ''GET'' ''/auth.test'' [] NoBody) (\<lambda>resp.
     if http_status resp \<noteq> 200 then ret False
     else bnd (value_of (http_json resp)) (\<lambda>v. bnd (value_of (py_get v ''ok'' JNull)) (\<lambda>ok1.
       ret (ok1 = JBool True))))"

definition teams_probe :: "client_env \<Rightarrow> bool meth" where
  "teams_probe E = probe_ok E ''/users?$top=1''"

definition documentation_probe :: "client_env \<Rightarrow> integration \<Rightarrow> bool meth" where
  "documentation_probe E i = bnd (client_send E ''GET'' (py_str (case in_repository_url i of
       Some u \<Rightarrow> JStr u | None \<Rightarrow> JNull) @ ''/README.md'') [] NoBody) (\<lambda>resp. ret (http_status resp < 400))"

definition health_probe :: "client_env \<Rightarrow> integration \<Rightarrow> bool meth" where
  "health_probe E i = (case in_class i of
      GitHub \<Rightarrow> github_probe E
    | Jira \<Rightarrow> jira_probe E
    | Slack \<Rightarrow> slack_probe E
    | Teams \<Rightarrow> teams_probe E
    | Documentation \<Rightarrow> documentation_probe E i)"

lemmas probes = github_probe_def jira_probe_def slack_probe_def teams_probe_def documentation_probe_def probe_ok_def

definition health_check :: "client_env \<Rightarrow> bool meth" where
  "health_check E = catch (bnd (gets itself) (health_probe E)) (\<lambda>_. ret False)"

text \<open>The bodies of the actions, for the proofs that go through all of them.\<close>

lemmas github_methods = gh_get_repository_def gh_get_file_def gh_create_branch_def gh_create_issue_def
  gh_create_pull_request_def gh_get_pull_request_def gh_list_issues_def gh_update_issue_def

lemmas jira_methods = jr_get_issue_def jr_create_issue_def jr_update_issue_def jr_add_comment_def
  jr_transition_issue_def jr_search_issues_def jr_get_project_def

lemmas slack_methods = sl_send_message_def sl_send_ephemeral_def sl_update_message_def
  sl_delete_message_def sl_get_channel_history_def sl_list_channels_def sl_list_users_def
  sl_add_reaction_def slack_post_def slack_get_def

lemmas teams_methods = tm_send_message_to_channel_def tm_send_message_to_chat_def tm_list_teams_def
  tm_list_channels_def tm_get_message_def teams_values_def

lemmas documentation_methods = doc_read_document_def doc_write_document_def doc_delete_document_def

end
