(* ===== verification/Client_Calm.thy ===== *)
theory Client_Calm
  imports Client_Integrations
begin

text \<open>
  What the decorators of the integrations do: nothing. The exceptions \<open>retry\<close> waits for are those of the
  package and of the language for time-outs, rate limits and connections, and no method raises one of
  them, since httpx has exceptions of its own and an error status becomes \<open>HTTPStatusError\<close>.
\<close>

section \<open>Exceptions a procedure raises\<close>

named_theorems raises_rules \<open>what the building blocks of a method raise\<close>

lemma raises_bnd [raises_rules]:
  "raises_only P m \<Longrightarrow> (\<And>x. raises_only P (f x)) \<Longrightarrow> raises_only P (bnd m f)"
  unfolding raises_only_def by (auto simp: bnd_def split: prod.splits sum.splits) (metis fst_conv)+

lemma raises_thn [raises_rules]: "raises_only P m \<Longrightarrow> raises_only P n \<Longrightarrow> raises_only P (thn m n)"
  unfolding thn_def by (rule raises_bnd)

lemma raises_simple [raises_rules]:
  "raises_only P (ret x)" "raises_only P (gets f)" "raises_only P (modify g)"
  by (simp_all add: raises_only_def ret_def gets_def modify_def)

lemma raises_raise [raises_rules]: "P e \<Longrightarrow> raises_only P (raise e)"
  by (simp add: raises_only_def raise_def)

lemma raises_if [raises_rules]:
  "(b \<Longrightarrow> raises_only P m) \<Longrightarrow> (\<not> b \<Longrightarrow> raises_only P n) \<Longrightarrow> raises_only P (if b then m else n)"
  by simp

lemma raises_option [raises_rules]:
  "raises_only P m \<Longrightarrow> (\<And>x. raises_only P (f x)) \<Longrightarrow> raises_only P (case v of None \<Rightarrow> m | Some x \<Rightarrow> f x)"
  by (simp split: option.splits)

lemma raises_prod [raises_rules]:
  "(\<And>x y. raises_only P (f x y)) \<Longrightarrow> raises_only P (case v of (x, y) \<Rightarrow> f x y)"
  by (simp split: prod.splits)

section \<open>Calm procedures\<close>

definition calm :: "('s, fault, 'a) proc \<Rightarrow> bool" where
  "calm m \<longleftrightarrow> raises_only (\<lambda>e. \<not> default_retryable e) m"

lemma calm_value_of: "calm (value_of r)"
  by (auto simp: calm_def raises_only_def value_of_def lift_def default_retryable_def fault_of_def
      map_sum_def split: sum.splits exn.splits)

lemma calm_seconds: "calm (lift (seconds v))"
  by (auto simp: calm_def raises_only_def lift_def seconds_def default_retryable_def split: json.splits)

lemma default_retryable_simps [simp]:
  "\<not> default_retryable (Python b t)" "\<not> default_retryable (Status_Error n)"
  "\<not> default_retryable (Transport_Error t)"
  "default_retryable (Package c t) \<longleftrightarrow> c = Package_Timeout \<or> c = Rate_Limit_Error"
  by (simp_all add: default_retryable_def)

lemmas calm_rules = raises_rules[where P = "\<lambda>e. \<not> default_retryable e", folded calm_def]
  calm_value_of calm_seconds

text \<open>The exceptions of httpx are neither connection errors nor time-outs of the language.\<close>

definition httpx_only :: "client_env \<Rightarrow> bool" where
  "httpx_only E \<longleftrightarrow> (\<forall>h r e. transport E h r = Inl e \<longrightarrow> (\<exists>t. e = Transport_Error t))"

lemma calm_exchange: "httpx_only E \<Longrightarrow> calm (exchange E r)"
  by (fastforce simp: calm_def raises_only_def exchange_def httpx_only_def)

lemma calm_token: "httpx_only E \<Longrightarrow> calm (get_access_token E)"
  unfolding get_access_token_def locked_token_def refresh_oauth_def the_oauth_def on_oauth_def on_self_def
  by (intro calm_rules calm_exchange | simp)+

lemma calm_authorize: "httpx_only E \<Longrightarrow> calm (authorize E a headers)"
  by (cases a) (auto simp: authorize_def intro!: calm_rules calm_token)

lemma calm_send: "httpx_only E \<Longrightarrow> calm (client_send E meth url params b)"
  unfolding client_send_def the_client_def
  by (intro calm_rules calm_authorize calm_exchange | simp)+

lemma calm_checked: "httpx_only E \<Longrightarrow> calm (checked E meth url params b missing)"
  unfolding checked_def check_status_def by (intro calm_rules calm_send | simp)+

lemma calm_call: "httpx_only E \<Longrightarrow> calm (call_json E meth url params b missing)"
  unfolding call_json_def by (intro calm_rules calm_checked)

lemmas calm_requests = calm_call calm_checked calm_send

text \<open>A decorated action is calm when its body is, and then the decorator does nothing.\<close>

lemma calm_run_once: "(\<And>args kw. calm (ca_run a E args kw)) \<Longrightarrow> calm (run_once E a kwargs)"
  unfolding run_once_def by (intro calm_rules)

definition patient :: "client_action \<Rightarrow> bool" where
  "patient a \<longleftrightarrow> (\<forall>e. retried (ca_retry a) e \<longrightarrow> default_retryable e)"

lemma undecorated:
  assumes "patient a" and "calm (run_once E a kwargs)"
  shows "run_client_action E a kwargs = run_once E a kwargs"
  unfolding run_client_action_def
  using assms by (intro retry_once) (auto simp: calm_def raises_only_def patient_def)

lemma patient_specs:
  "ca_retry a = retry_spec \<Longrightarrow> patient a" "ca_retry a = retry_on_rate_limit n \<Longrightarrow> patient a"
  by (auto simp: patient_def retry_spec_def retry_on_rate_limit_def default_retryable_def split: fault.splits)

section \<open>The actions\<close>

definition calm_action :: "client_env \<Rightarrow> client_action \<Rightarrow> bool" where
  "calm_action E a \<longleftrightarrow> patient a \<and> (\<forall>args kw. calm (ca_run a E args kw))"

lemma calm_actionI:
  assumes "\<And>args kw. calm (f E args kw)"
  shows "calm_action E (retried_action req opt f)"
    and "calm_action E ((retried_action req opt f)\<lparr>ca_keywords := k\<rparr>)"
    and "calm_action E ((retried_action req opt f)\<lparr>ca_retry := retry_on_rate_limit n\<rparr>)"
  using assms by (auto simp: calm_action_def intro: patient_specs)

lemma calm_action_runs: "calm_action E a \<Longrightarrow> run_client_action E a kwargs = run_once E a kwargs"
  by (intro undecorated calm_run_once) (simp_all add: calm_action_def)

lemma calm_github:
  assumes "httpx_only E"
  shows "list_all (calm_action E) (map snd github_client_actions)"
  unfolding github_client_actions_def list.map snd_conv list.pred_inject
  by (intro conjI list.pred_inject(1) calm_actionI;
      simp only: github_methods;
      rule calm_call[OF assms])

lemma calm_jira:
  assumes "httpx_only E"
  shows "list_all (calm_action E) (map snd jira_client_actions)"
  unfolding jira_client_actions_def list.map snd_conv list.pred_inject
  by (intro conjI list.pred_inject(1) calm_actionI;
      simp only: jira_methods;
      intro calm_rules calm_requests assms)

lemma calm_slack_ok: "calm m \<Longrightarrow> calm (slack_ok label m)"
  unfolding slack_ok_def by (intro calm_rules | simp)+

lemma calm_slack:
  assumes "httpx_only E"
  shows "list_all (calm_action E) (map snd slack_client_actions)"
  unfolding slack_client_actions_def list.map snd_conv list.pred_inject
  by (intro conjI list.pred_inject(1) calm_actionI;
      simp only: slack_methods;
      intro calm_rules calm_slack_ok calm_requests assms)

lemma calm_teams:
  assumes "httpx_only E"
  shows "list_all (calm_action E) (map snd teams_client_actions)"
  unfolding teams_client_actions_def list.map snd_conv list.pred_inject
  by (intro conjI list.pred_inject(1) calm_actionI;
      simp only: teams_methods;
      intro calm_rules calm_requests assms)

lemma calm_build_url: "calm (build_api_url path)" "calm the_repository"
  unfolding build_api_url_def the_repository_def by (intro calm_rules | simp)+

lemma calm_file_sha: "httpx_only E \<Longrightarrow> calm (get_file_sha E path)"
  unfolding get_file_sha_def check_status_def
  by (intro calm_rules calm_requests calm_build_url | simp)+

lemma calm_list_documents: "httpx_only E \<Longrightarrow> calm_action E list_documents_action"
  unfolding list_documents_action_def doc_list_documents_def check_status_def
  by (intro calm_actionI calm_rules calm_requests calm_build_url | simp)+

lemma calm_search:
  assumes "httpx_only E"
  shows "calm (doc_search_documents E a kw)"
proof -
  have "calm (run_client_action E list_documents_action [])"
    using calm_list_documents[OF assms]
    by (simp add: calm_action_runs) (simp add: calm_action_def calm_run_once)
  then show ?thesis
    unfolding doc_search_documents_def by (intro calm_rules)
qed

lemma calm_documentation:
  assumes "httpx_only E"
  shows "list_all (calm_action E) (map snd documentation_client_actions)"
  unfolding documentation_client_actions_def list.map snd_conv list.pred_inject
  by (intro conjI list.pred_inject(1) calm_actionI calm_list_documents[OF assms] calm_search[OF assms];
      simp only: documentation_methods;
      (intro calm_rules calm_requests calm_build_url calm_file_sha assms | simp)+)

lemma calm_client_actions:
  assumes "httpx_only E" and "dget (client_actions cls) name = Some a"
  shows "calm_action E a"
proof -
  have "list_all (calm_action E) (map snd (client_actions cls))"
    using assms(1) calm_github calm_jira calm_slack calm_teams calm_documentation
    by (cases cls) simp_all
  moreover have "a \<in> set (map snd (client_actions cls))"
    using map_of_SomeD[OF assms(2)] by force
  ultimately show ?thesis
    unfolding list_all_iff by (rule bspec)
qed

section \<open>Properties\<close>

text \<open>C25: The retry decorators of the integrations never retry anything: over a network that fails with the
  exceptions of httpx, \<open>execute\<close> does on every integration, for every action and all arguments exactly what
  the undecorated methods do. A server error or a lost connection ends the call at its first request.\<close>

theorem clients_never_retry:
  assumes "httpx_only E"
  shows "execute_integration E name kwargs = dispatch_action run_once E name kwargs"
proof
  fix s
  show "execute_integration E name kwargs s = dispatch_action run_once E name kwargs s"
  proof (cases "dget (client_actions (in_class (itself s))) name")
    case None
    show ?thesis
      unfolding execute_integration_def dispatch_action_def bnd_def gets_def prod.case sum.case None option.case ..
  next
    case (Some a)
    show ?thesis
      unfolding execute_integration_def dispatch_action_def bnd_def gets_def prod.case sum.case Some option.case
      using calm_action_runs[OF calm_client_actions[OF assms Some]] by (rule fun_cong)
  qed
qed

definition sample_github :: live where
  "sample_github = \<lparr>net_sent = [], net_now = 0, itself = (new_integration GitHub [])
     \<lparr>in_client := Some (plain_client ''https://api.github.com'' No_Auth)\<rparr>\<rparr>"

theorem clients_never_retry_witness:
  "\<exists>t. execute_integration (sample_client_env (json_answer 503 JNull) []) ''list_issues''
      [(''owner'', JStr ''o''), (''repo'', JStr ''r'')] sample_github = (Inl (Status_Error 503), t)
    \<and> length (net_sent t) = 1"
proof -
  let ?E = "sample_client_env (json_answer 503 JNull) []"
  let ?a = "(retried_action [''owner'', ''repo''] [(''state'', JStr ''open'')] gh_list_issues)
     \<lparr>ca_retry := retry_on_rate_limit 5\<rparr>"
  have "httpx_only ?E"
    by (simp add: httpx_only_def)
  note once = fun_cong[OF clients_never_retry[OF this, of "''list_issues''"
      "[(''owner'', JStr ''o''), (''repo'', JStr ''r'')]"], of sample_github]
  have look: "dget github_client_actions ''list_issues'' = Some ?a"
    by (simp add: github_client_actions_def)
  have "\<exists>t. run_once ?E ?a [(''owner'', JStr ''o''), (''repo'', JStr ''r'')] sample_github
      = (Inl (Status_Error 503), t) \<and> length (net_sent t) = 1"
    by (simp add: run_once_def bind_named_def has_key_def gh_list_issues_def call_json_def checked_def
        client_send_def the_client_def authorize_def exchange_def check_status_def value_of_def
        sample_github_def plain_client_def new_integration_def bnd_def thn_def gets_def ret_def lift_def raise_def)
  then show ?thesis
    unfolding once dispatch_action_def by (simp add: sample_github_def new_integration_def look bnd_def gets_def)
qed

end
