(* ===== verification/Client_Rate.thy ===== *)
theory Client_Rate
  imports Client_Core
begin

text \<open>
  \<open>utils/rate_limiter.py\<close> of the client package: \<open>TokenBucketRateLimiter\<close>. One turn of the loop of
  \<open>acquire\<close> runs under the lock and is \<open>try_acquire\<close>; the turns of concurrent tasks are a sequence of
  such steps at times that do not decrease, and \<open>acquire\<close> is the loop of a task that is alone. Numbers
  are rational where Python rounds to floats. \<open>initial_tokens\<close> of the constructor is never read.
\<close>

section \<open>The limiter\<close>

record limiter =
  rate :: rat
  capacity :: int
  tokens :: "rat dict"
  last_refill :: "rat dict"

definition new_limiter :: "rat \<Rightarrow> int \<Rightarrow> int option \<Rightarrow> limiter" where
  "new_limiter r c initial_tokens = \<lparr>rate = r, capacity = c, tokens = [], last_refill = []\<rparr>"

text \<open>A new key starts full.\<close>

definition open_bucket :: "rat \<Rightarrow> string \<Rightarrow> limiter \<Rightarrow> limiter" where
  "open_bucket now key L = (if has_key (tokens L) key then L
     else L\<lparr>tokens := dset key (of_int (capacity L)) (tokens L), last_refill := dset key now (last_refill L)\<rparr>)"

text \<open>Both dictionaries have the same keys.\<close>

definition held :: "rat dict \<Rightarrow> string \<Rightarrow> rat" where
  "held d key = (case dget d key of Some x \<Rightarrow> x | None \<Rightarrow> 0)"

definition refill :: "rat \<Rightarrow> string \<Rightarrow> limiter \<Rightarrow> limiter" where
  "refill now key L =
    (let new_tokens = (now - held (last_refill L) key) * rate L in
     if 0 < new_tokens
     then L\<lparr>tokens := dset key (min (of_int (capacity L)) (held (tokens L) key + new_tokens)) (tokens L),
            last_refill := dset key now (last_refill L)\<rparr>
     else L)"

datatype turn = Acquired | Wait rat | Broken fault

definition try_acquire :: "rat \<Rightarrow> string \<Rightarrow> limiter \<Rightarrow> turn \<times> limiter" where
  "try_acquire now key L =
    (let L1 = refill now key (open_bucket now key L); t = held (tokens L1) key in
     if 1 \<le> t then (Acquired, L1\<lparr>tokens := dset key (t - 1) (tokens L1)\<rparr>)
     else if rate L1 = 0 then (Broken (Python OtherException ''float division by zero''), L1)
     else (Wait ((1 - t) / rate L1), L1))"

text \<open>The loop alone: a turn, and after a sleep the next one; \<open>fuel\<close> bounds the turns. It returns the
  time of the turn that acquired.\<close>

fun acquire :: "nat \<Rightarrow> rat \<Rightarrow> string \<Rightarrow> limiter \<Rightarrow> ((fault + rat) \<times> limiter) option" where
  "acquire 0 now key L = None"
| "acquire (Suc fuel) now key L = (case try_acquire now key L of
      (Acquired, L') \<Rightarrow> Some (Inr now, L')
    | (Broken e, L') \<Rightarrow> Some (Inl e, L')
    | (Wait w, L') \<Rightarrow> acquire fuel (now + max 0 w) key L')"

text \<open>Turns of any tasks, each with its time and key; the outcome of each.\<close>

fun turns :: "(rat \<times> string) list \<Rightarrow> limiter \<Rightarrow> (string \<times> turn) list \<times> limiter" where
  "turns [] L = ([], L)"
| "turns ((now, key) # evs) L = (case try_acquire now key L of (o1, L') \<Rightarrow>
     (case turns evs L' of (os, L'') \<Rightarrow> ((key, o1) # os, L'')))"

definition granted :: "string \<Rightarrow> (string \<times> turn) list \<Rightarrow> nat" where
  "granted key os = length (filter (\<lambda>x. x = (key, Acquired)) os)"

section \<open>The level of a bucket\<close>

text \<open>What \<open>key\<close> would hold at \<open>now\<close>, refilled.\<close>

definition level :: "limiter \<Rightarrow> string \<Rightarrow> rat \<Rightarrow> rat" where
  "level L key now = (if has_key (tokens L) key
     then min (of_int (capacity L)) (held (tokens L) key + (now - held (last_refill L) key) * rate L)
     else of_int (capacity L))"

definition sound :: "limiter \<Rightarrow> rat \<Rightarrow> bool" where
  "sound L now \<longleftrightarrow> 0 \<le> rate L \<and> 0 \<le> capacity L \<and> (\<forall>key. has_key (tokens L) key \<longrightarrow>
     0 \<le> held (tokens L) key \<and> held (tokens L) key \<le> of_int (capacity L)
     \<and> held (last_refill L) key \<le> now)"

lemma stored_dset [simp]: "held (dset k v d) j = (if j = k then v else held d j)"
  by (simp add: held_def)

lemma has_key_dset [simp]: "has_key (dset k v d) j \<longleftrightarrow> j = k \<or> has_key d j"
  by (auto simp: has_key_def dom_update)

lemma sound_later: "sound L now \<Longrightarrow> now \<le> t \<Longrightarrow> sound L t"
  by (force simp: sound_def)

text \<open>The bucket of \<open>key\<close> after the refill of a turn.\<close>

lemma refilled:
  fixes key :: string
  assumes "sound L now"
  defines "L1 \<equiv> refill now key (open_bucket now key L)"
  shows "held (tokens L1) key = level L key now" and "has_key (tokens L1) key"
    and "(t - held (last_refill L1) key) * rate L = (t - now) * rate L"
    and "held (last_refill L1) key \<le> now" and "rate L1 = rate L" and "capacity L1 = capacity L"
    and "j \<noteq> key \<Longrightarrow> held (tokens L1) j = held (tokens L) j"
    and "j \<noteq> key \<Longrightarrow> held (last_refill L1) j = held (last_refill L) j"
    and "j \<noteq> key \<Longrightarrow> has_key (tokens L1) j \<longleftrightarrow> has_key (tokens L) j"
proof -
  have nonneg: "0 \<le> (now - held (last_refill L) key) * rate L" if "has_key (tokens L) key"
    using assms(1) that by (auto simp: sound_def)
  have zero: "(now - held (last_refill L) key) * rate L = 0"
    if "has_key (tokens L) key" "\<not> 0 < (now - held (last_refill L) key) * rate L"
    using nonneg[OF that(1)] that(2) by (simp only: not_less order_antisym)
  show "held (tokens L1) key = level L key now"
    using assms(1) zero by (auto simp: L1_def refill_def open_bucket_def level_def sound_def Let_def)
  show "has_key (tokens L1) key" "rate L1 = rate L" "capacity L1 = capacity L"
    by (auto simp: L1_def refill_def open_bucket_def Let_def)
  show "held (last_refill L1) key \<le> now"
    using assms(1) by (auto simp: L1_def refill_def open_bucket_def sound_def Let_def)
  show "j \<noteq> key \<Longrightarrow> held (tokens L1) j = held (tokens L) j"
    "j \<noteq> key \<Longrightarrow> held (last_refill L1) j = held (last_refill L) j"
    "j \<noteq> key \<Longrightarrow> has_key (tokens L1) j \<longleftrightarrow> has_key (tokens L) j"
    by (auto simp: L1_def refill_def open_bucket_def Let_def)
  have "(now - held (last_refill L1) key) * rate L = 0"
    using zero by (auto simp: L1_def refill_def open_bucket_def Let_def)
  then show "(t - held (last_refill L1) key) * rate L = (t - now) * rate L"
    by (auto simp: algebra_simps)
qed

lemma level_bounds:
  assumes "sound L now"
  shows "0 \<le> level L key now" and "level L key now \<le> of_int (capacity L)"
proof -
  have "0 \<le> (now - held (last_refill L) key) * rate L" if "has_key (tokens L) key"
    using assms that by (auto simp: sound_def)
  then show "0 \<le> level L key now" "level L key now \<le> of_int (capacity L)"
    using assms by (auto simp: level_def sound_def)
qed

lemma level_grows:
  assumes "sound L now" and "now \<le> t"
  shows "level L key t \<le> level L key now + (t - now) * rate L"
proof -
  have "0 \<le> (t - now) * rate L"
    using assms by (simp add: sound_def)
  moreover have "(t - held (last_refill L) key) * rate L
      = (now - held (last_refill L) key) * rate L + (t - now) * rate L"
    by (simp add: algebra_simps)
  ultimately show ?thesis
    by (auto simp: level_def)
qed

text \<open>A turn: it acquires exactly when the level reaches one, and takes one.\<close>

lemma try_acquire_effect:
  fixes key :: string
  assumes sound: "sound L now" and turn: "try_acquire now key L = (o1, L')"
  shows "sound L' now" and "rate L' = rate L" and "capacity L' = capacity L"
    and "o1 = Acquired \<longleftrightarrow> 1 \<le> level L key now"
    and "o1 = Wait w \<Longrightarrow> w = (1 - level L key now) / rate L"
    and "level L' key now = level L key now - (if o1 = Acquired then 1 else 0)"
    and "j \<noteq> key \<Longrightarrow> level L' j t = level L j t"
    and "o1 = Broken e \<Longrightarrow> rate L = 0"
proof -
  define L1 where "L1 = refill now key (open_bucket now key L)"
  note r = refilled[OF sound, where key = key, folded L1_def]
  note lv = level_bounds[OF sound, of key]
  have att: "try_acquire now key L = (if 1 \<le> level L key now
      then (Acquired, L1\<lparr>tokens := dset key (level L key now - 1) (tokens L1)\<rparr>)
      else if rate L = 0 then (Broken (Python OtherException ''float division by zero''), L1)
      else (Wait ((1 - level L key now) / rate L), L1))"
    using r(1,5) by (simp add: try_acquire_def L1_def[symmetric] Let_def)
  have same: "(now - held (last_refill L1) key) * rate L = 0"
    using r(3)[where t = now] by simp
  show "rate L' = rate L" "capacity L' = capacity L" "o1 = Acquired \<longleftrightarrow> 1 \<le> level L key now"
    "o1 = Wait w \<Longrightarrow> w = (1 - level L key now) / rate L" "o1 = Broken e \<Longrightarrow> rate L = 0"
    using turn r(5,6) unfolding att by (auto split: if_splits)
  have L1: "sound L1 now"
    using sound r lv unfolding sound_def by metis
  then show "sound L' now"
    using turn lv r(1,2,6) unfolding att sound_def by (auto split: if_splits)
  show "level L' key now = level L key now - (if o1 = Acquired then 1 else 0)"
    using turn lv r(1,2,5,6) same unfolding att level_def[of L'] by (auto split: if_splits)
  show "level L' j t = level L j t" if "j \<noteq> key"
    using turn r(5,6) r(7-9)[OF that] that unfolding att level_def by (auto split: if_splits)
qed

lemma granted_within:
  assumes "sound L t0" and "turns evs L = (os, L')" and "sorted (map fst evs)"
    and "\<And>x. x \<in> set evs \<Longrightarrow> t0 \<le> fst x \<and> fst x \<le> T" and "t0 \<le> T"
  shows "of_nat (granted key os) \<le> level L key t0 + (T - t0) * rate L"
  using assms
proof (induction evs arbitrary: L t0 os)
  case Nil
  then show ?case
    using level_bounds(1)[OF Nil.prems(1), of key] by (auto simp: granted_def sound_def)
next
  case (Cons ev evs)
  obtain now k where ev: "ev = (now, k)"
    by (cases ev)
  obtain o1 L1 where att: "try_acquire now k L = (o1, L1)"
    by (cases "try_acquire now k L")
  obtain os1 where rest: "turns evs L1 = (os1, L')" "os = (k, o1) # os1"
    using Cons.prems(2) by (auto simp: ev att split: prod.splits)
  have now: "t0 \<le> now" "now \<le> T"
    using Cons.prems(4)[of ev] by (simp_all add: ev)
  note s = sound_later[OF Cons.prems(1) now(1)]
  note eff = try_acquire_effect[OF s att]
  have "of_nat (granted key os1) \<le> level L1 key now + (T - now) * rate L1"
    using Cons.prems(3,4) now(2) by (intro Cons.IH[OF eff(1) rest(1)]) (auto simp: ev)
  moreover have "level L1 key now = level L key now - (if k = key \<and> o1 = Acquired then 1 else 0)"
    using eff(6) eff(7)[of key now] by (cases "k = key") auto
  moreover have "of_nat (granted key os) = (of_nat (granted key os1) + (if k = key \<and> o1 = Acquired then 1 else 0) :: rat)"
    by (auto simp: granted_def rest(2))
  ultimately have "of_nat (granted key os) \<le> level L key now + (T - now) * rate L"
    using eff(2) by (simp split: if_splits)
  also have "\<dots> \<le> level L key t0 + (now - t0) * rate L + (T - now) * rate L"
    using level_grows[OF Cons.prems(1) now(1), of key] by simp
  finally show ?case
    by (simp add: algebra_simps)
qed

lemma new_limiter_sound: "0 \<le> r \<Longrightarrow> 0 \<le> c \<Longrightarrow> sound (new_limiter r c i) now"
  by (simp add: sound_def new_limiter_def has_key_def)

lemma turns_sound:
  "sound L t0 \<Longrightarrow> turns evs L = (os, L') \<Longrightarrow> sorted (map fst evs) \<Longrightarrow>
   (\<And>x. x \<in> set evs \<Longrightarrow> t0 \<le> fst x \<and> fst x \<le> T) \<Longrightarrow> t0 \<le> T \<Longrightarrow>
   sound L' T \<and> rate L' = rate L \<and> capacity L' = capacity L"
proof (induction evs arbitrary: L t0 os)
  case Nil
  then show ?case
    using sound_later by auto
next
  case (Cons ev evs)
  obtain now k where ev: "ev = (now, k)"
    by (cases ev)
  obtain o1 L1 where att: "try_acquire now k L = (o1, L1)"
    by (cases "try_acquire now k L")
  obtain os1 where rest: "turns evs L1 = (os1, L')"
    using Cons.prems(2) by (auto simp: ev att split: prod.splits)
  have now: "t0 \<le> now" "now \<le> T"
    using Cons.prems(4)[of ev] by (simp_all add: ev)
  note eff = try_acquire_effect[OF sound_later[OF Cons.prems(1) now(1)] att]
  have "sound L' T \<and> rate L' = rate L1 \<and> capacity L' = capacity L1"
    using Cons.prems(3,4) now(2) by (intro Cons.IH[OF eff(1) rest]) (auto simp: ev)
  then show ?case
    using eff(2,3) by simp
qed

text \<open>Below the capacity a level grows linearly until the capacity.\<close>

lemma level_after:
  assumes "level L key now < of_int (capacity L)"
  shows "level L key t = min (of_int (capacity L)) (level L key now + (t - now) * rate L)"
proof -
  have "(t - held (last_refill L) key) * rate L
      = (now - held (last_refill L) key) * rate L + (t - now) * rate L"
    by (simp add: algebra_simps)
  then show ?thesis
    using assms by (auto simp: level_def split: if_splits)
qed

lemma try_acquire_ready:
  assumes "sound L now" and "1 \<le> level L key now"
  obtains L' where "try_acquire now key L = (Acquired, L')"
  using try_acquire_effect(4)[OF assms(1), of key] assms(2) by (metis surj_pair)

lemma acquire_waits_once:
  assumes "sound L now" and "0 < rate L" and "1 \<le> capacity L"
  shows "\<exists>L'. acquire 2 now key L = Some (Inr (now + max 0 ((1 - level L key now) / rate L)), L')"
proof (cases "1 \<le> level L key now")
  case True
  then have "(1 - level L key now) / rate L \<le> 0"
    using assms(2) by (simp add: divide_nonpos_pos)
  moreover obtain L' where "try_acquire now key L = (Acquired, L')"
    using try_acquire_ready[OF assms(1) True] .
  ultimately show ?thesis
    by (simp add: numeral_2_eq_2)
next
  case False
  define w where "w = (1 - level L key now) / rate L"
  have w: "0 < w" "w * rate L = 1 - level L key now"
    using False assms(2) by (simp_all add: w_def)
  obtain o1 L1 where att: "try_acquire now key L = (o1, L1)"
    by (cases "try_acquire now key L")
  note eff = try_acquire_effect[OF assms(1) att]
  have o1: "o1 = Wait w"
    using eff(4,5,8) False assms(2) by (cases o1) (auto simp: w_def)
  have "level L1 key now = level L key now"
    using eff(6) o1 by simp
  then have "level L1 key (now + w) = min (of_int (capacity L)) (level L key now + w * rate L)"
    using level_after[of L1 key now "now + w"] False assms(3) eff(2,3) by simp
  then have "1 \<le> level L1 key (now + w)"
    using assms(3) w(2) by simp
  moreover have "sound L1 (now + w)"
    using sound_later[OF eff(1)] w(1) by simp
  ultimately obtain L' where "try_acquire (now + w) key L1 = (Acquired, L')"
    using try_acquire_ready by blast
  then show ?thesis
    using w(1) by (simp add: numeral_2_eq_2 att o1 w_def[symmetric] max_def)
qed

lemma acquire_never:
  assumes "sound L now" and "0 < rate L" and "capacity L = 0"
  shows "acquire fuel now key L = None"
  using assms
proof (induction fuel arbitrary: now L)
  case (Suc fuel)
  obtain o1 L1 where att: "try_acquire now key L = (o1, L1)"
    by (cases "try_acquire now key L")
  note eff = try_acquire_effect[OF Suc.prems(1) att]
  have "o1 \<noteq> Acquired"
    using eff(4) level_bounds(2)[OF Suc.prems(1), of key] Suc.prems(3) by auto
  then obtain w where "o1 = Wait w"
    using eff(8) Suc.prems(2) by (cases o1) auto
  moreover have "acquire fuel (now + max 0 w) key L1 = None"
    using Suc.IH sound_later[OF eff(1), of "now + max 0 w"] eff(2,3) Suc.prems(2,3) by simp
  ultimately show ?case
    by (simp add: att)
qed simp

section \<open>Properties\<close>

text \<open>C14: The rate limit holds in every window of every interleaving: whatever turns came before, between
  two times at most the capacity plus the rate times the length of the window is acquired for a key,
  and a level never leaves the range from zero to the capacity.\<close>

theorem rate_limit_respected:
  assumes "0 \<le> r" and "0 \<le> c" and "sorted (map fst (before @ evs))"
    and "\<And>x. x \<in> set before \<Longrightarrow> t0 \<le> fst x \<and> fst x \<le> t1" and "t0 \<le> t1"
    and "\<And>x. x \<in> set evs \<Longrightarrow> t1 \<le> fst x \<and> fst x \<le> t2" and "t1 \<le> t2"
    and "turns before (new_limiter r c initial) = (os0, L)" and "turns evs L = (os, L')"
  shows "of_nat (granted key os) \<le> of_int c + (t2 - t1) * r
    \<and> 0 \<le> level L' key t2 \<and> level L' key t2 \<le> of_int c"
proof -
  have s: "sorted (map fst before)" "sorted (map fst evs)"
    using assms(3) by (simp_all add: sorted_append)
  have L: "sound L t1 \<and> rate L = r \<and> capacity L = c"
    using turns_sound[OF new_limiter_sound[OF assms(1,2)] assms(8) s(1) assms(4,5)]
    by (simp add: new_limiter_def)
  then have L': "sound L' t2 \<and> rate L' = r \<and> capacity L' = c"
    using turns_sound[of L t1 evs, OF _ assms(9) s(2) assms(6,7)] by simp
  have "of_nat (granted key os) \<le> level L key t1 + (t2 - t1) * r"
    using granted_within[of L t1, OF _ assms(9) s(2) assms(6,7)] L by simp
  then show ?thesis
    using level_bounds[of L t1 key] level_bounds[of L' t2 key] L L' by auto
qed

text \<open>A task that is alone acquires at its second turn at the latest, exactly when the bucket has
  refilled to one; with a capacity of zero \<open>acquire\<close> never returns, whatever it waits.\<close>

theorem acquire_alone:
  assumes "sound L now" and "0 < rate L"
  shows "(1 \<le> capacity L \<longrightarrow>
      (\<exists>L'. acquire 2 now key L = Some (Inr (now + max 0 ((1 - level L key now) / rate L)), L')))
    \<and> (capacity L = 0 \<longrightarrow> (\<forall>fuel. acquire fuel now key L = None))"
  using acquire_waits_once[OF assms] acquire_never[OF assms] by blast

section \<open>Witnesses\<close>

theorem rate_limit_respected_witness:
  "turns [(0, ''k''), (0, ''k''), (0, ''k''), (1/2, ''k''), (1, ''k'')] (new_limiter 1 2 None) =
     ([(''k'', Acquired), (''k'', Acquired), (''k'', Wait 1), (''k'', Wait (1/2)), (''k'', Acquired)],
      \<lparr>rate = 1, capacity = 2, tokens = [(''k'', 0)], last_refill = [(''k'', 1)]\<rparr>)
   \<and> (of_nat (granted ''k'' [(''k'', Acquired), (''k'', Acquired), (''k'', Wait 1), (''k'', Wait (1/2)), (''k'', Acquired)]) :: rat)
      \<le> of_int 2 + (1 - 0) * 1"
proof -
  have run: "turns [(0, ''k''), (0, ''k''), (0, ''k''), (1/2, ''k''), (1, ''k'')] (new_limiter 1 2 None) =
     ([(''k'', Acquired), (''k'', Acquired), (''k'', Wait 1), (''k'', Wait (1/2)), (''k'', Acquired)],
      \<lparr>rate = 1, capacity = 2, tokens = [(''k'', 0)], last_refill = [(''k'', 1)]\<rparr>)"
    by code_simp
  have none: "turns [] (new_limiter 1 2 None) = ([], new_limiter 1 2 None)"
    by simp
  have times: "(0 :: rat) \<le> fst x \<and> fst x \<le> 1"
    if "x \<in> set [(0, ''k''), (0, ''k''), (0, ''k''), (1/2, ''k''), (1, ''k'')]" for x
    using that by auto
  have order: "sorted (map fst ([] @ [(0 :: rat, ''k''), (0, ''k''), (0, ''k''), (1/2, ''k''), (1, ''k'')]))"
    by simp
  have "of_nat (granted ''k'' [(''k'', Acquired), (''k'', Acquired), (''k'', Wait 1), (''k'', Wait (1/2)), (''k'', Acquired)])
      \<le> of_int 2 + (1 - 0) * (1 :: rat)"
    using rate_limit_respected[OF _ _ order _ _ times _ none run, of 0 "''k''"] by simp
  with run show ?thesis
    by (rule conjI)
qed

definition sample_limiter :: limiter where
  "sample_limiter = \<lparr>rate = 1, capacity = 1, tokens = [(''k'', 1/4)], last_refill = [(''k'', 0)]\<rparr>"

theorem acquire_alone_witness: "\<exists>L'. acquire 2 0 ''k'' sample_limiter = Some (Inr (3/4), L')"
proof -
  have s: "sound sample_limiter 0"
    by (auto simp: sound_def sample_limiter_def has_key_def held_def)
  have v: "level sample_limiter ''k'' 0 = 1/4" "rate sample_limiter = 1" "capacity sample_limiter = 1"
    by (simp_all add: level_def sample_limiter_def has_key_def held_def)
  show ?thesis
    using acquire_alone[OF s, of "''k''"] by (simp add: v)
qed

end
