(* ===== verification/Client_Manager.thy ===== *)
theory Client_Manager
  imports Client_Integrations
begin

text \<open>
  \<open>core/registry.py\<close> and \<open>core/manager.py\<close> of the client package: the class-level table of the registered
  integrations and \<open>IntegrationManager\<close>, which loads an integration at its first use, runs actions on it,
  checks the health of all and closes them. A hub is the network, the registry and the instances of a
  manager with their configurations; the argument \<open>key\<close> is the \<open>SecretManager\<close> of the manager's
  \<open>CredentialManager\<close>. No task is interrupted between two awaits that do not wait for the network.
\<close>

section \<open>Registry\<close>

type_synonym integration_registry = "integration_class dict"

definition reg_register :: "string \<Rightarrow> integration_class \<Rightarrow> integration_registry \<Rightarrow> integration_registry" where
  "reg_register name cls r = dset (lower name) cls r"

definition reg_get :: "integration_registry \<Rightarrow> string \<Rightarrow> integration_class option" where
  "reg_get r name = dget r (lower name)"

definition reg_names :: "integration_registry \<Rightarrow> string list" where
  "reg_names r = dkeys r"

text \<open>Importing a package of \<open>integrations\<close> registers its class.\<close>

fun package_name :: "integration_class \<Rightarrow> string" where
  "package_name GitHub = ''github''"
| "package_name Jira = ''jira''"
| "package_name Slack = ''slack''"
| "package_name Teams = ''teams''"
| "package_name Documentation = ''documentation''"

definition import_integration :: "integration_class \<Rightarrow> integration_registry \<Rightarrow> integration_registry" where
  "import_integration cls r = reg_register (package_name cls) cls r"

section \<open>Manager\<close>

record integration_config =
  cfg_name :: string
  cfg_enabled :: bool
  cfg_credentials :: "json dict"
  cfg_extra :: "json dict"

record hub = net +
  hub_registry :: integration_registry
  hub_instances :: "integration dict"
  hub_configs :: "integration_config dict"

type_synonym 'a managed = "(hub, fault, 'a) proc"

text \<open>A method of an instance, on the network of the hub.\<close>

definition live_of :: "hub \<Rightarrow> integration \<Rightarrow> live" where
  "live_of h i = \<lparr>net_sent = net_sent h, net_now = net_now h, itself = i\<rparr>"

definition after :: "hub \<Rightarrow> live \<Rightarrow> hub" where
  "after h l = h\<lparr>net_sent := net_sent l, net_now := net_now l\<rparr>"

definition on_new :: "integration \<Rightarrow> unit meth \<Rightarrow> integration managed" where
  "on_new i m = (\<lambda>h. case m (live_of h i) of (r, l) \<Rightarrow> (map_sum id (\<lambda>_. itself l) r, after h l))"

definition on_instance :: "string \<Rightarrow> 'a meth \<Rightarrow> 'a managed" where
  "on_instance name m = (\<lambda>h. case dget (hub_instances h) name of
      None \<Rightarrow> (Inl (Python KeyError (repr_str name)), h)
    | Some i \<Rightarrow> (case m (live_of h i) of (r, l) \<Rightarrow>
        (r, (after h l)\<lparr>hub_instances := dset name (itself l) (hub_instances h)\<rparr>)))"

definition load_integration :: "client_env \<Rightarrow> string \<Rightarrow> string \<Rightarrow> unit managed" where
  "load_integration E key name0 = (let name = lower name0 in bnd (gets id) (\<lambda>h.
     if has_key (hub_instances h) name then ret ()
     else case reg_get (hub_registry h) name of
       None \<Rightarrow> raise (Package Configuration_Error (''Integration '' @ [CHR 0x27] @ name @ [CHR 0x27] @ '' not registered.''))
     | Some cls \<Rightarrow>
         bnd (lift (get_credentials E key name)) (\<lambda>creds.
         bnd (on_new (new_integration cls creds) initialize) (\<lambda>inst.
         modify (\<lambda>h. h\<lparr>hub_instances := dset name inst (hub_instances h),
           hub_configs := dset name \<lparr>cfg_name = name, cfg_enabled = True, cfg_credentials = creds, cfg_extra = []\<rparr>
             (hub_configs h)\<rparr>)))))"

definition need_integration :: "client_env \<Rightarrow> string \<Rightarrow> string \<Rightarrow> unit managed" where
  "need_integration E key name = bnd (gets hub_instances) (\<lambda>known.
     if has_key known name then ret () else load_integration E key name)"

definition manager_execute :: "client_env \<Rightarrow> string \<Rightarrow> string \<Rightarrow> string \<Rightarrow> json dict \<Rightarrow> json managed" where
  "manager_execute E key integration_name action kwargs = (let name = lower integration_name in
     thn (need_integration E key name) (on_instance name (execute_integration E action kwargs)))"

definition get_integration :: "client_env \<Rightarrow> string \<Rightarrow> string \<Rightarrow> integration managed" where
  "get_integration E key name0 = (let name = lower name0 in
     thn (need_integration E key name) (on_instance name (gets itself)))"

text \<open>\<open>except (IntegrationError, RuntimeError)\<close>: another exception ends the check of all.\<close>

definition health_caught :: "fault \<Rightarrow> bool" where
  "health_caught e = (case e of Package _ _ \<Rightarrow> True | Python b _ \<Rightarrow> b = RuntimeError | _ \<Rightarrow> False)"

definition health_of :: "client_env \<Rightarrow> string \<Rightarrow> string \<Rightarrow> (string \<times> bool) managed" where
  "health_of E key name = catch
     (thn (need_integration E key name) (bnd (on_instance name (health_check E)) (\<lambda>ok1. ret (name, ok1))))
     (\<lambda>e. if health_caught e then ret (name, False) else raise e)"

definition health_check_all :: "client_env \<Rightarrow> string \<Rightarrow> (string \<times> bool) list managed" where
  "health_check_all E key = bnd (gets (\<lambda>h. reg_names (hub_registry h))) (\<lambda>names.
     for_each names (health_of E key))"

text \<open>Closing an instance raises nothing that is not logged; then all are dropped.\<close>

definition close_all :: "unit managed" where
  "close_all = bnd (gets (\<lambda>h. dkeys (hub_instances h))) (\<lambda>names.
     thn (for_each names (\<lambda>name. catch (on_instance name close_integration) (\<lambda>_. ret ())))
         (modify (\<lambda>h. h\<lparr>hub_instances := []\<rparr>)))"

section \<open>What a method leaves of its instance\<close>

text \<open>The class, the client and the state of the initialization; only the token of \<open>OAuth2Auth\<close> changes.\<close>

definition shape_of :: "integration \<Rightarrow> integration_class \<times> http_client option \<times> bool" where
  "shape_of i = (in_class i, in_client i, in_initialized i)"

abbreviation steady :: "integration_class \<times> http_client option \<times> bool \<Rightarrow> live \<Rightarrow> bool" where
  "steady c s \<equiv> shape_of (itself s) = c"

lemma keeps_retried:
  assumes "keeps I m" and "\<And>w. keeps I (pause w)" and "on_retry R = None"
  shows "keeps I (retry hash pause R m)"
proof -
  have "keeps I (retry_from hash pause R m attempt)" for attempt
  proof (induction "nat (retry_attempts R - attempt)" arbitrary: attempt)
    case 0
    then show ?case
      unfolding retry_from.simps[of _ _ _ _ attempt] using assms by (auto intro!: keeps_rules)
  next
    case (Suc n)
    then have "keeps I (retry_from hash pause R m (attempt + 1))"
      by simp
    then show ?case
      unfolding retry_from.simps[of _ _ _ _ attempt] notify_def assms(3) option.case
      using assms(1,2) by (auto intro!: keeps_rules)
  qed
  then show ?thesis
    by (simp add: retry_def)
qed

named_theorems steady_rules \<open>the requests of a method leave the shape of its instance\<close>

lemma steady_parts [steady_rules]:
  "keeps (steady c) (pause w)" "keeps (steady c) (exchange E r)" "keeps (steady c) (on_oauth f)"
  "keeps (steady c) (value_of v)"
  by (simp_all add: keeps_def pause_def exchange_def on_oauth_def on_self_def modify_def shape_of_def
      value_of_def lift_def)

lemma steady_oauth [steady_rules]: "keeps (steady c) the_oauth"
  unfolding the_oauth_def by (intro keeps_rules)

lemma steady_refresh [steady_rules]: "keeps (steady c) (refresh_oauth E o1)"
  unfolding refresh_oauth_def by (intro keeps_rules steady_rules)

lemma steady_token [steady_rules]: "keeps (steady c) (get_access_token E)"
  unfolding get_access_token_def locked_token_def by (intro keeps_rules steady_rules)

lemma steady_authorize [steady_rules]: "keeps (steady c) (authorize E a headers)"
  by (cases a) (auto simp: authorize_def intro!: keeps_rules steady_rules)

lemma steady_send [steady_rules]: "keeps (steady c) (client_send E meth url params b)"
  unfolding client_send_def the_client_def by (intro keeps_rules steady_rules)

lemma steady_call [steady_rules]:
  "keeps (steady c) (checked E meth url params b missing)"
  "keeps (steady c) (call_json E meth url params b missing)"
  unfolding call_json_def checked_def check_status_def by (intro keeps_rules steady_rules)+

lemma steady_slack [steady_rules]: "keeps (steady c) m \<Longrightarrow> keeps (steady c) (slack_ok label m)"
  unfolding slack_ok_def by (intro keeps_rules steady_rules)

lemma steady_documentation [steady_rules]:
  "keeps (steady c) (build_api_url path)" "keeps (steady c) the_repository"
  "keeps (steady c) (get_file_sha E path)"
  unfolding get_file_sha_def check_status_def build_api_url_def the_repository_def
  by (intro keeps_rules steady_rules)+

definition steady_action :: "client_env \<Rightarrow> client_action \<Rightarrow> bool" where
  "steady_action E a \<longleftrightarrow> on_retry (ca_retry a) = None \<and> (\<forall>args kw c. keeps (steady c) (ca_run a E args kw))"

lemma steady_actionI:
  assumes "\<And>args kw c. keeps (steady c) (f E args kw)"
  shows "steady_action E (retried_action req opt f)"
    and "steady_action E ((retried_action req opt f)\<lparr>ca_keywords := k\<rparr>)"
    and "steady_action E ((retried_action req opt f)\<lparr>ca_retry := retry_on_rate_limit n\<rparr>)"
  using assms by (simp_all add: steady_action_def retry_spec_def retry_on_rate_limit_def)

lemma steady_run [steady_rules]:
  assumes "steady_action E a"
  shows "keeps (steady c) (run_client_action E a kwargs)"
proof -
  have "keeps (steady c) (ca_run a E args kw)" for args kw
    using assms unfolding steady_action_def by blast
  moreover have "on_retry (ca_retry a) = None"
    using assms by (simp add: steady_action_def)
  ultimately show ?thesis
    unfolding run_client_action_def run_once_def by (intro keeps_retried keeps_rules steady_rules)
qed

lemma steady_list_documents: "steady_action E list_documents_action"
  unfolding list_documents_action_def
  by (rule steady_actionI) (simp only: doc_list_documents_def check_status_def, intro keeps_rules steady_rules)

lemma steady_search: "keeps (steady c) (doc_search_documents E a kw)"
  unfolding doc_search_documents_def by (intro keeps_rules steady_rules steady_list_documents)

lemma steady_tables:
  "list_all (steady_action E) (map snd github_client_actions)"
  "list_all (steady_action E) (map snd jira_client_actions)"
  "list_all (steady_action E) (map snd slack_client_actions)"
  "list_all (steady_action E) (map snd teams_client_actions)"
  "list_all (steady_action E) (map snd documentation_client_actions)"
  unfolding github_client_actions_def jira_client_actions_def slack_client_actions_def
    teams_client_actions_def documentation_client_actions_def list.map snd_conv list.pred_inject
  by (intro conjI list.pred_inject(1) steady_actionI steady_list_documents steady_search;
      (simp only: github_methods jira_methods slack_methods teams_methods documentation_methods)?;
      intro keeps_rules steady_rules)+

lemma steady_execute: "keeps (steady c) (execute_integration E name kwargs)"
proof -
  have "steady_action E a" if "dget (client_actions cls) name = Some a" for cls a
  proof -
    have "list_all (steady_action E) (map snd (client_actions cls))"
      using steady_tables[of E] by (cases cls) simp_all
    then show ?thesis
      unfolding list_all_iff by (rule bspec) (use map_of_SomeD[OF that] in force)
  qed
  then show ?thesis
    unfolding keeps_def execute_integration_def dispatch_action_def bnd_def gets_def prod.case sum.case
    using steady_run[unfolded keeps_def] by (auto simp: raise_def split: option.split)
qed

lemma steady_health: "keeps (steady c) (health_check E)"
proof -
  have "keeps (steady c) (health_probe E i)" for i
    unfolding health_probe_def probes
    by (cases "in_class i") (simp_all only: integration_class.case, (intro keeps_rules steady_rules)+)
  then show ?thesis
    unfolding health_check_def by (intro keeps_rules)
qed

section \<open>The instances of a manager\<close>

definition ready :: "integration_class \<times> http_client option \<times> bool \<Rightarrow> bool" where
  "ready c \<longleftrightarrow> (case c of (_, client, initialized) \<Rightarrow>
     initialized \<and> (case client of Some k \<Rightarrow> \<not> hc_closed k | None \<Rightarrow> False))"

definition hub_ok :: "hub \<Rightarrow> bool" where
  "hub_ok h \<longleftrightarrow> (\<forall>name i. dget (hub_instances h) name = Some i \<longrightarrow>
     lower name = name \<and> dget (hub_registry h) name = Some (in_class i) \<and> ready (shape_of i))"

lemma lower_char_twice: "\<forall>c. lower_char (lower_char c) = lower_char c"
  by code_simp

lemma lower_lower [simp]: "lower (lower s) = lower s"
  using lower_char_twice by (simp add: lower_def)

lemma initialize_outcome:
  assumes "initialize (live_of h (new_integration cls creds)) = (r, l)"
  shows "after h l = h"
    and "r = Inr () \<Longrightarrow> in_class (itself l) = cls \<and> ready (shape_of (itself l))"
    and "r = Inl e \<Longrightarrow> \<exists>t. e = Package Authentication_Error t"
  using assms
  by (cases cls; auto simp: initialize_def initialize_github_def initialize_jira_def initialize_slack_def
      initialize_teams_def initialize_documentation_def set_up_def on_self_def plain_client_def
      new_integration_def live_of_def after_def shape_of_def ready_def bnd_def thn_def gets_def ret_def
      raise_def modify_def split: option.splits)+

lemma hub_ok_set:
  assumes "hub_ok h" and "lower name = name" and "dget (hub_registry h) name = Some (in_class i)"
    and "ready (shape_of i)"
  shows "hub_ok ((after h l)\<lparr>hub_instances := dset name i (hub_instances h)\<rparr>)"
  using assms by (auto simp: hub_ok_def after_def)

lemma hub_ok_on_instance:
  assumes "\<And>c. keeps (steady c) m"
  shows "keeps hub_ok (on_instance name m)"
  unfolding keeps_def
proof (intro allI impI)
  fix h
  assume ok: "hub_ok h"
  show "hub_ok (snd (on_instance name m h))"
  proof (cases "dget (hub_instances h) name")
    case None
    then show ?thesis
      using ok unfolding on_instance_def None option.case by simp
  next
    case (Some i)
    obtain r l where m: "m (live_of h i) = (r, l)"
      by (cases "m (live_of h i)")
    have "shape_of (itself l) = shape_of i"
      using assms[of "shape_of i"] m unfolding keeps_def by (metis live_of_def live.select_convs(1) snd_conv)
    moreover from this have "in_class (itself l) = in_class i"
      by (simp add: shape_of_def)
    moreover have "lower name = name \<and> dget (hub_registry h) name = Some (in_class i) \<and> ready (shape_of i)"
      using ok Some unfolding hub_ok_def by blast
    ultimately show ?thesis
      using ok unfolding on_instance_def Some option.case m prod.case snd_conv
      by (intro hub_ok_set) simp_all
  qed
qed

text \<open>Loading: what it raises, and that it sends nothing.\<close>

lemma load_cases:
  assumes "load_integration E key name h = (r, h')" and "\<not> has_key (hub_instances h) (lower name)"
  obtains (unknown) "reg_get (hub_registry h) (lower name) = None" "h' = h"
      "\<exists>t. r = Inl (Package Configuration_Error t)"
  | (unreadable) e where "get_credentials E key (lower name) = Inl e" "r = Inl e" "h' = h"
  | (refused) t where "r = Inl (Package Authentication_Error t)" "h' = h"
  | (loaded) cls inst cfg where "reg_get (hub_registry h) (lower name) = Some cls" "r = Inr ()"
      "in_class inst = cls" "ready (shape_of inst)"
      "h' = h\<lparr>hub_instances := dset (lower name) inst (hub_instances h),
         hub_configs := dset (lower name) cfg (hub_configs h)\<rparr>"
proof (cases "reg_get (hub_registry h) (lower name)")
  case None
  have "load_integration E key name h = (Inl (Package Configuration_Error
      (''Integration '' @ [CHR 0x27] @ lower name @ [CHR 0x27] @ '' not registered.'')), h)"
    unfolding load_integration_def Let_def bnd_def gets_def id_def prod.case sum.case None option.case raise_def
    using assms(2) by (rule if_not_P[THEN fun_cong, THEN trans]) (rule refl)
  with assms(1) show thesis
    by (intro unknown[OF None]) (simp_all only: prod.inject, blast+)
next
  case cls: (Some cls)
  show thesis
  proof (cases "get_credentials E key (lower name)")
    case (Inl e)
    then show thesis
      using assms cls unreadable by (auto simp: load_integration_def Let_def bnd_def gets_def lift_def)
  next
    case (Inr creds)
    obtain q l where init: "initialize (live_of h (new_integration cls creds)) = (q, l)"
      by (cases "initialize (live_of h (new_integration cls creds))")
    note out = initialize_outcome[OF init]
    show thesis
    proof (cases q)
      case (Inl e)
      then obtain t where "e = Package Authentication_Error t"
        using out(3) by blast
      then show thesis
        using assms cls Inr Inl init out(1) refused
        by (auto simp: load_integration_def Let_def bnd_def gets_def lift_def on_new_def)
    next
      case (Inr u)
      then show thesis
        using assms cls \<open>get_credentials E key (lower name) = Inr creds\<close> init out(1,2) loaded
        by (auto simp: load_integration_def Let_def bnd_def gets_def lift_def on_new_def modify_def)
    qed
  qed
qed

section \<open>Every operation\<close>

lemma hub_ok_cong:
  "hub_instances h = hub_instances h' \<Longrightarrow> hub_registry h = hub_registry h' \<Longrightarrow> hub_ok h \<longleftrightarrow> hub_ok h'"
  by (simp add: hub_ok_def)

lemma hub_ok_load: "keeps hub_ok (load_integration E key name)"
  unfolding keeps_def
proof (intro allI impI)
  fix h
  assume ok: "hub_ok h"
  obtain r h' where load: "load_integration E key name h = (r, h')"
    by (cases "load_integration E key name h")
  show "hub_ok (snd (load_integration E key name h))"
  proof (cases "has_key (hub_instances h) (lower name)")
    case True
    then show ?thesis
      using ok by (simp add: load_integration_def Let_def bnd_def gets_def ret_def)
  next
    case False
    from load False show ?thesis
    proof (cases rule: load_cases)
      case (loaded cls inst cfg)
      then have "hub_ok (h\<lparr>hub_instances := dset (lower name) inst (hub_instances h)\<rparr>)"
        using hub_ok_set[OF ok, of "lower name" inst "live_of h inst"]
        by (simp add: reg_get_def after_def live_of_def)
      then have "hub_ok h'"
        by (rule hub_ok_cong[THEN iffD1, rotated -1]) (simp_all add: loaded(5))
      then show ?thesis
        unfolding load snd_conv .
    next
      case unknown
      then show ?thesis
        unfolding load snd_conv using ok by (simp only:)
    next
      case unreadable
      then show ?thesis
        unfolding load snd_conv using ok by (simp only:)
    next
      case refused
      then show ?thesis
        unfolding load snd_conv using ok by (simp only:)
    qed
  qed
qed

lemma hub_ok_need: "keeps hub_ok (need_integration E key name)"
  unfolding need_integration_def by (intro keeps_rules hub_ok_load)

lemma hub_ok_execute: "keeps hub_ok (manager_execute E key name action kwargs)"
  unfolding manager_execute_def Let_def
  by (intro keeps_rules hub_ok_need hub_ok_on_instance steady_execute)

lemma hub_ok_get: "keeps hub_ok (get_integration E key name)"
  unfolding get_integration_def Let_def by (intro keeps_rules hub_ok_need hub_ok_on_instance)

lemma hub_ok_health: "keeps hub_ok (health_check_all E key)"
  unfolding health_check_all_def health_of_def
  by (intro keeps_rules hub_ok_need hub_ok_on_instance steady_health)

lemma close_all_empties: "hub_instances (snd (close_all h)) = []"
proof -
  have one: "\<exists>t. catch m (\<lambda>_. ret ()) h = (Inr (), t)" for m :: "unit managed" and h
    by (cases "m h"; cases "fst (m h)") (auto simp: catch_def ret_def)
  have quiet: "\<exists>ys t. for_each names (\<lambda>name. catch (f name) (\<lambda>_. ret ())) h = (Inr ys, t)"
    for names and f :: "string \<Rightarrow> unit managed" and h
  proof (induction names arbitrary: h)
    case (Cons name names)
    obtain t where "catch (f name) (\<lambda>_. ret ()) h = (Inr (), t)"
      using one by blast
    moreover obtain ys u where "for_each names (\<lambda>name. catch (f name) (\<lambda>_. ret ())) t = (Inr ys, u)"
      using Cons.IH by blast
    ultimately show ?case
      by (simp add: ret_def)
  qed (simp add: ret_def)
  obtain ys t where "for_each (dkeys (hub_instances h)) (\<lambda>name. catch (on_instance name close_integration) (\<lambda>_. ret ())) h
      = (Inr ys, t)"
    using quiet[of "dkeys (hub_instances h)" "\<lambda>name. on_instance name close_integration" h] by blast
  then show ?thesis
    by (simp add: close_all_def bnd_def thn_def gets_def modify_def)
qed

lemma hub_ok_close: "keeps hub_ok close_all"
  by (simp add: keeps_def hub_ok_def close_all_empties)

datatype hub_event =
    Load string
  | Execute string string "json dict"
  | Get_Instance string
  | Health_Check
  | Close_All

fun hub_step :: "client_env \<Rightarrow> string \<Rightarrow> hub_event \<Rightarrow> hub \<Rightarrow> hub" where
  "hub_step E key (Load name) h = snd (load_integration E key name h)"
| "hub_step E key (Execute name action kwargs) h = snd (manager_execute E key name action kwargs h)"
| "hub_step E key (Get_Instance name) h = snd (get_integration E key name h)"
| "hub_step E key Health_Check h = snd (health_check_all E key h)"
| "hub_step E key Close_All h = snd (close_all h)"

interpretation manager: machine "hub_step E key" hub_ok
proof
  fix h ev
  assume "hub_ok h"
  then show "hub_ok (hub_step E key ev h)"
    using hub_ok_load hub_ok_execute hub_ok_get hub_ok_health hub_ok_close
    by (cases ev) (simp_all add: keeps_def)
qed

lemma on_instance_known:
  assumes "has_key (hub_instances h) name"
  obtains i where "on_instance name m h = (case m (live_of h i) of (r, l) \<Rightarrow>
      (r, (after h l)\<lparr>hub_instances := dset name (itself l) (hub_instances h)\<rparr>))"
proof -
  obtain i where i: "dget (hub_instances h) name = Some i"
    using assms by (auto simp: has_key_dget)
  show thesis
    by (rule that[of i]) (simp only: on_instance_def i option.case)
qed

lemma health_check_answers: "\<exists>b l. health_check E s = (Inr b, l)"
  by (force simp: health_check_def catch_def ret_def split: prod.splits sum.splits)

section \<open>The health of all\<close>

lemma need_cases:
  assumes "need_integration E key name h = (r, h')" and "lower name = name"
    and "\<And>e. get_credentials E key name = Inl e \<Longrightarrow> health_caught e"
  obtains (there) "r = Inr ()" "has_key (hub_instances h') name"
  | (failed) e where "r = Inl e" "health_caught e" "h' = h"
proof (cases "has_key (hub_instances h) name")
  case True
  then show thesis
    using assms(1) there by (simp add: need_integration_def bnd_def gets_def ret_def)
next
  case False
  then have load: "load_integration E key name h = (r, h')"
    using assms(1) by (simp add: need_integration_def bnd_def gets_def)
  moreover from False have "\<not> has_key (hub_instances h) (lower name)"
    by (simp add: assms(2))
  ultimately show thesis
  proof (cases rule: load_cases)
    case unknown
    then show thesis
      using failed by (auto simp: health_caught_def)
  next
    case (unreadable e)
    then show thesis
      using failed assms(2,3) by simp
  next
    case refused
    then show thesis
      using failed by (simp add: health_caught_def)
  next
    case (loaded cls inst cfg)
    then show thesis
      using there assms(2) by (simp add: has_key_def dom_update)
  qed
qed

lemma health_of_answers:
  assumes "lower name = name" and "\<And>e. get_credentials E key name = Inl e \<Longrightarrow> health_caught e"
  shows "\<exists>ok1 h'. health_of E key name h = (Inr (name, ok1), h')"
proof -
  obtain r h1 where need: "need_integration E key name h = (r, h1)"
    by (cases "need_integration E key name h")
  consider (there) "r = Inr ()" "has_key (hub_instances h1) name" | (failed) e where "r = Inl e" "health_caught e"
    using need_cases[OF need assms] by metis
  then show ?thesis
  proof cases
    case there
    obtain i where on: "on_instance name (health_check E) h1 = (case health_check E (live_of h1 i) of (r, l) \<Rightarrow>
        (r, (after h1 l)\<lparr>hub_instances := dset name (itself l) (hub_instances h1)\<rparr>))"
      using on_instance_known[OF there(2)] .
    obtain b l where "health_check E (live_of h1 i) = (Inr b, l)"
      using health_check_answers by blast
    then show ?thesis
      by (simp add: health_of_def catch_def bnd_def thn_def need there(1) on ret_def)
  next
    case (failed e)
    then show ?thesis
      by (auto simp: health_of_def catch_def bnd_def thn_def need ret_def)
  qed
qed

lemma health_of_each:
  assumes "\<And>name. name \<in> set names \<Longrightarrow> lower name = name"
    and "\<And>name e. name \<in> set names \<Longrightarrow> get_credentials E key name = Inl e \<Longrightarrow> health_caught e"
  shows "\<exists>rs h'. for_each names (health_of E key) h = (Inr rs, h') \<and> map fst rs = names"
  using assms
proof (induction names arbitrary: h)
  case (Cons name names)
  obtain ok1 h1 where "health_of E key name h = (Inr (name, ok1), h1)"
    using health_of_answers Cons.prems by (meson list.set_intros(1))
  moreover obtain rs h2 where "for_each names (health_of E key) h1 = (Inr rs, h2)" "map fst rs = names"
    using Cons.IH[of h1] Cons.prems by (meson list.set_intros(2))
  ultimately show ?case
    by (simp add: bnd_def ret_def)
qed (simp add: ret_def)

section \<open>Properties\<close>

text \<open>C18: Whatever a manager that starts without instances is asked to do, in any order and over any
  network - loads that fail, actions, health checks, closing all -, each instance it holds belongs to a
  registered class under the lower-case name, is initialized and has a client that is still open.\<close>

theorem manager_instances_ready:
  assumes "hub_instances h = []" and "dget (hub_instances (fold (hub_step E key) evs h)) name = Some i"
  shows "lower name = name
    \<and> dget (hub_registry (fold (hub_step E key) evs h)) name = Some (in_class i)
    \<and> in_initialized i \<and> (\<exists>c. in_client i = Some c \<and> \<not> hc_closed c)"
proof -
  have "hub_ok h"
    using assms(1) by (simp add: hub_ok_def)
  then have "hub_ok (fold (hub_step E key) evs h)"
    by (rule manager.run_good)
  then have "lower name = name \<and> dget (hub_registry (fold (hub_step E key) evs h)) name = Some (in_class i)
      \<and> ready (shape_of i)"
    using assms(2) unfolding hub_ok_def by blast
  then show ?thesis
    by (cases "in_client i") (simp_all add: ready_def shape_of_def)
qed

text \<open>Loading is all or nothing: a load that raises leaves the manager, the registry and the network as
  they were, and one that returns leaves an instance under the lower-case name and has sent nothing.\<close>

theorem load_all_or_nothing:
  assumes "load_integration E key name h = (r, h')"
  shows "case r of Inl e \<Rightarrow> h' = h | Inr _ \<Rightarrow>
    has_key (hub_instances h') (lower name) \<and> net_sent h' = net_sent h \<and> hub_registry h' = hub_registry h"
proof (cases "has_key (hub_instances h) (lower name)")
  case True
  then show ?thesis
    using assms by (auto simp: load_integration_def Let_def bnd_def gets_def ret_def)
next
  case False
  from assms False show ?thesis
    by (cases rule: load_cases) (auto simp: has_key_def dom_update)
qed

text \<open>The health check of all answers for every registered integration, in the order of registration,
  whatever the network does and however an integration is misconfigured, as long as no stored credential
  raises an exception other than \<open>IntegrationError\<close> or \<open>RuntimeError\<close> when it is decrypted.\<close>

theorem health_check_all_answers:
  assumes "\<forall>name\<in>set (reg_names (hub_registry h)). lower name = name"
    and "\<forall>name\<in>set (reg_names (hub_registry h)). \<forall>e. get_credentials E key name = Inl e \<longrightarrow> health_caught e"
  shows "\<exists>rs h'. health_check_all E key h = (Inr rs, h') \<and> map fst rs = reg_names (hub_registry h)"
  using health_of_each[of "reg_names (hub_registry h)" E key h] assms
  by (simp add: health_check_all_def bnd_def gets_def)

text \<open>A hub with two registered classes, and an environment with a token for one of them.\<close>

definition sample_hub :: hub where
  "sample_hub = \<lparr>net_sent = [], net_now = 0,
     hub_registry = import_integration Slack (import_integration GitHub []), hub_instances = [], hub_configs = []\<rparr>"

definition sample_hub_env :: client_env where
  "sample_hub_env = sample_client_env (json_answer 200 (JObj [])) [(''INTEGRATION_GITHUB_API_TOKEN'', ''t'')]"

lemma sample_credentials:
  "get_credentials sample_hub_env key ''github'' = Inr [(''api_token'', JStr ''t'')]"
  "get_credentials sample_hub_env key ''slack'' = Inr []"
proof -
  have "environment_credentials [(''INTEGRATION_GITHUB_API_TOKEN'', ''t'')] ''github'' = [(''api_token'', JStr ''t'')]"
    "environment_credentials [(''INTEGRATION_GITHUB_API_TOKEN'', ''t'')] ''slack'' = []"
    by code_simp+
  moreover have "\<not> startswith ''t'' encrypted_mark"
    by code_simp
  ultimately show "get_credentials sample_hub_env key ''github'' = Inr [(''api_token'', JStr ''t'')]"
    "get_credentials sample_hub_env key ''slack'' = Inr []"
    by (simp_all add: get_credentials_def sample_hub_env_def)
qed

theorem health_check_all_answers_witness:
  "\<exists>rs h'. health_check_all sample_hub_env [] sample_hub = (Inr rs, h') \<and> map fst rs = [''github'', ''slack'']"
proof -
  have names: "reg_names (hub_registry sample_hub) = [''github'', ''slack'']"
    by code_simp
  have "\<forall>name\<in>set (reg_names (hub_registry sample_hub)). lower name = name"
    by code_simp
  moreover have "\<forall>name\<in>set (reg_names (hub_registry sample_hub)). \<forall>e.
      get_credentials sample_hub_env [] name = Inl e \<longrightarrow> health_caught e"
    unfolding names by (simp only: list.set ball_simps insert_iff empty_iff sample_credentials sum.simps simp_thms)
  ultimately show ?thesis
    using health_check_all_answers[of sample_hub sample_hub_env "[]"] unfolding names by blast
qed

lemma sample_load_github:
  "\<exists>h'. load_integration sample_hub_env [] ''GitHub'' sample_hub = (Inr (), h')
    \<and> has_key (hub_instances h') ''github''"
proof -
  have names: "lower ''GitHub'' = ''github''" "\<not> has_key (hub_instances sample_hub) ''github''"
    "reg_get (hub_registry sample_hub) ''github'' = Some GitHub"
    by code_simp+
  obtain l where "initialize (live_of sample_hub (new_integration GitHub [(''api_token'', JStr ''t'')])) = (Inr (), l)"
    by (simp add: initialize_def initialize_github_def cred_text_def bnd_def thn_def gets_def new_integration_def
        live_of_def set_up_def on_self_def modify_def)
  then have "\<exists>h'. load_integration sample_hub_env [] ''GitHub'' sample_hub
      = (Inr (), h'\<lparr>hub_instances := dset ''github'' (itself l) (hub_instances h'),
          hub_configs := dset ''github'' \<lparr>cfg_name = ''github'', cfg_enabled = True,
            cfg_credentials = [(''api_token'', JStr ''t'')], cfg_extra = []\<rparr> (hub_configs h')\<rparr>)"
    by (auto simp: load_integration_def Let_def names sample_credentials on_new_def bnd_def gets_def lift_def
        modify_def)
  then show ?thesis
    by (auto simp: has_key_def dom_update)
qed

theorem load_all_or_nothing_witness:
  "\<exists>h'. load_integration sample_hub_env [] ''GitHub'' sample_hub = (Inr (), h')
    \<and> has_key (hub_instances h') (lower ''GitHub'') \<and> net_sent h' = []"
proof -
  obtain h' where "load_integration sample_hub_env [] ''GitHub'' sample_hub = (Inr (), h')"
    using sample_load_github by blast
  from load_all_or_nothing[OF this] this show ?thesis
    by (simp add: sample_hub_def)
qed

text \<open>A load that returns and a health check.\<close>

theorem manager_instances_ready_witness:
  "\<exists>i c. dget (hub_instances (fold (hub_step sample_hub_env []) [Load ''GitHub''] sample_hub)) ''github'' = Some i
    \<and> in_initialized i \<and> in_client i = Some c \<and> \<not> hc_closed c"
proof -
  obtain h' where "load_integration sample_hub_env [] ''GitHub'' sample_hub = (Inr (), h')"
      "has_key (hub_instances h') ''github''"
    using sample_load_github by blast
  then obtain i where
    "dget (hub_instances (fold (hub_step sample_hub_env []) [Load ''GitHub''] sample_hub)) ''github'' = Some i"
    by (auto simp: has_key_dget)
  moreover have "hub_instances sample_hub = []"
    by (simp add: sample_hub_def)
  ultimately show ?thesis
    using manager_instances_ready[of sample_hub sample_hub_env "[]" "[Load ''GitHub'']" "''github''" i] by blast
qed

end
