(* ===== verification/Client_Webhooks.thy ===== *)
theory Client_Webhooks
  imports Client_Manager Security_Utils
begin

text \<open>
  The webhooks of the client package: \<open>webhooks/validator.py\<close>, the handlers of the integrations
  (\<open>integrations/*/webhooks.py\<close>), \<open>webhooks/dispatcher.py\<close> and the endpoint of \<open>webhooks/receiver.py\<close>.
  The handlers only write log lines, which are kept in order of their writing, with those of the
  dispatcher; an exception keeps the lines written before it. Bodies are ASCII text, so that decoding them changes nothing.
\<close>

section \<open>Validation\<close>

text \<open>\<open>Settings\<close> has no \<open>WEBHOOK_VALIDATION_REQUIRED\<close>, and the default of the \<open>getattr\<close> is true; it has
  no \<open>teams_webhook_secret\<close> either.\<close>

definition validation_required :: bool where
  "validation_required = True"

definition slack_tolerance :: rat where
  "slack_tolerance = 60"

definition shared_secret :: "client_settings \<Rightarrow> string \<Rightarrow> string option" where
  "shared_secret s name = (if name = ''jira'' then cs_jira_webhook_secret s else None)"

text \<open>The check of a scheme, when its secret is configured.\<close>

definition with_secret :: "string option \<Rightarrow> (string \<Rightarrow> fault + bool) \<Rightarrow> fault + bool" where
  "with_secret secret check = (case secret of
      Some (c # cs) \<Rightarrow> check (c # cs)
    | _ \<Rightarrow> Inr (\<not> validation_required))"

definition github_check :: "crypto \<Rightarrow> string \<Rightarrow> string dict \<Rightarrow> string \<Rightarrow> fault + bool" where
  "github_check c body headers secret = (case dget headers ''X-Hub-Signature-256'' of
      Some (x # xs) \<Rightarrow>
        map_sum fault_of id (compare_digest (''sha256='' @ hmac_hex c (utf8_bytes secret) body) (x # xs))
    | _ \<Rightarrow> Inr False)"

text \<open>\<open>f"v0:{timestamp}:{body.decode()}"\<close>.\<close>

definition slack_base :: "string \<Rightarrow> string \<Rightarrow> string" where
  "slack_base timestamp body = ''v0:'' @ timestamp @ '':'' @ body"

definition slack_signed :: "crypto \<Rightarrow> rat \<Rightarrow> string \<Rightarrow> string dict \<Rightarrow> string \<Rightarrow> fault + bool" where
  "slack_signed c now body headers secret =
    (case (dget headers ''X-Slack-Request-Timestamp'', dget headers ''X-Slack-Signature'') of
      (Some timestamp, Some signature) \<Rightarrow>
        if timestamp = [] \<or> signature = [] then Inr False
        else (case int_text timestamp of
            None \<Rightarrow> Inr False
          | Some ts \<Rightarrow> if slack_tolerance < \<bar>now - of_int ts\<bar> then Inr False
              else map_sum fault_of id (compare_digest
                (''v0='' @ hmac_hex c (utf8_bytes secret) (utf8_bytes (slack_base timestamp body))) signature))
    | _ \<Rightarrow> Inr False)"

text \<open>Comparing a text with \<open>None\<close> raises.\<close>

definition secret_check :: "string dict \<Rightarrow> string \<Rightarrow> fault + bool" where
  "secret_check headers secret = (case dget headers ''X-Webhook-Secret'' of
      Some provided \<Rightarrow> map_sum fault_of id (compare_digest secret provided)
    | None \<Rightarrow> Inl (Python TypeError ''unsupported operand types(s) or combination of types''))"

definition validate_signature :: "client_env \<Rightarrow> rat \<Rightarrow> string \<Rightarrow> string \<Rightarrow> string dict \<Rightarrow> fault + bool" where
  "validate_signature E now name0 body headers =
    (let name = lower name0; s = client_settings_of E; c = client_crypto E in
     if name = ''github'' then with_secret (cs_github_webhook_secret s) (github_check c body headers)
     else if name = ''slack'' then with_secret (cs_slack_signing_secret s) (slack_signed c now body headers)
     else if name = ''jira'' \<or> name = ''teams'' then with_secret (shared_secret s name) (secret_check headers)
     else Inr (\<not> validation_required))"

section \<open>Handlers\<close>

type_synonym 'a logged = "(string list, fault, 'a) proc"

definition log_line :: "string \<Rightarrow> unit logged" where
  "log_line t = modify (\<lambda>ls. ls @ [t])"

text \<open>\<open>v[:n]\<close>.\<close>

definition py_head :: "nat \<Rightarrow> json \<Rightarrow> exn + json" where
  "py_head n v = (case v of
      JStr s \<Rightarrow> Inr (JStr (take n s))
    | JArr xs \<Rightarrow> Inr (JArr (take n xs))
    | JObj _ \<Rightarrow> Inl (Builtin KeyError (''slice(None, '' @ show_nat n @ '', None)''))
    | _ \<Rightarrow> Inl (Builtin TypeError (py_type v @ '' object is not subscriptable'')))"

text \<open>\<open>v.get(k)\<close>, and \<open>payload.get(k, {}).get(j)\<close>.\<close>

abbreviation get_value :: "json \<Rightarrow> string \<Rightarrow> json logged" where
  "get_value v k \<equiv> value_of (py_get v k JNull)"

definition get_inner :: "json \<Rightarrow> string \<Rightarrow> string \<Rightarrow> json logged" where
  "get_inner payload k j = bnd (value_of (py_get payload k (JObj []))) (\<lambda>v. get_value v j)"

definition handle_push :: "json \<Rightarrow> unit logged" where
  "handle_push payload =
    bnd (get_inner payload ''repository'' ''full_name'') (\<lambda>repo.
    bnd (get_value payload ''ref'') (\<lambda>ref.
    bnd (value_of (py_get payload ''commits'' (JArr []))) (\<lambda>commits.
    bnd (value_of (py_len commits)) (\<lambda>n.
      log_line (''Push to '' @ py_str repo @ '' ('' @ py_str ref @ '') with '' @ show_int n @ '' commits'')))))"

definition handle_pull_request :: "json \<Rightarrow> unit logged" where
  "handle_pull_request payload =
    bnd (get_value payload ''action'') (\<lambda>action. bnd (get_value payload ''pull_request'') (\<lambda>pr.
    if truthy pr then bnd (get_value pr ''number'') (\<lambda>n.
      bnd (get_inner payload ''repository'' ''full_name'') (\<lambda>repo.
        log_line (''PR #'' @ py_str n @ '' '' @ py_str action @ '' in '' @ py_str repo)))
    else ret ()))"

definition handle_issue :: "json \<Rightarrow> unit logged" where
  "handle_issue payload =
    bnd (get_value payload ''action'') (\<lambda>action. bnd (get_value payload ''issue'') (\<lambda>issue.
    if truthy issue then bnd (get_value issue ''number'') (\<lambda>n.
      bnd (get_inner payload ''repository'' ''full_name'') (\<lambda>repo.
        log_line (''Issue #'' @ py_str n @ '' '' @ py_str action @ '' in '' @ py_str repo)))
    else ret ()))"

definition handle_issue_comment :: "json \<Rightarrow> unit logged" where
  "handle_issue_comment payload =
    bnd (get_value payload ''action'') (\<lambda>action. bnd (get_value payload ''comment'') (\<lambda>comment.
    bnd (get_value payload ''issue'') (\<lambda>issue.
    if truthy comment \<and> truthy issue then bnd (get_value issue ''number'') (\<lambda>n.
      bnd (get_inner payload ''repository'' ''full_name'') (\<lambda>repo.
        log_line (''Comment '' @ py_str action @ '' on issue #'' @ py_str n @ '' in '' @ py_str repo)))
    else ret ())))"

definition github_webhook :: "json \<Rightarrow> json \<Rightarrow> unit logged" where
  "github_webhook event payload =
    (if event = JNull then log_line ''Received GitHub webhook without event type''
     else thn (log_line (''Processing GitHub event: '' @ py_str event))
       (if event = JStr ''push'' then handle_push payload
        else if event = JStr ''pull_request'' then handle_pull_request payload
        else if event = JStr ''issues'' then handle_issue payload
        else if event = JStr ''issue_comment'' then handle_issue_comment payload
        else log_line (''Unhandled GitHub event: '' @ py_str event)))"

text \<open>The handlers of Jira for an issue, of which the one for a creation also prints the summary.\<close>

definition handle_issue_created :: "json \<Rightarrow> unit logged" where
  "handle_issue_created payload = bnd (value_of (py_get payload ''issue'' (JObj []))) (\<lambda>issue.
     bnd (get_value issue ''key'') (\<lambda>k. bnd (get_value issue ''summary'') (\<lambda>s.
       log_line (''Issue '' @ py_str k @ '' created: '' @ py_str s))))"

definition handle_issue_changed :: "string \<Rightarrow> json \<Rightarrow> unit logged" where
  "handle_issue_changed what payload =
     bnd (get_inner payload ''issue'' ''key'') (\<lambda>k. log_line (''Issue '' @ py_str k @ '' '' @ what))"

definition handle_comment_event :: "json \<Rightarrow> json \<Rightarrow> unit logged" where
  "handle_comment_event event payload =
    bnd (value_of (py_get payload ''comment'' (JObj []))) (\<lambda>comment.
    bnd (get_inner payload ''issue'' ''key'') (\<lambda>k.
    bnd (value_of (py_get comment ''body'' (JStr []))) (\<lambda>b. bnd (value_of (py_head 50 b)) (\<lambda>t.
      log_line (''Comment '' @ py_str event @ '' on issue '' @ py_str k @ '': '' @ py_str t)))))"

definition jira_webhook :: "json \<Rightarrow> json \<Rightarrow> unit logged" where
  "jira_webhook event payload =
    (if \<not> truthy event then ret ()
     else thn (log_line (''Processing Jira event: '' @ py_str event))
       (if event = JStr ''jira:issue_created'' then handle_issue_created payload
        else if event = JStr ''jira:issue_updated'' then handle_issue_changed ''updated'' payload
        else if event = JStr ''jira:issue_deleted'' then handle_issue_changed ''deleted'' payload
        else bnd (value_of (py_in ''comment'' event)) (\<lambda>comment.
          if comment then handle_comment_event event payload
          else log_line (''Unhandled Jira event: '' @ py_str event))))"

definition handle_slack_text :: "string \<Rightarrow> json \<Rightarrow> unit logged" where
  "handle_slack_text label event =
    bnd (get_value event ''user'') (\<lambda>user. bnd (get_value event ''text'') (\<lambda>t.
    bnd (get_value event ''channel'') (\<lambda>channel. bnd (value_of (py_head 100 t)) (\<lambda>start.
      log_line (label @ '' from '' @ py_str user @ '' in '' @ py_str channel @ '': '' @ py_str start)))))"

definition handle_reaction :: "json \<Rightarrow> json \<Rightarrow> unit logged" where
  "handle_reaction event_type event =
    bnd (get_value event ''user'') (\<lambda>user. bnd (get_value event ''reaction'') (\<lambda>reaction.
    bnd (value_of (py_get event ''item'' (JObj []))) (\<lambda>item.
      log_line (''Slack reaction '' @ py_str reaction @ '' '' @ py_str event_type @ '' by '' @ py_str user
        @ '' on '' @ py_str item))))"

definition slack_webhook :: "json \<Rightarrow> json \<Rightarrow> unit logged" where
  "slack_webhook event_type payload =
    (if event_type = JStr ''url_verification'' then
       bnd (get_value payload ''challenge'') (\<lambda>challenge.
         if truthy challenge then log_line ''Slack URL verification challenge received'' else ret ())
     else if event_type \<noteq> JStr ''event_callback'' then ret ()
     else bnd (value_of (py_get payload ''event'' (JObj []))) (\<lambda>event. bnd (get_value event ''type'') (\<lambda>kind.
       if kind = JStr ''message'' then handle_slack_text ''Slack message'' event
       else if kind = JStr ''app_mention'' then handle_slack_text ''Slack app mention'' event
       else if kind = JStr ''reaction_added'' \<or> kind = JStr ''reaction_removed'' then handle_reaction kind event
       else log_line (''Unhandled Slack event: '' @ py_str kind))))"

definition handle_notification :: "json \<Rightarrow> unit logged" where
  "handle_notification payload =
    bnd (value_of (py_get payload ''value'' (JArr []))) (\<lambda>value. bnd (value_of (py_iter value)) (\<lambda>items.
    thn (for_each items (\<lambda>item.
      bnd (value_of (py_get item ''resourceData'' (JObj []))) (\<lambda>data.
      bnd (get_value item ''changeType'') (\<lambda>kind. bnd (get_value data ''id'') (\<lambda>i.
        log_line (''Teams notification: '' @ py_str kind @ '' on '' @ py_str i)))))) (ret ())))"

definition teams_webhook :: "json \<Rightarrow> json \<Rightarrow> unit logged" where
  "teams_webhook event payload =
    (if event = JNull then ret ()
     else thn (log_line (''Processing Teams event: '' @ py_str event))
       (if event = JStr ''subscriptionValidation'' then bnd (get_value payload ''validationToken'') (\<lambda>token.
          if truthy token then log_line ''Teams validation token received'' else ret ())
        else if event = JStr ''notification'' then handle_notification payload
        else log_line (''Unhandled Teams event: '' @ py_str event)))"

text \<open>\<open>handle_webhook\<close> of a class that has it.\<close>

fun handle_webhook :: "integration_class \<Rightarrow> (json \<Rightarrow> json \<Rightarrow> unit logged) option" where
  "handle_webhook GitHub = Some github_webhook"
| "handle_webhook Jira = Some jira_webhook"
| "handle_webhook Slack = Some slack_webhook"
| "handle_webhook Teams = Some teams_webhook"
| "handle_webhook Documentation = None"

section \<open>Dispatcher\<close>

text \<open>A receiver: the hub of its manager and the log.\<close>

record desk =
  dk_hub :: hub
  dk_log :: "string list"

type_synonym 'a desk_act = "(desk, fault, 'a) proc"

definition on_hub :: "'a managed \<Rightarrow> 'a desk_act" where
  "on_hub m = (\<lambda>d. case m (dk_hub d) of (r, h) \<Rightarrow> (r, d\<lparr>dk_hub := h\<rparr>))"

definition on_log :: "'a logged \<Rightarrow> 'a desk_act" where
  "on_log m = (\<lambda>d. case m (dk_log d) of (r, ls) \<Rightarrow> (r, d\<lparr>dk_log := ls\<rparr>))"

definition header_value :: "string dict \<Rightarrow> string \<Rightarrow> json" where
  "header_value headers k = (case dget headers k of Some v \<Rightarrow> JStr v | None \<Rightarrow> JNull)"

definition or_else :: "json \<Rightarrow> (exn + json) \<Rightarrow> exn + json" where
  "or_else v other = (if truthy v then Inr v else other)"

definition client_event_type :: "string \<Rightarrow> string dict \<Rightarrow> json \<Rightarrow> exn + json" where
  "client_event_type name headers data =
    (if name = ''github'' then Inr (header_value headers ''X-GitHub-Event'')
     else if name = ''slack'' then or_else (header_value headers ''X-Slack-Event-Type'') (py_get data ''type'' JNull)
     else if name = ''jira'' then py_get data ''webhookEvent'' JNull
     else if name = ''teams'' then (case py_get data ''eventType'' JNull of
         Inl e \<Rightarrow> Inl e
       | Inr t \<Rightarrow> or_else t (case py_get data ''resource'' (JObj []) of
             Inl e \<Rightarrow> Inl e
           | Inr resource \<Rightarrow> py_get resource ''eventType'' JNull))
     else Inr JNull)"

definition webhook_dispatch :: "client_env \<Rightarrow> string \<Rightarrow> string \<Rightarrow> string \<Rightarrow> string dict \<Rightarrow> unit desk_act" where
  "webhook_dispatch E key name0 body headers = (let name = lower name0 in
     bnd (on_hub (get_integration E key name)) (\<lambda>inst. case handle_webhook (in_class inst) of
       None \<Rightarrow> on_log (log_line (''Integration '' @ [CHR 0x27] @ name @ [CHR 0x27] @ '' does not implement handle_webhook.''))
     | Some handler \<Rightarrow> (case loads body of
         None \<Rightarrow> thn (on_log (log_line ''Invalid JSON payload'')) (raise (Package Base_Error ''Invalid JSON payload''))
       | Some data \<Rightarrow> bnd (value_of (client_event_type name headers data)) (\<lambda>event_type.
           thn (on_log (handler event_type data))
             (on_log (log_line (''Webhook dispatched to '' @ name @ '' (event: '' @ py_str event_type @ '')'')))))))"

section \<open>Receiver\<close>

text \<open>\<open>dict(request.headers)\<close>: the names are lower-case, and of several headers of a name the first counts.\<close>

definition request_headers :: "(string \<times> string) list \<Rightarrow> string dict" where
  "request_headers raw = fold (\<lambda>(k, v) d. if has_key d (lower k) then d else dset (lower k) v d) raw []"

record hook_reply =
  hr_status :: int
  hr_detail :: string

definition webhook_receiver ::
    "client_env \<Rightarrow> string \<Rightarrow> string \<Rightarrow> string \<Rightarrow> (string \<times> string) list \<Rightarrow> desk \<Rightarrow> hook_reply \<times> desk" where
  "webhook_receiver E key name body raw d =
    (let headers = request_headers raw in
     case validate_signature E (net_now (dk_hub d)) name body headers of
       Inl e \<Rightarrow> (\<lparr>hr_status = 500, hr_detail = ''Internal Server Error''\<rparr>, d)
     | Inr ok1 \<Rightarrow>
         if \<not> ok1 then (\<lparr>hr_status = 401, hr_detail = ''Invalid signature''\<rparr>, d)
         else (case webhook_dispatch E key name body headers d of
             (Inl e, d') \<Rightarrow> (\<lparr>hr_status = 500, hr_detail = ''Internal processing error''\<rparr>, d')
           | (Inr u, d') \<Rightarrow> (\<lparr>hr_status = 200, hr_detail = ''ok''\<rparr>, d')))"

section \<open>Validated requests\<close>

lemma with_secretE:
  assumes "with_secret secret check = Inr True"
  obtains s where "secret = Some s" and "s \<noteq> []" and "check s = Inr True"
  using assms that by (auto simp: with_secret_def validation_required_def split: option.splits list.splits)

lemma slack_signed_accepts:
  assumes "slack_signed c now body headers secret = Inr True"
  obtains timestamp ts where "dget headers ''X-Slack-Request-Timestamp'' = Some timestamp"
    and "int_text timestamp = Some ts" and "\<bar>now - of_int ts\<bar> \<le> slack_tolerance"
    and "dget headers ''X-Slack-Signature''
      = Some (''v0='' @ hmac_hex c (utf8_bytes secret) (utf8_bytes (slack_base timestamp body)))"
proof -
  obtain timestamp signature where h: "dget headers ''X-Slack-Request-Timestamp'' = Some timestamp"
      "dget headers ''X-Slack-Signature'' = Some signature"
    using assms by (auto simp: slack_signed_def split: option.splits)
  have "timestamp \<noteq> []" "signature \<noteq> []"
    using assms unfolding slack_signed_def h option.case prod.case by (auto split: if_splits)
  then obtain ts where ts: "int_text timestamp = Some ts"
    using assms unfolding slack_signed_def h option.case prod.case by (cases "int_text timestamp") auto
  have rest: "\<not> slack_tolerance < \<bar>now - of_int ts\<bar>"
      "''v0='' @ hmac_hex c (utf8_bytes secret) (utf8_bytes (slack_base timestamp body)) = signature"
    using assms \<open>timestamp \<noteq> []\<close> \<open>signature \<noteq> []\<close>
    unfolding slack_signed_def h option.case prod.case ts compare_digest_def by (auto split: if_splits)
  show thesis
    by (rule that[OF h(1) ts]) (use rest h(2) in \<open>simp_all add: not_less\<close>)
qed

text \<open>Header names of an ASGI request are lower-case, the names of the validator are not.\<close>

lemma request_headers_lower:
  assumes "lower k \<noteq> k"
  shows "dget (request_headers raw) k = None"
proof -
  have "dget acc k = None \<Longrightarrow>
      dget (fold (\<lambda>(k, v) d. if has_key d (lower k) then d else dset (lower k) v d) raw acc) k = None" for acc
  proof (induction raw arbitrary: acc)
    case (Cons kv raw)
    obtain j v where kv: "kv = (j, v)"
      by (cases kv)
    have "lower j \<noteq> k"
      using assms lower_lower by metis
    then show ?case
      using Cons.prems by (simp add: kv Cons.IH)
  qed simp
  then show ?thesis
    by (simp add: request_headers_def)
qed

lemma capital_names:
  "lower ''X-Hub-Signature-256'' \<noteq> ''X-Hub-Signature-256''"
  "lower ''X-Slack-Request-Timestamp'' \<noteq> ''X-Slack-Request-Timestamp''"
  "lower ''X-Webhook-Secret'' \<noteq> ''X-Webhook-Secret''"
  by code_simp+

lemma request_never_valid: "validate_signature E now name body (request_headers raw) \<noteq> Inr True"
proof
  assume valid: "validate_signature E now name body (request_headers raw) = Inr True"
  note absent = capital_names[THEN request_headers_lower, of raw]
  have "github_check c body (request_headers raw) secret \<noteq> Inr True" for c secret
    by (simp add: github_check_def absent)
  moreover have "slack_signed c now body (request_headers raw) secret \<noteq> Inr True" for c secret
    by (simp add: slack_signed_def absent)
  moreover have "secret_check (request_headers raw) secret \<noteq> Inr True" for secret
    by (simp add: secret_check_def absent)
  ultimately show False
    using valid by (auto simp: validate_signature_def Let_def validation_required_def split: if_splits elim: with_secretE)
qed

section \<open>What a dispatch changes\<close>

text \<open>A handler adds lines to the log.\<close>

abbreviation logged_since :: "string list \<Rightarrow> string list \<Rightarrow> bool" where
  "logged_since old ls \<equiv> \<exists>more. ls = old @ more"

named_theorems log_rules \<open>the handlers add to the log\<close>

lemma keeps_log_line [log_rules]: "keeps (logged_since old) (log_line t)"
  by (auto simp: keeps_def log_line_def modify_def)

lemma keeps_value [log_rules]: "keeps (logged_since old) (value_of r)"
  by (simp add: keeps_def value_of_def lift_def)

lemma keeps_inner [log_rules]: "keeps (logged_since old) (get_inner payload k j)"
  unfolding get_inner_def by (intro keeps_rules log_rules)

lemma github_logs: "keeps (logged_since old) (github_webhook event payload)"
  unfolding github_webhook_def handle_push_def handle_pull_request_def handle_issue_def handle_issue_comment_def
  by (intro keeps_rules log_rules)

lemma jira_logs: "keeps (logged_since old) (jira_webhook event payload)"
  unfolding jira_webhook_def handle_issue_created_def handle_issue_changed_def handle_comment_event_def
  by (intro keeps_rules log_rules)

lemma slack_logs: "keeps (logged_since old) (slack_webhook event payload)"
  unfolding slack_webhook_def handle_slack_text_def handle_reaction_def by (intro keeps_rules log_rules)

lemma teams_logs: "keeps (logged_since old) (teams_webhook event payload)"
  unfolding teams_webhook_def handle_notification_def by (intro keeps_rules log_rules)

lemma handlers_log: "handle_webhook cls = Some f \<Longrightarrow> keeps (logged_since old) (f event payload)"
  using github_logs jira_logs slack_logs teams_logs by (cases cls) auto

text \<open>Fetching an instance sends nothing.\<close>

lemma quiet_load: "keeps (\<lambda>h. net_sent h = reqs \<and> hub_ok h) (load_integration E key name)"
  unfolding keeps_def
proof (intro allI impI)
  fix h
  assume h: "net_sent h = reqs \<and> hub_ok h"
  obtain r h' where load: "load_integration E key name h = (r, h')"
    by (cases "load_integration E key name h")
  have "net_sent h' = net_sent h"
  proof (cases "has_key (hub_instances h) (lower name)")
    case True
    then show ?thesis
      using load by (auto simp: load_integration_def Let_def bnd_def gets_def ret_def)
  next
    case False
    from load False show ?thesis
      by (cases rule: load_cases) auto
  qed
  moreover have "hub_ok h'"
    using hub_ok_load[of E key name] h load by (metis keeps_def snd_conv)
  ultimately show "net_sent (snd (load_integration E key name h)) = reqs \<and> hub_ok (snd (load_integration E key name h))"
    using h load by simp
qed

lemma quiet_look: "keeps (\<lambda>h. net_sent h = reqs \<and> hub_ok h) (on_instance name (gets itself))"
proof -
  have "hub_ok (snd (on_instance name (gets itself) h))" if "hub_ok h" for h
    using hub_ok_on_instance[of "gets itself" name] that by (auto simp: keeps_def gets_def)
  moreover have "net_sent (snd (on_instance name (gets itself) h)) = net_sent h" for h
    by (simp add: on_instance_def gets_def after_def live_of_def split: option.split)
  ultimately show ?thesis
    by (simp add: keeps_def)
qed

lemma quiet_get: "keeps (\<lambda>h. net_sent h = reqs \<and> hub_ok h) (get_integration E key name)"
  unfolding get_integration_def need_integration_def Let_def
  by (intro keeps_rules quiet_load quiet_look)

abbreviation received :: "request list \<Rightarrow> string list \<Rightarrow> desk \<Rightarrow> bool" where
  "received reqs old d \<equiv> (net_sent (dk_hub d) = reqs \<and> hub_ok (dk_hub d)) \<and> logged_since old (dk_log d)"

lemma received_hub:
  assumes "keeps (\<lambda>h. net_sent h = reqs \<and> hub_ok h) m"
  shows "keeps (received reqs old) (on_hub m)"
  using assms by (simp add: keeps_def on_hub_def split: prod.split) (metis snd_conv)

lemma received_log:
  assumes "keeps (logged_since old) m"
  shows "keeps (received reqs old) (on_log m)"
  using assms by (simp add: keeps_def on_log_def split: prod.split) (metis snd_conv)

lemma received_value: "keeps (received reqs old) (value_of r)"
  by (simp add: keeps_def value_of_def lift_def)

lemma received_dispatch: "keeps (received reqs old) (webhook_dispatch E key name body headers)"
proof -
  have handler: "keeps (received reqs old) (on_log (f event data))" if "handle_webhook cls = Some f" for cls f event data
    using handlers_log[OF that] by (rule received_log)
  have line: "keeps (received reqs old) (on_log (log_line t))" for t
    by (intro received_log log_rules)
  have "keeps (received reqs old) (case handle_webhook (in_class inst) of
      None \<Rightarrow> on_log (log_line u)
    | Some handler \<Rightarrow> (case loads body of
        None \<Rightarrow> thn (on_log (log_line ''Invalid JSON payload'')) (raise (Package Base_Error ''Invalid JSON payload''))
      | Some data \<Rightarrow> bnd (value_of (client_event_type name headers data)) (\<lambda>event_type.
          thn (on_log (handler event_type data)) (on_log (log_line (v event_type))))))" for inst u v name
  proof (cases "handle_webhook (in_class inst)")
    case None
    then show ?thesis
      by (simp only: option.case line)
  next
    case (Some f)
    show ?thesis
      unfolding Some option.case by (intro keeps_rules line received_value handler[OF Some])
  qed
  then show ?thesis
    unfolding webhook_dispatch_def Let_def by (intro keeps_bnd received_hub quiet_get)
qed

section \<open>Properties\<close>

text \<open>C37: The receiver accepts no webhook: whatever the integration, the configured secrets, the body, the
  headers and the time, the answer is 401 or 500 and nothing is dispatched, because the validator looks
  for capitalised header names among the lower-case names of a request.\<close>

theorem receiver_never_accepts:
  "hr_status (fst (webhook_receiver E key name body raw d)) \<in> {401, 500}
    \<and> snd (webhook_receiver E key name body raw d) = d"
  using request_never_valid[of E "net_now (dk_hub d)" name body raw]
  by (auto simp: webhook_receiver_def Let_def split: sum.split)

text \<open>C31: A Slack request the validator accepts carries the signature of its timestamp and body under the
  signing secret and is at most a minute away from its timestamp; more than two minutes later the same
  request is refused.\<close>

theorem slack_requests_fresh:
  assumes "lower name = ''slack''" and "validate_signature E now name body headers = Inr True"
  shows "(\<exists>secret timestamp ts. cs_slack_signing_secret (client_settings_of E) = Some secret
      \<and> dget headers ''X-Slack-Request-Timestamp'' = Some timestamp \<and> int_text timestamp = Some ts
      \<and> \<bar>now - of_int ts\<bar> \<le> 60
      \<and> dget headers ''X-Slack-Signature'' = Some (''v0='' @
          hmac_hex (client_crypto E) (utf8_bytes secret) (utf8_bytes (slack_base timestamp body))))
    \<and> (\<forall>t. validate_signature E t name body headers = Inr True \<longrightarrow> \<bar>t - now\<bar> \<le> 120)"
proof -
  have accepted: "\<exists>secret timestamp ts. cs_slack_signing_secret (client_settings_of E) = Some secret
      \<and> dget headers ''X-Slack-Request-Timestamp'' = Some timestamp \<and> int_text timestamp = Some ts
      \<and> \<bar>t - of_int ts\<bar> \<le> 60
      \<and> dget headers ''X-Slack-Signature'' = Some (''v0='' @
          hmac_hex (client_crypto E) (utf8_bytes secret) (utf8_bytes (slack_base timestamp body)))"
    if "validate_signature E t name body headers = Inr True" for t
  proof -
    have "with_secret (cs_slack_signing_secret (client_settings_of E))
        (slack_signed (client_crypto E) t body headers) = Inr True"
      using that assms(1) by (simp add: validate_signature_def)
    then obtain secret where "cs_slack_signing_secret (client_settings_of E) = Some secret"
        "slack_signed (client_crypto E) t body headers secret = Inr True"
      by (rule with_secretE)
    then show ?thesis
      using slack_signed_accepts unfolding slack_tolerance_def by metis
  qed
  have "\<bar>t - now\<bar> \<le> 120" if late: "validate_signature E t name body headers = Inr True" for t
  proof -
    obtain ts where "\<bar>now - of_int ts\<bar> \<le> 60" "\<bar>t - of_int ts\<bar> \<le> 60"
      using accepted[OF assms(2)] accepted[OF late] by force
    then show ?thesis
      by linarith
  qed
  with accepted[OF assms(2)] show ?thesis
    by blast
qed


section \<open>Witnesses\<close>

definition sample_slack_env :: client_env where
  "sample_slack_env = (sample_client_env (json_answer 200 JNull) [])
     \<lparr>client_settings_of := default_client_settings\<lparr>cs_slack_signing_secret := Some ''s''\<rparr>\<rparr>"

definition sample_slack_headers :: "string dict" where
  "sample_slack_headers = [(''X-Slack-Request-Timestamp'', ''100''), (''X-Slack-Signature'', ''v0=s/v0:100:{}'')]"

theorem slack_requests_fresh_witness:
  "validate_signature sample_slack_env 130 ''slack'' ''{}'' sample_slack_headers = Inr True
    \<and> validate_signature sample_slack_env 251 ''slack'' ''{}'' sample_slack_headers \<noteq> Inr True"
proof -
  have names: "lower ''slack'' = ''slack''"
    by code_simp
  have check: "int_text ''100'' = Some 100" "utf8_bytes ''s'' = ''s''"
    "utf8_bytes (slack_base ''100'' ''{}'') = ''v0:100:{}''" "is_ascii ''v0=s/v0:100:{}''"
    by code_simp+
  have valid: "validate_signature sample_slack_env 130 ''slack'' ''{}'' sample_slack_headers = Inr True"
    by (simp add: validate_signature_def names with_secret_def slack_signed_def slack_tolerance_def check
        sample_slack_env_def sample_slack_headers_def compare_digest_def default_client_settings_def
        sample_client_env_def sample_crypto_def)
  moreover have "\<not> \<bar>251 - 130 :: rat\<bar> \<le> 120"
    by simp
  ultimately show ?thesis
    using slack_requests_fresh[OF names valid] by blast
qed


end
