(* ===== verification/Migrations.thy ===== *)
theory Migrations
  imports Prelude
begin

text \<open>
  The tables of the service as they are declared and as they are made. \<open>declared\<close> is what the classes of
  \<open>src/models/__init__.py\<close> register in \<open>Base.metadata\<close>; \<open>create_all\<close> is the \<open>init_db\<close> of
  \<open>src/database/database.py\<close>, which the application runs at its start outside production; \<open>upgrade\<close> and
  \<open>downgrade\<close> are the revision \<open>alembic/versions/0001_initial.py\<close>. A database checks a statement as
  PostgreSQL does: names of tables and of indexes are unique, a foreign key needs its table, and a
  table another one refers to is not dropped. A failed revision leaves nothing (\<open>begin_transaction\<close>).
\<close>

section \<open>Tables and statements\<close>

datatype column_type = String_Type nat | Text_Type | JSON_Type | Integer_Type | Boolean_Type | DateTime_Type

text \<open>\<open>col_now\<close>: the server fills the column with its time.\<close>

record column =
  col_name :: string
  col_type :: column_type
  col_nullable :: bool
  col_now :: bool

text \<open>A foreign key: the column, the table and its column, and whether deletion cascades.\<close>

record table =
  tb_columns :: "column list"
  tb_key :: "string list"
  tb_foreign :: "(string \<times> string \<times> string \<times> bool) list"
  tb_unique :: "(string \<times> string list) list"
  tb_indexes :: "(string \<times> string list \<times> bool) list"

type_synonym schema = "table dict"

datatype ddl =
    Create_Table string table
  | Drop_Table string
  | Create_Index string string "string list" bool
  | Drop_Index string string

datatype ddl_error =
    Table_Exists string | No_Table string | Index_Exists string | No_Index string | No_Column string
  | Missing_Table string | Still_Referenced string

definition column_names :: "table \<Rightarrow> string list" where
  "column_names t = map col_name (tb_columns t)"

definition index_names :: "schema \<Rightarrow> string list" where
  "index_names S = concat (map (\<lambda>(_, t). map fst (tb_indexes t)) S)"

text \<open>The tables a table refers to.\<close>

definition references :: "table \<Rightarrow> string list" where
  "references t = map (\<lambda>(_, other, _). other) (tb_foreign t)"

definition run_ddl :: "ddl \<Rightarrow> schema \<Rightarrow> ddl_error + schema" where
  "run_ddl op S = (case op of
      Create_Table name t \<Rightarrow>
        if has_key S name then Inl (Table_Exists name)
        else if \<not> list_all (\<lambda>other. other = name \<or> has_key S other) (references t) then Inl (Missing_Table name)
        else Inr (dset name t S)
    | Drop_Table name \<Rightarrow>
        if \<not> has_key S name then Inl (No_Table name)
        else if list_ex (\<lambda>(other, t). other \<noteq> name \<and> name \<in> set (references t)) S then Inl (Still_Referenced name)
        else Inr (AList.delete name S)
    | Create_Index name i cols unique \<Rightarrow> (case dget S name of
        None \<Rightarrow> Inl (No_Table name)
      | Some t \<Rightarrow>
          if i \<in> set (index_names S) then Inl (Index_Exists i)
          else if \<not> list_all (\<lambda>c. c \<in> set (column_names t)) cols then Inl (No_Column i)
          else Inr (dset name (t\<lparr>tb_indexes := tb_indexes t @ [(i, cols, unique)]\<rparr>) S))
    | Drop_Index name i \<Rightarrow> (case dget S name of
        None \<Rightarrow> Inl (No_Table name)
      | Some t \<Rightarrow>
          if i \<notin> fst ` set (tb_indexes t) then Inl (No_Index i)
          else Inr (dset name (t\<lparr>tb_indexes := filter (\<lambda>x. fst x \<noteq> i) (tb_indexes t)\<rparr>) S)))"

fun run_ddls :: "ddl list \<Rightarrow> schema \<Rightarrow> ddl_error + schema" where
  "run_ddls [] S = Inr S"
| "run_ddls (op # ops) S = (case run_ddl op S of Inl e \<Rightarrow> Inl e | Inr T \<Rightarrow> run_ddls ops T)"

section \<open>The models\<close>

definition sa_column :: "string \<Rightarrow> column_type \<Rightarrow> bool \<Rightarrow> column" where
  "sa_column name t nullable = \<lparr>col_name = name, col_type = t, col_nullable = nullable, col_now = False\<rparr>"

abbreviation required_column :: "string \<Rightarrow> column_type \<Rightarrow> column" where
  "required_column name t \<equiv> sa_column name t False"

abbreviation optional_column :: "string \<Rightarrow> column_type \<Rightarrow> column" where
  "optional_column name t \<equiv> sa_column name t True"

text \<open>\<open>TimestampMixin\<close>, whose columns come after those of the class.\<close>

definition timestamps :: "column list" where
  "timestamps = [\<lparr>col_name = ''created_at'', col_type = DateTime_Type, col_nullable = False, col_now = True\<rparr>,
     \<lparr>col_name = ''updated_at'', col_type = DateTime_Type, col_nullable = False, col_now = True\<rparr>]"

definition model :: "column list \<Rightarrow> table" where
  "model cols = \<lparr>tb_columns = required_column ''id'' (String_Type 36) # cols @ timestamps, tb_key = [''id''],
     tb_foreign = [], tb_unique = [], tb_indexes = []\<rparr>"

definition of_workspace :: "(string \<times> string \<times> string \<times> bool) list" where
  "of_workspace = [(''workspace_id'', ''workspaces'', ''id'', True)]"

definition Workspace_table :: table where
  "Workspace_table = model [
     required_column ''name'' (String_Type 255), optional_column ''owner_id'' (String_Type 36),
     required_column ''metadata_json'' JSON_Type, required_column ''is_active'' Boolean_Type]"

definition IntegrationConnection_table :: table where
  "IntegrationConnection_table = (model [
     required_column ''workspace_id'' (String_Type 36), required_column ''provider'' (String_Type 64),
     required_column ''status'' (String_Type 32), optional_column ''encrypted_credentials'' Text_Type,
     required_column ''scopes'' JSON_Type, required_column ''metadata_json'' JSON_Type,
     optional_column ''created_by'' (String_Type 36), optional_column ''connected_at'' DateTime_Type,
     optional_column ''last_synced_at'' DateTime_Type, optional_column ''expires_at'' DateTime_Type,
     required_column ''is_active'' Boolean_Type])
     \<lparr>tb_foreign := of_workspace,
      tb_unique := [(''uq_workspace_provider'', [''workspace_id'', ''provider''])],
      tb_indexes := [(''ix_connections_workspace_provider'', [''workspace_id'', ''provider''], False)]\<rparr>"

definition Credential_table :: table where
  "Credential_table = (model [
     required_column ''workspace_id'' (String_Type 36), required_column ''provider'' (String_Type 64),
     required_column ''name'' (String_Type 128), required_column ''encrypted_blob'' Text_Type,
     optional_column ''credential_hash'' (String_Type 64), optional_column ''expires_at'' DateTime_Type])
     \<lparr>tb_foreign := of_workspace,
      tb_unique := [(''uq_ws_provider_name'', [''workspace_id'', ''provider'', ''name''])],
      tb_indexes := [(''ix_credentials_hash'', [''credential_hash''], False)]\<rparr>"

definition OAuthState_table :: table where
  "OAuthState_table = (model [
     required_column ''workspace_id'' (String_Type 36), required_column ''provider'' (String_Type 64),
     required_column ''state_token'' (String_Type 128), optional_column ''code_verifier'' (String_Type 256),
     optional_column ''redirect_uri'' (String_Type 1024), required_column ''scopes'' JSON_Type,
     required_column ''expires_at'' DateTime_Type, required_column ''consumed'' Boolean_Type])
     \<lparr>tb_indexes := [(''ix_oauth_state_token'', [''state_token''], True)]\<rparr>"

definition WebhookSubscription_table :: table where
  "WebhookSubscription_table = (model [
     required_column ''workspace_id'' (String_Type 36), required_column ''provider'' (String_Type 64),
     required_column ''target_url'' (String_Type 1024), optional_column ''secret'' Text_Type,
     required_column ''events'' JSON_Type, required_column ''metadata_json'' JSON_Type,
     required_column ''is_active'' Boolean_Type, required_column ''max_retries'' Integer_Type])
     \<lparr>tb_foreign := of_workspace,
      tb_indexes := [(''ix_webhook_sub_ws_provider'', [''workspace_id'', ''provider''], False)]\<rparr>"

definition WebhookEvent_table :: table where
  "WebhookEvent_table = (model [
     required_column ''workspace_id'' (String_Type 36), required_column ''provider'' (String_Type 64),
     optional_column ''event_type'' (String_Type 255), optional_column ''dedup_key'' (String_Type 255),
     required_column ''raw_payload'' JSON_Type, required_column ''headers'' JSON_Type,
     required_column ''delivery_status'' (String_Type 32), optional_column ''delivered_at'' DateTime_Type,
     required_column ''attempts'' Integer_Type])
     \<lparr>tb_indexes := [(''ix_webhook_events_dedup'', [''dedup_key''], True),
       (''ix_webhook_events_ws_provider_ts'', [''workspace_id'', ''provider'', ''created_at''], False)]\<rparr>"

definition WebhookDelivery_table :: table where
  "WebhookDelivery_table = (model [
     required_column ''event_id'' (String_Type 36), required_column ''subscription_id'' (String_Type 36),
     required_column ''attempt'' Integer_Type, optional_column ''status_code'' Integer_Type,
     optional_column ''response_body'' Text_Type, required_column ''success'' Boolean_Type])
     \<lparr>tb_indexes := [(''ix_webhook_delivery_event'', [''event_id''], False)]\<rparr>"

definition IntegrationAuditLog_table :: table where
  "IntegrationAuditLog_table = (model [
     required_column ''workspace_id'' (String_Type 36), optional_column ''actor_id'' (String_Type 36),
     optional_column ''provider'' (String_Type 64), required_column ''action'' (String_Type 128),
     optional_column ''resource'' (String_Type 255), required_column ''details'' JSON_Type,
     optional_column ''ip_address'' (String_Type 64), required_column ''outcome'' (String_Type 32)])
     \<lparr>tb_indexes := [(''ix_audit_actor'', [''actor_id''], False),
       (''ix_audit_ws_ts'', [''workspace_id'', ''created_at''], False)]\<rparr>"

text \<open>\<open>Base.metadata\<close>, in the order of the classes.\<close>

definition declared :: schema where
  "declared = [(''workspaces'', Workspace_table), (''integration_connections'', IntegrationConnection_table),
     (''credentials'', Credential_table), (''oauth_states'', OAuthState_table),
     (''webhook_subscriptions'', WebhookSubscription_table), (''webhook_events'', WebhookEvent_table),
     (''webhook_deliveries'', WebhookDelivery_table), (''integration_audit_logs'', IntegrationAuditLog_table)]"

section \<open>create_all\<close>

text \<open>
  \<open>sorted_tables\<close>: in rounds, the tables whose references are made, by name; a round without one is a
  cycle and ends it. The indexes of a table are made after it.
\<close>

fun in_rounds :: "nat \<Rightarrow> string list \<Rightarrow> schema \<Rightarrow> schema" where
  "in_rounds 0 made S = []"
| "in_rounds (Suc n) made S =
    (let ready = filter (\<lambda>(_, t). set (references t) \<subseteq> set made) S
     in ready @ in_rounds n (made @ dkeys ready) (filter (\<lambda>(_, t). \<not> set (references t) \<subseteq> set made) S))"

definition sorted_tables :: "schema \<Rightarrow> schema" where
  "sorted_tables S = in_rounds (length S) [] (sort_key fst S)"

definition create_statements :: "string \<Rightarrow> table \<Rightarrow> ddl list" where
  "create_statements name t = Create_Table name (t\<lparr>tb_indexes := []\<rparr>)
     # map (\<lambda>(i, cols, unique). Create_Index name i cols unique) (tb_indexes t)"

definition create_all :: "schema \<Rightarrow> schema \<Rightarrow> ddl_error + schema" where
  "create_all metadata S = run_ddls
     (concat (map (\<lambda>(name, t). if has_key S name then [] else create_statements name t) (sorted_tables metadata))) S"

section \<open>The revision\<close>

text \<open>A column with \<open>server_default=CURRENT_TIMESTAMP\<close>.\<close>

definition stamped :: "string \<Rightarrow> column" where
  "stamped name = \<lparr>col_name = name, col_type = DateTime_Type, col_nullable = False, col_now = True\<rparr>"

definition migrated_integration_audit_logs :: table where
  "migrated_integration_audit_logs = \<lparr>tb_columns = [
    sa_column ''id'' (String_Type 36) False, sa_column ''workspace_id'' (String_Type 36) False,
    sa_column ''actor_id'' (String_Type 36) True, sa_column ''provider'' (String_Type 64) True,
    sa_column ''action'' (String_Type 128) False, sa_column ''resource'' (String_Type 255) True,
    sa_column ''details'' JSON_Type False, sa_column ''ip_address'' (String_Type 64) True,
    sa_column ''outcome'' (String_Type 32) False, stamped ''created_at'', stamped ''updated_at''],
    tb_key = [''id''], tb_foreign = [],
    tb_unique = [], tb_indexes = []\<rparr>"

definition migrated_oauth_states :: table where
  "migrated_oauth_states = \<lparr>tb_columns = [
    sa_column ''id'' (String_Type 36) False, sa_column ''workspace_id'' (String_Type 36) False,
    sa_column ''provider'' (String_Type 64) False, sa_column ''state_token'' (String_Type 128) False,
    sa_column ''code_verifier'' (String_Type 256) True, sa_column ''redirect_uri'' (String_Type 1024) True,
    sa_column ''scopes'' JSON_Type False, sa_column ''expires_at'' DateTime_Type False,
    sa_column ''consumed'' Boolean_Type False, stamped ''created_at'', stamped ''updated_at''],
    tb_key = [''id''], tb_foreign = [],
    tb_unique = [], tb_indexes = []\<rparr>"

definition migrated_webhook_deliveries :: table where
  "migrated_webhook_deliveries = \<lparr>tb_columns = [
    sa_column ''id'' (String_Type 36) False, sa_column ''event_id'' (String_Type 36) False,
    sa_column ''subscription_id'' (String_Type 36) False, sa_column ''attempt'' Integer_Type False,
    sa_column ''status_code'' Integer_Type True, sa_column ''response_body'' Text_Type True,
    sa_column ''success'' Boolean_Type False, stamped ''created_at'', stamped ''updated_at''],
    tb_key = [''id''], tb_foreign = [],
    tb_unique = [], tb_indexes = []\<rparr>"

definition migrated_webhook_events :: table where
  "migrated_webhook_events = \<lparr>tb_columns = [
    sa_column ''id'' (String_Type 36) False, sa_column ''workspace_id'' (String_Type 36) False,
    sa_column ''provider'' (String_Type 64) False, sa_column ''event_type'' (String_Type 255) True,
    sa_column ''dedup_key'' (String_Type 255) True, sa_column ''raw_payload'' JSON_Type False,
    sa_column ''headers'' JSON_Type False, sa_column ''delivery_status'' (String_Type 32) False,
    sa_column ''delivered_at'' DateTime_Type True, sa_column ''attempts'' Integer_Type False,
    stamped ''created_at'', stamped ''updated_at''],
    tb_key = [''id''], tb_foreign = [],
    tb_unique = [], tb_indexes = []\<rparr>"

definition migrated_workspaces :: table where
  "migrated_workspaces = \<lparr>tb_columns = [
    sa_column ''id'' (String_Type 36) False, sa_column ''name'' (String_Type 255) False,
    sa_column ''owner_id'' (String_Type 36) True, sa_column ''metadata_json'' JSON_Type False,
    sa_column ''is_active'' Boolean_Type False, stamped ''created_at'', stamped ''updated_at''],
    tb_key = [''id''], tb_foreign = [],
    tb_unique = [], tb_indexes = []\<rparr>"

definition migrated_credentials :: table where
  "migrated_credentials = \<lparr>tb_columns = [
    sa_column ''id'' (String_Type 36) False, sa_column ''workspace_id'' (String_Type 36) False,
    sa_column ''provider'' (String_Type 64) False, sa_column ''name'' (String_Type 128) False,
    sa_column ''encrypted_blob'' Text_Type False, sa_column ''credential_hash'' (String_Type 64) True,
    sa_column ''expires_at'' DateTime_Type True, stamped ''created_at'', stamped ''updated_at''],
    tb_key = [''id''], tb_foreign = [(''workspace_id'', ''workspaces'', ''id'', True)],
    tb_unique = [(''uq_ws_provider_name'', [''workspace_id'', ''provider'', ''name''])], tb_indexes = []\<rparr>"

definition migrated_integration_connections :: table where
  "migrated_integration_connections = \<lparr>tb_columns = [
    sa_column ''id'' (String_Type 36) False, sa_column ''workspace_id'' (String_Type 36) False,
    sa_column ''provider'' (String_Type 64) False, sa_column ''status'' (String_Type 32) False,
    sa_column ''encrypted_credentials'' Text_Type True, sa_column ''scopes'' JSON_Type False,
    sa_column ''metadata_json'' JSON_Type False, sa_column ''created_by'' (String_Type 36) True,
    sa_column ''connected_at'' DateTime_Type True, sa_column ''last_synced_at'' DateTime_Type True,
    sa_column ''expires_at'' DateTime_Type True, sa_column ''is_active'' Boolean_Type False,
    stamped ''created_at'', stamped ''updated_at''],
    tb_key = [''id''], tb_foreign = [(''workspace_id'', ''workspaces'', ''id'', True)],
    tb_unique = [(''uq_workspace_provider'', [''workspace_id'', ''provider''])], tb_indexes = []\<rparr>"

definition migrated_webhook_subscriptions :: table where
  "migrated_webhook_subscriptions = \<lparr>tb_columns = [
    sa_column ''id'' (String_Type 36) False, sa_column ''workspace_id'' (String_Type 36) False,
    sa_column ''provider'' (String_Type 64) False, sa_column ''target_url'' (String_Type 1024) False,
    sa_column ''secret'' Text_Type True, sa_column ''events'' JSON_Type False,
    sa_column ''metadata_json'' JSON_Type False, sa_column ''is_active'' Boolean_Type False,
    sa_column ''max_retries'' Integer_Type False, stamped ''created_at'', stamped ''updated_at''],
    tb_key = [''id''], tb_foreign = [(''workspace_id'', ''workspaces'', ''id'', True)],
    tb_unique = [], tb_indexes = []\<rparr>"

definition upgrade :: "ddl list" where
  "upgrade = [
     Create_Table ''integration_audit_logs'' migrated_integration_audit_logs,
     Create_Index ''integration_audit_logs'' ''ix_audit_actor'' [''actor_id''] False,
     Create_Index ''integration_audit_logs'' ''ix_audit_ws_ts'' [''workspace_id'', ''created_at''] False,
     Create_Table ''oauth_states'' migrated_oauth_states,
     Create_Index ''oauth_states'' ''ix_oauth_state_token'' [''state_token''] True,
     Create_Table ''webhook_deliveries'' migrated_webhook_deliveries,
     Create_Index ''webhook_deliveries'' ''ix_webhook_delivery_event'' [''event_id''] False,
     Create_Table ''webhook_events'' migrated_webhook_events,
     Create_Index ''webhook_events'' ''ix_webhook_events_dedup'' [''dedup_key''] True,
     Create_Index ''webhook_events'' ''ix_webhook_events_ws_provider_ts'' [''workspace_id'', ''provider'', ''created_at''] False,
     Create_Table ''workspaces'' migrated_workspaces,
     Create_Table ''credentials'' migrated_credentials,
     Create_Index ''credentials'' ''ix_credentials_hash'' [''credential_hash''] False,
     Create_Table ''integration_connections'' migrated_integration_connections,
     Create_Index ''integration_connections'' ''ix_connections_workspace_provider'' [''workspace_id'', ''provider''] False,
     Create_Table ''webhook_subscriptions'' migrated_webhook_subscriptions,
     Create_Index ''webhook_subscriptions'' ''ix_webhook_sub_ws_provider'' [''workspace_id'', ''provider''] False]"

definition downgrade :: "ddl list" where
  "downgrade = [
     Drop_Index ''webhook_subscriptions'' ''ix_webhook_sub_ws_provider'',
     Drop_Table ''webhook_subscriptions'',
     Drop_Index ''integration_connections'' ''ix_connections_workspace_provider'',
     Drop_Table ''integration_connections'',
     Drop_Index ''credentials'' ''ix_credentials_hash'',
     Drop_Table ''credentials'',
     Drop_Table ''workspaces'',
     Drop_Index ''webhook_events'' ''ix_webhook_events_ws_provider_ts'',
     Drop_Index ''webhook_events'' ''ix_webhook_events_dedup'',
     Drop_Table ''webhook_events'',
     Drop_Index ''webhook_deliveries'' ''ix_webhook_delivery_event'',
     Drop_Table ''webhook_deliveries'',
     Drop_Index ''oauth_states'' ''ix_oauth_state_token'',
     Drop_Table ''oauth_states'',
     Drop_Index ''integration_audit_logs'' ''ix_audit_ws_ts'',
     Drop_Index ''integration_audit_logs'' ''ix_audit_actor'',
     Drop_Table ''integration_audit_logs'']"

text \<open>\<open>alembic upgrade head\<close> and \<open>alembic downgrade base\<close>, each in a transaction.\<close>

definition migrate :: "ddl list \<Rightarrow> schema \<Rightarrow> schema" where
  "migrate ops S = (case run_ddls ops S of Inl _ \<Rightarrow> S | Inr T \<Rightarrow> T)"

section \<open>Facts\<close>

lemma created: "run_ddls upgrade [] = create_all declared []"
  by code_simp

text \<open>What there is after it: the declared tables, and as many.\<close>

lemma created_declared:
  "case create_all declared [] of Inl _ \<Rightarrow> False
   | Inr T \<Rightarrow> list_all (\<lambda>(name, t). dget T name = Some t) declared \<and> length T = length declared
       \<and> run_ddls downgrade T = Inr [] \<and> create_all declared T = Inr T \<and> \<not> isl (create_all declared T)
       \<and> isl (run_ddls upgrade T)"
  by code_simp

text \<open>Statements about the tables \<open>N\<close> do not see the tables before them in a database.\<close>

fun about :: "string list \<Rightarrow> ddl \<Rightarrow> bool" where
  "about N (Create_Table name t) \<longleftrightarrow> name \<in> set N \<and> set (references t) \<subseteq> set N"
| "about N (Drop_Table name) \<longleftrightarrow> name \<in> set N"
| "about N (Create_Index name i cols unique) \<longleftrightarrow> name \<in> set N"
| "about N (Drop_Index name i) \<longleftrightarrow> name \<in> set N"

fun new_index :: "ddl \<Rightarrow> string list" where
  "new_index (Create_Index name i cols unique) = [i]"
| "new_index _ = []"

text \<open>Other tables: neither their names nor those of their indexes are used, and they do not refer to \<open>N\<close>.\<close>

definition apart :: "string list \<Rightarrow> string list \<Rightarrow> schema \<Rightarrow> bool" where
  "apart N I S \<longleftrightarrow> list_all (\<lambda>(name, t). name \<notin> set N \<and> set (references t) \<inter> set N = {}) S
     \<and> set (index_names S) \<inter> set I = {}"

lemma index_names_append: "index_names (S @ T) = index_names S @ index_names T"
  by (simp add: index_names_def)

lemma dget_append: "dget (S @ T) name = (case dget S name of None \<Rightarrow> dget T name | Some t \<Rightarrow> Some t)"
  by (simp add: map_add_def split: option.split)

lemma apart_none:
  assumes "apart N I S" and "name \<in> set N"
  shows "dget S name = None" and "\<not> has_key S name"
proof -
  show "\<not> has_key S name"
    using assms by (auto simp: apart_def list_all_iff has_key_def)
  then show "dget S name = None"
    by (simp add: has_key_dget)
qed

lemma dset_after: "\<not> has_key S name \<Longrightarrow> dset name t (S @ T) = S @ dset name t T"
  by (induction S) (auto simp: has_key_def)

lemma delete_after: "\<not> has_key S name \<Longrightarrow> AList.delete name (S @ T) = S @ AList.delete name T"
  by (induction S) (auto simp: has_key_def AList.delete_eq)

lemma run_ddl_frame:
  assumes "apart N I S" and "about N op" and "set (new_index op) \<subseteq> set I"
  shows "run_ddl op (S @ T) = map_sum id ((@) S) (run_ddl op T)"
proof (cases op)
  case (Create_Table name t)
  then have n: "\<not> has_key S name" "\<And>other. other \<in> set (references t) \<Longrightarrow> \<not> has_key S other"
    using apart_none(2)[OF assms(1)] assms(2) by auto
  have "has_key (S @ T) other \<longleftrightarrow> has_key S other \<or> has_key T other" for other
    by (auto simp: has_key_def)
  with n show ?thesis
    by (auto simp: run_ddl_def Create_Table dset_after list_all_iff)
next
  case (Drop_Table name)
  then have n: "\<not> has_key S name" "\<not> list_ex (\<lambda>(other, t). other \<noteq> name \<and> name \<in> set (references t)) S"
    using apart_none(2)[OF assms(1)] assms(1,2) by (auto simp: apart_def list_all_iff list_ex_iff)
  have "has_key (S @ T) name \<longleftrightarrow> has_key T name"
    using n(1) by (auto simp: has_key_def)
  with n show ?thesis
    by (auto simp: run_ddl_def Drop_Table delete_after)
next
  case (Create_Index name i cols unique)
  then have n: "dget S name = None" "\<not> has_key S name" "i \<notin> set (index_names S)"
    using apart_none[OF assms(1)] assms by (auto simp: apart_def)
  have "dget (S @ T) name = dget T name"
    unfolding dget_append n(1) by simp
  moreover have "i \<in> set (index_names (S @ T)) \<longleftrightarrow> i \<in> set (index_names T)"
    using n(3) by (simp only: index_names_append set_append Un_iff simp_thms)
  ultimately show ?thesis
    unfolding run_ddl_def Create_Index ddl.case
    by (simp add: dset_after[OF n(2)] split: option.split)
next
  case (Drop_Index name i)
  then have n: "dget S name = None" "\<not> has_key S name"
    using apart_none[OF assms(1)] assms(2) by auto
  have "dget (S @ T) name = dget T name"
    unfolding dget_append n(1) by simp
  then show ?thesis
    unfolding run_ddl_def Drop_Index ddl.case
    by (simp add: dset_after[OF n(2)] split: option.split)
qed

lemma run_ddls_frame:
  assumes "apart N I S" and "list_all (about N) ops" and "set (concat (map new_index ops)) \<subseteq> set I"
  shows "run_ddls ops (S @ T) = map_sum id ((@) S) (run_ddls ops T)"
  using assms(2,3)
proof (induction ops arbitrary: T)
  case (Cons op ops)
  have "run_ddl op (S @ T) = map_sum id ((@) S) (run_ddl op T)"
    by (rule run_ddl_frame[OF assms(1)]) (use Cons.prems in simp_all)
  with Cons show ?case
    by (simp split: sum.split)
qed simp

definition new_indexes :: "string list" where
  "new_indexes = concat (map new_index upgrade)"

lemma revision_about:
  "list_all (about (dkeys declared)) upgrade" "list_all (about (dkeys declared)) downgrade"
  "concat (map new_index downgrade) = []"
  by code_simp+

section \<open>Properties\<close>


text \<open>C34: \<open>downgrade\<close> undoes \<open>upgrade\<close>: on any database whose own tables share no name with those of the
  service, have no index of the same name and do not refer to them, both revisions succeed and what
  was there before is there again.\<close>

theorem downgrade_undoes_upgrade:
  assumes "apart (dkeys declared) new_indexes S"
  shows "\<exists>T. run_ddls upgrade S = Inr T \<and> T \<noteq> S \<and> run_ddls downgrade T = Inr S"
proof -
  obtain T where T: "create_all declared [] = Inr T" "length T = length declared" "run_ddls downgrade T = Inr []"
    using created_declared by (cases "create_all declared []") simp_all
  have "run_ddls upgrade (S @ []) = map_sum id ((@) S) (run_ddls upgrade [])"
    by (rule run_ddls_frame[OF assms revision_about(1)]) (simp add: new_indexes_def)
  then have "run_ddls upgrade S = Inr (S @ T)"
    by (simp add: created T(1))
  moreover have "run_ddls downgrade (S @ T) = map_sum id ((@) S) (run_ddls downgrade T)"
    by (rule run_ddls_frame[OF assms revision_about(2)]) (simp add: revision_about(3))
  moreover have "T \<noteq> []"
    using T(2) by (auto simp: declared_def)
  ultimately show ?thesis
    using T(3) by simp
qed

text \<open>A database with the table in which Alembic keeps its revision.\<close>

definition sample_schema :: schema where
  "sample_schema = [(''alembic_version'', \<lparr>tb_columns = [sa_column ''version_num'' (String_Type 32) False],
     tb_key = [''version_num''], tb_foreign = [], tb_unique = [], tb_indexes = []\<rparr>)]"

theorem downgrade_undoes_upgrade_witness:
  "\<exists>T. run_ddls upgrade sample_schema = Inr T \<and> T \<noteq> sample_schema \<and> run_ddls downgrade T = Inr sample_schema"
proof (rule downgrade_undoes_upgrade)
  show "apart (dkeys declared) new_indexes sample_schema"
    unfolding apart_def by code_simp
qed

end
