(* ===== verification/Service_Life.thy ===== *)
theory Service_Life
  imports Migrations Api_Application
begin

text \<open>
  What lives as long as a process of the service: its engine and Redis client and the registry of
  providers (\<open>lifespan\<close> of \<open>src/main.py\<close>, \<open>create_engine\<close>, \<open>init_db\<close> and \<open>close_db\<close> of
  \<open>src/database/database.py\<close>, \<open>get_redis\<close> and \<open>close_redis\<close> of \<open>src/services/redis_service.py\<close>, the
  revisions run by \<open>src/alembic/env.py\<close>); the HTTP client of a provider instance and the refresh of its
  token by itself (\<open>src/providers/base.py\<close>); the context variables of \<open>src/utils/context.py\<close>, the helpers
  of \<open>src/utils/time.py\<close> and the keys of the rate limiter in \<open>src/dependencies.py\<close>.
\<close>

section \<open>Engine and tables\<close>

record engine =
  en_url :: string
  en_echo :: bool
  en_pool_size :: int
  en_max_overflow :: int
  en_pre_ping :: bool
  en_recycle :: int
  en_connect_args :: "json dict"

text \<open>The pool settings are \<open>database_pool_size\<close> and \<open>database_max_overflow\<close>.\<close>

definition create_engine :: "settings \<Rightarrow> int \<Rightarrow> int \<Rightarrow> engine" where
  "create_engine s pool overflow = \<lparr>en_url = database_url s, en_echo = debug s, en_pool_size = pool,
     en_max_overflow = overflow, en_pre_ping = True, en_recycle = 1800,
     en_connect_args = (if startswith (database_url s) ''sqlite''
       then [(''check_same_thread'', JBool False), (''timeout'', JInt 30)] else [])\<rparr>"

text \<open>A process: the tables of its database, whether the pool is open, the URL of the Redis client it has
  made, the registry and the number of its providers.\<close>

record process =
  pr_tables :: schema
  pr_pool :: bool
  pr_redis :: "string option"
  pr_registry :: registry
  pr_count :: "nat option"

type_synonym 'a life = "(process, ddl_error, 'a) proc"

text \<open>\<open>engine.begin()\<close>: all or nothing.\<close>

definition init_db :: "unit life" where
  "init_db = (\<lambda>p. case create_all declared (pr_tables p) of
      Inl e \<Rightarrow> (Inl e, p\<lparr>pr_pool := True\<rparr>)
    | Inr T \<Rightarrow> (Inr (), p\<lparr>pr_tables := T, pr_pool := True\<rparr>))"

definition close_db :: "unit life" where
  "close_db = modify (\<lambda>p. p\<lparr>pr_pool := False\<rparr>)"

text \<open>\<open>alembic upgrade head\<close> and \<open>alembic downgrade base\<close>: the statements of a revision in a transaction.\<close>

definition run_migrations :: "ddl list \<Rightarrow> unit life" where
  "run_migrations ops = (\<lambda>p. case run_ddls ops (pr_tables p) of
      Inl e \<Rightarrow> (Inl e, p)
    | Inr T \<Rightarrow> (Inr (), p\<lparr>pr_tables := T\<rparr>))"

section \<open>Redis client\<close>

definition get_redis :: "string \<Rightarrow> string life" where
  "get_redis url = (\<lambda>p. case pr_redis p of
      Some c \<Rightarrow> (Inr c, p)
    | None \<Rightarrow> (Inr url, p\<lparr>pr_redis := Some url\<rparr>))"

definition close_redis :: "unit life" where
  "close_redis = modify (\<lambda>p. p\<lparr>pr_redis := None\<rparr>)"

section \<open>The application\<close>

text \<open>\<open>modules\<close> is what importing the provider packages gives. The set-up of telemetry and of logging is left out.\<close>

definition startup :: "settings \<Rightarrow> (string \<times> (exn + provider_class option)) list \<Rightarrow> unit life" where
  "startup s modules =
    thn (modify (\<lambda>p. p\<lparr>pr_registry := registry_load modules (pr_registry p)\<rparr>))
    (thn (modify (\<lambda>p. p\<lparr>pr_count := Some (length (registry_keys (pr_registry p)))\<rparr>))
      (if environment_of s \<noteq> Production then catch init_db (\<lambda>_. ret ()) else ret ()))"

definition shutdown :: "unit life" where
  "shutdown = thn close_db close_redis"

text \<open>The paths of the documentation: none in production.\<close>

definition documentation_urls :: "settings \<Rightarrow> string option list" where
  "documentation_urls s = (if is_production s then [None, None, None]
     else [Some ''/docs'', Some ''/redoc'', Some ''/openapi.json''])"

section \<open>A provider instance\<close>

text \<open>\<open>base_url\<close>, \<open>timeout\<close>, the bounds of the connections and the headers of an \<open>httpx.AsyncClient\<close>.\<close>

record provider_client =
  pc_base :: "string option"
  pc_timeout :: rat
  pc_connections :: nat
  pc_keepalive :: nat
  pc_headers :: "string dict"
  pc_closed :: bool

definition new_client :: "env \<Rightarrow> provider_class \<Rightarrow> provider_client" where
  "new_client E cls = \<lparr>pc_base = (if base_url cls = [] then None else Some (base_url cls)),
     pc_timeout = timeout cls, pc_connections = 20, pc_keepalive = 10, pc_headers = base_headers E, pc_closed = False\<rparr>"

text \<open>An instance has the clients it has made, and the one it uses if it has one.\<close>

record provider_instance =
  pi_class :: provider_class
  pi_context :: "provider_context option"
  pi_made :: "provider_client list"
  pi_current :: "nat option"

definition use_client :: "env \<Rightarrow> provider_instance \<Rightarrow> provider_client \<times> provider_instance" where
  "use_client E i = (case pi_current i of
      Some n \<Rightarrow> (pi_made i ! n, i)
    | None \<Rightarrow> (let c = new_client E (pi_class i)
        in (c, i\<lparr>pi_made := pi_made i @ [c], pi_current := Some (length (pi_made i))\<rparr>)))"

definition aclose :: "provider_instance \<Rightarrow> provider_instance" where
  "aclose i = (case pi_current i of
      None \<Rightarrow> i
    | Some n \<Rightarrow> i\<lparr>pi_made := (pi_made i)[n := (pi_made i ! n)\<lparr>pc_closed := True\<rparr>], pi_current := None\<rparr>)"

definition disconnect_instance :: "provider_instance \<Rightarrow> provider_instance" where
  "disconnect_instance i = aclose i"

text \<open>\<open>OAuthProviderMixin.refresh_token\<close>: a session of its own, and every exception is false.\<close>

definition mixin_refresh_token ::
    "env \<Rightarrow> encryption \<Rightarrow> registry \<Rightarrow> provider_instance \<Rightarrow> world \<Rightarrow> bool \<times> provider_instance \<times> world" where
  "mixin_refresh_token E svc reg i w = (case pi_context i of
      None \<Rightarrow> (False, i, w)
    | Some ctx \<Rightarrow> (case with_session (refresh_access_token E svc reg (provider_key (pi_class i)) (ctx_workspace ctx)) w of
        (Inl e, w') \<Rightarrow> (False, i, w')
      | (Inr (creds, enc), w') \<Rightarrow> (True, i\<lparr>pi_context := Some (set_credentials creds ctx)\<rparr>, w')))"

text \<open>The static methods of \<open>BaseWebhookProvider\<close> and \<open>SignatureMixin\<close>.\<close>

definition base_verify_signature :: "string dict \<Rightarrow> json dict \<Rightarrow> exn + bool" where
  "base_verify_signature headers payload =
     Inl (Builtin NotImplementedError ''webhook providers must implement signature verification'')"

definition hmac_sha256 :: "crypto \<Rightarrow> string \<Rightarrow> string \<Rightarrow> string" where
  "hmac_sha256 c secret body = hmac_hex c secret body"

section \<open>Context variables\<close>

record context_vars =
  cv_request_id :: "string option"
  cv_correlation_id :: "string option"
  cv_workspace_id :: "string option"

definition new_request_id :: "string \<Rightarrow> context_vars \<Rightarrow> string \<times> context_vars" where
  "new_request_id uuid4 v = (uuid4, v\<lparr>cv_request_id := Some uuid4\<rparr>)"

definition new_correlation_id :: "string \<Rightarrow> context_vars \<Rightarrow> string \<times> context_vars" where
  "new_correlation_id uuid4 v = (uuid4, v\<lparr>cv_correlation_id := Some uuid4\<rparr>)"

definition set_request_id :: "string option \<Rightarrow> context_vars \<Rightarrow> context_vars" where
  "set_request_id i v = v\<lparr>cv_request_id := i\<rparr>"

definition set_correlation_id :: "string option \<Rightarrow> context_vars \<Rightarrow> context_vars" where
  "set_correlation_id i v = v\<lparr>cv_correlation_id := i\<rparr>"

definition set_workspace_id :: "string option \<Rightarrow> context_vars \<Rightarrow> context_vars" where
  "set_workspace_id i v = v\<lparr>cv_workspace_id := i\<rparr>"

text \<open>\<open>WorkspaceContextMiddleware\<close>: \<open>request.state.principal\<close> is never set by the service.\<close>

definition workspace_middleware :: "principal option \<Rightarrow> context_vars \<Rightarrow> context_vars" where
  "workspace_middleware p v = (case p of
      None \<Rightarrow> v
    | Some q \<Rightarrow> (case principal_workspace q of
        Some (c # cs) \<Rightarrow> set_workspace_id (Some (c # cs)) v
      | _ \<Rightarrow> v))"

section \<open>Time helpers and keys of the rate limiter\<close>

text \<open>\<open>.replace("+00:00", "Z")\<close>.\<close>

fun replace_utc :: "string \<Rightarrow> string" where
  "replace_utc [] = []"
| "replace_utc (c # cs) =
    (if take 6 (c # cs) = ''+00:00'' then CHR ''Z'' # replace_utc (drop 5 cs) else c # replace_utc cs)"

definition utc_isoformat :: "time \<Rightarrow> string" where
  "utc_isoformat t = replace_utc (isoformat True t)"

text \<open>\<open>int(time.time() * 1000)\<close> of a time since the epoch.\<close>

definition unix_timestamp_ms :: "time \<Rightarrow> int" where
  "unix_timestamp_ms t = (if 0 \<le> t then t div 1000 else - (- t div 1000))"

definition parse_query_params :: "json dict \<Rightarrow> json dict" where
  "parse_query_params params = filter (\<lambda>(_, v). v \<noteq> JNull) params"

definition rate_limit_key :: "principal option \<Rightarrow> string option \<Rightarrow> string" where
  "rate_limit_key p host = (case p of
      Some q \<Rightarrow> principal_user q
    | None \<Rightarrow> (case host of Some h \<Rightarrow> h | None \<Rightarrow> ''unknown''))"

section \<open>Facts\<close>

lemma init_db_empty:
  assumes "pr_tables p = []"
  obtains T where "create_all declared [] = Inr T" and "init_db p = (Inr (), p\<lparr>pr_tables := T, pr_pool := True\<rparr>)"
    and "run_migrations upgrade p = (Inr (), p\<lparr>pr_tables := T\<rparr>)" and "create_all declared T = Inr T"
proof -
  obtain T where T: "create_all declared [] = Inr T" "create_all declared T = Inr T"
    using created_declared by (cases "create_all declared []") simp_all
  have "run_ddls upgrade [] = Inr T"
    by (simp only: created T(1))
  then show thesis
    using that[OF T(1) _ _ T(2)] assms T(1) by (simp add: init_db_def run_migrations_def)
qed

lemma startup_effect:
  "fst (startup s modules p) = Inr ()"
  "pr_tables (snd (startup s modules p)) = (if environment_of s = Production then pr_tables p
     else (case create_all declared (pr_tables p) of Inl e \<Rightarrow> pr_tables p | Inr T \<Rightarrow> T))"
  by (auto simp: startup_def init_db_def thn_def bnd_def modify_def catch_def ret_def split: sum.split)

text \<open>Every client an instance has made is closed, but the one it uses, which is open.\<close>

definition accounted :: "provider_instance \<Rightarrow> bool" where
  "accounted i \<longleftrightarrow> (case pi_current i of
      None \<Rightarrow> list_all pc_closed (pi_made i)
    | Some n \<Rightarrow> Suc n = length (pi_made i) \<and> \<not> pc_closed (last (pi_made i))
        \<and> list_all pc_closed (butlast (pi_made i)))"

datatype instance_event = Use_Client | Disconnect

fun instance_step :: "env \<Rightarrow> instance_event \<Rightarrow> provider_instance \<Rightarrow> provider_instance" where
  "instance_step E Use_Client i = snd (use_client E i)"
| "instance_step E Disconnect i = disconnect_instance i"

lemma accounted_use: "accounted i \<Longrightarrow> accounted (snd (use_client E i))"
  by (auto simp: accounted_def use_client_def new_client_def Let_def split: option.splits)

lemma accounted_close:
  assumes "accounted i"
  shows "accounted (aclose i)"
proof (cases "pi_current i")
  case None
  then show ?thesis
    using assms by (simp add: accounted_def aclose_def)
next
  case (Some n)
  then have "pi_made i \<noteq> []" "n = length (butlast (pi_made i))"
    using assms by (auto simp: accounted_def)
  then have "(pi_made i)[n := c] = butlast (pi_made i) @ [c]" for c
    by (metis append_butlast_last_id list_update_length)
  then show ?thesis
    using assms Some by (simp add: accounted_def aclose_def)
qed

interpretation instances: machine "instance_step E" accounted
proof
  fix i ev
  assume "accounted i"
  then show "accounted (instance_step E ev i)"
    using accounted_use accounted_close by (cases ev) (simp_all add: disconnect_instance_def)
qed

section \<open>Properties\<close>

text \<open>A start of the service never fails on its tables. Outside production a start on an empty database
  makes exactly the tables the migrations make, and the next start changes none of them; in production a start
  touches no table.\<close>

theorem startup_prepares_tables:
  "fst (startup s modules p) = Inr ()
    \<and> (if environment_of s = Production then pr_tables (snd (startup s modules p)) = pr_tables p
       else if pr_tables p = [] then
         fst (run_migrations upgrade p) = Inr ()
         \<and> pr_tables (snd (startup s modules p)) = pr_tables (snd (run_migrations upgrade p))
         \<and> pr_tables (snd (startup s' modules' (snd (startup s modules p))))
            = pr_tables (snd (run_migrations upgrade p))
       else True)"
proof (cases "environment_of s = Production \<or> pr_tables p \<noteq> []")
  case True
  then show ?thesis
    using startup_effect[of s modules p] by auto
next
  case False
  then obtain T where T: "create_all declared [] = Inr T" "run_migrations upgrade p = (Inr (), p\<lparr>pr_tables := T\<rparr>)"
      "create_all declared T = Inr T"
    using init_db_empty[of p] by metis
  then have "pr_tables (snd (startup s modules p)) = T"
    using False by (simp add: startup_effect)
  then show ?thesis
    using False T by (simp add: startup_effect)
qed

text \<open>A provider instance never leaks an HTTP client: after any sequence of requests and disconnects at
  most one of the clients it has made is open, and that is the one its next request uses.\<close>

theorem one_open_client:
  assumes "pi_made i = []" and "pi_current i = None"
  shows "length (filter (\<lambda>c. \<not> pc_closed c) (pi_made (fold (instance_step E) evs i))) \<le> 1
    \<and> \<not> pc_closed (fst (use_client E (fold (instance_step E) evs i)))"
proof -
  have "accounted i"
    using assms by (simp add: accounted_def)
  then have ok: "accounted (fold (instance_step E) evs i)"
    by (rule instances.run_good)
  have "length (filter (\<lambda>c. \<not> pc_closed c) (pi_made j)) \<le> 1 \<and> \<not> pc_closed (fst (use_client E j))"
    if "accounted j" for j
  proof (cases "pi_current j")
    case None
    then show ?thesis
      using that by (simp add: accounted_def use_client_def new_client_def list_all_iff filter_False Let_def)
  next
    case (Some n)
    then have n: "Suc n = length (pi_made j)"
      using that by (simp add: accounted_def)
    then have "pi_made j \<noteq> []"
      by auto
    then have made: "pi_made j \<noteq> []" "pi_made j ! n = last (pi_made j)"
      using n by (simp_all add: last_conv_nth flip: n)
    have "filter (\<lambda>c. \<not> pc_closed c) (butlast (pi_made j)) = []"
      using that Some by (simp add: accounted_def list_all_iff filter_empty_conv)
    then have "filter (\<lambda>c. \<not> pc_closed c) (butlast (pi_made j) @ [last (pi_made j)]) = filter (\<lambda>c. \<not> pc_closed c) [last (pi_made j)]"
      by simp
    then have "length (filter (\<lambda>c. \<not> pc_closed c) (pi_made j)) \<le> 1"
      using made(1) by (simp add: append_butlast_last_id)
    then show ?thesis
      using that Some made by (simp add: accounted_def use_client_def)
  qed
  with ok show ?thesis
    by blast
qed

theorem one_open_client_witness:
  "length (filter (\<lambda>c. \<not> pc_closed c) (pi_made (fold (instance_step sample_env)
      [Use_Client, Disconnect, Use_Client] \<lparr>pi_class = sample_class, pi_context = None, pi_made = [], pi_current = None\<rparr>))) \<le> 1"
  by (rule one_open_client[THEN conjunct1]) simp_all

text \<open>The refresh an instance asks for: what it reports as done is stored and used.\<close>

lemma mixin_refresh_effect:
  assumes "registry_get reg (provider_key (pi_class i)) = Inr cls"
    and "mixin_refresh_token E svc reg i w = (ok1, i', w')"
  shows "if ok1 then \<exists>ctx creds enc c. pi_context i = Some ctx
      \<and> i' = i\<lparr>pi_context := Some (set_credentials creds ctx)\<rparr>
      \<and> conn_rows (ctx_workspace ctx) (provider_key (pi_class i)) (committed w) = [c]
      \<and> (\<forall>x\<in>set (connections (committed w')). conn_id x = conn_id c \<longrightarrow> conn_encrypted x = Some enc)
    else i' = i"
proof (cases "pi_context i")
  case None
  then show ?thesis
    using assms(2) by (auto simp: mixin_refresh_token_def)
next
  case (Some ctx)
  let ?m = "refresh_access_token E svc reg (provider_key (pi_class i)) (ctx_workspace ctx)"
  obtain r w1 where m: "?m (w\<lparr>db := committed w\<rparr>) = (r, w1)"
    by (cases "?m (w\<lparr>db := committed w\<rparr>)")
  have session: "with_session ?m w = (r, w1\<lparr>db := committed w1\<rparr>)"
    by (simp add: with_session_def rollback_def thn_def bnd_def modify_def ensure_def m split: sum.split)
  show ?thesis
  proof (cases r)
    case (Inl e)
    then show ?thesis
      using assms(2) by (auto simp: mixin_refresh_token_def Some session)
  next
    case (Inr res)
    obtain creds enc where res: "res = (creds, enc)"
      by (cases res)
    obtain c where "conn_rows (ctx_workspace ctx) (provider_key (pi_class i)) (committed w) = [c]"
        "\<forall>x\<in>set (connections (committed w1)). conn_id x = conn_id c \<longrightarrow> conn_encrypted x = Some enc"
      using refresh_effect[OF assms(1) m[unfolded Inr res]] by auto
    then show ?thesis
      using assms(2) Some by (auto simp: mixin_refresh_token_def session Inr res)
  qed
qed

end
