(* ===== verification/Observability.thy ===== *)
theory Observability
  imports Service_Life
begin

text \<open>
  \<open>src/telemetry/__init__.py\<close> and \<open>src/logging_config.py\<close>. The counters of the class \<open>Metrics\<close> are made at
  their first use and add up per name and attributes; a histogram is the list of what was recorded. The
  services only say what happened (\<open>metric\<close> of \<open>World\<close>); \<open>record_metric\<close> is the method each of these
  events stands for. A log record is the dictionary its processors transform; OpenTelemetry and
  structlog are outside, and of their processors the ones of the repository are modelled.
\<close>

section \<open>Metrics\<close>

type_synonym attributes = "json dict"

record instruments =
  in_counters :: "(attributes \<times> nat) list dict"
  in_histograms :: "(attributes \<times> rat) list dict"

definition new_metrics :: instruments where
  "new_metrics = \<lparr>in_counters = [], in_histograms = []\<rparr>"

text \<open>\<open>counter(name)\<close> and \<open>histogram(name)\<close> make an instrument unless there is one.\<close>

definition need_counter :: "string \<Rightarrow> instruments \<Rightarrow> instruments" where
  "need_counter name M =
    (if has_key (in_counters M) name then M else M\<lparr>in_counters := dset name [] (in_counters M)\<rparr>)"

definition need_histogram :: "string \<Rightarrow> instruments \<Rightarrow> instruments" where
  "need_histogram name M =
    (if has_key (in_histograms M) name then M else M\<lparr>in_histograms := dset name [] (in_histograms M)\<rparr>)"

fun bump :: "attributes \<Rightarrow> (attributes \<times> nat) list \<Rightarrow> (attributes \<times> nat) list" where
  "bump a [] = [(a, 1)]"
| "bump a ((b, n) # counts) = (if b = a then (b, n + 1) # counts else (b, n) # bump a counts)"

definition add_one :: "string \<Rightarrow> attributes \<Rightarrow> instruments \<Rightarrow> instruments" where
  "add_one name a M = (let M' = need_counter name M in
     M'\<lparr>in_counters := dset name (bump a (case dget (in_counters M') name of Some c \<Rightarrow> c | None \<Rightarrow> [])) (in_counters M')\<rparr>)"

definition record_value :: "string \<Rightarrow> rat \<Rightarrow> attributes \<Rightarrow> instruments \<Rightarrow> instruments" where
  "record_value name x a M = (let M' = need_histogram name M in
     M'\<lparr>in_histograms := dset name ((case dget (in_histograms M') name of Some h \<Rightarrow> h | None \<Rightarrow> []) @ [(a, x)])
       (in_histograms M')\<rparr>)"

definition record_api_latency :: "rat \<Rightarrow> string \<Rightarrow> string \<Rightarrow> int \<Rightarrow> instruments \<Rightarrow> instruments" where
  "record_api_latency ms path meth status M = add_one ''api.requests''
     [(''path'', JStr path), (''method'', JStr meth), (''status'', JStr (show_int status))]
     (record_value ''api.latency'' ms [(''path'', JStr path), (''method'', JStr meth)] M)"

definition record_provider_call :: "string \<Rightarrow> bool \<Rightarrow> rat \<Rightarrow> instruments \<Rightarrow> instruments" where
  "record_provider_call provider success ms M = add_one ''provider.calls''
     [(''provider'', JStr provider), (''outcome'', JStr (if success then ''success'' else ''error''))]
     (record_value ''provider.latency'' ms [(''provider'', JStr provider)] M)"

definition inc_webhook_retry :: "string \<Rightarrow> instruments \<Rightarrow> instruments" where
  "inc_webhook_retry provider = add_one ''webhook.retries'' [(''provider'', JStr provider)]"

definition inc_webhook_delivered :: "string \<Rightarrow> bool \<Rightarrow> instruments \<Rightarrow> instruments" where
  "inc_webhook_delivered provider success = add_one ''webhook.deliveries''
     [(''provider'', JStr provider), (''outcome'', JStr (if success then ''success'' else ''failed''))]"

definition inc_oauth_refresh :: "string \<Rightarrow> instruments \<Rightarrow> instruments" where
  "inc_oauth_refresh provider = add_one ''oauth.refresh'' [(''provider'', JStr provider)]"

definition inc_webhook_received :: "string \<Rightarrow> instruments \<Rightarrow> instruments" where
  "inc_webhook_received provider = add_one ''webhook.received'' [(''provider'', JStr provider)]"

text \<open>The event \<open>m\<close> of the world, which took \<open>ms\<close> milliseconds if it is a timed one.\<close>

fun record_metric :: "rat \<times> metric \<Rightarrow> instruments \<Rightarrow> instruments" where
  "record_metric (ms, ProviderCall provider success) = record_provider_call provider success ms"
| "record_metric (ms, WebhookReceived provider) = inc_webhook_received provider"
| "record_metric (ms, WebhookDelivered provider success) = inc_webhook_delivered provider success"
| "record_metric (ms, WebhookRetry provider) = inc_webhook_retry provider"
| "record_metric (ms, OAuthRefresh provider) = inc_oauth_refresh provider"
| "record_metric (ms, ApiRequest path meth status) = record_api_latency ms path meth status"

text \<open>What a counter shows for some attributes.\<close>

definition counter_value :: "instruments \<Rightarrow> string \<Rightarrow> attributes \<Rightarrow> nat" where
  "counter_value M name a = (case dget (in_counters M) name of
      None \<Rightarrow> 0
    | Some counts \<Rightarrow> (case map_of counts a of None \<Rightarrow> 0 | Some n \<Rightarrow> n))"

text \<open>The abstract view: the name and the attributes an event is counted under.\<close>

fun counted_as :: "metric \<Rightarrow> string \<times> attributes" where
  "counted_as (ProviderCall provider success) = (''provider.calls'',
     [(''provider'', JStr provider), (''outcome'', JStr (if success then ''success'' else ''error''))])"
| "counted_as (WebhookReceived provider) = (''webhook.received'', [(''provider'', JStr provider)])"
| "counted_as (WebhookDelivered provider success) = (''webhook.deliveries'',
     [(''provider'', JStr provider), (''outcome'', JStr (if success then ''success'' else ''failed''))])"
| "counted_as (WebhookRetry provider) = (''webhook.retries'', [(''provider'', JStr provider)])"
| "counted_as (OAuthRefresh provider) = (''oauth.refresh'', [(''provider'', JStr provider)])"
| "counted_as (ApiRequest path meth status) = (''api.requests'',
     [(''path'', JStr path), (''method'', JStr meth), (''status'', JStr (show_int status))])"

section \<open>Log records\<close>

definition sensitive_keys :: "string list" where
  "sensitive_keys = [''password'', ''token'', ''access_token'', ''refresh_token'', ''secret'', ''client_secret'',
     ''authorization'', ''api_key'', ''session_id'', ''cookie'']"

definition sensitive :: "string \<Rightarrow> bool" where
  "sensitive key \<longleftrightarrow> (let k = lower key in
     k \<in> set sensitive_keys \<or> list_ex (contains k) [''secret'', ''token'', ''password''])"

definition redacted :: json where
  "redacted = JStr ''[REDACTED]''"

definition mask_secrets :: "json dict \<Rightarrow> json dict" where
  "mask_secrets d = map (\<lambda>(k, v). (k, if sensitive k then redacted else v)) d"

definition add_given :: "string \<Rightarrow> string option \<Rightarrow> json dict \<Rightarrow> json dict" where
  "add_given k v d = (case v of Some (c # cs) \<Rightarrow> dset k (JStr (c # cs)) d | _ \<Rightarrow> d)"

definition add_request_meta :: "context_vars \<Rightarrow> json dict \<Rightarrow> json dict" where
  "add_request_meta v d = add_given ''correlation_id'' (cv_correlation_id v)
     (add_given ''request_id'' (cv_request_id v) d)"

text \<open>The processors of the repository a record passes: in debug mode secrets are not masked; otherwise
  they are masked once by structlog and once more by the formatter.\<close>

definition log_processors :: "bool \<Rightarrow> context_vars \<Rightarrow> (json dict \<Rightarrow> json dict) list" where
  "log_processors debug_mode v = add_request_meta v # (if debug_mode then [] else [mask_secrets, mask_secrets])"

definition log_record :: "settings \<Rightarrow> bool option \<Rightarrow> context_vars \<Rightarrow> json dict \<Rightarrow> json dict" where
  "log_record s debug_mode v d =
     fold (\<lambda>f d. f d) (log_processors (case debug_mode of Some b \<Rightarrow> b | None \<Rightarrow> debug s) v) d"

section \<open>Facts\<close>

lemma counter_value_record_value [simp]: "counter_value (record_value name x a M) k b = counter_value M k b"
  by (simp add: counter_value_def record_value_def need_histogram_def Let_def)

lemma map_of_bump: "map_of (bump a counts) b
    = (if b = a then Some (case map_of counts a of None \<Rightarrow> 1 | Some n \<Rightarrow> n + 1) else map_of counts b)"
  by (induction counts) (auto split: option.splits)

lemma counter_value_add_one:
  "counter_value (add_one name a M) k b = counter_value M k b + (if (k, b) = (name, a) then 1 else 0)"
proof -
  have "dget (in_counters (add_one name a M)) k = (if k = name
      then Some (bump a (case dget (in_counters M) name of Some c \<Rightarrow> c | None \<Rightarrow> [])) else dget (in_counters M) k)"
    by (auto simp: add_one_def need_counter_def Let_def has_key_dget)
  then show ?thesis
    unfolding counter_value_def by (cases "dget (in_counters M) name") (auto simp: map_of_bump split: option.splits)
qed

lemma counter_value_record_metric:
  "counter_value (record_metric (ms, m) M) k b = counter_value M k b + (if counted_as m = (k, b) then 1 else 0)"
  by (cases m) (auto simp: counter_value_add_one record_api_latency_def record_provider_call_def inc_webhook_retry_def
      inc_webhook_delivered_def inc_oauth_refresh_def inc_webhook_received_def)

lemma mask_dset: "mask_secrets (dset k v d) = dset k (if sensitive k then redacted else v) (mask_secrets d)"
  by (induction d) (auto simp: mask_secrets_def)

lemma dget_mask: "dget (mask_secrets d) k = map_option (\<lambda>v. if sensitive k then redacted else v) (dget d k)"
  by (induction d) (auto simp: mask_secrets_def)

lemma mask_twice: "mask_secrets (mask_secrets d) = mask_secrets d"
  by (auto simp: mask_secrets_def)

lemma meta_keys_plain: "\<not> sensitive ''request_id''" "\<not> sensitive ''correlation_id''"
  by code_simp+

lemma mask_add_given: "\<not> sensitive k \<Longrightarrow> mask_secrets (add_given k v d) = add_given k v (mask_secrets d)"
  by (simp add: add_given_def mask_dset split: option.split list.split)

lemma mask_meta: "mask_secrets (add_request_meta v d) = add_request_meta v (mask_secrets d)"
  by (simp add: add_request_meta_def mask_add_given meta_keys_plain)

lemma log_record_plain: "log_record s (Some False) v d = add_request_meta v (mask_secrets d)"
  by (simp add: log_record_def log_processors_def mask_twice mask_meta)

lemma dget_meta:
  "k \<noteq> ''request_id'' \<Longrightarrow> k \<noteq> ''correlation_id'' \<Longrightarrow> dget (add_request_meta v d) k = dget d k"
  by (simp add: add_request_meta_def add_given_def split: option.split list.split)

section \<open>Properties\<close>




text \<open>In debug mode the value is written.\<close>

lemma debug_logs_secrets:
  assumes "debug s"
  shows "log_record s None v d = add_request_meta v d"
  by (simp add: log_record_def log_processors_def assms)

end
