(* ===== verification/Spec2Isabelle.thy ===== *)
theory Spec2Isabelle
  imports Webhook_Liveness Manager_Theorems Task_Theorems Api_Theorems Provider_Catalog Provider_Sql
    Provider_Stores Client_Calm Client_Rate Client_Webhooks Observability
begin

text \<open>
  A verification library for the AgentForge integration service and its client package.

  \<^bold>\<open>The program.\<close> \<open>src/src/\<close> is a FastAPI service that connects workspaces to external providers. A
  request passes the middlewares and the routes (\<open>middleware.py\<close>, \<open>main.py\<close>, \<open>api/\<close>) to a handler,
  which calls the services: the OAuth manager (\<open>services/oauth_service.py\<close>) makes and refreshes
  connections, the credential service (\<open>services/credential_service.py\<close>) stores their secrets under the
  encryption service (\<open>services/encryption_service.py\<close>), the integration manager
  (\<open>services/integration_manager.py\<close>) runs the actions of a provider (\<open>providers/\<close>) with the
  credentials of a connection, and the webhook dispatcher (\<open>services/webhook_dispatcher.py\<close>) stores
  inbound events, delivers them to subscribers and retries. Celery tasks (\<open>tasks/\<close>) refresh tokens,
  retry deliveries and clean up. The services share a database session, Redis
  (\<open>services/redis_service.py\<close>), the registry of circuit breakers (\<open>utils/circuit_breaker.py\<close>) and the
  providers' HTTP requests. \<open>src/agentforge-integrations/\<close> is a separate client library with its own
  integrations, their manager, retry and rate limiting, and a webhook receiver.

  \<^bold>\<open>The service, theory by theory.\<close>

  \<^item> \<open>Prelude\<close>: strings, dictionaries, procedures with state and exceptions, \<open>keeps\<close>, the interfaces.
    \<open>Json\<close>, \<open>Base64\<close>, \<open>Py_Values\<close>: the parts of the standard library the code uses, with their round
    trips. \<open>Exceptions\<close> (\<open>exceptions/__init__.py\<close>), \<open>Settings\<close> (\<open>config.py\<close>).
  \<^item> \<open>World\<close>: the tables of \<open>models/__init__.py\<close>, the session of \<open>database/database.py\<close>, and the environment.
    Every procedure of the service acts on a world. \<open>Sample\<close> is a concrete environment for the witnesses.
  \<^item> \<open>Circuit_Breaker\<close>, \<open>Encryption_Service\<close>, \<open>Security_Utils\<close> (\<open>utils/security.py\<close>), \<open>Auth_Tokens\<close>
    (\<open>security.py\<close>, \<open>dependencies.py\<close>), \<open>Credential_Service\<close>, \<open>Redis_Service\<close>, \<open>OAuth_Service\<close>,
    \<open>Integration_Manager\<close> (with \<open>audit_service.py\<close>), \<open>Webhook_Dispatcher\<close>, \<open>Signatures\<close> (the
    \<open>verify_signature\<close> of the providers), \<open>Tasks\<close> (\<open>token_refresh.py\<close> and \<open>tasks/\<close>): one definition per
    function, under the name the code gives it where the name is free.
  \<^item> \<open>Provider_Base\<close> (\<open>providers/base.py\<close>, \<open>registry.py\<close>, \<open>utils/retry.py\<close>): an instance, its requests with
    breaker and retries. \<open>Provider_Actions\<close>: how an action is called with a payload.
    \<open>Providers_Development\<close>, \<open>Providers_Messaging\<close>, \<open>Providers_Business\<close>, \<open>Providers_Files\<close>: the nineteen
    HTTP providers, one definition per action and table. \<open>Providers_Storage\<close>, \<open>Provider_Sql\<close>,
    \<open>Provider_Stores\<close>: PostgreSQL, MySQL, MongoDB and S3 over drivers that are parameters.
  \<^item> \<open>Api_Common\<close>, \<open>Api_Handlers\<close>, \<open>Api_Application\<close>: the pydantic models, the handlers, the routes in
    their order, the middlewares and the exception handlers; \<open>serve\<close> answers a request.
  \<^item> \<open>Migrations\<close>: the models as tables, \<open>create_all\<close> and the revision of \<open>alembic/\<close>. \<open>Service_Life\<close>: the
    start and the end of a process (\<open>lifespan\<close>), its engine and Redis client, the client and the refresh of
    a provider instance, \<open>utils/context.py\<close> and \<open>utils/time.py\<close>. \<open>Observability\<close>: the counters of
    \<open>telemetry/__init__.py\<close> and the processors of \<open>logging_config.py\<close>.

  \<^bold>\<open>The client package, theory by theory.\<close> \<open>Client_Core\<close>: exceptions, settings, \<open>SecretManager\<close>,
  \<open>CredentialManager\<close>, \<open>TokenProtection\<close>, \<open>APIKeyAuth\<close>. \<open>Client_Retry\<close> and \<open>Client_Rate\<close>: \<open>utils/retry.py\<close>
  and \<open>utils/rate_limiter.py\<close>. \<open>Client_Http\<close>: \<open>auth/oauth2.py\<close> and the requests of an instance.
  \<open>Client_Integrations\<close>: \<open>integrations/*/client.py\<close>. \<open>Client_Manager\<close>: \<open>core/registry.py\<close>,
  \<open>core/manager.py\<close>. \<open>Client_Webhooks\<close>: \<open>webhooks/\<close> and \<open>integrations/*/webhooks.py\<close>.

  \<^bold>\<open>State and effects.\<close> A method that reads the clock, the database, Redis or the network is a procedure
  \<open>'s \<Rightarrow> ('e + 'a) \<times> 's\<close>: an exception is a value and undoes nothing by itself. Concurrent requests are
  sequences of such steps wherever the code shares state between them: the methods of a breaker, the
  callbacks of one OAuth state, the operations of the dispatcher, the turns of the rate limiter, the
  operations of a manager. Random values, identifiers and times are numbered readings of the environment.

  \<^bold>\<open>Interfaces.\<close> \<open>machine\<close> (a step that keeps an invariant; its runs keep it) is interpreted for the
  breaker, the webhook operations, the manager of the client package and the clients of a provider instance; \<open>lease\<close> (a claim excludes
  others until its deadline) for the keys of Redis, on which deduplication and the lock rest; \<open>once_guard\<close>
  (a ticket is accepted at most once) for the OAuth states of the database.

  \<^bold>\<open>What is shown.\<close>

  \<^item> OAuth (\<open>OAuth_Theorems\<close>): a state is consumed at most once, what a callback, a refresh and a revocation
    leave in the tables, and the ways in which a connection cannot be made again.
  \<^item> Secrets (\<open>Encryption_Service\<close>, \<open>Credential_Service\<close>, \<open>Auth_Tokens\<close>, \<open>Security_Utils\<close>,
    \<open>Client_Core\<close>): round trips under the right keys, isolation of workspaces, tokens that decode to
    their principal, targets outside the private ranges.
  \<^item> Webhooks (\<open>Webhook_Theorems\<close>, \<open>Webhook_Liveness\<close>, \<open>Signatures\<close>, \<open>Client_Webhooks\<close>): well-formed events,
    refused duplicates, the outcome of a delivery, the end of all retries, fresh and signed requests.
  \<^item> Actions (\<open>Manager_Theorems\<close>, \<open>Provider_Catalog\<close>, \<open>Provider_Sql\<close>, \<open>Provider_Stores\<close>): one repetition
    after a refresh, payloads that fit, credentials that stay with their service, parameters that are bound.
  \<^item> Requests and tasks (\<open>Api_Theorems\<close>, \<open>Task_Theorems\<close>): every request is answered, protected endpoints need
    a token, the cleanup is invisible, the refresh touches what is due.
  \<^item> Processes (\<open>Migrations\<close>, \<open>Service_Life\<close>, \<open>Observability\<close>): the revision makes the tables of the models and is
    undone, a start makes the same tables, at most one client is open, counters count, logs hide secrets.
  \<^item> Clients (\<open>Client_Retry\<close>, \<open>Client_Rate\<close>, \<open>Client_Http\<close>, \<open>Client_Calm\<close>, \<open>Client_Manager\<close>): bounded retries, the
    rate limit in every window, one token for many tasks, instances that stay ready.

  \<^bold>\<open>Bounds.\<close> The parser of \<open>Json\<close> runs with twice the length of the text as fuel, which its round trip shows to be
  enough for every printed value. The loop of the rate limiter takes fuel; two turns are enough when the
  bucket can fill (\<open>acquire_alone\<close>), and no fuel is when it cannot. The retry loops terminate by the
  attempts left, the settling of events by the budget left. Client times are rational numbers of
  seconds, exact where Python rounds to floats.

  \<^bold>\<open>Outside the code.\<close> SQLAlchemy and the databases beyond sessions, commits and constraints, Fernet, HMAC, jose
  and PyJWT, httpx, tenacity, Celery, FastAPI and the drivers of the stores are parameters or written out as far as the
  code relies on them; what is assumed of them is a named hypothesis (\<open>fernet_ok\<close>, \<open>runs_only\<close> and others),
  which \<open>Sample\<close> shows to hold of something.

  \<^bold>\<open>Not modelled.\<close> The set-up of OpenTelemetry and structlog, and spans; the configuration of Alembic and its
  table of versions; the rate limiter of slowapi and CORS; the pydantic models, the file helper and the
  logging of the client package, which its other code does not use. Code points above 255 and
  floating-point numbers in JSON are outside.
\<close>

end
